(* ===== verification/Prelude.thy ===== *)
theory Prelude
  imports Main "HOL-Library.Word" "HOL-Library.Finite_Map" "HOL-Library.Monad_Syntax"
begin

section \<open>Prelude: the Go values and effects the operator's code is written in\<close>

text \<open>
  What every component shares: Go's fixed-width integers, nil-able maps and slices, strings
  and the formatting verbs of \<^verbatim>\<open>fmt\<close> the code uses, error values, and Hoare-style frame
  facts about state-passing functions.
  \<^item> A Go \<^verbatim>\<open>string\<close> is a list of bytes (HOL's \<open>char\<close> is a byte).
  \<^item> A \<^verbatim>\<open>map[string]string\<close> is \<open>None\<close> for nil and \<open>Some\<close> of a finite map otherwise;
    a slice is \<open>None\<close> for nil. \<^verbatim>\<open>reflect.DeepEqual\<close> distinguishes nil from empty,
    so with this representation it is HOL's equality.
  \<^item> Dereferencing a nil pointer panics: functions that may do so return an \<open>option\<close>,
    with \<open>None\<close> for the panic.
\<close>

type_synonym int32 = "32 word"
type_synonym int64 = "64 word"
type_synonym byte = "8 word"
type_synonym gomap = "(string, string) fmap option"
type_synonym 'a slice = "'a list option"

text \<open>The serialised form of a value (or of the remaining fields of a struct) that the code
  only passes through; the empty string is the zero value.\<close>

type_synonym raw = string

named_theorems frame_simps \<open>what each operation leaves unchanged in the in-memory object\<close>
named_theorems keeps_intros \<open>preservation of a world invariant, one rule per operation\<close>
named_theorems name_defs \<open>the naming scheme of owned objects\<close>

subsection \<open>Maps and slices\<close>

definition entries :: "gomap \<Rightarrow> (string, string) fmap" where
  "entries m = (case m of None \<Rightarrow> fmempty | Some f \<Rightarrow> f)"

text \<open>A map literal.\<close>

definition mapLit :: "(string \<times> string) list \<Rightarrow> gomap" where
  "mapLit kvs = Some (fmap_of_list kvs)"

text \<open>The index expression \<^verbatim>\<open>m[k]\<close>: the zero value when the key is absent or the map nil.\<close>

definition mapGet :: "gomap \<Rightarrow> string \<Rightarrow> string" where
  "mapGet m k = (case fmlookup (entries m) k of None \<Rightarrow> [] | Some v \<Rightarrow> v)"

definition sliceElems :: "'a slice \<Rightarrow> 'a list" where
  "sliceElems s = (case s of None \<Rightarrow> [] | Some xs \<Rightarrow> xs)"

text \<open>\<^verbatim>\<open>append(s, xs...)\<close>: nil only when \<open>s\<close> is nil and nothing is appended.\<close>

definition goAppend :: "'a slice \<Rightarrow> 'a list \<Rightarrow> 'a slice" where
  "goAppend s xs = (if s = None \<and> xs = [] then None else Some (sliceElems s @ xs))"

lemma entries_simps [simp]: "entries None = fmempty" "entries (Some f) = f"
  by (simp_all add: entries_def)

lemma sliceElems_simps [simp]: "sliceElems None = []" "sliceElems (Some xs) = xs"
  by (simp_all add: sliceElems_def)

lemma sliceElems_goAppend [simp]: "sliceElems (goAppend s xs) = sliceElems s @ xs"
  by (cases s) (auto simp: goAppend_def)

lemma goAppend_Some [simp]: "goAppend (Some xs) ys = Some (xs @ ys)"
  by (simp add: goAppend_def)

lemma mapGet_mapLit_Nil [simp]: "mapGet (mapLit []) k = []"
  by (simp add: mapGet_def mapLit_def)

lemma mapGet_mapLit_Cons [simp]:
  "mapGet (mapLit ((k', v) # kvs)) k = (if k = k' then v else mapGet (mapLit kvs) k)"
  by (simp add: mapGet_def mapLit_def)

lemma mapGet_None [simp]: "mapGet None k = []"
  by (simp add: mapGet_def)

text \<open>A selector (a map of required labels) matches a label map.\<close>

definition selects :: "gomap \<Rightarrow> gomap \<Rightarrow> bool" where
  "selects sel labels \<longleftrightarrow>
     fmpred (\<lambda>k v. fmlookup (entries labels) k = Some v) (entries sel)"

lemma selects_iff:
  "selects sel labels \<longleftrightarrow>
     (\<forall>k v. fmlookup (entries sel) k = Some v \<longrightarrow> fmlookup (entries labels) k = Some v)"
  by (auto simp: selects_def intro!: fmpredI dest: fmpredD)

lemma selects_refl [simp]: "selects m m"
  by (simp add: selects_iff)

end
