(* ===== verification/GoFmt.thy ===== *)
theory GoFmt
  imports Prelude
begin

section \<open>Formatting and error values\<close>

text \<open>
  The parts of Go's \<^verbatim>\<open>fmt\<close> and \<^verbatim>\<open>strconv\<close> the operator uses: \<^verbatim>\<open>%d\<close> on an
  \<^verbatim>\<open>int32\<close> (\<open>fmtD\<close>), \<^verbatim>\<open>%q\<close> on a string (\<open>fmtQ\<close>), and error values. Quoting of a
  string with bytes outside ASCII needs the Unicode tables of the Go runtime; that case is the
  parameter \<open>uq\<close> of \<open>fmtQ\<close>.
\<close>

subsection \<open>Decimal integers\<close>

definition digitChar :: "nat \<Rightarrow> char" where
  "digitChar d = ''0123456789'' ! d"

fun decNat :: "nat \<Rightarrow> string" where
  "decNat n = (if n < 10 then [digitChar n] else decNat (n div 10) @ [digitChar (n mod 10)])"

declare decNat.simps [simp del]

definition decInt :: "int \<Rightarrow> string" where
  "decInt i = (if i < 0 then CHR ''-'' # decNat (nat (- i)) else decNat (nat i))"

definition fmtD :: "int32 \<Rightarrow> string" where
  "fmtD x = decInt (sint x)"

text \<open>The decimal form can be read back: the digits determine the number.\<close>

definition digitVal :: "char \<Rightarrow> nat" where
  "digitVal c = of_char c - 48"

fun readNat :: "nat \<Rightarrow> string \<Rightarrow> nat" where
  "readNat acc [] = acc"
| "readNat acc (c # cs) = readNat (10 * acc + digitVal c) cs"

lemma digitVal_digitChar: "d < 10 \<Longrightarrow> digitVal (digitChar d) = d"
proof -
  assume "d < 10"
  then have "d \<in> {0, 1, 2, 3, 4, 5, 6, 7, 8, 9}" by auto
  then show ?thesis by (auto simp: digitVal_def digitChar_def)
qed

lemma readNat_append: "readNat acc (xs @ ys) = readNat (readNat acc xs) ys"
  by (induction acc xs rule: readNat.induct) auto

lemma readNat_decNat: "readNat 0 (decNat n) = n"
proof (induction n rule: decNat.induct)
  case (1 n)
  show ?case
  proof (cases "n < 10")
    case True
    then show ?thesis by (simp add: decNat.simps [of n] digitVal_digitChar)
  next
    case False
    with 1 show ?thesis
      by (simp add: decNat.simps [of n] readNat_append digitVal_digitChar)
  qed
qed

lemma decNat_inj: "decNat m = decNat n \<longleftrightarrow> m = n"
  by (metis readNat_decNat)

lemma digitChar_not_minus: "d < 10 \<Longrightarrow> digitChar d \<noteq> CHR ''-''"
proof -
  assume "d < 10"
  then have "d \<in> {0, 1, 2, 3, 4, 5, 6, 7, 8, 9}" by auto
  then show ?thesis by (auto simp: digitChar_def)
qed

lemma hd_decNat: "decNat n \<noteq> [] \<and> hd (decNat n) \<noteq> CHR ''-''"
proof (induction n rule: decNat.induct)
  case (1 n)
  then show ?case
    by (cases "n < 10") (auto simp: decNat.simps [of n] digitChar_not_minus)
qed

lemma decInt_inj: "decInt i = decInt j \<longleftrightarrow> i = j"
proof -
  have "decNat n \<noteq> CHR ''-'' # xs" for n xs
    using hd_decNat [of n] by (cases "decNat n") auto
  then show ?thesis
    by (auto simp: decInt_def decNat_inj dest: sym)
qed

lemma fmtD_inj: "fmtD x = fmtD y \<longleftrightarrow> x = y"
  by (auto simp: fmtD_def decInt_inj intro: signed_word_eqI)

subsection \<open>Quoted strings\<close>

definition hexChar :: "nat \<Rightarrow> char" where
  "hexChar d = ''0123456789abcdef'' ! d"

definition quoteChar :: "char \<Rightarrow> string" where
  "quoteChar c =
     (let n = (of_char c :: nat); bs = CHR 0x5C in
      if n = 0x22 \<or> n = 0x5C then [bs, c]
      else if n = 7 then bs # ''a''
      else if n = 8 then bs # ''b''
      else if n = 12 then bs # ''f''
      else if n = 10 then bs # ''n''
      else if n = 13 then bs # ''r''
      else if n = 9 then bs # ''t''
      else if n = 11 then bs # ''v''
      else if n < 32 \<or> n = 127 then [bs, CHR ''x'', hexChar (n div 16), hexChar (n mod 16)]
      else [c])"

definition isASCII :: "string \<Rightarrow> bool" where
  "isASCII s = list_all (\<lambda>c. (of_char c :: nat) < 128) s"

definition fmtQ :: "(string \<Rightarrow> string) \<Rightarrow> string \<Rightarrow> string" where
  "fmtQ uq s =
     (if isASCII s then CHR 0x22 # concat (map quoteChar s) @ [CHR 0x22] else uq s)"

subsection \<open>Errors\<close>

text \<open>
  \<open>Errorf\<close> is the value of \<^verbatim>\<open>fmt.Errorf\<close> without \<^verbatim>\<open>%w\<close>, \<open>Wrapf\<close> of one ending in
  \<^verbatim>\<open>: %w\<close> (the text before the wrapped error, and that error), and \<open>Foreign\<close> an error made
  by code outside the repository, with the reason the API machinery reads off it and its text.
\<close>

datatype gerror = Errorf string | Wrapf string gerror | Foreign string string

fun errorText :: "gerror \<Rightarrow> string" where
  "errorText (Errorf s) = s"
| "errorText (Wrapf s e) = s @ errorText e"
| "errorText (Foreign _ s) = s"

end
