(* ===== verification/Contracts.thy ===== *)
theory Contracts
  imports GoFmt
begin

section \<open>Contracts shared by the reconciler's operations\<close>

text \<open>
  The controller reconciles every kind of owned object by one of three patterns, each written
  out anew in the source. The locales state the patterns as interfaces: what the operation does
  with each answer of the API server, and what the comparison and the patch it uses must
  satisfy. Their lemmas hold for every operation the component theories interpret them with.
  \<^item> \<open>create_once\<close>: create the object when it is absent, never touch it when it is there
    (credentials, volume claims);
  \<^item> \<open>create_or_patch\<close>: create it when absent, otherwise patch the fields the operator
    manages and update only on a difference (services, workloads, ingress, autoscaler);
  \<^item> \<open>remove_owned\<close>: delete the object when the operator controls it (disabled ingress,
    disabled autoscaler).
\<close>

subsection \<open>Looking an object up before acting\<close>

locale get_first =
  fixes get :: "'d \<Rightarrow> 'w \<Rightarrow> (gerror + 'o) \<times> 'w"
    and notfound :: "gerror \<Rightarrow> bool"
    and absent :: "'d \<Rightarrow> 'w \<Rightarrow> gerror option \<times> 'w"
    and run :: "'d \<Rightarrow> 'w \<Rightarrow> gerror option \<times> 'w"
  assumes run_absent: "get d w = (Inl e, w') \<Longrightarrow> notfound e \<Longrightarrow> run d w = absent d w'"
    and run_failed: "get d w = (Inl e, w') \<Longrightarrow> \<not> notfound e \<Longrightarrow> run d w = (Some e, w')"
begin

text \<open>A failed lookup is the only error of the operation that is not an error of a write.\<close>

lemma run_error_source:
  assumes "run d w = (Some e, w')" and "get d w = (Inl e', w1)"
  shows "e = e' \<and> w' = w1 \<or> absent d w1 = (Some e, w')"
  using assms run_absent [of d w e' w1] run_failed [of d w e' w1] by (cases "notfound e'") auto

end

locale create_once =
  get_first get notfound create run
  for get :: "'o \<Rightarrow> 'w \<Rightarrow> (gerror + 'o) \<times> 'w"
    and notfound :: "gerror \<Rightarrow> bool"
    and create :: "'o \<Rightarrow> 'w \<Rightarrow> gerror option \<times> 'w"
    and run :: "'o \<Rightarrow> 'w \<Rightarrow> gerror option \<times> 'w" +
  assumes run_present: "get d w = (Inr ex, w') \<Longrightarrow> run d w = (None, w')"
begin

lemma run_cases:
  obtains (skip) ex w1 where "get d w = (Inr ex, w1)" "run d w = (None, w1)"
    | (create) e w1 where "get d w = (Inl e, w1)" "notfound e" "run d w = create d w1"
    | (fail) e w1 where "get d w = (Inl e, w1)" "\<not> notfound e" "run d w = (Some e, w1)"
proof (cases "get d w")
  case (Pair r w1)
  show thesis
  proof (cases r)
    case (Inl e)
    with Pair have "get d w = (Inl e, w1)" by simp
    then show thesis
      using run_absent run_failed that(2,3) by (cases "notfound e") blast+
  next
    case (Inr ex)
    with Pair have "get d w = (Inr ex, w1)" by simp
    then show thesis using run_present that(1) by blast
  qed
qed

text \<open>What a found object and a successful creation have in common holds after a success.\<close>

lemma run_establishes:
  assumes found: "\<And>ex w1. get d w = (Inr ex, w1) \<Longrightarrow> Q w1"
    and created: "\<And>w1 w2. create d w1 = (None, w2) \<Longrightarrow> Q w2"
    and ok: "run d w = (None, w')"
  shows "Q w'"
  by (rule run_cases [of d w]) (use found created ok in auto)

text \<open>Whatever survives the lookup and a creation of an absent object survives the operation.\<close>

lemma run_preserves:
  assumes read: "\<And>r w1. get d w = (r, w1) \<Longrightarrow> P w1"
    and writes: "\<And>e w1 r w2. get d w = (Inl e, w1) \<Longrightarrow> notfound e \<Longrightarrow> create d w1 = (r, w2) \<Longrightarrow> P w2"
  shows "P (snd (run d w))"
  by (rule run_cases [of d w]) (use read writes in \<open>auto simp: prod_eq_iff\<close>)

text \<open>An error of the operation is the error of one of its calls, in the world that call left.\<close>

lemma run_error:
  assumes read: "\<And>e w1. get d w = (Inl e, w1) \<Longrightarrow> B e w1"
    and writes: "\<And>w1 e w2. create d w1 = (Some e, w2) \<Longrightarrow> B e w2"
    and bad: "run d w = (Some e, w')"
  shows "B e w'"
  by (rule run_cases [of d w]) (use read writes bad in auto)

end

locale create_or_patch =
  get_first get notfound create run
  for get :: "'o \<Rightarrow> 'w \<Rightarrow> (gerror + 'o) \<times> 'w"
    and notfound :: "gerror \<Rightarrow> bool"
    and create :: "'o \<Rightarrow> 'w \<Rightarrow> gerror option \<times> 'w"
    and run :: "'o \<Rightarrow> 'w \<Rightarrow> gerror option \<times> 'w" +
  fixes update :: "'o \<Rightarrow> 'w \<Rightarrow> gerror option \<times> 'w"
    and patch :: "'o \<Rightarrow> 'o \<Rightarrow> 'o"
    and same :: "'o \<Rightarrow> 'o \<Rightarrow> bool"
  assumes run_current: "get d w = (Inr ex, w') \<Longrightarrow> same ex (patch ex d) \<Longrightarrow> run d w = (None, w')"
    and run_stale: "get d w = (Inr ex, w') \<Longrightarrow> \<not> same ex (patch ex d) \<Longrightarrow>
      run d w = update (patch ex d) w'"
    and patch_settled: "same (patch ex d) (patch (patch ex d) d)"
    and desired_settled: "same d (patch d d)"
begin

lemma run_cases:
  obtains (current) ex w1 where
      "get d w = (Inr ex, w1)" "same ex (patch ex d)" "run d w = (None, w1)"
    | (stale) ex w1 where
      "get d w = (Inr ex, w1)" "\<not> same ex (patch ex d)" "run d w = update (patch ex d) w1"
    | (create) e w1 where "get d w = (Inl e, w1)" "notfound e" "run d w = create d w1"
    | (fail) e w1 where "get d w = (Inl e, w1)" "\<not> notfound e" "run d w = (Some e, w1)"
proof (cases "get d w")
  case (Pair r w1)
  show thesis
  proof (cases r)
    case (Inl e)
    with Pair have "get d w = (Inl e, w1)" by simp
    then show thesis
      using run_absent run_failed that(3,4) by (cases "notfound e") blast+
  next
    case (Inr ex)
    with Pair have "get d w = (Inr ex, w1)" by simp
    then show thesis
      using run_current run_stale that(1,2) by (cases "same ex (patch ex d)") blast+
  qed
qed

lemma run_preserves:
  assumes read: "\<And>r w1. get d w = (r, w1) \<Longrightarrow> P w1"
    and create: "\<And>e w1 r w2. get d w = (Inl e, w1) \<Longrightarrow> notfound e \<Longrightarrow> create d w1 = (r, w2) \<Longrightarrow> P w2"
    and update: "\<And>ex w1 r w2. get d w = (Inr ex, w1) \<Longrightarrow> \<not> same ex (patch ex d) \<Longrightarrow>
      update (patch ex d) w1 = (r, w2) \<Longrightarrow> P w2"
  shows "P (snd (run d w))"
  by (rule run_cases [of d w]) (use read create update in \<open>auto simp: prod_eq_iff\<close>)

lemma run_establishes:
  assumes found: "\<And>ex w1. get d w = (Inr ex, w1) \<Longrightarrow> Q w1"
    and created: "\<And>w1 w2. create d w1 = (None, w2) \<Longrightarrow> Q w2"
    and kept: "\<And>ex w1 w2. update (patch ex d) w1 = (None, w2) \<Longrightarrow> Q w1 \<Longrightarrow> Q w2"
    and ok: "run d w = (None, w')"
  shows "Q w'"
  by (rule run_cases [of d w]) (use found created kept ok in auto)

lemma run_error:
  assumes read: "\<And>e w1. get d w = (Inl e, w1) \<Longrightarrow> B e w1"
    and writes: "\<And>w1 e w2. create d w1 = (Some e, w2) \<Longrightarrow> B e w2"
      "\<And>ex w1 e w2. update (patch ex d) w1 = (Some e, w2) \<Longrightarrow> B e w2"
    and bad: "run d w = (Some e, w')"
  shows "B e w'"
  by (rule run_cases [of d w]) (use read writes bad in auto)

text \<open>
  On a server that stores what it is sent and where nobody else writes, one successful run
  settles the object: the next run finds nothing to change.
\<close>

lemma run_settles:
  assumes stored: "\<And>w1 w2. create d w1 = (None, w2) \<Longrightarrow> \<exists>w3. get d w2 = (Inr d, w3)"
    and patched: "\<And>ex w1 w2. get d w = (Inr ex, w1) \<Longrightarrow> update (patch ex d) w1 = (None, w2) \<Longrightarrow>
      \<exists>w3. get d w2 = (Inr (patch ex d), w3)"
    and quiet: "\<And>ex w1. get d w = (Inr ex, w1) \<Longrightarrow> \<exists>w2. get d w1 = (Inr ex, w2)"
    and ok: "run d w = (None, w')"
  shows "\<exists>ex w''. get d w' = (Inr ex, w'') \<and> same ex (patch ex d) \<and> run d w' = (None, w'')"
proof -
  have "\<exists>ex w''. get d w' = (Inr ex, w'') \<and> same ex (patch ex d)"
  proof (rule run_cases [of d w])
    fix ex w1 assume "get d w = (Inr ex, w1)" "same ex (patch ex d)" "run d w = (None, w1)"
    with ok quiet show ?thesis by auto
  next
    fix ex w1
    assume "get d w = (Inr ex, w1)" "\<not> same ex (patch ex d)" "run d w = update (patch ex d) w1"
    with ok patched patch_settled show ?thesis by metis
  next
    fix e w1 assume "get d w = (Inl e, w1)" "notfound e" "run d w = create d w1"
    with ok stored desired_settled show ?thesis by metis
  next
    fix e w1 assume "get d w = (Inl e, w1)" "\<not> notfound e" "run d w = (Some e, w1)"
    with ok show ?thesis by simp
  qed
  then show ?thesis using run_current by blast
qed

end

subsection \<open>Removing what is no longer wanted\<close>

locale remove_owned =
  get_first get notfound "\<lambda>d w. (None, w)" run
  for get :: "'d \<Rightarrow> 'w \<Rightarrow> (gerror + 'o) \<times> 'w"
    and notfound :: "gerror \<Rightarrow> bool"
    and run :: "'d \<Rightarrow> 'w \<Rightarrow> gerror option \<times> 'w" +
  fixes remove :: "'o \<Rightarrow> 'w \<Rightarrow> gerror option \<times> 'w"
    and owned :: "'d \<Rightarrow> 'o \<Rightarrow> bool"
  assumes run_owned: "get d w = (Inr ex, w') \<Longrightarrow> owned d ex \<Longrightarrow> run d w = remove ex w'"
    and run_foreign: "get d w = (Inr ex, w') \<Longrightarrow> \<not> owned d ex \<Longrightarrow> run d w = (None, w')"
begin

lemma run_preserves:
  assumes read: "\<And>r w1. get d w = (r, w1) \<Longrightarrow> P w1"
    and writes: "\<And>ex w1 r w2. get d w = (Inr ex, w1) \<Longrightarrow> owned d ex \<Longrightarrow> remove ex w1 = (r, w2) \<Longrightarrow> P w2"
  shows "P (snd (run d w))"
proof (cases "get d w")
  case (Pair r w1)
  show ?thesis
  proof (cases r)
    case (Inl e)
    with Pair read run_absent run_failed show ?thesis by (cases "notfound e") auto
  next
    case (Inr ex)
    with Pair read writes run_owned run_foreign show ?thesis
      by (cases "owned d ex") (auto simp: prod_eq_iff)
  qed
qed

lemma run_error:
  assumes read: "\<And>e w1. get d w = (Inl e, w1) \<Longrightarrow> B e w1"
    and writes: "\<And>ex w1 e w2. remove ex w1 = (Some e, w2) \<Longrightarrow> B e w2"
    and bad: "run d w = (Some e, w')"
  shows "B e w'"
proof (cases "get d w")
  case (Pair r w1)
  show ?thesis
  proof (cases r)
    case (Inl e')
    with Pair read bad run_absent run_failed show ?thesis by (cases "notfound e'") auto
  next
    case (Inr ex)
    with Pair writes bad run_owned run_foreign show ?thesis by (cases "owned d ex") auto
  qed
qed

end

end
