(* ===== verification/KubeTypes.thy ===== *)
theory KubeTypes
  imports GoFmt
begin

section \<open>Kubernetes objects\<close>

text \<open>
  The API structs of \<^verbatim>\<open>k8s.io/api\<close> the operator builds, reads or patches, with the fields its
  code mentions. The fields it never mentions are kept together, serialised, in a field whose
  name ends in \<open>rest\<close>: a deep copy keeps them and \<^verbatim>\<open>reflect.DeepEqual\<close> compares them.
  Every object kind extends \<open>object\<close>, as every Go struct embeds \<^verbatim>\<open>metav1.ObjectMeta\<close>.
  Values that are only passed through (resource requirements, affinity, tolerations) are kept
  serialised.
\<close>

type_synonym nsname = "string \<times> string"  \<comment> \<open>namespace, name\<close>
type_synonym quantity = raw
type_synonym gotime = int  \<comment> \<open>0 is Go's zero time\<close>

datatype IntOrString = IntVal int32 | StrVal string

record OwnerReference =
  or_APIVersion :: string
  or_Kind :: string
  or_Name :: string
  or_UID :: string
  or_Controller :: "bool option"
  or_BlockOwnerDeletion :: "bool option"

record object =
  Name :: string
  Namespace :: string
  UID :: string
  Generation :: int64
  DeletionTimestamp :: "gotime option"
  Labels :: gomap
  Annotations :: gomap
  Finalizers :: "string list"
  OwnerReferences :: "OwnerReference list"
  meta_rest :: raw

text \<open>The object's own \<^verbatim>\<open>ObjectMeta\<close>, the freshly built one, and \<^verbatim>\<open>client.ObjectKeyFromObject\<close>.\<close>

definition metaOf :: "'a object_scheme \<Rightarrow> object" where
  "metaOf obj = object.truncate obj"

definition setOwners :: "OwnerReference list \<Rightarrow> 'a object_scheme \<Rightarrow> 'a object_scheme" where
  "setOwners rs obj = obj\<lparr>OwnerReferences := rs\<rparr>"

definition ObjectKeyFromObject :: "'a object_scheme \<Rightarrow> nsname" where
  "ObjectKeyFromObject obj = (Namespace obj, Name obj)"

definition newMeta :: "string \<Rightarrow> string \<Rightarrow> gomap \<Rightarrow> gomap \<Rightarrow> object" where
  "newMeta n ns labels annotations =
     \<lparr>Name = n, Namespace = ns, UID = [], Generation = 0, DeletionTimestamp = None,
      Labels = labels, Annotations = annotations, Finalizers = [], OwnerReferences = [],
      meta_rest = []\<rparr>"

text \<open>\<^verbatim>\<open>metav1.Time.IsZero\<close>, on a pointer: nil or the zero time.\<close>

definition timeIsZero :: "gotime option \<Rightarrow> bool" where
  "timeIsZero t = (case t of None \<Rightarrow> True | Some s \<Rightarrow> s = 0)"

subsection \<open>Secrets, services, volume claims\<close>

record Secret = object +
  StringData :: gomap
  SecretType :: string
  sec_rest :: raw

record ServicePort =
  sp_Name :: string
  sp_Port :: int32
  sp_TargetPort :: IntOrString
  sp_Protocol :: string
  sp_NodePort :: int32
  sp_rest :: raw

record CoreServiceSpec =
  ss_Type :: string
  ss_ClusterIP :: string
  ss_SessionAffinity :: string
  ss_Selector :: gomap
  ss_Ports :: "ServicePort slice"
  ss_rest :: raw

record Service = object +
  svc_Spec :: CoreServiceSpec
  svc_Status :: raw

record PVCSpec =
  pvc_AccessModes :: "string list"
  pvc_StorageClassName :: "string option"
  pvc_Requests :: gomap  \<comment> \<open>resource name to quantity\<close>
  pvcs_rest :: raw

record PersistentVolumeClaim = object +
  pvc_Spec :: PVCSpec
  pvc_rest :: raw

subsection \<open>Pods\<close>

record SecretKeySelector =
  sks_Name :: string
  sks_Key :: string
  sks_rest :: raw

record EnvVarSource =
  evs_SecretKeyRef :: "SecretKeySelector option"
  evs_rest :: raw

record EnvVar =
  ev_Name :: string
  ev_Value :: string
  ev_ValueFrom :: "EnvVarSource option"

record ContainerPort =
  cp_Name :: string
  cp_ContainerPort :: int32
  cp_Protocol :: string
  cp_rest :: raw

record VolumeMount =
  vm_Name :: string
  vm_MountPath :: string
  vm_rest :: raw

datatype VolumeSource = PVCVolume string raw | EmptyDirVolume raw | OtherVolume raw

record Volume =
  vol_Name :: string
  vol_Source :: VolumeSource

datatype ProbeHandler =
  ExecProbe "string slice"
| HTTPGetProbe string IntOrString string raw
| TCPSocketProbe IntOrString raw
| OtherProbe raw

record Probe =
  pr_Handler :: ProbeHandler
  pr_InitialDelaySeconds :: int32
  pr_PeriodSeconds :: int32
  pr_TimeoutSeconds :: int32
  pr_FailureThreshold :: int32
  pr_rest :: raw

record Container =
  c_Name :: string
  c_Image :: string
  c_ImagePullPolicy :: string
  c_Command :: "string slice"
  c_Ports :: "ContainerPort slice"
  c_Env :: "EnvVar slice"
  c_Resources :: raw
  c_VolumeMounts :: "VolumeMount slice"
  c_ReadinessProbe :: "Probe option"
  c_LivenessProbe :: "Probe option"
  c_rest :: raw

record PodSpec =
  ps_InitContainers :: "Container slice"
  ps_ImagePullSecrets :: "string slice"
  ps_NodeSelector :: gomap
  ps_Tolerations :: "raw slice"
  ps_Affinity :: "raw option"
  ps_Containers :: "Container slice"
  ps_Volumes :: "Volume slice"
  ps_rest :: raw

record PodTemplateSpec =
  pt_Labels :: gomap
  pt_Annotations :: gomap
  pt_Spec :: PodSpec
  pt_rest :: raw

subsection \<open>Workloads\<close>

record WorkloadStatus =
  ws_Replicas :: int32
  ws_ReadyReplicas :: int32
  ws_rest :: raw

record RollingUpdateDeployment =
  ru_MaxUnavailable :: "IntOrString option"
  ru_MaxSurge :: "IntOrString option"

record DeploymentStrategy =
  ds_Type :: string
  ds_RollingUpdate :: "RollingUpdateDeployment option"

record Deployment = object +
  dep_Replicas :: "int32 option"
  dep_Selector :: gomap
  dep_Strategy :: DeploymentStrategy
  dep_Template :: PodTemplateSpec
  dep_rest :: raw
  dep_Status :: WorkloadStatus

record StatefulSet = object +
  sts_ServiceName :: string
  sts_Replicas :: "int32 option"
  sts_Selector :: gomap
  sts_Template :: PodTemplateSpec
  sts_VolumeClaimTemplates :: "PersistentVolumeClaim slice"
  sts_rest :: raw
  sts_Status :: WorkloadStatus

definition zeroWorkloadStatus :: WorkloadStatus where
  "zeroWorkloadStatus = \<lparr>ws_Replicas = 0, ws_ReadyReplicas = 0, ws_rest = []\<rparr>"

subsection \<open>Ingress and HorizontalPodAutoscaler\<close>

record IngressServiceBackend =
  isb_Name :: string
  isb_PortNumber :: int32
  isb_rest :: raw

record HTTPIngressPath =
  ip_Path :: string
  ip_PathType :: "string option"
  ip_Service :: "IngressServiceBackend option"
  ip_rest :: raw

record IngressRule =
  ir_Host :: string
  ir_HTTP :: "HTTPIngressPath slice option"  \<comment> \<open>the pointer, then its paths\<close>

record IngressTLS =
  tls_Hosts :: "string slice"
  tls_SecretName :: string

record NetIngressSpec =
  is_IngressClassName :: "string option"
  is_Rules :: "IngressRule slice"
  is_TLS :: "IngressTLS slice"
  is_rest :: raw

record Ingress = object +
  ing_Spec :: NetIngressSpec
  ing_Status :: raw

record ScaleTargetRef =
  st_APIVersion :: string
  st_Kind :: string
  st_Name :: string

record ResourceMetricSource =
  rms_Name :: string
  rms_TargetType :: string
  rms_AverageUtilization :: "int32 option"
  rms_rest :: raw

record MetricSpec =
  ms_Type :: string
  ms_Resource :: "ResourceMetricSource option"
  ms_rest :: raw

record HPASpec =
  hs_ScaleTargetRef :: ScaleTargetRef
  hs_MinReplicas :: "int32 option"
  hs_MaxReplicas :: int32
  hs_Metrics :: "MetricSpec slice"
  hs_rest :: raw

record HorizontalPodAutoscaler = object +
  hpa_Spec :: HPASpec
  hpa_Status :: raw

subsection \<open>Library lemmas\<close>

lemma metaOf_setOwners [simp]:
  "metaOf (setOwners rs obj) = (metaOf obj)\<lparr>OwnerReferences := rs\<rparr>"
  by (simp add: metaOf_def setOwners_def object.defs)

lemma meta_fields [simp]:
  "Name (metaOf obj) = Name obj" "Namespace (metaOf obj) = Namespace obj"
  "UID (metaOf obj) = UID obj" "OwnerReferences (metaOf obj) = OwnerReferences obj"
  by (simp_all add: metaOf_def object.defs)

lemma setOwners_fields [simp]:
  "Name (setOwners rs obj) = Name obj" "Namespace (setOwners rs obj) = Namespace obj"
  "UID (setOwners rs obj) = UID obj" "Labels (setOwners rs obj) = Labels obj"
  "Annotations (setOwners rs obj) = Annotations obj"
  "OwnerReferences (setOwners rs obj) = rs"
  "ObjectKeyFromObject (setOwners rs obj) = ObjectKeyFromObject obj"
  by (simp_all add: setOwners_def ObjectKeyFromObject_def)

end
