(* ===== verification/WordPressTypes.thy ===== *)
theory WordPressTypes
  imports KubeTypes
begin

section \<open>The WordPress API (api/v1alpha1/wordpress\_types.go)\<close>

text \<open>
  The custom resource: one record per Go struct, one field per Go field, in the source's order.
  Field names carry a short prefix where two structs share a name. Pointers are options,
  \<^verbatim>\<open>int32\<close> is a 32-bit word read as signed, and the string-typed enumerations stay strings,
  because the code also meets values outside the enumeration.
\<close>

named_theorems go_consts \<open>string constants of the source\<close>

subsection \<open>Database\<close>

definition DatabaseModeInternal :: string where
  [go_consts]: "DatabaseModeInternal = ''Internal''"

definition DatabaseModeExternal :: string where
  [go_consts]: "DatabaseModeExternal = ''External''"

record SecretKeyRef =
  skr_Name :: string
  skr_Key :: string

record InternalDatabaseSpec =
  int_Image :: string
  int_ImagePullPolicy :: string
  int_StorageSize :: string
  int_StorageClassName :: "string option"
  int_Resources :: raw
  int_RootPasswordSecret :: "SecretKeyRef option"
  int_NodeSelector :: gomap
  int_Tolerations :: "raw slice"
  int_Affinity :: "raw option"

record ExternalDatabaseSpec =
  ext_Host :: string
  ext_Port :: int32
  ext_PasswordSecret :: SecretKeyRef

record DatabaseSpec =
  Mode :: string
  db_Name :: string
  db_User :: string
  TablePrefix :: string
  Internal :: "InternalDatabaseSpec option"
  External :: "ExternalDatabaseSpec option"

subsection \<open>Exposure, storage, scaling\<close>

record IngressSpec =
  igs_Enabled :: bool
  igs_IngressClassName :: "string option"
  igs_Host :: string
  igs_TLSSecretName :: string
  igs_Annotations :: gomap

record ServiceSpec =
  svs_Type :: string
  svs_Port :: int32
  svs_NodePort :: int32
  svs_Annotations :: gomap

record PersistenceSpec =
  per_Enabled :: bool
  per_Size :: string
  per_StorageClassName :: "string option"
  per_AccessModes :: "string list"

record AutoscalingSpec =
  as_Enabled :: bool
  as_MinReplicas :: int32
  as_MaxReplicas :: int32
  as_TargetCPUUtilizationPercentage :: int32

subsection \<open>The resource\<close>

record WordPressSpec =
  Image :: string
  ImagePullPolicy :: string
  ImagePullSecrets :: "string slice"
  Replicas :: "int32 option"
  Resources :: raw
  SiteURL :: string
  Env :: "EnvVar list"
  Database :: DatabaseSpec
  ServiceS :: ServiceSpec
  IngressS :: IngressSpec
  Persistence :: PersistenceSpec
  Autoscaling :: AutoscalingSpec
  PodAnnotations :: gomap
  PodLabels :: gomap
  NodeSelector :: gomap
  Tolerations :: "raw slice"
  Affinity :: "raw option"
  MaxUnavailable :: "IntOrString option"
  MaxSurge :: "IntOrString option"

definition PhasePending :: string where
  [go_consts]: "PhasePending = ''Pending''"

definition PhaseProvisioning :: string where
  [go_consts]: "PhaseProvisioning = ''Provisioning''"

definition PhaseReady :: string where
  [go_consts]: "PhaseReady = ''Ready''"

definition PhaseFailed :: string where
  [go_consts]: "PhaseFailed = ''Failed''"

definition ConditionTypeReady :: string where
  [go_consts]: "ConditionTypeReady = ''Ready''"

definition ConditionTypeDatabaseReady :: string where
  [go_consts]: "ConditionTypeDatabaseReady = ''DatabaseReady''"

definition ConditionTypeDeploymentReady :: string where
  [go_consts]: "ConditionTypeDeploymentReady = ''DeploymentReady''"

definition ConditionTypeIngressConfigured :: string where
  [go_consts]: "ConditionTypeIngressConfigured = ''IngressConfigured''"

text \<open>\<^verbatim>\<open>metav1.Condition\<close>; the transition time and observed generation are the library's.\<close>

record Condition =
  co_Type :: string
  co_Status :: string
  co_Reason :: string
  co_Message :: string
  co_LastTransitionTime :: gotime
  co_ObservedGeneration :: int64

definition ConditionTrue :: string where
  [go_consts]: "ConditionTrue = ''True''"

definition ConditionFalse :: string where
  [go_consts]: "ConditionFalse = ''False''"

text \<open>The literal \<^verbatim>\<open>metav1.Condition{Type, Status, Reason, Message}\<close>.\<close>

definition newCondition :: "string \<Rightarrow> string \<Rightarrow> string \<Rightarrow> string \<Rightarrow> Condition" where
  "newCondition t s r m =
     \<lparr>co_Type = t, co_Status = s, co_Reason = r, co_Message = m, co_LastTransitionTime = 0,
      co_ObservedGeneration = 0\<rparr>"

lemma newCondition_fields [simp]:
  "co_Type (newCondition t s r m) = t" "co_Status (newCondition t s r m) = s"
  "co_Reason (newCondition t s r m) = r" "co_Message (newCondition t s r m) = m"
  by (simp_all add: newCondition_def)

record WordPressStatus =
  wst_ObservedGeneration :: int64
  wst_Phase :: string
  wst_URL :: string
  wst_Replicas :: int32
  wst_ReadyReplicas :: int32
  wst_DatabaseHost :: string
  wst_Conditions :: "Condition list"

record WordPress = object +
  Spec :: WordPressSpec
  Status :: WordPressStatus

text \<open>The phases, the two modes and the condition types are pairwise different.\<close>

lemma phases_distinct [simp]:
  "PhaseReady \<noteq> PhaseProvisioning" "PhaseProvisioning \<noteq> PhaseReady"
  "PhaseReady \<noteq> PhaseFailed" "PhaseFailed \<noteq> PhaseReady"
  "PhaseProvisioning \<noteq> PhaseFailed" "PhaseFailed \<noteq> PhaseProvisioning"
  by (simp_all add: go_consts)

lemma modes_distinct [simp]:
  "DatabaseModeInternal \<noteq> DatabaseModeExternal" "DatabaseModeExternal \<noteq> DatabaseModeInternal"
  "DatabaseModeInternal \<noteq> []" "DatabaseModeExternal \<noteq> []"
  "[] \<noteq> DatabaseModeInternal" "[] \<noteq> DatabaseModeExternal"
  by (simp_all add: go_consts)

lemma condition_types_distinct [simp]:
  "ConditionTypeReady \<noteq> ConditionTypeDatabaseReady"
  "ConditionTypeDatabaseReady \<noteq> ConditionTypeReady"
  "ConditionTypeReady \<noteq> ConditionTypeDeploymentReady"
  "ConditionTypeDeploymentReady \<noteq> ConditionTypeReady"
  "ConditionTypeDatabaseReady \<noteq> ConditionTypeDeploymentReady"
  "ConditionTypeDeploymentReady \<noteq> ConditionTypeDatabaseReady"
  "ConditionTypeIngressConfigured \<noteq> ConditionTypeReady"
  "ConditionTypeReady \<noteq> ConditionTypeIngressConfigured"
  "ConditionTypeIngressConfigured \<noteq> ConditionTypeDatabaseReady"
  "ConditionTypeDatabaseReady \<noteq> ConditionTypeIngressConfigured"
  "ConditionTypeIngressConfigured \<noteq> ConditionTypeDeploymentReady"
  "ConditionTypeDeploymentReady \<noteq> ConditionTypeIngressConfigured"
  by (simp_all add: go_consts)

lemma condition_status_distinct [simp]:
  "ConditionTrue \<noteq> ConditionFalse" "ConditionFalse \<noteq> ConditionTrue"
  by (simp_all add: go_consts)

end
