(* ===== verification/Environment.thy ===== *)
theory Environment
  imports WordPressTypes
begin

section \<open>The world the operator acts on\<close>

text \<open>
  Everything the reconciler uses that is not code of this repository is a field of the record
  \<open>'w env\<close>, over an arbitrary type \<open>'w\<close> of worlds: the API server seen through
  \<^verbatim>\<open>client.Client\<close> (one \<open>store\<close> per object kind), the event recorder, the randomness of
  \<^verbatim>\<open>crypto/rand\<close>, and the functions of \<^verbatim>\<open>apimachinery\<close>, \<^verbatim>\<open>client-go\<close> and
  \<^verbatim>\<open>controller-runtime\<close> it calls. A call may move the world on in any way (other
  controllers act between two calls) and may fail in any way; what a theorem needs of these
  functions is one of the named laws below.
\<close>

record ('o, 'w) store =
  Get :: "nsname \<Rightarrow> 'w \<Rightarrow> (gerror + 'o) \<times> 'w"
  Create :: "'o \<Rightarrow> 'w \<Rightarrow> gerror option \<times> 'w"
  Update :: "'o \<Rightarrow> 'w \<Rightarrow> gerror option \<times> 'w"
  Delete :: "'o \<Rightarrow> 'w \<Rightarrow> gerror option \<times> 'w"

record 'w env =
  wordpresses :: "(WordPress, 'w) store"
  StatusUpdate :: "WordPress \<Rightarrow> 'w \<Rightarrow> gerror option \<times> 'w"
  secrets :: "(Secret, 'w) store"
  services :: "(Service, 'w) store"
  statefulsets :: "(StatefulSet, 'w) store"
  pvcs :: "(PersistentVolumeClaim, 'w) store"
  deployments :: "(Deployment, 'w) store"
  ingresses :: "(Ingress, 'w) store"
  hpas :: "(HorizontalPodAutoscaler, 'w) store"
  Recorder :: "(WordPress \<Rightarrow> string \<Rightarrow> string \<Rightarrow> string \<Rightarrow> 'w \<Rightarrow> 'w) option"
  RandRead :: "nat \<Rightarrow> 'w \<Rightarrow> (gerror + byte list) \<times> 'w"
  SetStatusCondition :: "Condition list \<Rightarrow> Condition \<Rightarrow> 'w \<Rightarrow> Condition list \<times> 'w"
  RemoveStatusCondition :: "Condition list \<Rightarrow> string \<Rightarrow> Condition list"
  IsStatusConditionTrue :: "Condition list \<Rightarrow> string \<Rightarrow> bool"
  RetryOnConflict :: "('w \<Rightarrow> gerror option \<times> 'w) \<Rightarrow> 'w \<Rightarrow> gerror option \<times> 'w"
  Backoff :: "'w \<Rightarrow> 'w"
  IsNotFound :: "gerror \<Rightarrow> bool"
  IsConflict :: "gerror \<Rightarrow> bool"
  ContainsFinalizer :: "string list \<Rightarrow> string \<Rightarrow> bool"
  AddFinalizer :: "string list \<Rightarrow> string \<Rightarrow> string list"
  RemoveFinalizer :: "string list \<Rightarrow> string \<Rightarrow> string list"
  SetControllerReference :: "object \<Rightarrow> object \<Rightarrow> gerror + OwnerReference list"
  IsControlledBy :: "object \<Rightarrow> object \<Rightarrow> bool"
  ParseQuantity :: "string \<Rightarrow> gerror + quantity"
  QuoteUnicode :: "string \<Rightarrow> string"

subsection \<open>The state of one reconcile pass\<close>

text \<open>The object the pass works on in memory (the \<^verbatim>\<open>wp\<close> pointer, whose status it mutates)
  and the world.\<close>

record 'w rs =
  cr :: WordPress
  world :: 'w

definition api :: "('w \<Rightarrow> 'r \<times> 'w) \<Rightarrow> 'w rs \<Rightarrow> 'r \<times> 'w rs" where
  "api f st = (let (r, w) = f (world st) in (r, st\<lparr>world := w\<rparr>))"

text \<open>\<^verbatim>\<open>meta.SetStatusCondition(&wp.Status.Conditions, c)\<close>; it reads the clock.\<close>

definition setCond :: "'w env \<Rightarrow> Condition \<Rightarrow> 'w rs \<Rightarrow> 'w rs" where
  "setCond E c st =
     (let (cs, w) = SetStatusCondition E (wst_Conditions (Status (cr st))) c (world st)
      in \<lparr>cr = (cr st)\<lparr>Status := (Status (cr st))\<lparr>wst_Conditions := cs\<rparr>\<rparr>, world = w\<rparr>)"

text \<open>\<^verbatim>\<open>meta.RemoveStatusCondition(&wp.Status.Conditions, t)\<close>.\<close>

definition removeCond :: "'w env \<Rightarrow> string \<Rightarrow> 'w rs \<Rightarrow> 'w rs" where
  "removeCond E t st = st\<lparr>cr := (cr st)\<lparr>Status := (Status (cr st))
     \<lparr>wst_Conditions := RemoveStatusCondition E (wst_Conditions (Status (cr st))) t\<rparr>\<rparr>\<rparr>"

text \<open>\<^verbatim>\<open>controllerutil.SetControllerReference(wp, obj, r.Scheme)\<close> on a built object.\<close>

definition withController ::
    "'w env \<Rightarrow> WordPress \<Rightarrow> 'a object_scheme \<Rightarrow> gerror + 'a object_scheme" where
  "withController E wp d =
     (case SetControllerReference E (metaOf wp) (metaOf d) of
        Inl err \<Rightarrow> Inl err
      | Inr rs \<Rightarrow> Inr (setOwners rs d))"

text \<open>The reconciler's own helper \<^verbatim>\<open>event\<close>: nothing without a recorder.\<close>

definition event :: "'w env \<Rightarrow> string \<Rightarrow> string \<Rightarrow> string \<Rightarrow> 'w rs \<Rightarrow> 'w rs" where
  "event E eventType reason msg st =
     (case Recorder E of
        None \<Rightarrow> st
      | Some sink \<Rightarrow> st\<lparr>world := sink (cr st) eventType reason msg (world st)\<rparr>)"

subsection \<open>Documented laws of the outside code\<close>

definition key_law :: "('o object_scheme, 'w) store \<Rightarrow> bool" where
  "key_law S \<longleftrightarrow>
     (\<forall>k w ob w'. Get S k w = (Inr ob, w') \<longrightarrow> ObjectKeyFromObject ob = k)"

text \<open>\<^verbatim>\<open>Get\<close> returns an object with the key asked for.\<close>

definition key_laws :: "'w env \<Rightarrow> bool" where
  "key_laws E \<longleftrightarrow> key_law (wordpresses E) \<and> key_law (secrets E) \<and> key_law (services E)
     \<and> key_law (statefulsets E) \<and> key_law (pvcs E) \<and> key_law (deployments E)
     \<and> key_law (ingresses E) \<and> key_law (hpas E)"

text \<open>A successful \<^verbatim>\<open>SetControllerReference\<close> leaves an object controlled by the owner.\<close>

definition owner_law :: "'w env \<Rightarrow> bool" where
  "owner_law E \<longleftrightarrow>
     (\<forall>owner ob rs. SetControllerReference E owner ob = Inr rs \<longrightarrow>
        IsControlledBy E (ob\<lparr>OwnerReferences := rs\<rparr>) owner)"

text \<open>Finalizer helpers work on the list as a set.\<close>

definition finalizer_laws :: "'w env \<Rightarrow> bool" where
  "finalizer_laws E \<longleftrightarrow>
     (\<forall>fs f. ContainsFinalizer E fs f = (f \<in> set fs)
        \<and> set (AddFinalizer E fs f) = insert f (set fs)
        \<and> set (RemoveFinalizer E fs f) = set fs - {f})"

text \<open>\<^verbatim>\<open>NotFound\<close> and \<^verbatim>\<open>Conflict\<close> are different reasons; an error made by \<^verbatim>\<open>fmt.Errorf\<close>
  has neither, and a wrapping error has those of the error it wraps.\<close>

definition error_laws :: "'w env \<Rightarrow> bool" where
  "error_laws E \<longleftrightarrow>
     (\<forall>e. \<not> (IsNotFound E e \<and> IsConflict E e))
     \<and> (\<forall>s. \<not> IsNotFound E (Errorf s) \<and> \<not> IsConflict E (Errorf s))
     \<and> (\<forall>s e. IsNotFound E (Wrapf s e) = IsNotFound E e \<and> IsConflict E (Wrapf s e) = IsConflict E e)"

text \<open>A condition list seen as a map from the condition type.\<close>

definition condView :: "Condition list \<Rightarrow> string \<Rightarrow> (string \<times> string \<times> string) option" where
  "condView cs t =
     map_option (\<lambda>c. (co_Status c, co_Reason c, co_Message c)) (find (\<lambda>c. co_Type c = t) cs)"

definition condition_laws :: "'w env \<Rightarrow> bool" where
  "condition_laws E \<longleftrightarrow>
     (\<forall>cs c w t. condView (fst (SetStatusCondition E cs c w)) t =
        (if t = co_Type c then Some (co_Status c, co_Reason c, co_Message c) else condView cs t))
     \<and> (\<forall>cs t t'. condView (RemoveStatusCondition E cs t) t' =
        (if t' = t then None else condView cs t'))
     \<and> (\<forall>cs t. IsStatusConditionTrue E cs t =
        (case condView cs t of None \<Rightarrow> False | Some (s, _) \<Rightarrow> s = ConditionTrue))"

text \<open>\<^verbatim>\<open>retry.RetryOnConflict\<close>: a bounded number of attempts, a wait after each conflict, the
  last attempt's result.\<close>

fun retryN :: "'w env \<Rightarrow> nat \<Rightarrow> ('w \<Rightarrow> gerror option \<times> 'w) \<Rightarrow> 'w \<Rightarrow> gerror option \<times> 'w" where
  "retryN E 0 fn w = fn w"
| "retryN E (Suc n) fn w =
     (case fn w of
        (None, w1) \<Rightarrow> (None, w1)
      | (Some err, w1) \<Rightarrow>
          if IsConflict E err then retryN E n fn (Backoff E w1) else (Some err, w1))"

definition retry_law :: "'w env \<Rightarrow> bool" where
  "retry_law E \<longleftrightarrow> (\<exists>n. \<forall>fn w. RetryOnConflict E fn w = retryN E n fn w)"

text \<open>\<^verbatim>\<open>rand.Read\<close> fills the whole buffer when it does not fail.\<close>

definition rand_law :: "'w env \<Rightarrow> bool" where
  "rand_law E \<longleftrightarrow> (\<forall>n w bs w'. RandRead E n w = (Inr bs, w') \<longrightarrow> length bs = n)"

subsection \<open>API writes, and what a pass may send\<close>

datatype kobj =
  KWordPress WordPress
| KSecret Secret
| KService Service
| KStatefulSet StatefulSet
| KPVC PersistentVolumeClaim
| KDeployment Deployment
| KIngress Ingress
| KHPA HorizontalPodAutoscaler

datatype call = Created kobj | Updated kobj | Deleted kobj | StatusUpdated WordPress

text \<open>\<open>keeps P f\<close>: the world property \<open>P\<close> survives the effect \<open>f\<close>. \<open>admits P ok E\<close>:
  it survives every read and every local effect, and every write that \<open>ok\<close> allows.\<close>

definition keeps :: "('w \<Rightarrow> bool) \<Rightarrow> ('w \<Rightarrow> 'r \<times> 'w) \<Rightarrow> bool" where
  "keeps P f \<longleftrightarrow> (\<forall>w. P w \<longrightarrow> P (snd (f w)))"

definition store_admits ::
    "('w \<Rightarrow> bool) \<Rightarrow> (call \<Rightarrow> bool) \<Rightarrow> ('o \<Rightarrow> kobj) \<Rightarrow> ('o, 'w) store \<Rightarrow> bool" where
  "store_admits P ok wrap S \<longleftrightarrow>
     (\<forall>k. keeps P (Get S k))
     \<and> (\<forall>ob. ok (Created (wrap ob)) \<longrightarrow> keeps P (Create S ob))
     \<and> (\<forall>ob. ok (Updated (wrap ob)) \<longrightarrow> keeps P (Update S ob))
     \<and> (\<forall>ob. ok (Deleted (wrap ob)) \<longrightarrow> keeps P (Delete S ob))"

definition admits :: "('w \<Rightarrow> bool) \<Rightarrow> (call \<Rightarrow> bool) \<Rightarrow> 'w env \<Rightarrow> bool" where
  "admits P ok E \<longleftrightarrow>
     store_admits P ok KWordPress (wordpresses E)
     \<and> (\<forall>ob. ok (StatusUpdated ob) \<longrightarrow> keeps P (StatusUpdate E ob))
     \<and> store_admits P ok KSecret (secrets E)
     \<and> store_admits P ok KService (services E)
     \<and> store_admits P ok KStatefulSet (statefulsets E)
     \<and> store_admits P ok KPVC (pvcs E)
     \<and> store_admits P ok KDeployment (deployments E)
     \<and> store_admits P ok KIngress (ingresses E)
     \<and> store_admits P ok KHPA (hpas E)
     \<and> (\<forall>sink ob t r m w. Recorder E = Some sink \<longrightarrow> P w \<longrightarrow> P (sink ob t r m w))
     \<and> (\<forall>n. keeps P (RandRead E n))
     \<and> (\<forall>cs c. keeps P (SetStatusCondition E cs c))
     \<and> (\<forall>w. P w \<longrightarrow> P (Backoff E w))"

text \<open>The same for the writes recorded by a ghost log of the world.\<close>

definition store_logs ::
    "('w \<Rightarrow> call list) \<Rightarrow> ('o \<Rightarrow> kobj) \<Rightarrow> ('o, 'w) store \<Rightarrow> bool" where
  "store_logs tr wrap S \<longleftrightarrow>
     (\<forall>k w. tr (snd (Get S k w)) = tr w)
     \<and> (\<forall>ob w. tr (snd (Create S ob w)) = tr w @ [Created (wrap ob)])
     \<and> (\<forall>ob w. tr (snd (Update S ob w)) = tr w @ [Updated (wrap ob)])
     \<and> (\<forall>ob w. tr (snd (Delete S ob w)) = tr w @ [Deleted (wrap ob)])"

definition logs :: "('w \<Rightarrow> call list) \<Rightarrow> 'w env \<Rightarrow> bool" where
  "logs tr E \<longleftrightarrow>
     store_logs tr KWordPress (wordpresses E)
     \<and> (\<forall>ob w. tr (snd (StatusUpdate E ob w)) = tr w @ [StatusUpdated ob])
     \<and> store_logs tr KSecret (secrets E)
     \<and> store_logs tr KService (services E)
     \<and> store_logs tr KStatefulSet (statefulsets E)
     \<and> store_logs tr KPVC (pvcs E)
     \<and> store_logs tr KDeployment (deployments E)
     \<and> store_logs tr KIngress (ingresses E)
     \<and> store_logs tr KHPA (hpas E)
     \<and> (\<forall>sink ob t r m w. Recorder E = Some sink \<longrightarrow> tr (sink ob t r m w) = tr w)
     \<and> (\<forall>n w. tr (snd (RandRead E n w)) = tr w)
     \<and> (\<forall>cs c w. tr (snd (SetStatusCondition E cs c w)) = tr w)
     \<and> (\<forall>w. tr (Backoff E w) = tr w)"

definition sent :: "('w \<Rightarrow> call list) \<Rightarrow> call list \<Rightarrow> (call \<Rightarrow> bool) \<Rightarrow> 'w \<Rightarrow> bool" where
  "sent tr l0 ok w \<longleftrightarrow> (\<exists>cs. tr w = l0 @ cs \<and> list_all ok cs)"

end
