(* ===== verification/Frames.thy ===== *)
theory Frames
  imports Environment
begin

section \<open>Frame rules\<close>

text \<open>
  What the primitive effects leave alone: the lemmas the component theories combine into
  "this operation sends only permitted writes" and "this operation keeps the object's
  metadata and spec". \<open>logs_admits\<close> turns a frame theorem into a statement about the log
  of API writes.
\<close>

subsection \<open>Effects on the world\<close>

lemma keepsD: "keeps P f \<Longrightarrow> f w = (r, w') \<Longrightarrow> P w \<Longrightarrow> P w'"
  unfolding keeps_def by (metis snd_conv)

lemma keepsI: "(\<And>w r w'. P w \<Longrightarrow> f w = (r, w') \<Longrightarrow> P w') \<Longrightarrow> keeps P f"
  unfolding keeps_def by (metis prod.collapse)

lemma store_admitsD:
  assumes "store_admits P ok wrap S"
  shows "keeps P (Get S k)"
    and "ok (Created (wrap ob)) \<Longrightarrow> keeps P (Create S ob)"
    and "ok (Updated (wrap ob)) \<Longrightarrow> keeps P (Update S ob)"
    and "ok (Deleted (wrap ob)) \<Longrightarrow> keeps P (Delete S ob)"
  using assms unfolding store_admits_def by blast+

lemma admitsD:
  assumes "admits P ok E"
  shows "store_admits P ok KWordPress (wordpresses E)"
    and "store_admits P ok KSecret (secrets E)"
    and "store_admits P ok KService (services E)"
    and "store_admits P ok KStatefulSet (statefulsets E)"
    and "store_admits P ok KPVC (pvcs E)"
    and "store_admits P ok KDeployment (deployments E)"
    and "store_admits P ok KIngress (ingresses E)"
    and "store_admits P ok KHPA (hpas E)"
    and "ok (StatusUpdated wp) \<Longrightarrow> keeps P (StatusUpdate E wp)"
    and "keeps P (RandRead E n)"
    and "keeps P (SetStatusCondition E cs c)"
    and "P w \<Longrightarrow> P (Backoff E w)"
    and "Recorder E = Some sink \<Longrightarrow> P w \<Longrightarrow> P (sink wp t r m w)"
  using assms unfolding admits_def by blast+

lemmas read_keeps =
  admitsD(1) [THEN store_admitsD(1)] admitsD(2) [THEN store_admitsD(1)]
  admitsD(3) [THEN store_admitsD(1)] admitsD(4) [THEN store_admitsD(1)]
  admitsD(5) [THEN store_admitsD(1)] admitsD(6) [THEN store_admitsD(1)]
  admitsD(7) [THEN store_admitsD(1)] admitsD(8) [THEN store_admitsD(1)]

lemma retryN_keeps:
  assumes E: "admits P ok E" and fn: "keeps P fn"
  shows "keeps P (retryN E n fn)"
proof (induction n)
  case 0
  with fn show ?case by (simp add: keeps_def)
next
  case (Suc n)
  show ?case
  proof (rule keepsI)
    fix w r w'
    assume w: "P w" and run: "retryN E (Suc n) fn w = (r, w')"
    obtain r1 w1 where step: "fn w = (r1, w1)" by fastforce
    with fn w have w1: "P w1" by (auto dest: keepsD)
    then have "P (Backoff E w1)" by (rule admitsD(12) [OF E])
    with Suc w1 run step show "P w'"
      by (auto split: option.splits if_splits dest: keepsD)
  qed
qed

lemma RetryOnConflict_keeps:
  assumes "admits P ok E" and "retry_law E" and "keeps P fn"
  shows "keeps P (RetryOnConflict E fn)"
  using assms retryN_keeps [OF assms(1,3)] unfolding retry_law_def keeps_def by metis

subsection \<open>Effects on the pass state\<close>

lemma api_frame:
  assumes "api f st = (r, st')"
  shows "cr st' = cr st" and "f (world st) = (r, world st')"
  using assms by (auto simp: api_def split: prod.splits)

lemma api_keeps: "keeps P f \<Longrightarrow> api f st = (r, st') \<Longrightarrow> P (world st) \<Longrightarrow> P (world st')"
  by (auto dest: api_frame(2) keepsD)

lemma setCond_frame [frame_simps]:
  "metaOf (cr (setCond E c st)) = metaOf (cr st)"
  "Spec (cr (setCond E c st)) = Spec (cr st)"
  by (auto simp: setCond_def metaOf_def object.defs split: prod.splits)

lemma removeCond_frame [frame_simps]:
  "metaOf (cr (removeCond E t st)) = metaOf (cr st)"
  "Spec (cr (removeCond E t st)) = Spec (cr st)"
  "world (removeCond E t st) = world st"
  by (auto simp: removeCond_def metaOf_def object.defs)

lemma event_frame [frame_simps]: "cr (event E t r m st) = cr st"
  by (simp add: event_def split: option.splits)

lemma setCond_keeps [keeps_intros]:
  assumes "admits P ok E" and "P (world st)"
  shows "P (world (setCond E c st))"
  using assms admitsD(11) [OF assms(1)] unfolding keeps_def
  by (auto simp: setCond_def split: prod.splits) (metis snd_conv)

lemma event_keeps [keeps_intros]:
  assumes "admits P ok E" and "P (world st)"
  shows "P (world (event E t r m st))"
  using assms admitsD(13) [OF assms(1)] by (auto simp: event_def split: option.splits)

lemma meta_eqD:
  assumes "metaOf a = metaOf b"
  shows "Name a = Name b" "Namespace a = Namespace b" "UID a = UID b"
  using assms by (metis meta_fields)+

subsection \<open>Conditions\<close>

lemma condView_setCond:
  assumes "condition_laws E"
  shows "condView (wst_Conditions (Status (cr (setCond E c st)))) t =
    (if t = co_Type c then Some (co_Status c, co_Reason c, co_Message c)
     else condView (wst_Conditions (Status (cr st))) t)"
proof -
  obtain cs w where set: "SetStatusCondition E (wst_Conditions (Status (cr st))) c (world st) = (cs, w)"
    by fastforce
  with assms have "condView cs t =
    (if t = co_Type c then Some (co_Status c, co_Reason c, co_Message c)
     else condView (wst_Conditions (Status (cr st))) t)"
    unfolding condition_laws_def by (metis fst_conv)
  with set show ?thesis by (simp add: setCond_def)
qed

lemma condView_removeCond:
  assumes "condition_laws E"
  shows "condView (wst_Conditions (Status (cr (removeCond E t st)))) t' =
    (if t' = t then None else condView (wst_Conditions (Status (cr st))) t')"
  using assms by (simp add: condition_laws_def removeCond_def)

lemma IsStatusConditionTrue_view:
  "condition_laws E \<Longrightarrow> IsStatusConditionTrue E cs t \<longleftrightarrow>
     (\<exists>r m. condView cs t = Some (ConditionTrue, r, m))"
  by (auto simp: condition_laws_def split: option.splits)

lemma setCond_status_fields [frame_simps]:
  "wst_Phase (Status (cr (setCond E c st))) = wst_Phase (Status (cr st))"
  "wst_DatabaseHost (Status (cr (setCond E c st))) = wst_DatabaseHost (Status (cr st))"
  "wst_Replicas (Status (cr (setCond E c st))) = wst_Replicas (Status (cr st))"
  "wst_ReadyReplicas (Status (cr (setCond E c st))) = wst_ReadyReplicas (Status (cr st))"
  "wst_ObservedGeneration (Status (cr (setCond E c st))) = wst_ObservedGeneration (Status (cr st))"
  "wst_URL (Status (cr (setCond E c st))) = wst_URL (Status (cr st))"
  by (auto simp: setCond_def split: prod.splits)

subsection \<open>From invariants to logs\<close>

lemma store_logs_admits:
  assumes "store_logs tr wrap S"
  shows "store_admits (sent tr l0 ok) ok wrap S"
  using assms by (fastforce simp: store_logs_def store_admits_def keeps_def sent_def)

lemma logs_admits:
  assumes "logs tr E"
  shows "admits (sent tr l0 ok) ok E"
  using assms unfolding logs_def admits_def
  by (intro conjI; (elim conjE)?)
    (fastforce simp: sent_def keeps_def intro: store_logs_admits)+

lemma sentI: "sent tr (tr w) ok w"
  by (simp add: sent_def)

end
