(* ===== verification/Credentials.thy ===== *)
theory Credentials
  imports Names Frames
begin

section \<open>Generated credentials (database.go, lines 33 to 79)\<close>

text \<open>
  The random passwords and the Secret that holds them. \<^verbatim>\<open>base64.RawURLEncoding\<close> of the
  standard library is modelled byte by byte: groups of three bytes become four characters of the
  URL-safe alphabet, a last group of one or two bytes becomes two or three characters, without
  padding. \<open>decode64\<close> reads such a text back, so encoding loses nothing.
\<close>

definition SecretKeyRoot :: string where
  [go_consts]: "SecretKeyRoot = ''mysql-root-password''"

definition SecretKeyWordPressPassword :: string where
  [go_consts]: "SecretKeyWordPressPassword = ''wordpress-password''"

definition SecretKeyWordPressUser :: string where
  [go_consts]: "SecretKeyWordPressUser = ''wordpress-user''"

definition SecretKeyWordPressDB :: string where
  [go_consts]: "SecretKeyWordPressDB = ''wordpress-database''"

definition SecretTypeOpaque :: string where
  [go_consts]: "SecretTypeOpaque = ''Opaque''"

subsection \<open>Base64, URL-safe alphabet, no padding\<close>

definition urlAlphabet :: string where
  "urlAlphabet = ''ABCDEFGHIJKLMNOPQRSTUVWXYZabcdefghijklmnopqrstuvwxyz0123456789-_''"

definition sextet :: "nat \<Rightarrow> char" where
  "sextet n = urlAlphabet ! (n mod 64)"

fun encode64 :: "byte list \<Rightarrow> string" where
  "encode64 (a # b # c # bs) =
     (let n = unat a * 65536 + unat b * 256 + unat c in
      [sextet (n div 262144), sextet (n div 4096), sextet (n div 64), sextet n] @ encode64 bs)"
| "encode64 [a, b] =
     (let n = unat a * 65536 + unat b * 256 in
      [sextet (n div 262144), sextet (n div 4096), sextet (n div 64)])"
| "encode64 [a] = (let n = unat a * 65536 in [sextet (n div 262144), sextet (n div 4096)])"
| "encode64 [] = []"

text \<open>The inverse, for the round trip.\<close>

fun indexOf :: "char \<Rightarrow> string \<Rightarrow> nat" where
  "indexOf c [] = 0"
| "indexOf c (x # xs) = (if c = x then 0 else Suc (indexOf c xs))"

definition unsextet :: "char \<Rightarrow> nat" where
  "unsextet c = indexOf c urlAlphabet"

fun decode64 :: "string \<Rightarrow> byte list" where
  "decode64 (p # q # r # s # cs) =
     (let n = unsextet p * 262144 + unsextet q * 4096 + unsextet r * 64 + unsextet s in
      [of_nat (n div 65536), of_nat (n div 256), of_nat n] @ decode64 cs)"
| "decode64 [p, q, r] =
     (let n = unsextet p * 262144 + unsextet q * 4096 + unsextet r * 64 in
      [of_nat (n div 65536), of_nat (n div 256)])"
| "decode64 [p, q] = (let n = unsextet p * 262144 + unsextet q * 4096 in [of_nat (n div 65536)])"
| "decode64 [p] = []"
| "decode64 [] = []"

lemma length_urlAlphabet: "length urlAlphabet = 64"
  by (simp add: urlAlphabet_def)

lemma distinct_urlAlphabet: "distinct urlAlphabet"
  by (simp add: urlAlphabet_def)

lemma indexOf_nth: "distinct xs \<Longrightarrow> i < length xs \<Longrightarrow> indexOf (xs ! i) xs = i"
  by (induction xs arbitrary: i) (auto simp: nth_Cons' split: if_splits)

lemma unsextet_sextet [simp]: "unsextet (sextet n) = n mod 64"
  by (simp add: unsextet_def sextet_def indexOf_nth distinct_urlAlphabet length_urlAlphabet)

lemma sextet_in_alphabet [simp]: "sextet n \<in> set urlAlphabet"
  by (simp add: sextet_def length_urlAlphabet)

lemma set_encode64: "set (encode64 bs) \<subseteq> set urlAlphabet"
  by (induction bs rule: encode64.induct) (auto simp: Let_def)

lemma length_encode64: "length (encode64 bs) = (4 * length bs + 2) div 3"
  by (induction bs rule: encode64.induct) (auto simp: Let_def)

text \<open>Reassembling a group of sextets.\<close>

lemma sextets_join4:
  fixes n :: nat
  assumes "n < 16777216"
  shows "(n div 262144 mod 64) * 262144 + (n div 4096 mod 64) * 4096 + (n div 64 mod 64) * 64
    + n mod 64 = n"
proof -
  define m1 m2 m3 where m: "m1 = n div 64" "m2 = m1 div 64" "m3 = m2 div 64"
  have parts: "n = m1 * 64 + n mod 64" "m1 = m2 * 64 + m1 mod 64" "m2 = m3 * 64 + m2 mod 64"
    by (simp_all add: m)
  have divs: "n div 4096 = m2" "n div 262144 = m3"
    by (simp_all add: m div_mult2_eq [symmetric])
  have "m3 < 64" using assms by (simp add: divs(2) [symmetric] less_mult_imp_div_less)
  then show ?thesis using parts unfolding divs m(1) [symmetric] by simp
qed

lemma sextets_join3:
  fixes n :: nat
  assumes "n < 16777216" and "n mod 64 = 0"
  shows "(n div 262144 mod 64) * 262144 + (n div 4096 mod 64) * 4096 + (n div 64 mod 64) * 64 = n"
  by (rule sextets_join4 [OF assms(1), unfolded assms(2) add_0_right])

lemma sextets_join2:
  fixes n :: nat
  assumes "n < 16777216" and "n mod 64 = 0" and "n div 64 mod 64 = 0"
  shows "(n div 262144 mod 64) * 262144 + (n div 4096 mod 64) * 4096 = n"
  by (rule sextets_join4 [OF assms(1), unfolded assms(2,3) mult_0 add_0_right])

lemma byte_less: "unat (a::byte) < 256"
  using unsigned_less [where ?'a = nat and w = a] by simp

lemma byte_group_bound:
  fixes a b c :: byte
  shows "unat a * 65536 + unat b * 256 + unat c < 16777216"
  using byte_less [of a] byte_less [of b] byte_less [of c] by simp

lemma of_nat_byte: "(of_nat (unat (a::byte) + 256 * k) :: byte) = a"
proof -
  have "(256 :: byte) = 0" by simp
  then show ?thesis by (simp only: of_nat_add of_nat_mult of_nat_numeral mult_zero_left) simp
qed

lemma byte_group_parts:
  fixes a b c :: byte
  shows "of_nat ((unat a * 65536 + unat b * 256 + unat c) div 65536) = a"
    and "of_nat ((unat a * 65536 + unat b * 256 + unat c) div 256) = b"
    and "of_nat (unat a * 65536 + unat b * 256 + unat c) = c"
proof -
  have bounds: "unat a < 256" "unat b < 256" "unat c < 256"
    by (rule byte_less)+
  let ?n = "unat a * 65536 + unat b * 256 + unat c"
  have "?n div 65536 = unat a" using bounds by simp
  then show "of_nat (?n div 65536) = a" using of_nat_byte [of a 0] by simp
  have "?n div 256 = unat b + 256 * unat a" using bounds by simp
  then show "of_nat (?n div 256) = b" by (simp only: of_nat_byte)
  have "?n = unat c + 256 * (unat a * 256 + unat b)" by simp
  then show "of_nat ?n = c" by (simp only: of_nat_byte)
qed

lemma decode64_encode64: "decode64 (encode64 bs) = bs"
proof (induction bs rule: encode64.induct)
  case (1 a b c bs)
  with byte_group_bound [of a b c] show ?case
    by (simp only: encode64.simps decode64.simps Let_def append.simps unsextet_sextet
        sextets_join4 byte_group_parts)
next
  case (2 a b)
  let ?n = "unat a * 65536 + unat b * 256"
  have "?n < 16777216" and "?n mod 64 = 0"
    using byte_group_bound [of a b 0] by simp presburger
  then show ?case using byte_group_parts(1,2) [of a b 0]
    by (simp only: encode64.simps decode64.simps Let_def unsextet_sextet sextets_join3
        unat_0 add_0_right)
next
  case (3 a)
  let ?n = "unat a * 65536"
  have "?n < 16777216" and "?n mod 64 = 0" and "?n div 64 mod 64 = 0"
    using byte_group_bound [of a 0 0] by simp_all
  then show ?case using byte_group_parts(1) [of a 0 0]
    by (simp only: encode64.simps decode64.simps Let_def unsextet_sextet sextets_join2
        unat_0 mult_0 add_0_right)
next
  case 4
  show ?case by simp
qed

subsection \<open>Passwords and the Secret\<close>

definition generatePassword :: "'w env \<Rightarrow> 'w \<Rightarrow> (gerror + string) \<times> 'w" where
  "generatePassword E w =
     (case RandRead E 24 w of
        (Inl err, w) \<Rightarrow> (Inl err, w)
      | (Inr b, w) \<Rightarrow> (Inr (encode64 b), w))"

definition buildMySQLSecret :: "'w env \<Rightarrow> WordPress \<Rightarrow> 'w \<Rightarrow> (gerror + Secret) \<times> 'w" where
  "buildMySQLSecret E wp w =
     (case generatePassword E w of
        (Inl err, w) \<Rightarrow> (Inl (Wrapf ''generate root password: '' err), w)
      | (Inr rootPwd, w) \<Rightarrow>
          (case generatePassword E w of
             (Inl err, w) \<Rightarrow> (Inl (Wrapf ''generate wordpress password: '' err), w)
           | (Inr wpPwd, w) \<Rightarrow>
               (Inr (object.extend
                  (newMeta (dbSecretName wp) (Namespace wp) (commonLabels wp ComponentMySQL) None)
                  (Secret.fields
                    (mapLit [(SecretKeyRoot, rootPwd),
                             (SecretKeyWordPressPassword, wpPwd),
                             (SecretKeyWordPressUser, db_User (Database (Spec wp))),
                             (SecretKeyWordPressDB, db_Name (Database (Spec wp)))])
                    SecretTypeOpaque [])), w)))"

lemma secret_keys_distinct [simp]:
  "SecretKeyRoot \<noteq> SecretKeyWordPressPassword" "SecretKeyWordPressPassword \<noteq> SecretKeyRoot"
  "SecretKeyRoot \<noteq> SecretKeyWordPressUser" "SecretKeyRoot \<noteq> SecretKeyWordPressDB"
  "SecretKeyWordPressPassword \<noteq> SecretKeyWordPressUser"
  "SecretKeyWordPressPassword \<noteq> SecretKeyWordPressDB"
  "SecretKeyWordPressUser \<noteq> SecretKeyWordPressDB"
  by (simp_all add: go_consts)

lemma generatePassword_keeps: "admits P ok E \<Longrightarrow> keeps P (generatePassword E)"
  by (rule keepsI)
    (auto simp: generatePassword_def split: prod.splits sum.splits
      dest: keepsD [OF admitsD(10)])

lemma buildMySQLSecret_keeps:
  assumes E: "admits P ok E"
  shows "keeps P (buildMySQLSecret E wp)"
  using keepsD [OF generatePassword_keeps [OF E]]
  by (intro keepsI) (auto simp: buildMySQLSecret_def split: prod.splits sum.splits)

lemma buildMySQLSecret_Inr:
  assumes "buildMySQLSecret E wp w = (Inr s, w')"
  obtains rootPwd wpPwd w1 where
    "generatePassword E w = (Inr rootPwd, w1)" "generatePassword E w1 = (Inr wpPwd, w')"
    "ObjectKeyFromObject s = (Namespace wp, dbSecretName wp)"
    "Labels s = commonLabels wp ComponentMySQL" "SecretType s = SecretTypeOpaque"
    "StringData s = mapLit [(SecretKeyRoot, rootPwd), (SecretKeyWordPressPassword, wpPwd),
       (SecretKeyWordPressUser, db_User (Database (Spec wp))),
       (SecretKeyWordPressDB, db_Name (Database (Spec wp)))]"
  using assms
  by (auto simp: buildMySQLSecret_def ObjectKeyFromObject_def newMeta_def object.defs Secret.defs
      split: prod.splits sum.splits)

end
