(* ===== verification/Defaults.thy ===== *)
theory Defaults
  imports WordPressTypes
begin

section \<open>In-memory defaults (internal/controller/defaults.go)\<close>

text \<open>
  \<^verbatim>\<open>applyDefaults\<close>, one definition per paragraph of the Go function, composed in its order.
  The lemmas show what a defaulted spec satisfies (\<open>defaulted\<close>), that defaulting twice is
  defaulting once, and that explicit values survive.
\<close>

definition PullIfNotPresent :: string where
  [go_consts]: "PullIfNotPresent = ''IfNotPresent''"

definition ServiceTypeClusterIP :: string where
  [go_consts]: "ServiceTypeClusterIP = ''ClusterIP''"

definition ReadWriteOnce :: string where
  [go_consts]: "ReadWriteOnce = ''ReadWriteOnce''"

text \<open>The zero value \<^verbatim>\<open>InternalDatabaseSpec{}\<close>.\<close>

definition zeroInternalDatabaseSpec :: InternalDatabaseSpec where
  "zeroInternalDatabaseSpec =
     \<lparr>int_Image = [], int_ImagePullPolicy = [], int_StorageSize = [], int_StorageClassName = None,
      int_Resources = [], int_RootPasswordSecret = None, int_NodeSelector = None,
      int_Tolerations = None, int_Affinity = None\<rparr>"

text \<open>\<^verbatim>\<open>if x == zero { x = d }\<close> on a field.\<close>

definition orElse :: "'a \<Rightarrow> 'a \<Rightarrow> 'a \<Rightarrow> 'a" where
  "orElse zero d x = (if x = zero then d else x)"

definition defaultWorkload :: "WordPressSpec \<Rightarrow> WordPressSpec" where
  "defaultWorkload s =
     s\<lparr>Image := orElse [] ''wordpress:6.5-apache'' (Image s),
       ImagePullPolicy := orElse [] PullIfNotPresent (ImagePullPolicy s),
       Replicas := (case Replicas s of None \<Rightarrow> Some 1 | Some n \<Rightarrow> Some n)\<rparr>"

definition defaultService :: "ServiceSpec \<Rightarrow> ServiceSpec" where
  "defaultService v =
     v\<lparr>svs_Type := orElse [] ServiceTypeClusterIP (svs_Type v),
       svs_Port := orElse 0 80 (svs_Port v)\<rparr>"

definition defaultPersistence :: "PersistenceSpec \<Rightarrow> PersistenceSpec" where
  "defaultPersistence p =
     p\<lparr>per_Size := orElse [] ''5Gi'' (per_Size p),
       per_AccessModes :=
         (if length (per_AccessModes p) = 0 then [ReadWriteOnce] else per_AccessModes p)\<rparr>"

definition defaultInternal :: "InternalDatabaseSpec option \<Rightarrow> InternalDatabaseSpec" where
  "defaultInternal i =
     (let d = (case i of None \<Rightarrow> zeroInternalDatabaseSpec | Some d \<Rightarrow> d) in
      d\<lparr>int_Image := orElse [] ''mysql:8.0'' (int_Image d),
        int_ImagePullPolicy := orElse [] PullIfNotPresent (int_ImagePullPolicy d),
        int_StorageSize := orElse [] ''5Gi'' (int_StorageSize d)\<rparr>)"

definition defaultExternal :: "ExternalDatabaseSpec \<Rightarrow> ExternalDatabaseSpec" where
  "defaultExternal x = x\<lparr>ext_Port := orElse 0 3306 (ext_Port x)\<rparr>"

definition defaultDatabase :: "DatabaseSpec \<Rightarrow> DatabaseSpec" where
  "defaultDatabase d =
     (let d = d\<lparr>Mode := orElse [] DatabaseModeInternal (Mode d),
                db_Name := orElse [] ''wordpress'' (db_Name d),
                db_User := orElse [] ''wordpress'' (db_User d),
                TablePrefix := orElse [] ''wp_'' (TablePrefix d)\<rparr>;
          d = (if Mode d = DatabaseModeInternal
               then d\<lparr>Internal := Some (defaultInternal (Internal d))\<rparr> else d)
      in (if Mode d = DatabaseModeExternal
          then d\<lparr>External := map_option defaultExternal (External d)\<rparr> else d))"

definition defaultAutoscaling :: "AutoscalingSpec \<Rightarrow> AutoscalingSpec" where
  "defaultAutoscaling a =
     (if as_Enabled a
      then a\<lparr>as_MinReplicas := orElse 0 1 (as_MinReplicas a),
             as_MaxReplicas := orElse 0 5 (as_MaxReplicas a),
             as_TargetCPUUtilizationPercentage :=
               orElse 0 80 (as_TargetCPUUtilizationPercentage a)\<rparr>
      else a)"

definition defaultSpec :: "WordPressSpec \<Rightarrow> WordPressSpec" where
  "defaultSpec s =
     (let s = defaultWorkload s;
          s = s\<lparr>ServiceS := defaultService (ServiceS s)\<rparr>;
          s = s\<lparr>Persistence := defaultPersistence (Persistence s)\<rparr>;
          s = s\<lparr>Database := defaultDatabase (Database s)\<rparr>
      in s\<lparr>Autoscaling := defaultAutoscaling (Autoscaling s)\<rparr>)"

definition applyDefaults :: "WordPress \<Rightarrow> WordPress" where
  "applyDefaults wp = wp\<lparr>Spec := defaultSpec (Spec wp)\<rparr>"

subsection \<open>What a defaulted spec satisfies\<close>

definition defaultedDatabase :: "DatabaseSpec \<Rightarrow> bool" where
  "defaultedDatabase d \<longleftrightarrow>
     Mode d \<noteq> [] \<and> db_Name d \<noteq> [] \<and> db_User d \<noteq> [] \<and> TablePrefix d \<noteq> []
     \<and> (Mode d = DatabaseModeInternal \<longrightarrow>
          (case Internal d of
             None \<Rightarrow> False
           | Some i \<Rightarrow> int_Image i \<noteq> [] \<and> int_ImagePullPolicy i \<noteq> [] \<and> int_StorageSize i \<noteq> []))
     \<and> (Mode d = DatabaseModeExternal \<longrightarrow>
          (case External d of None \<Rightarrow> True | Some x \<Rightarrow> ext_Port x \<noteq> 0))"

definition defaulted :: "WordPressSpec \<Rightarrow> bool" where
  "defaulted s \<longleftrightarrow>
     Image s \<noteq> [] \<and> ImagePullPolicy s \<noteq> [] \<and> Replicas s \<noteq> None
     \<and> svs_Type (ServiceS s) \<noteq> [] \<and> svs_Port (ServiceS s) \<noteq> 0
     \<and> per_Size (Persistence s) \<noteq> [] \<and> per_AccessModes (Persistence s) \<noteq> []
     \<and> defaultedDatabase (Database s)
     \<and> (as_Enabled (Autoscaling s) \<longrightarrow>
          as_MinReplicas (Autoscaling s) \<noteq> 0 \<and> as_MaxReplicas (Autoscaling s) \<noteq> 0
          \<and> as_TargetCPUUtilizationPercentage (Autoscaling s) \<noteq> 0)"

lemma orElse_neq_zero [simp]: "d \<noteq> zero \<Longrightarrow> orElse zero d x \<noteq> zero"
  by (simp add: orElse_def)

lemma orElse_fix [simp]: "x \<noteq> zero \<Longrightarrow> orElse zero d x = x"
  by (simp add: orElse_def)

lemma default_consts_nonempty [simp]:
  "PullIfNotPresent \<noteq> []" "ServiceTypeClusterIP \<noteq> []"
  by (simp_all add: go_consts)

lemma defaultDatabase_defaulted: "defaultedDatabase (defaultDatabase d)"
  by (auto simp: defaultedDatabase_def defaultDatabase_def defaultInternal_def defaultExternal_def
      Let_def split: option.splits)

lemma defaultSpec_defaulted: "defaulted (defaultSpec s)"
  using defaultDatabase_defaulted
  by (auto simp: defaulted_def defaultSpec_def defaultWorkload_def defaultService_def
      defaultPersistence_def defaultAutoscaling_def Let_def split: option.splits)

text \<open>A defaulted spec is a fixed point.\<close>

lemma defaultInternal_fix:
  "int_Image i \<noteq> [] \<Longrightarrow> int_ImagePullPolicy i \<noteq> [] \<Longrightarrow> int_StorageSize i \<noteq> [] \<Longrightarrow>
     defaultInternal (Some i) = i"
  by (simp add: defaultInternal_def)

lemma defaultExternal_fix: "ext_Port x \<noteq> 0 \<Longrightarrow> defaultExternal x = x"
  by (simp add: defaultExternal_def)

lemma defaultDatabase_fix: "defaultedDatabase d \<Longrightarrow> defaultDatabase d = d"
  by (cases "Internal d"; cases "External d")
    (auto simp: defaultedDatabase_def defaultDatabase_def Let_def defaultInternal_fix
      defaultExternal_fix)

lemma defaultSpec_fix: "defaulted s \<Longrightarrow> defaultSpec s = s"
  by (auto simp: defaulted_def defaultSpec_def defaultWorkload_def defaultService_def
      defaultPersistence_def defaultAutoscaling_def Let_def defaultDatabase_fix split: option.splits)

lemma applyDefaults_frame [frame_simps]:
  "metaOf (applyDefaults wp) = metaOf wp" "Status (applyDefaults wp) = Status wp"
  "Name (applyDefaults wp) = Name wp" "Namespace (applyDefaults wp) = Namespace wp"
  by (simp_all add: applyDefaults_def metaOf_def object.defs)

lemma Spec_applyDefaults: "Spec (applyDefaults wp) = defaultSpec (Spec wp)"
  by (simp add: applyDefaults_def)

text \<open>Applying the defaults twice is applying them once: the pass may default an object
  that already carries defaults (from the CRD schema or an earlier pass) without changing it.\<close>

lemma applyDefaults_idem: "applyDefaults (applyDefaults wp) = applyDefaults wp"
  by (simp add: applyDefaults_def defaultSpec_fix [OF defaultSpec_defaulted])

text \<open>Every field with a default keeps its value unless it was the zero value, and every other
  field is the same.\<close>

definition keptUnless :: "'a \<Rightarrow> 'a \<Rightarrow> 'a \<Rightarrow> bool" where
  "keptUnless zero x x' \<longleftrightarrow> x' = x \<or> x = zero"

definition fillsDatabase :: "DatabaseSpec \<Rightarrow> DatabaseSpec \<Rightarrow> bool" where
  "fillsDatabase d d' \<longleftrightarrow>
     keptUnless [] (Mode d) (Mode d') \<and> keptUnless [] (db_Name d) (db_Name d')
     \<and> keptUnless [] (db_User d) (db_User d') \<and> keptUnless [] (TablePrefix d) (TablePrefix d')
     \<and> (case (Internal d, Internal d') of
          (Some i, Some i') \<Rightarrow>
            keptUnless [] (int_Image i) (int_Image i')
            \<and> keptUnless [] (int_ImagePullPolicy i) (int_ImagePullPolicy i')
            \<and> keptUnless [] (int_StorageSize i) (int_StorageSize i')
            \<and> i'\<lparr>int_Image := int_Image i, int_ImagePullPolicy := int_ImagePullPolicy i,
                 int_StorageSize := int_StorageSize i\<rparr> = i
        | (None, _) \<Rightarrow> True
        | _ \<Rightarrow> False)
     \<and> (case (External d, External d') of
          (Some x, Some x') \<Rightarrow> keptUnless 0 (ext_Port x) (ext_Port x') \<and> x'\<lparr>ext_Port := ext_Port x\<rparr> = x
        | (None, None) \<Rightarrow> True
        | _ \<Rightarrow> False)"

definition fills :: "WordPressSpec \<Rightarrow> WordPressSpec \<Rightarrow> bool" where
  "fills s s' \<longleftrightarrow>
     keptUnless [] (Image s) (Image s') \<and> keptUnless [] (ImagePullPolicy s) (ImagePullPolicy s')
     \<and> keptUnless None (Replicas s) (Replicas s')
     \<and> keptUnless [] (svs_Type (ServiceS s)) (svs_Type (ServiceS s'))
     \<and> keptUnless 0 (svs_Port (ServiceS s)) (svs_Port (ServiceS s'))
     \<and> keptUnless [] (per_Size (Persistence s)) (per_Size (Persistence s'))
     \<and> keptUnless [] (per_AccessModes (Persistence s)) (per_AccessModes (Persistence s'))
     \<and> fillsDatabase (Database s) (Database s')
     \<and> keptUnless 0 (as_MinReplicas (Autoscaling s)) (as_MinReplicas (Autoscaling s'))
     \<and> keptUnless 0 (as_MaxReplicas (Autoscaling s)) (as_MaxReplicas (Autoscaling s'))
     \<and> keptUnless 0 (as_TargetCPUUtilizationPercentage (Autoscaling s))
         (as_TargetCPUUtilizationPercentage (Autoscaling s'))
     \<and> s'\<lparr>Image := Image s, ImagePullPolicy := ImagePullPolicy s, Replicas := Replicas s,
          ServiceS := (ServiceS s')\<lparr>svs_Type := svs_Type (ServiceS s), svs_Port := svs_Port (ServiceS s)\<rparr>,
          Persistence := (Persistence s')\<lparr>per_Size := per_Size (Persistence s),
            per_AccessModes := per_AccessModes (Persistence s)\<rparr>,
          Database := Database s,
          Autoscaling := (Autoscaling s')\<lparr>as_MinReplicas := as_MinReplicas (Autoscaling s),
            as_MaxReplicas := as_MaxReplicas (Autoscaling s),
            as_TargetCPUUtilizationPercentage := as_TargetCPUUtilizationPercentage (Autoscaling s)\<rparr>\<rparr> = s"

lemma keptUnless_orElse [simp]: "keptUnless zero x (orElse zero d x)" "keptUnless zero x x"
  by (simp_all add: keptUnless_def orElse_def)

lemma defaultDatabase_fills: "fillsDatabase d (defaultDatabase d)"
  by (cases "Internal d"; cases "External d"; cases "Mode d = []")
    (simp_all add: fillsDatabase_def defaultDatabase_def defaultInternal_def defaultExternal_def
      Let_def orElse_def keptUnless_def)

lemma defaultSpec_fills: "fills s (defaultSpec s)"
  using defaultDatabase_fills [of "Database s"]
  by (cases "as_Enabled (Autoscaling s)"; cases "Replicas s")
    (simp_all add: fills_def defaultSpec_def defaultWorkload_def defaultService_def
      defaultPersistence_def defaultAutoscaling_def Let_def keptUnless_def orElse_def)

text \<open>C24. The defaults are complete and only fill gaps: after them every field the pass relies on is
  set, an explicit value is never replaced, fields without a default, the metadata and the status
  are the same, and an object is left as it is exactly when it carries all its defaults.\<close>

theorem applyDefaults_fills_gaps:
  "defaulted (Spec (applyDefaults wp)) \<and> fills (Spec wp) (Spec (applyDefaults wp))
   \<and> metaOf (applyDefaults wp) = metaOf wp \<and> Status (applyDefaults wp) = Status wp
   \<and> (applyDefaults wp = wp \<longleftrightarrow> defaulted (Spec wp))"
proof -
  have "applyDefaults wp = wp" if "defaulted (Spec wp)"
    using defaultSpec_fix [OF that] by (simp add: applyDefaults_def)
  moreover have "defaulted (Spec wp)" if "applyDefaults wp = wp"
    using defaultSpec_defaulted [of "Spec wp"] arg_cong [OF that, of Spec]
    by (simp add: Spec_applyDefaults)
  ultimately have "applyDefaults wp = wp \<longleftrightarrow> defaulted (Spec wp)" by blast
  then show ?thesis
    by (simp add: Spec_applyDefaults applyDefaults_frame defaultSpec_defaulted defaultSpec_fills)
qed

end
