(* ===== verification/MySQL.thy ===== *)
theory MySQL
  imports Credentials Defaults
begin

section \<open>The operator-managed MySQL (database.go, lines 81 to 230)\<close>

text \<open>
  The builders of the headless Service and the StatefulSet, and the database address given to
  WordPress. \<^verbatim>\<open>buildMySQLStatefulSet\<close> and \<^verbatim>\<open>resolvedDBHost\<close> dereference the
  configuration of the selected mode: \<open>None\<close> is the nil-pointer panic.
\<close>

definition ClusterIPNone :: string where
  [go_consts]: "ClusterIPNone = ''None''"

definition ServiceAffinityNone :: string where
  [go_consts]: "ServiceAffinityNone = ''None''"

definition ProtocolTCP :: string where
  [go_consts]: "ProtocolTCP = ''TCP''"

definition ResourceStorage :: string where
  [go_consts]: "ResourceStorage = ''storage''"

text \<open>\<^verbatim>\<open>EnvVar{Name, Value}\<close>, and one whose value comes from a key of a Secret.\<close>

definition envValue :: "string \<Rightarrow> string \<Rightarrow> EnvVar" where
  "envValue n v = \<lparr>ev_Name = n, ev_Value = v, ev_ValueFrom = None\<rparr>"

definition fromSecret :: "string \<Rightarrow> string \<Rightarrow> EnvVarSource" where
  "fromSecret secret key =
     \<lparr>evs_SecretKeyRef = Some \<lparr>sks_Name = secret, sks_Key = key, sks_rest = []\<rparr>, evs_rest = []\<rparr>"

definition envSecret :: "string \<Rightarrow> string \<Rightarrow> string \<Rightarrow> EnvVar" where
  "envSecret n secret key =
     \<lparr>ev_Name = n, ev_Value = [], ev_ValueFrom = Some (fromSecret secret key)\<rparr>"

definition newProbe :: "ProbeHandler \<Rightarrow> int32 \<Rightarrow> int32 \<Rightarrow> int32 \<Rightarrow> int32 \<Rightarrow> Probe" where
  "newProbe h delay period timeout failures =
     \<lparr>pr_Handler = h, pr_InitialDelaySeconds = delay, pr_PeriodSeconds = period,
      pr_TimeoutSeconds = timeout, pr_FailureThreshold = failures, pr_rest = []\<rparr>"

definition buildMySQLHeadlessService :: "WordPress \<Rightarrow> Service" where
  "buildMySQLHeadlessService wp =
     object.extend
       (newMeta (dbServiceName wp) (Namespace wp) (commonLabels wp ComponentMySQL) None)
       (Service.fields
          \<lparr>ss_Type = ServiceTypeClusterIP,
           ss_ClusterIP = ClusterIPNone,
           ss_SessionAffinity = ServiceAffinityNone,
           ss_Selector = selectorLabels wp ComponentMySQL,
           ss_Ports = Some
             [\<lparr>sp_Name = ''mysql'', sp_Port = 3306, sp_TargetPort = IntVal 3306,
               sp_Protocol = ProtocolTCP, sp_NodePort = 0, sp_rest = []\<rparr>],
           ss_rest = []\<rparr> [])"

definition mysqlPingCmd :: "string list" where
  "mysqlPingCmd =
     [''sh'', ''-c'',
      ''mysqladmin ping -h 127.0.0.1 -uroot -p'' @ [CHR 0x22] @ ''$MYSQL_ROOT_PASSWORD'' @ [CHR 0x22]]"

definition mysqlRootPwdEnv :: "WordPress \<Rightarrow> InternalDatabaseSpec \<Rightarrow> EnvVar" where
  "mysqlRootPwdEnv wp internal =
     (case int_RootPasswordSecret internal of
        None \<Rightarrow> envSecret ''MYSQL_ROOT_PASSWORD'' (dbSecretName wp) SecretKeyRoot
      | Some ref \<Rightarrow> envSecret ''MYSQL_ROOT_PASSWORD'' (skr_Name ref) (skr_Key ref))"

definition mysqlEnvs :: "WordPress \<Rightarrow> InternalDatabaseSpec \<Rightarrow> EnvVar list" where
  "mysqlEnvs wp internal =
     [mysqlRootPwdEnv wp internal,
      envValue ''MYSQL_DATABASE'' (db_Name (Database (Spec wp))),
      envValue ''MYSQL_USER'' (db_User (Database (Spec wp))),
      envSecret ''MYSQL_PASSWORD'' (dbSecretName wp) SecretKeyWordPressPassword]"

definition mysqlContainer :: "WordPress \<Rightarrow> InternalDatabaseSpec \<Rightarrow> Container" where
  "mysqlContainer wp internal =
     \<lparr>c_Name = ''mysql'',
      c_Image = int_Image internal,
      c_ImagePullPolicy = int_ImagePullPolicy internal,
      c_Command = None,
      c_Ports = Some [\<lparr>cp_Name = ''mysql'', cp_ContainerPort = 3306, cp_Protocol = ProtocolTCP,
        cp_rest = []\<rparr>],
      c_Env = Some (mysqlEnvs wp internal),
      c_Resources = int_Resources internal,
      c_VolumeMounts = Some [\<lparr>vm_Name = ''data'', vm_MountPath = ''/var/lib/mysql'', vm_rest = []\<rparr>],
      c_ReadinessProbe = Some (newProbe (ExecProbe (Some mysqlPingCmd)) 30 10 5 3),
      c_LivenessProbe = Some (newProbe (ExecProbe (Some mysqlPingCmd)) 60 20 10 6),
      c_rest = []\<rparr>"

definition buildMySQLStatefulSet :: "'w env \<Rightarrow> WordPress \<Rightarrow> (gerror + StatefulSet) option" where
  "buildMySQLStatefulSet E wp =
     do {
       internal \<leftarrow> Internal (Database (Spec wp));
       Some (case ParseQuantity E (int_StorageSize internal) of
         Inl err \<Rightarrow>
           Inl (Wrapf (''invalid database.internal.storageSize ''
                  @ fmtQ (QuoteUnicode E) (int_StorageSize internal) @ '': '') err)
       | Inr q \<Rightarrow>
           (let labels = commonLabels wp ComponentMySQL;
                selector = selectorLabels wp ComponentMySQL
            in Inr (object.extend
                 (newMeta (dbStatefulSetName wp) (Namespace wp) labels None)
                 (StatefulSet.fields
                    (dbServiceName wp)
                    (Some 1)
                    selector
                    \<lparr>pt_Labels = labels, pt_Annotations = None,
                     pt_Spec =
                       \<lparr>ps_InitContainers = None, ps_ImagePullSecrets = None,
                        ps_NodeSelector = int_NodeSelector internal,
                        ps_Tolerations = int_Tolerations internal,
                        ps_Affinity = int_Affinity internal,
                        ps_Containers = Some [mysqlContainer wp internal],
                        ps_Volumes = None, ps_rest = []\<rparr>,
                     pt_rest = []\<rparr>
                    (Some [object.extend (newMeta ''data'' [] None None)
                       (PersistentVolumeClaim.fields
                          \<lparr>pvc_AccessModes = [ReadWriteOnce],
                           pvc_StorageClassName = int_StorageClassName internal,
                           pvc_Requests = mapLit [(ResourceStorage, q)], pvcs_rest = []\<rparr> [])])
                    []
                    zeroWorkloadStatus))))
     }"

definition resolvedDBHost :: "WordPress \<Rightarrow> (string \<times> int32) option" where
  "resolvedDBHost wp =
     (if Mode (Database (Spec wp)) = DatabaseModeExternal
      then do {
        x \<leftarrow> External (Database (Spec wp));
        Some (ext_Host x, ext_Port x)
      }
      else Some (dbServiceName wp @ ''.'' @ Namespace wp @ ''.svc'', 3306))"

subsection \<open>What the built objects are\<close>

lemma buildMySQLHeadlessService_fields [simp]:
  "ObjectKeyFromObject (buildMySQLHeadlessService wp) = (Namespace wp, dbServiceName wp)"
  "Labels (buildMySQLHeadlessService wp) = commonLabels wp ComponentMySQL"
  "Annotations (buildMySQLHeadlessService wp) = None"
  "ss_Selector (svc_Spec (buildMySQLHeadlessService wp)) = selectorLabels wp ComponentMySQL"
  "ss_ClusterIP (svc_Spec (buildMySQLHeadlessService wp)) = ClusterIPNone"
  by (simp_all add: buildMySQLHeadlessService_def ObjectKeyFromObject_def newMeta_def object.defs
      Service.defs)

lemma buildMySQLStatefulSet_Inr:
  assumes "buildMySQLStatefulSet E wp = Some (Inr ss)"
  obtains internal q where
    "Internal (Database (Spec wp)) = Some internal"
    "ParseQuantity E (int_StorageSize internal) = Inr q"
    "ObjectKeyFromObject ss = (Namespace wp, dbStatefulSetName wp)"
    "sts_Replicas ss = Some 1" "sts_ServiceName ss = dbServiceName wp"
    "sts_Selector ss = selectorLabels wp ComponentMySQL"
    "pt_Labels (sts_Template ss) = commonLabels wp ComponentMySQL"
    "ps_Containers (pt_Spec (sts_Template ss)) = Some [mysqlContainer wp internal]"
  using assms
  by (auto simp: buildMySQLStatefulSet_def Let_def ObjectKeyFromObject_def newMeta_def object.defs
      StatefulSet.defs split: option.splits sum.splits bind_splits)

lemma buildMySQLStatefulSet_total:
  "Internal (Database (Spec wp)) \<noteq> None \<Longrightarrow> buildMySQLStatefulSet E wp \<noteq> None"
  by (auto simp: buildMySQLStatefulSet_def)

lemma resolvedDBHost_total:
  "(Mode (Database (Spec wp)) = DatabaseModeExternal \<Longrightarrow> External (Database (Spec wp)) \<noteq> None) \<Longrightarrow>
     resolvedDBHost wp \<noteq> None"
  by (auto simp: resolvedDBHost_def)

end
