(* ===== verification/Resources.thy ===== *)
theory Resources
  imports MySQL
begin

section \<open>The WordPress objects (internal/controller/resources.go)\<close>

text \<open>
  The builders of the Deployment, Service, volume claim, Ingress and autoscaler, field by field.
  The \<open>_fields\<close> lemmas give what the reconciler and the properties use of the built objects.
\<close>

definition RollingUpdateDeploymentStrategyType :: string where
  [go_consts]: "RollingUpdateDeploymentStrategyType = ''RollingUpdate''"

definition ServiceTypeNodePort :: string where
  [go_consts]: "ServiceTypeNodePort = ''NodePort''"

definition PathTypePrefix :: string where
  [go_consts]: "PathTypePrefix = ''Prefix''"

definition URISchemeHTTP :: string where
  [go_consts]: "URISchemeHTTP = ''HTTP''"

definition ResourceMetricSourceType :: string where
  [go_consts]: "ResourceMetricSourceType = ''Resource''"

definition UtilizationMetricType :: string where
  [go_consts]: "UtilizationMetricType = ''Utilization''"

definition ResourceCPU :: string where
  [go_consts]: "ResourceCPU = ''cpu''"

definition envFromInternalDBSecret :: "string \<Rightarrow> EnvVar list" where
  "envFromInternalDBSecret secretName =
     [envSecret ''WORDPRESS_DB_PASSWORD'' secretName ''wordpress-password'']"

definition envFromExternalDBSecret :: "SecretKeyRef \<Rightarrow> EnvVar list" where
  "envFromExternalDBSecret ref =
     [envSecret ''WORDPRESS_DB_PASSWORD'' (skr_Name ref) (skr_Key ref)]"

subsection \<open>Deployment\<close>

definition wordpressEnvs :: "WordPress \<Rightarrow> string \<Rightarrow> int32 \<Rightarrow> EnvVar list \<Rightarrow> EnvVar slice" where
  "wordpressEnvs wp dbHost dbPort dbEnv =
     (let envs = goAppend (Some
            [envValue ''WORDPRESS_DB_HOST'' (dbHost @ '':'' @ fmtD dbPort),
             envValue ''WORDPRESS_DB_NAME'' (db_Name (Database (Spec wp))),
             envValue ''WORDPRESS_DB_USER'' (db_User (Database (Spec wp))),
             envValue ''WORDPRESS_TABLE_PREFIX'' (TablePrefix (Database (Spec wp)))]) dbEnv;
          envs = (if SiteURL (Spec wp) \<noteq> []
            then goAppend envs
              [envValue ''WORDPRESS_HOME'' (SiteURL (Spec wp)),
               envValue ''WORDPRESS_SITEURL'' (SiteURL (Spec wp))]
            else envs)
      in goAppend envs (Env (Spec wp)))"

definition wordpressVolumes :: "WordPress \<Rightarrow> Volume slice" where
  "wordpressVolumes wp =
     goAppend (Some [])
       [\<lparr>vol_Name = ''wp-content'',
         vol_Source =
           (if per_Enabled (Persistence (Spec wp)) then PVCVolume (wpPVCName wp) []
            else EmptyDirVolume [])\<rparr>]"

text \<open>The init container that waits for MySQL, in Internal mode only.\<close>

definition waitForDBCmd :: "string \<Rightarrow> string" where
  "waitForDBCmd dbHost =
     ''until nc -z -w2 '' @ dbHost @ '' 3306; do echo '' @ [CHR 0x27] @ ''waiting for mysql''
       @ [CHR 0x27] @ ''; sleep 3; done''"

definition wordpressInitContainers :: "WordPress \<Rightarrow> Container slice" where
  "wordpressInitContainers wp =
     (if Mode (Database (Spec wp)) = DatabaseModeInternal
      then (let dbHost = Name wp @ ''-mysql.'' @ Namespace wp @ ''.svc'' in
        Some [\<lparr>c_Name = ''wait-for-db'', c_Image = ''busybox:1.36'',
               c_ImagePullPolicy = PullIfNotPresent,
               c_Command = Some [''sh'', ''-c'', waitForDBCmd dbHost],
               c_Ports = None, c_Env = None, c_Resources = [], c_VolumeMounts = None,
               c_ReadinessProbe = None, c_LivenessProbe = None, c_rest = []\<rparr>])
      else None)"

definition wordpressContainer :: "WordPress \<Rightarrow> EnvVar slice \<Rightarrow> Container" where
  "wordpressContainer wp envs =
     \<lparr>c_Name = ''wordpress'',
      c_Image = Image (Spec wp),
      c_ImagePullPolicy = ImagePullPolicy (Spec wp),
      c_Command = None,
      c_Ports = Some [\<lparr>cp_Name = ''http'', cp_ContainerPort = 80, cp_Protocol = ProtocolTCP,
        cp_rest = []\<rparr>],
      c_Env = envs,
      c_Resources = Resources (Spec wp),
      c_VolumeMounts = goAppend (Some [])
        [\<lparr>vm_Name = ''wp-content'', vm_MountPath = ''/var/www/html'', vm_rest = []\<rparr>],
      c_ReadinessProbe =
        Some (newProbe (HTTPGetProbe ''/wp-login.php'' (IntVal 80) URISchemeHTTP []) 20 10 5 6),
      c_LivenessProbe = Some (newProbe (TCPSocketProbe (IntVal 80) []) 60 20 5 6),
      c_rest = []\<rparr>"

definition buildWordPressDeployment ::
    "WordPress \<Rightarrow> string \<Rightarrow> int32 \<Rightarrow> EnvVar list \<Rightarrow> Deployment" where
  "buildWordPressDeployment wp dbHost dbPort dbEnv =
     (let labels = commonLabels wp ComponentWordPress;
          selector = selectorLabels wp ComponentWordPress;
          podLabels = mergeStringMaps labels [PodLabels (Spec wp)];
          envs = wordpressEnvs wp dbHost dbPort dbEnv;
          strategy = \<lparr>ds_Type = RollingUpdateDeploymentStrategyType,
            ds_RollingUpdate = Some \<lparr>ru_MaxUnavailable = MaxUnavailable (Spec wp),
              ru_MaxSurge = MaxSurge (Spec wp)\<rparr>\<rparr>;
          dep = object.extend
            (newMeta (wpName wp) (Namespace wp) labels None)
            (Deployment.fields
               (Replicas (Spec wp))
               selector
               strategy
               \<lparr>pt_Labels = podLabels, pt_Annotations = PodAnnotations (Spec wp),
                pt_Spec =
                  \<lparr>ps_InitContainers = wordpressInitContainers wp,
                   ps_ImagePullSecrets = ImagePullSecrets (Spec wp),
                   ps_NodeSelector = NodeSelector (Spec wp),
                   ps_Tolerations = Tolerations (Spec wp),
                   ps_Affinity = Affinity (Spec wp),
                   ps_Containers = Some [wordpressContainer wp envs],
                   ps_Volumes = wordpressVolumes wp,
                   ps_rest = []\<rparr>,
                pt_rest = []\<rparr>
               []
               zeroWorkloadStatus)
      in (if as_Enabled (Autoscaling (Spec wp)) then dep\<lparr>dep_Replicas := None\<rparr> else dep))"

subsection \<open>Service and volume claim\<close>

definition buildWordPressService :: "WordPress \<Rightarrow> Service" where
  "buildWordPressService wp =
     (let cfg = ServiceS (Spec wp);
          nodePort = (if svs_Type cfg = ServiceTypeNodePort \<and> 0 < sint (svs_NodePort cfg)
            then svs_NodePort cfg else 0)
      in object.extend
           (newMeta (wpName wp) (Namespace wp) (commonLabels wp ComponentWordPress)
              (svs_Annotations cfg))
           (Service.fields
              \<lparr>ss_Type = svs_Type cfg,
               ss_ClusterIP = [],
               ss_SessionAffinity = [],
               ss_Selector = selectorLabels wp ComponentWordPress,
               ss_Ports = Some
                 [\<lparr>sp_Name = ''http'', sp_Port = svs_Port cfg, sp_TargetPort = IntVal 80,
                   sp_Protocol = ProtocolTCP, sp_NodePort = nodePort, sp_rest = []\<rparr>],
               ss_rest = []\<rparr> []))"

definition buildWordPressPVC :: "'w env \<Rightarrow> WordPress \<Rightarrow> gerror + PersistentVolumeClaim" where
  "buildWordPressPVC E wp =
     (let p = Persistence (Spec wp) in
      case ParseQuantity E (per_Size p) of
        Inl err \<Rightarrow> Inl (Wrapf (''invalid persistence.size '' @ fmtQ (QuoteUnicode E) (per_Size p)
          @ '': '') err)
      | Inr q \<Rightarrow> Inr (object.extend
          (newMeta (wpPVCName wp) (Namespace wp) (commonLabels wp ComponentWordPress) None)
          (PersistentVolumeClaim.fields
             \<lparr>pvc_AccessModes = per_AccessModes p,
              pvc_StorageClassName = per_StorageClassName p,
              pvc_Requests = mapLit [(ResourceStorage, q)], pvcs_rest = []\<rparr> [])))"

subsection \<open>Ingress and autoscaler\<close>

definition buildWordPressIngress :: "WordPress \<Rightarrow> Ingress" where
  "buildWordPressIngress wp =
     (let cfg = IngressS (Spec wp);
          rules = [\<lparr>ir_Host = igs_Host cfg,
                    ir_HTTP = Some (Some
                      [\<lparr>ip_Path = ''/'', ip_PathType = Some PathTypePrefix,
                        ip_Service = Some
                          \<lparr>isb_Name = wpName wp, isb_PortNumber = svs_Port (ServiceS (Spec wp)),
                           isb_rest = []\<rparr>,
                        ip_rest = []\<rparr>])\<rparr>];
          tls = (if igs_TLSSecretName cfg \<noteq> [] \<and> igs_Host cfg \<noteq> []
            then Some [\<lparr>tls_Hosts = Some [igs_Host cfg], tls_SecretName = igs_TLSSecretName cfg\<rparr>]
            else None)
      in object.extend
           (newMeta (wpName wp) (Namespace wp) (commonLabels wp ComponentWordPress)
              (igs_Annotations cfg))
           (Ingress.fields
              \<lparr>is_IngressClassName = igs_IngressClassName cfg, is_Rules = Some rules,
               is_TLS = tls, is_rest = []\<rparr> []))"

definition buildWordPressHPA :: "WordPress \<Rightarrow> HorizontalPodAutoscaler" where
  "buildWordPressHPA wp =
     (let a = Autoscaling (Spec wp);
          target = as_TargetCPUUtilizationPercentage a;
          lo = as_MinReplicas a
      in object.extend
           (newMeta (hpaName wp) (Namespace wp) (commonLabels wp ComponentWordPress) None)
           (HorizontalPodAutoscaler.fields
              \<lparr>hs_ScaleTargetRef =
                 \<lparr>st_APIVersion = ''apps/v1'', st_Kind = ''Deployment'', st_Name = wpName wp\<rparr>,
               hs_MinReplicas = Some lo,
               hs_MaxReplicas = as_MaxReplicas a,
               hs_Metrics = Some
                 [\<lparr>ms_Type = ResourceMetricSourceType,
                   ms_Resource = Some
                     \<lparr>rms_Name = ResourceCPU, rms_TargetType = UtilizationMetricType,
                      rms_AverageUtilization = Some target, rms_rest = []\<rparr>,
                   ms_rest = []\<rparr>],
               hs_rest = []\<rparr> []))"

subsection \<open>What the built objects are\<close>

lemmas build_defs = ObjectKeyFromObject_def newMeta_def object.defs Let_def

lemma buildWordPressDeployment_fields [simp]:
  "ObjectKeyFromObject (buildWordPressDeployment wp h p e) = (Namespace wp, wpName wp)"
  "Labels (buildWordPressDeployment wp h p e) = commonLabels wp ComponentWordPress"
  "dep_Selector (buildWordPressDeployment wp h p e) = selectorLabels wp ComponentWordPress"
  "dep_Replicas (buildWordPressDeployment wp h p e) =
     (if as_Enabled (Autoscaling (Spec wp)) then None else Replicas (Spec wp))"
  "pt_Labels (dep_Template (buildWordPressDeployment wp h p e)) =
     mergeStringMaps (commonLabels wp ComponentWordPress) [PodLabels (Spec wp)]"
  "ps_Containers (pt_Spec (dep_Template (buildWordPressDeployment wp h p e))) =
     Some [wordpressContainer wp (wordpressEnvs wp h p e)]"
  "ps_Volumes (pt_Spec (dep_Template (buildWordPressDeployment wp h p e))) = wordpressVolumes wp"
  by (simp_all add: buildWordPressDeployment_def build_defs Deployment.defs)

lemma buildWordPressService_fields [simp]:
  "ObjectKeyFromObject (buildWordPressService wp) = (Namespace wp, wpName wp)"
  "Labels (buildWordPressService wp) = commonLabels wp ComponentWordPress"
  "Annotations (buildWordPressService wp) = svs_Annotations (ServiceS (Spec wp))"
  "ss_Selector (svc_Spec (buildWordPressService wp)) = selectorLabels wp ComponentWordPress"
  "ss_SessionAffinity (svc_Spec (buildWordPressService wp)) = []"
  by (simp_all add: buildWordPressService_def build_defs Service.defs)

lemma buildWordPressPVC_Inr:
  assumes "buildWordPressPVC E wp = Inr pvc"
  shows "ObjectKeyFromObject pvc = (Namespace wp, wpPVCName wp)"
  using assms
  by (auto simp: buildWordPressPVC_def build_defs PersistentVolumeClaim.defs split: sum.splits)

lemma buildWordPressIngress_fields [simp]:
  "ObjectKeyFromObject (buildWordPressIngress wp) = (Namespace wp, wpName wp)"
  "Labels (buildWordPressIngress wp) = commonLabels wp ComponentWordPress"
  "Annotations (buildWordPressIngress wp) = igs_Annotations (IngressS (Spec wp))"
  by (simp_all add: buildWordPressIngress_def build_defs Ingress.defs)

lemma buildWordPressHPA_fields [simp]:
  "ObjectKeyFromObject (buildWordPressHPA wp) = (Namespace wp, hpaName wp)"
  "Labels (buildWordPressHPA wp) = commonLabels wp ComponentWordPress"
  "hs_MinReplicas (hpa_Spec (buildWordPressHPA wp)) = Some (as_MinReplicas (Autoscaling (Spec wp)))"
  "hs_MaxReplicas (hpa_Spec (buildWordPressHPA wp)) = as_MaxReplicas (Autoscaling (Spec wp))"
  "hs_ScaleTargetRef (hpa_Spec (buildWordPressHPA wp)) =
     \<lparr>st_APIVersion = ''apps/v1'', st_Kind = ''Deployment'', st_Name = wpName wp\<rparr>"
  by (simp_all add: buildWordPressHPA_def build_defs HorizontalPodAutoscaler.defs)

end
