(* ===== verification/Apply.thy ===== *)
theory Apply
  imports Contracts Resources
begin

section \<open>Creating and patching owned objects (wordpress\_controller.go)\<close>

text \<open>
  The get / create / patch blocks of the reconcile functions, one definition per block, on the
  world alone. Each is an interpretation of a contract of theory \<open>Contracts\<close>, whose lemmas
  then hold for it: \<open>secretC\<close> and \<open>pvcC\<close> (create once), \<open>serviceC\<close>, \<open>stsC\<close>,
  \<open>deploymentC\<close>, \<open>ingressC\<close> and \<open>hpaC\<close> (create or patch), \<open>ingressOffC\<close> and
  \<open>hpaOffC\<close> (remove when owned). Where a block hands more than an error to the code after it
  (the StatefulSet it found, whether the Ingress was created), \<open>errOf\<close> forgets that part.
\<close>

definition errOf :: "(gerror + 'a) \<times> 'w \<Rightarrow> gerror option \<times> 'w" where
  "errOf r = (case fst r of Inl err \<Rightarrow> Some err | Inr _ \<Rightarrow> None, snd r)"

definition getFor ::
    "('o object_scheme, 'w) store \<Rightarrow> 'o object_scheme \<Rightarrow> 'w \<Rightarrow> (gerror + 'o object_scheme) \<times> 'w" where
  "getFor S desired = Get S (ObjectKeyFromObject desired)"

subsection \<open>Create once: credentials Secret and volume claim\<close>

definition ensureSecret :: "'w env \<Rightarrow> Secret \<Rightarrow> 'w \<Rightarrow> gerror option \<times> 'w" where
  "ensureSecret E desired w =
     (case Get (secrets E) (ObjectKeyFromObject desired) w of
        (Inl err, w) \<Rightarrow>
          if IsNotFound E err then Create (secrets E) desired w else (Some err, w)
      | (Inr existing, w) \<Rightarrow> (None, w))"

definition ensurePVC :: "'w env \<Rightarrow> PersistentVolumeClaim \<Rightarrow> 'w \<Rightarrow> gerror option \<times> 'w" where
  "ensurePVC E desired w =
     (case Get (pvcs E) (ObjectKeyFromObject desired) w of
        (Inl err, w) \<Rightarrow>
          if IsNotFound E err then Create (pvcs E) desired w else (Some err, w)
      | (Inr existing, w) \<Rightarrow> (None, w))"

interpretation secretC: create_once "getFor (secrets E)" "IsNotFound E" "Create (secrets E)" "ensureSecret E"
  for E
  by unfold_locales (simp_all add: getFor_def ensureSecret_def)

interpretation pvcC: create_once "getFor (pvcs E)" "IsNotFound E" "Create (pvcs E)" "ensurePVC E"
  for E
  by unfold_locales (simp_all add: getFor_def ensurePVC_def)

subsection \<open>Services\<close>

definition patchService :: "Service \<Rightarrow> Service \<Rightarrow> Service" where
  "patchService existing desired =
     (let patch = existing;
          patch = patch\<lparr>Labels := Labels desired, Annotations := Annotations desired\<rparr>;
          s = svc_Spec patch; d = svc_Spec desired;
          s = s\<lparr>ss_Type := ss_Type d, ss_Selector := ss_Selector d,
                ss_SessionAffinity := ss_SessionAffinity d, ss_Ports := ss_Ports d\<rparr>;
          s = (if ss_ClusterIP (svc_Spec existing) = ClusterIPNone
               then s\<lparr>ss_ClusterIP := ClusterIPNone\<rparr> else s)
      in patch\<lparr>svc_Spec := s\<rparr>)"

definition serviceEqual :: "Service \<Rightarrow> Service \<Rightarrow> bool" where
  "serviceEqual existing patch \<longleftrightarrow>
     \<not> (svc_Spec existing \<noteq> svc_Spec patch \<or> Labels existing \<noteq> Labels patch
        \<or> Annotations existing \<noteq> Annotations patch)"

definition applyService :: "'w env \<Rightarrow> Service \<Rightarrow> 'w \<Rightarrow> gerror option \<times> 'w" where
  "applyService E desired w =
     (case Get (services E) (ObjectKeyFromObject desired) w of
        (Inl err, w) \<Rightarrow>
          if IsNotFound E err then Create (services E) desired w else (Some err, w)
      | (Inr existing, w) \<Rightarrow>
          (let patch = patchService existing desired in
           if \<not> serviceEqual existing patch then Update (services E) patch w else (None, w)))"

lemma patchService_twice: "patchService (patchService ex d) d = patchService ex d"
  by (simp add: patchService_def Let_def)

lemma patchService_self: "patchService d d = d"
  by (simp add: patchService_def Let_def)

interpretation serviceC: create_or_patch "getFor (services E)" "IsNotFound E"
  "Create (services E)" "applyService E" "Update (services E)" patchService serviceEqual
  for E
  by unfold_locales
    (simp_all add: getFor_def applyService_def patchService_twice patchService_self serviceEqual_def)

subsection \<open>StatefulSet\<close>

text \<open>\<^verbatim>\<open>equalInt32Ptr\<close>.\<close>

fun equalInt32Ptr :: "int32 option \<Rightarrow> int32 option \<Rightarrow> bool" where
  "equalInt32Ptr None None = True"
| "equalInt32Ptr None (Some _) = False"
| "equalInt32Ptr (Some _) None = False"
| "equalInt32Ptr (Some a) (Some b) = (a = b)"

lemma equalInt32Ptr_iff [simp]: "equalInt32Ptr a b \<longleftrightarrow> a = b"
  by (cases a; cases b) auto

definition patchStatefulSet :: "StatefulSet \<Rightarrow> StatefulSet \<Rightarrow> StatefulSet" where
  "patchStatefulSet existing desired =
     existing\<lparr>sts_Replicas := sts_Replicas desired, sts_Template := sts_Template desired\<rparr>"

definition statefulSetEqual :: "StatefulSet \<Rightarrow> StatefulSet \<Rightarrow> bool" where
  "statefulSetEqual existing patch \<longleftrightarrow>
     \<not> (sts_Template existing \<noteq> sts_Template patch
        \<or> \<not> equalInt32Ptr (sts_Replicas existing) (sts_Replicas patch))"

definition syncStatefulSet ::
    "'w env \<Rightarrow> StatefulSet \<Rightarrow> 'w \<Rightarrow> (gerror + StatefulSet option) \<times> 'w" where
  "syncStatefulSet E desired w =
     (case Get (statefulsets E) (ObjectKeyFromObject desired) w of
        (Inl err, w) \<Rightarrow>
          if IsNotFound E err then
            (case Create (statefulsets E) desired w of
               (Some err, w) \<Rightarrow> (Inl err, w)
             | (None, w) \<Rightarrow> (Inr None, w))
          else (Inl err, w)
      | (Inr existing, w) \<Rightarrow>
          (let patch = patchStatefulSet existing desired in
           if \<not> statefulSetEqual existing patch then
             (case Update (statefulsets E) patch w of
                (Some err, w) \<Rightarrow> (Inl err, w)
              | (None, w) \<Rightarrow> (Inr (Some existing), w))
           else (Inr (Some existing), w)))"

interpretation stsC: create_or_patch "getFor (statefulsets E)" "IsNotFound E"
  "Create (statefulsets E)" "\<lambda>d w. errOf (syncStatefulSet E d w)" "Update (statefulsets E)"
  patchStatefulSet statefulSetEqual
  for E
  by unfold_locales
    (auto simp: getFor_def syncStatefulSet_def errOf_def patchStatefulSet_def statefulSetEqual_def
      Let_def split: prod.splits option.splits)

subsection \<open>Deployment\<close>

definition patchDeployment :: "Deployment \<Rightarrow> Deployment \<Rightarrow> Deployment" where
  "patchDeployment existing desired =
     existing\<lparr>Labels := Labels desired, dep_Replicas := dep_Replicas desired,
       dep_Strategy := dep_Strategy desired, dep_Template := dep_Template desired\<rparr>"

definition deploymentEqual :: "Deployment \<Rightarrow> Deployment \<Rightarrow> bool" where
  "deploymentEqual existing desired =
     (if Labels existing \<noteq> Labels desired then False
      else if \<not> equalInt32Ptr (dep_Replicas existing) (dep_Replicas desired) then False
      else if dep_Strategy existing \<noteq> dep_Strategy desired then False
      else if dep_Template existing \<noteq> dep_Template desired then False
      else True)"

lemma deploymentEqual_iff:
  "deploymentEqual a b \<longleftrightarrow> Labels a = Labels b \<and> dep_Replicas a = dep_Replicas b
     \<and> dep_Strategy a = dep_Strategy b \<and> dep_Template a = dep_Template b"
  by (simp add: deploymentEqual_def)

definition syncDeployment :: "'w env \<Rightarrow> Deployment \<Rightarrow> 'w \<Rightarrow> gerror option \<times> 'w" where
  "syncDeployment E desired w =
     (case Get (deployments E) (ObjectKeyFromObject desired) w of
        (Inl err, w) \<Rightarrow>
          if IsNotFound E err then Create (deployments E) desired w else (Some err, w)
      | (Inr existing, w) \<Rightarrow>
          (let patch = patchDeployment existing desired in
           if \<not> deploymentEqual existing patch then Update (deployments E) patch w else (None, w)))"

interpretation deploymentC: create_or_patch "getFor (deployments E)" "IsNotFound E"
  "Create (deployments E)" "syncDeployment E" "Update (deployments E)"
  patchDeployment deploymentEqual
  for E
  by unfold_locales
    (simp_all add: getFor_def syncDeployment_def patchDeployment_def deploymentEqual_iff Let_def)

subsection \<open>Ingress\<close>

definition patchIngress :: "Ingress \<Rightarrow> Ingress \<Rightarrow> Ingress" where
  "patchIngress existing desired =
     existing\<lparr>Labels := Labels desired, Annotations := Annotations desired,
       ing_Spec := ing_Spec desired\<rparr>"

definition ingressEqual :: "Ingress \<Rightarrow> Ingress \<Rightarrow> bool" where
  "ingressEqual existing patch \<longleftrightarrow>
     \<not> (ing_Spec existing \<noteq> ing_Spec patch \<or> Labels existing \<noteq> Labels patch
        \<or> Annotations existing \<noteq> Annotations patch)"

text \<open>The enabled branch of \<^verbatim>\<open>reconcileIngress\<close>; \<open>Inr True\<close> when it created the Ingress,
  \<open>Inr False\<close> when the Ingress was there.\<close>

definition syncIngress :: "'w env \<Rightarrow> Ingress \<Rightarrow> 'w \<Rightarrow> (gerror + bool) \<times> 'w" where
  "syncIngress E desired w =
     (case Get (ingresses E) (ObjectKeyFromObject desired) w of
        (Inl err, w) \<Rightarrow>
          if IsNotFound E err then
            (case Create (ingresses E) desired w of
               (Some err, w) \<Rightarrow> (Inl err, w)
             | (None, w) \<Rightarrow> (Inr True, w))
          else (Inl err, w)
      | (Inr existing, w) \<Rightarrow>
          (let patch = patchIngress existing desired in
           if \<not> ingressEqual existing patch then
             (case Update (ingresses E) patch w of
                (Some err, w) \<Rightarrow> (Inl err, w)
              | (None, w) \<Rightarrow> (Inr False, w))
           else (Inr False, w)))"

text \<open>The disabled branch; \<open>Inr True\<close> when there was no Ingress.\<close>

definition dropIngress :: "'w env \<Rightarrow> WordPress \<Rightarrow> 'w \<Rightarrow> (gerror + bool) \<times> 'w" where
  "dropIngress E wp w =
     (case Get (ingresses E) (Namespace wp, wpName wp) w of
        (Inl err, w) \<Rightarrow> if IsNotFound E err then (Inr True, w) else (Inl err, w)
      | (Inr existing, w) \<Rightarrow>
          if IsControlledBy E (metaOf existing) (metaOf wp) then
            (case Delete (ingresses E) existing w of
               (Some err, w) \<Rightarrow> (Inl err, w)
             | (None, w) \<Rightarrow> (Inr False, w))
          else (Inr False, w))"

interpretation ingressC: create_or_patch "getFor (ingresses E)" "IsNotFound E"
  "Create (ingresses E)" "\<lambda>d w. errOf (syncIngress E d w)" "Update (ingresses E)"
  patchIngress ingressEqual
  for E
  by unfold_locales
    (auto simp: getFor_def syncIngress_def errOf_def patchIngress_def ingressEqual_def
      Let_def split: prod.splits option.splits)

interpretation ingressOffC: remove_owned "\<lambda>wp. Get (ingresses E) (Namespace wp, wpName wp)"
  "IsNotFound E" "\<lambda>wp w. errOf (dropIngress E wp w)" "Delete (ingresses E)"
  "\<lambda>wp ex. IsControlledBy E (metaOf ex) (metaOf wp)"
  for E
  by unfold_locales
    (auto simp: dropIngress_def errOf_def split: prod.splits option.splits)

subsection \<open>HorizontalPodAutoscaler\<close>

definition patchHPA ::
    "HorizontalPodAutoscaler \<Rightarrow> HorizontalPodAutoscaler \<Rightarrow> HorizontalPodAutoscaler" where
  "patchHPA existing desired =
     existing\<lparr>Labels := Labels desired, hpa_Spec := hpa_Spec desired\<rparr>"

definition hpaEqual :: "HorizontalPodAutoscaler \<Rightarrow> HorizontalPodAutoscaler \<Rightarrow> bool" where
  "hpaEqual existing patch \<longleftrightarrow>
     \<not> (hpa_Spec existing \<noteq> hpa_Spec patch \<or> Labels existing \<noteq> Labels patch)"

definition syncHPA :: "'w env \<Rightarrow> HorizontalPodAutoscaler \<Rightarrow> 'w \<Rightarrow> gerror option \<times> 'w" where
  "syncHPA E desired w =
     (case Get (hpas E) (ObjectKeyFromObject desired) w of
        (Inl err, w) \<Rightarrow>
          if IsNotFound E err then Create (hpas E) desired w else (Some err, w)
      | (Inr existing, w) \<Rightarrow>
          (let patch = patchHPA existing desired in
           if \<not> hpaEqual existing patch then Update (hpas E) patch w else (None, w)))"

definition dropHPA :: "'w env \<Rightarrow> WordPress \<Rightarrow> 'w \<Rightarrow> gerror option \<times> 'w" where
  "dropHPA E wp w =
     (case Get (hpas E) (Namespace wp, hpaName wp) w of
        (Inl err, w) \<Rightarrow> if IsNotFound E err then (None, w) else (Some err, w)
      | (Inr existing, w) \<Rightarrow>
          if IsControlledBy E (metaOf existing) (metaOf wp) then Delete (hpas E) existing w
          else (None, w))"

interpretation hpaC: create_or_patch "getFor (hpas E)" "IsNotFound E"
  "Create (hpas E)" "syncHPA E" "Update (hpas E)" patchHPA hpaEqual
  for E
  by unfold_locales (simp_all add: getFor_def syncHPA_def patchHPA_def hpaEqual_def Let_def)

interpretation hpaOffC: remove_owned "\<lambda>wp. Get (hpas E) (Namespace wp, hpaName wp)"
  "IsNotFound E" "dropHPA E" "Delete (hpas E)"
  "\<lambda>wp ex. IsControlledBy E (metaOf ex) (metaOf wp)"
  for E
  by unfold_locales (simp_all add: dropHPA_def)

subsection \<open>What the blocks may write\<close>

text \<open>
  A world property that survives the reads and the writes \<open>ok\<close> allows survives each block,
  when \<open>ok\<close> allows the creation of the desired object, the update of any object with its key
  to the patched one, and the deletion of a controlled one.
\<close>

lemma key_lawD: "key_law S \<Longrightarrow> Get S k w = (Inr ob, w') \<Longrightarrow> ObjectKeyFromObject ob = k"
  unfolding key_law_def by blast

lemma key_lawsD:
  assumes "key_laws E"
  shows "key_law (wordpresses E)" "key_law (services E)" "key_law (statefulsets E)"
    "key_law (pvcs E)" "key_law (deployments E)" "key_law (ingresses E)" "key_law (hpas E)"
  using assms by (simp_all add: key_laws_def)

lemma ensureSecret_keeps:
  assumes E: "admits P ok E" and "ok (Created (KSecret d))"
  shows "keeps P (ensureSecret E d)"
proof -
  have "P (snd (ensureSecret E d w))" if "P w" for w
    by (rule secretC.run_preserves)
      (use assms that in \<open>auto simp: getFor_def dest: keepsD [OF read_keeps(2) [OF E]]
        keepsD [OF store_admitsD(2) [OF admitsD(2) [OF E]]]\<close>)
  then show ?thesis by (simp add: keeps_def)
qed

lemma ensurePVC_keeps:
  assumes E: "admits P ok E" and "ok (Created (KPVC d))"
  shows "keeps P (ensurePVC E d)"
proof -
  have "P (snd (ensurePVC E d w))" if "P w" for w
    by (rule pvcC.run_preserves)
      (use assms that in \<open>auto simp: getFor_def dest: keepsD [OF read_keeps(5) [OF E]]
        keepsD [OF store_admitsD(2) [OF admitsD(5) [OF E]]]\<close>)
  then show ?thesis by (simp add: keeps_def)
qed

lemma applyService_keeps:
  assumes E: "admits P ok E" and key: "key_laws E" and "ok (Created (KService d))"
    and upd: "\<And>ex. ObjectKeyFromObject ex = ObjectKeyFromObject d \<Longrightarrow>
      ok (Updated (KService (patchService ex d)))"
  shows "keeps P (applyService E d)"
proof -
  have "P (snd (applyService E d w))" if "P w" for w
    by (rule serviceC.run_preserves)
      (use assms that in \<open>auto simp: getFor_def dest: keepsD [OF read_keeps(3) [OF E]]
        keepsD [OF store_admitsD(2) [OF admitsD(3) [OF E]]] key_lawD [OF key_lawsD(2) [OF key]]
        keepsD [OF store_admitsD(3) [OF admitsD(3) [OF E]]]\<close>)
  then show ?thesis by (simp add: keeps_def)
qed

lemma snd_errOf [simp]: "snd (errOf r) = snd r"
  by (simp add: errOf_def)

lemma syncStatefulSet_keeps:
  assumes E: "admits P ok E" and key: "key_laws E" and "ok (Created (KStatefulSet d))"
    and upd: "\<And>ex. ObjectKeyFromObject ex = ObjectKeyFromObject d \<Longrightarrow>
      ok (Updated (KStatefulSet (patchStatefulSet ex d)))"
  shows "keeps P (syncStatefulSet E d)"
proof -
  have "P (snd (errOf (syncStatefulSet E d w)))" if "P w" for w
    by (rule stsC.run_preserves)
      (use assms that in \<open>auto simp: getFor_def dest: keepsD [OF read_keeps(4) [OF E]]
        keepsD [OF store_admitsD(2) [OF admitsD(4) [OF E]]] key_lawD [OF key_lawsD(3) [OF key]]
        keepsD [OF store_admitsD(3) [OF admitsD(4) [OF E]]]\<close>)
  then show ?thesis by (simp add: keeps_def)
qed

lemma syncDeployment_keeps:
  assumes E: "admits P ok E" and key: "key_laws E" and "ok (Created (KDeployment d))"
    and upd: "\<And>ex. ObjectKeyFromObject ex = ObjectKeyFromObject d \<Longrightarrow>
      ok (Updated (KDeployment (patchDeployment ex d)))"
  shows "keeps P (syncDeployment E d)"
proof -
  have "P (snd (syncDeployment E d w))" if "P w" for w
    by (rule deploymentC.run_preserves)
      (use assms that in \<open>auto simp: getFor_def dest: keepsD [OF read_keeps(6) [OF E]]
        keepsD [OF store_admitsD(2) [OF admitsD(6) [OF E]]] key_lawD [OF key_lawsD(5) [OF key]]
        keepsD [OF store_admitsD(3) [OF admitsD(6) [OF E]]]\<close>)
  then show ?thesis by (simp add: keeps_def)
qed

lemma syncIngress_keeps:
  assumes E: "admits P ok E" and key: "key_laws E" and "ok (Created (KIngress d))"
    and upd: "\<And>ex. ObjectKeyFromObject ex = ObjectKeyFromObject d \<Longrightarrow>
      ok (Updated (KIngress (patchIngress ex d)))"
  shows "keeps P (syncIngress E d)"
proof -
  have "P (snd (errOf (syncIngress E d w)))" if "P w" for w
    by (rule ingressC.run_preserves)
      (use assms that in \<open>auto simp: getFor_def dest: keepsD [OF read_keeps(7) [OF E]]
        keepsD [OF store_admitsD(2) [OF admitsD(7) [OF E]]] key_lawD [OF key_lawsD(6) [OF key]]
        keepsD [OF store_admitsD(3) [OF admitsD(7) [OF E]]]\<close>)
  then show ?thesis by (simp add: keeps_def)
qed

lemma syncHPA_keeps:
  assumes E: "admits P ok E" and key: "key_laws E" and "ok (Created (KHPA d))"
    and upd: "\<And>ex. ObjectKeyFromObject ex = ObjectKeyFromObject d \<Longrightarrow>
      ok (Updated (KHPA (patchHPA ex d)))"
  shows "keeps P (syncHPA E d)"
proof -
  have "P (snd (syncHPA E d w))" if "P w" for w
    by (rule hpaC.run_preserves)
      (use assms that in \<open>auto simp: getFor_def dest: keepsD [OF read_keeps(8) [OF E]]
        keepsD [OF store_admitsD(2) [OF admitsD(8) [OF E]]] key_lawD [OF key_lawsD(7) [OF key]]
        keepsD [OF store_admitsD(3) [OF admitsD(8) [OF E]]]\<close>)
  then show ?thesis by (simp add: keeps_def)
qed

lemma dropIngress_keeps:
  assumes E: "admits P ok E" and key: "key_laws E"
    and del: "\<And>ex. ObjectKeyFromObject ex = (Namespace wp, wpName wp) \<Longrightarrow>
      IsControlledBy E (metaOf ex) (metaOf wp) \<Longrightarrow> ok (Deleted (KIngress ex))"
  shows "keeps P (dropIngress E wp)"
proof -
  have "P (snd (errOf (dropIngress E wp w)))" if "P w" for w
    by (rule ingressOffC.run_preserves)
      (use assms that in \<open>auto dest: keepsD [OF read_keeps(7) [OF E]]
        key_lawD [OF key_lawsD(6) [OF key]] keepsD [OF store_admitsD(4) [OF admitsD(7) [OF E]]]\<close>)
  then show ?thesis by (simp add: keeps_def)
qed

lemma dropHPA_keeps:
  assumes E: "admits P ok E" and key: "key_laws E"
    and del: "\<And>ex. ObjectKeyFromObject ex = (Namespace wp, hpaName wp) \<Longrightarrow>
      IsControlledBy E (metaOf ex) (metaOf wp) \<Longrightarrow> ok (Deleted (KHPA ex))"
  shows "keeps P (dropHPA E wp)"
proof -
  have "P (snd (dropHPA E wp w))" if "P w" for w
    by (rule hpaOffC.run_preserves)
      (use assms that in \<open>auto dest: keepsD [OF read_keeps(8) [OF E]]
        key_lawD [OF key_lawsD(7) [OF key]] keepsD [OF store_admitsD(4) [OF admitsD(8) [OF E]]]\<close>)
  then show ?thesis by (simp add: keeps_def)
qed

end
