(* ===== verification/StatusReport.thy ===== *)
theory StatusReport
  imports Apply
begin

section \<open>Status (wordpress\_controller.go, lines 496 to 645)\<close>

text \<open>
  Computing the status from the observed Deployment and the recorded conditions, writing it with
  retries, marking a rejected spec, and the helpers \<^verbatim>\<open>ignoreConflict\<close> and
  \<^verbatim>\<open>computeURL\<close>. \<open>computeStatus\<close> is the part of \<^verbatim>\<open>updateStatus\<close> before it
  persists the result.
\<close>

definition ignoreConflict :: "'w env \<Rightarrow> gerror option \<Rightarrow> gerror option" where
  "ignoreConflict E err =
     (case err of None \<Rightarrow> None | Some e \<Rightarrow> if IsConflict E e then None else Some e)"

definition computeURL :: "WordPress \<Rightarrow> string" where
  "computeURL wp =
     (if SiteURL (Spec wp) \<noteq> [] then SiteURL (Spec wp)
      else if igs_Enabled (IngressS (Spec wp)) \<and> igs_Host (IngressS (Spec wp)) \<noteq> [] then
        (let scheme = (if igs_TLSSecretName (IngressS (Spec wp)) \<noteq> [] then ''https'' else ''http'')
         in scheme @ ''://'' @ igs_Host (IngressS (Spec wp)))
      else [])"

subsection \<open>Writing the status\<close>

text \<open>The closure handed to \<^verbatim>\<open>retry.RetryOnConflict\<close>: re-read the object, put the desired
  status on what was read, write it.\<close>

definition writeStatus :: "'w env \<Rightarrow> nsname \<Rightarrow> WordPressStatus \<Rightarrow> 'w \<Rightarrow> gerror option \<times> 'w" where
  "writeStatus E key desired w =
     (case Get (wordpresses E) key w of
        (Inl err, w) \<Rightarrow> (Some err, w)
      | (Inr latest, w) \<Rightarrow> StatusUpdate E (latest\<lparr>Status := desired\<rparr>) w)"

definition persistStatus :: "'w env \<Rightarrow> 'w rs \<Rightarrow> gerror option \<times> 'w rs" where
  "persistStatus E st =
     api (RetryOnConflict E (writeStatus E (ObjectKeyFromObject (cr st)) (Status (cr st)))) st"

definition modStatus :: "(WordPressStatus \<Rightarrow> WordPressStatus) \<Rightarrow> 'w rs \<Rightarrow> 'w rs" where
  "modStatus f st = st\<lparr>cr := (cr st)\<lparr>Status := f (Status (cr st))\<rparr>\<rparr>"

definition markFailed :: "'w env \<Rightarrow> string \<Rightarrow> string \<Rightarrow> 'w rs \<Rightarrow> gerror option \<times> 'w rs" where
  "markFailed E reason msg st =
     (let st = modStatus (\<lambda>s. s\<lparr>wst_Phase := PhaseFailed\<rparr>) st;
          st = setCond E (newCondition ConditionTypeReady ConditionFalse reason msg) st
      in persistStatus E st)"

subsection \<open>Computing the status\<close>

definition deploymentReady :: "WorkloadStatus \<Rightarrow> bool" where
  "deploymentReady s \<longleftrightarrow> 0 < sint (ws_ReadyReplicas s) \<and> ws_ReadyReplicas s = ws_Replicas s"

definition computeStatus :: "'w env \<Rightarrow> WorkloadStatus \<Rightarrow> 'w rs \<Rightarrow> 'w rs" where
  "computeStatus E dep st =
     (let st = modStatus (\<lambda>s. s\<lparr>wst_Replicas := ws_Replicas dep,
            wst_ReadyReplicas := ws_ReadyReplicas dep,
            wst_ObservedGeneration := Generation (cr st)\<rparr>) st;
          depReady = deploymentReady dep;
          st = (if depReady
            then setCond E (newCondition ConditionTypeDeploymentReady ConditionTrue
              ''AllReplicasReady'' ''All WordPress replicas are ready'') st
            else setCond E (newCondition ConditionTypeDeploymentReady ConditionFalse
              ''Progressing''
              (fmtD (ws_ReadyReplicas dep) @ ''/'' @ fmtD (ws_Replicas dep) @ '' replicas ready'')) st);
          dbReady = IsStatusConditionTrue E (wst_Conditions (Status (cr st))) ConditionTypeDatabaseReady;
          st = (if dbReady \<and> depReady
            then setCond E (newCondition ConditionTypeReady ConditionTrue
              ''AllReady'' ''WordPress and its database are ready'')
              (modStatus (\<lambda>s. s\<lparr>wst_Phase := PhaseReady\<rparr>) st)
            else setCond E (newCondition ConditionTypeReady ConditionFalse
              ''Progressing'' ''Resources are still being provisioned'')
              (modStatus (\<lambda>s. s\<lparr>wst_Phase := PhaseProvisioning\<rparr>) st))
      in modStatus (\<lambda>s. s\<lparr>wst_URL := computeURL (cr st)\<rparr>) st)"

definition updateStatus :: "'w env \<Rightarrow> 'w rs \<Rightarrow> gerror option \<times> 'w rs" where
  "updateStatus E st =
     (case api (Get (deployments E) (Namespace (cr st), wpName (cr st))) st of
        (Inl err, st) \<Rightarrow>
          if \<not> IsNotFound E err then (Some err, st)
          else persistStatus E (computeStatus E zeroWorkloadStatus st)
      | (Inr dep, st) \<Rightarrow> persistStatus E (computeStatus E (dep_Status dep) st))"

subsection \<open>Frames\<close>

lemma modStatus_frame [frame_simps]:
  "metaOf (cr (modStatus f st)) = metaOf (cr st)" "Spec (cr (modStatus f st)) = Spec (cr st)"
  "world (modStatus f st) = world st" "Status (cr (modStatus f st)) = f (Status (cr st))"
  by (simp_all add: modStatus_def metaOf_def object.defs)

lemma meta_key: "metaOf a = metaOf b \<Longrightarrow> ObjectKeyFromObject a = ObjectKeyFromObject b"
  by (simp add: ObjectKeyFromObject_def meta_eqD [of a b])

lemma writeStatus_keeps:
  assumes E: "admits P ok E" and key: "key_laws E"
    and ok: "\<And>ob. ObjectKeyFromObject ob = k \<Longrightarrow> Status ob = s \<Longrightarrow> ok (StatusUpdated ob)"
  shows "keeps P (writeStatus E k s)"
proof (rule keepsI)
  fix w r w'
  assume w: "P w" and run: "writeStatus E k s w = (r, w')"
  obtain g w1 where get: "Get (wordpresses E) k w = (g, w1)" by fastforce
  with w have w1: "P w1" by (auto dest: keepsD [OF read_keeps(1) [OF E]])
  show "P w'"
  proof (cases g)
    case (Inl e)
    with get run w1 show ?thesis by (simp add: writeStatus_def)
  next
    case (Inr latest)
    with get have "ObjectKeyFromObject latest = k"
      using key_lawD [OF key_lawsD(1) [OF key]] by blast
    then have "ObjectKeyFromObject (latest\<lparr>Status := s\<rparr>) = k"
      by (simp add: ObjectKeyFromObject_def)
    then have "keeps P (StatusUpdate E (latest\<lparr>Status := s\<rparr>))"
      by (intro admitsD(9) [where ok = ok, OF E] ok) simp_all
    with Inr get run w1 show ?thesis by (auto simp: writeStatus_def dest: keepsD)
  qed
qed

lemma persistStatus_frame:
  assumes "persistStatus E st = (r, st')"
  shows "cr st' = cr st"
  using assms by (auto simp: persistStatus_def dest: api_frame)

lemma persistStatus_keeps:
  assumes "admits P ok E" and "key_laws E" and "retry_law E"
    and "\<And>ob. ObjectKeyFromObject ob = ObjectKeyFromObject (cr st) \<Longrightarrow> Status ob = Status (cr st) \<Longrightarrow>
      ok (StatusUpdated ob)"
    and "persistStatus E st = (r, st')" and "P (world st)"
  shows "P (world st')"
proof -
  have "keeps P (RetryOnConflict E (writeStatus E (ObjectKeyFromObject (cr st)) (Status (cr st))))"
    by (rule RetryOnConflict_keeps [OF assms(1,3) writeStatus_keeps [OF assms(1,2)]])
      (rule assms(4), assumption+)
  then show ?thesis using assms(5,6) unfolding persistStatus_def by (rule api_keeps)
qed

lemma computeStatus_frame [frame_simps]:
  "metaOf (cr (computeStatus E dep st)) = metaOf (cr st)"
  "Spec (cr (computeStatus E dep st)) = Spec (cr st)"
  by (simp_all add: computeStatus_def Let_def frame_simps)

lemma computeStatus_keeps:
  assumes "admits P ok E" and "P (world st)"
  shows "P (world (computeStatus E dep st))"
  using assms by (simp add: computeStatus_def Let_def frame_simps keeps_intros)

text \<open>What is written is the status computed here; \<open>I\<close> is what the writer may rely on.\<close>

lemma updateStatus_keeps_with:
  assumes E: "admits P ok E" and key: "key_laws E" and retry: "retry_law E"
    and ok: "\<And>ob. ObjectKeyFromObject ob = ObjectKeyFromObject (cr st) \<Longrightarrow> I (Status ob) \<Longrightarrow>
      ok (StatusUpdated ob)"
    and I: "\<And>dep st'. cr st' = cr st \<Longrightarrow> I (Status (cr (computeStatus E dep st')))"
    and run: "updateStatus E st = (r, st')" and w: "P (world st)"
  shows "P (world st')"
proof -
  obtain g st1 where get: "api (Get (deployments E) (Namespace (cr st), wpName (cr st))) st = (g, st1)"
    by fastforce
  have st1: "cr st1 = cr st" "P (world st1)"
    using get w api_frame(1) [OF get] api_keeps [OF read_keeps(6) [OF E] get] by auto
  have "P (world st')" if "persistStatus E (computeStatus E dep st1) = (r, st')" for dep
  proof (rule persistStatus_keeps [OF E key retry _ that])
    fix ob :: WordPress
    assume "ObjectKeyFromObject ob = ObjectKeyFromObject (cr (computeStatus E dep st1))"
      and "Status ob = Status (cr (computeStatus E dep st1))"
    then show "ok (StatusUpdated ob)"
      using ok I [OF st1(1), of dep] meta_key [OF computeStatus_frame(1)] st1(1) by metis
  qed (use E st1(2) in \<open>rule computeStatus_keeps\<close>)
  with run get st1 show ?thesis
    by (auto simp: updateStatus_def split: sum.splits if_splits)
qed

lemma updateStatus_keeps:
  assumes "admits P ok E" and "key_laws E" and "retry_law E"
    and "\<And>ob. ObjectKeyFromObject ob = ObjectKeyFromObject (cr st) \<Longrightarrow> ok (StatusUpdated ob)"
    and "updateStatus E st = (r, st')" and "P (world st)"
  shows "P (world st')"
  by (rule updateStatus_keeps_with [OF assms(1-3) _ _ assms(5,6), where I = "\<lambda>_. True"])
    (use assms(4) in simp_all)

lemma markFailed_keeps:
  assumes E: "admits P ok E" and key: "key_laws E" and retry: "retry_law E"
    and ok: "\<And>ob. ObjectKeyFromObject ob = ObjectKeyFromObject (cr st) \<Longrightarrow>
      Status ob = Status (cr (snd (markFailed E reason msg st))) \<Longrightarrow> ok (StatusUpdated ob)"
    and run: "markFailed E reason msg st = (r, st')" and w: "P (world st)"
  shows "P (world st')"
proof -
  let ?st = "setCond E (newCondition ConditionTypeReady ConditionFalse reason msg)
    (modStatus (\<lambda>s. s\<lparr>wst_Phase := PhaseFailed\<rparr>) st)"
  have mark: "persistStatus E ?st = (r, st')" using run by (simp add: markFailed_def)
  have "metaOf (cr ?st) = metaOf (cr st)" by (simp add: frame_simps)
  then have "ObjectKeyFromObject (cr ?st) = ObjectKeyFromObject (cr st)" by (rule meta_key)
  moreover have "cr (snd (markFailed E reason msg st)) = cr ?st"
    using run persistStatus_frame [OF mark] by simp
  moreover have "P (world ?st)" using E w by (simp add: keeps_intros frame_simps)
  ultimately show ?thesis using persistStatus_keeps [OF E key retry _ mark] ok by simp
qed

end
