(* ===== verification/DemoCluster.thy ===== *)
theory DemoCluster
  imports Frames
begin

section \<open>A concrete cluster\<close>

text \<open>
  An in-memory API server with the documented behaviour of the outside code: objects stored by
  key, a log of the writes, a clock that is also the source of randomness, the condition,
  finalizer and owner-reference helpers, and retries on conflict. \<open>demoEnv\<close> instantiates the
  parameters of the model with it; the lemmas show that every law of theory \<open>Environment\<close>
  holds of it, so the theorems that assume the laws are not vacuous. It is not part of the model.
\<close>

record cluster =
  c_wordpresses :: "WordPress list"
  c_secrets :: "Secret list"
  c_services :: "Service list"
  c_statefulsets :: "StatefulSet list"
  c_pvcs :: "PersistentVolumeClaim list"
  c_deployments :: "Deployment list"
  c_ingresses :: "Ingress list"
  c_hpas :: "HorizontalPodAutoscaler list"
  clock :: nat
  writes :: "call list"
  events :: "string list"

definition emptyCluster :: cluster where
  "emptyCluster =
     \<lparr>c_wordpresses = [], c_secrets = [], c_services = [], c_statefulsets = [], c_pvcs = [],
      c_deployments = [], c_ingresses = [], c_hpas = [], clock = 0, writes = [], events = []\<rparr>"

definition logCall :: "call \<Rightarrow> cluster \<Rightarrow> cluster" where
  "logCall c w = w\<lparr>writes := writes w @ [c]\<rparr>"

subsection \<open>Stores\<close>

definition notFoundErr :: gerror where
  "notFoundErr = Foreign ''NotFound'' ''not found''"

definition alreadyExistsErr :: gerror where
  "alreadyExistsErr = Foreign ''AlreadyExists'' ''already exists''"

definition hasKey :: "nsname \<Rightarrow> 'o object_scheme \<Rightarrow> bool" where
  "hasKey k = (\<lambda>ob. ObjectKeyFromObject ob = k)"

definition memStore ::
    "(cluster \<Rightarrow> 'o object_scheme list)
     \<Rightarrow> (('o object_scheme list \<Rightarrow> 'o object_scheme list) \<Rightarrow> cluster \<Rightarrow> cluster)
     \<Rightarrow> ('o object_scheme \<Rightarrow> kobj) \<Rightarrow> ('o object_scheme, cluster) store" where
  "memStore sel upd wrap =
     \<lparr>Get = (\<lambda>k w. (case find (hasKey k) (sel w) of None \<Rightarrow> Inl notFoundErr | Some ob \<Rightarrow> Inr ob, w)),
      Create = (\<lambda>ob w.
        let w1 = logCall (Created (wrap ob)) w in
        if find (hasKey (ObjectKeyFromObject ob)) (sel w) = None
        then (None, upd (\<lambda>xs. xs @ [ob]) w1) else (Some alreadyExistsErr, w1)),
      Update = (\<lambda>ob w.
        let w1 = logCall (Updated (wrap ob)) w in
        if find (hasKey (ObjectKeyFromObject ob)) (sel w) = None then (Some notFoundErr, w1)
        else (None, upd (map (\<lambda>x. if hasKey (ObjectKeyFromObject ob) x then ob else x)) w1)),
      Delete = (\<lambda>ob w.
        let w1 = logCall (Deleted (wrap ob)) w in
        if find (hasKey (ObjectKeyFromObject ob)) (sel w) = None then (Some notFoundErr, w1)
        else (None, upd (filter (\<lambda>x. \<not> hasKey (ObjectKeyFromObject ob) x)) w1))\<rparr>"

definition demoStatusUpdate :: "WordPress \<Rightarrow> cluster \<Rightarrow> gerror option \<times> cluster" where
  "demoStatusUpdate ob w =
     (let w1 = logCall (StatusUpdated ob) w in
      if find (hasKey (ObjectKeyFromObject ob)) (c_wordpresses w) = None then (Some notFoundErr, w1)
      else (None, c_wordpresses_update (map (\<lambda>x. if hasKey (ObjectKeyFromObject ob) x
        then x\<lparr>Status := Status ob\<rparr> else x)) w1))"

subsection \<open>Helpers\<close>

fun reasonOf :: "gerror \<Rightarrow> string" where
  "reasonOf (Errorf s) = []"
| "reasonOf (Wrapf s e) = reasonOf e"
| "reasonOf (Foreign r s) = r"

fun upsertCondition :: "Condition list \<Rightarrow> Condition \<Rightarrow> gotime \<Rightarrow> Condition list" where
  "upsertCondition [] c now = [c\<lparr>co_LastTransitionTime := now\<rparr>]"
| "upsertCondition (d # ds) c now =
     (if co_Type d = co_Type c then
        d\<lparr>co_Status := co_Status c, co_Reason := co_Reason c, co_Message := co_Message c,
          co_ObservedGeneration := co_ObservedGeneration c,
          co_LastTransitionTime :=
            (if co_Status d = co_Status c then co_LastTransitionTime d else now)\<rparr> # ds
      else d # upsertCondition ds c now)"

definition isController :: "OwnerReference \<Rightarrow> bool" where
  "isController r \<longleftrightarrow> or_Controller r = Some True"

definition demoSetController :: "object \<Rightarrow> object \<Rightarrow> gerror + OwnerReference list" where
  "demoSetController owner ob =
     (if list_all (\<lambda>r. or_UID r = UID owner) (filter isController (OwnerReferences ob))
      then Inr (\<lparr>or_APIVersion = ''apps.kubesphere.ai/v1alpha1'', or_Kind = ''WordPress'',
                 or_Name = Name owner, or_UID = UID owner, or_Controller = Some True,
                 or_BlockOwnerDeletion = Some True\<rparr>
               # filter (\<lambda>r. or_UID r \<noteq> UID owner) (OwnerReferences ob))
      else Inl (Errorf ''already owned''))"

definition demoControlledBy :: "object \<Rightarrow> object \<Rightarrow> bool" where
  "demoControlledBy ob owner =
     (case find isController (OwnerReferences ob) of
        None \<Rightarrow> False
      | Some r \<Rightarrow> or_UID r = UID owner)"

definition tick :: "cluster \<Rightarrow> cluster" where
  "tick w = w\<lparr>clock := clock w + 1\<rparr>"

definition demoRand :: "nat \<Rightarrow> cluster \<Rightarrow> (gerror + byte list) \<times> cluster" where
  "demoRand n w = (Inr (map of_nat [clock w ..< clock w + n]), w\<lparr>clock := clock w + n\<rparr>)"

definition demoQuantity :: "string \<Rightarrow> gerror + quantity" where
  "demoQuantity s = (if s = [] then Inl (Errorf ''quantities must match the regular expression'')
     else Inr s)"

definition demoBase :: "cluster env" where
  "demoBase =
     \<lparr>wordpresses = memStore c_wordpresses c_wordpresses_update KWordPress,
      StatusUpdate = demoStatusUpdate,
      secrets = memStore c_secrets c_secrets_update KSecret,
      services = memStore c_services c_services_update KService,
      statefulsets = memStore c_statefulsets c_statefulsets_update KStatefulSet,
      pvcs = memStore c_pvcs c_pvcs_update KPVC,
      deployments = memStore c_deployments c_deployments_update KDeployment,
      ingresses = memStore c_ingresses c_ingresses_update KIngress,
      hpas = memStore c_hpas c_hpas_update KHPA,
      Recorder = Some (\<lambda>wp t r m w. w\<lparr>events := events w @ [r]\<rparr>),
      RandRead = demoRand,
      SetStatusCondition = (\<lambda>cs c w. (upsertCondition cs c (int (clock w)), tick w)),
      RemoveStatusCondition = (\<lambda>cs t. filter (\<lambda>c. co_Type c \<noteq> t) cs),
      IsStatusConditionTrue = (\<lambda>cs t.
        (case find (\<lambda>c. co_Type c = t) cs of None \<Rightarrow> False | Some c \<Rightarrow> co_Status c = ConditionTrue)),
      RetryOnConflict = (\<lambda>fn w. fn w),
      Backoff = tick,
      IsNotFound = (\<lambda>e. reasonOf e = ''NotFound''),
      IsConflict = (\<lambda>e. reasonOf e = ''Conflict''),
      ContainsFinalizer = (\<lambda>fs f. f \<in> set fs),
      AddFinalizer = (\<lambda>fs f. if f \<in> set fs then fs else fs @ [f]),
      RemoveFinalizer = (\<lambda>fs f. filter (\<lambda>g. g \<noteq> f) fs),
      SetControllerReference = demoSetController,
      IsControlledBy = demoControlledBy,
      ParseQuantity = demoQuantity,
      QuoteUnicode = (\<lambda>s. s)\<rparr>"

definition demoEnv :: "cluster env" where
  "demoEnv = demoBase\<lparr>RetryOnConflict := retryN demoBase 4\<rparr>"

subsection \<open>The laws hold\<close>

lemma find_hasKey: "find (hasKey k) xs = Some ob \<Longrightarrow> ObjectKeyFromObject ob = k"
  by (auto simp: find_Some_iff hasKey_def)

lemma memStore_key_law: "key_law (memStore sel upd wrap)"
  by (auto simp: key_law_def memStore_def dest: find_hasKey split: option.splits)

lemma demo_key_laws: "key_laws demoEnv"
  by (simp add: key_laws_def demoEnv_def demoBase_def memStore_key_law)

lemma find_isController_filter:
  "isController r \<Longrightarrow> find isController (r # rs) = Some r"
  by simp

lemma demo_owner_law: "owner_law demoEnv"
  by (auto simp: owner_law_def demoEnv_def demoBase_def demoSetController_def demoControlledBy_def
      isController_def split: if_splits)

lemma demo_finalizer_laws: "finalizer_laws demoEnv"
  by (auto simp: finalizer_laws_def demoEnv_def demoBase_def)

lemma demo_error_laws: "error_laws demoEnv"
  by (simp add: error_laws_def demoEnv_def demoBase_def)

lemma condView_upsert:
  "condView (upsertCondition cs c now) t =
     (if t = co_Type c then Some (co_Status c, co_Reason c, co_Message c) else condView cs t)"
  by (induction cs c now rule: upsertCondition.induct) (auto simp: condView_def)

lemma condView_filter:
  "condView (filter (\<lambda>c. co_Type c \<noteq> t) cs) t' = (if t' = t then None else condView cs t')"
  by (induction cs) (auto simp: condView_def)

lemma demo_condition_laws: "condition_laws demoEnv"
  unfolding condition_laws_def
  by (simp add: demoEnv_def demoBase_def condView_upsert condView_filter)
    (simp add: condView_def split: option.splits)

lemma retryN_demo: "retryN demoEnv n fn w = retryN demoBase n fn w"
  by (induction n arbitrary: w) (simp_all add: demoEnv_def split: prod.splits option.splits)

lemma demo_retry_law: "retry_law demoEnv"
  unfolding retry_law_def
  by (rule exI [of _ 4]) (simp add: retryN_demo, simp add: demoEnv_def)

lemma demo_rand_law: "rand_law demoEnv"
  by (simp add: rand_law_def demoEnv_def demoBase_def demoRand_def)

lemma memStore_logs:
  assumes "\<And>f w. writes (upd f w) = writes w"
  shows "store_logs writes wrap (memStore sel upd wrap)"
  using assms by (simp add: store_logs_def memStore_def logCall_def Let_def)

lemma demo_logs: "logs writes demoEnv"
  by (simp add: logs_def demoEnv_def demoBase_def memStore_logs demoStatusUpdate_def logCall_def
      Let_def demoRand_def tick_def)

lemmas demo_laws = demo_key_laws demo_owner_law demo_finalizer_laws demo_error_laws
  demo_condition_laws demo_retry_law demo_rand_law demo_logs

subsection \<open>Sample resources\<close>

definition zeroSpec :: WordPressSpec where
  "zeroSpec =
     \<lparr>Image = [], ImagePullPolicy = [], ImagePullSecrets = None, Replicas = None, Resources = [],
      SiteURL = [], Env = [],
      Database = \<lparr>Mode = [], db_Name = [], db_User = [], TablePrefix = [], Internal = None,
        External = None\<rparr>,
      ServiceS = \<lparr>svs_Type = [], svs_Port = 0, svs_NodePort = 0, svs_Annotations = None\<rparr>,
      IngressS = \<lparr>igs_Enabled = False, igs_IngressClassName = None, igs_Host = [],
        igs_TLSSecretName = [], igs_Annotations = None\<rparr>,
      Persistence = \<lparr>per_Enabled = False, per_Size = [], per_StorageClassName = None,
        per_AccessModes = []\<rparr>,
      Autoscaling = \<lparr>as_Enabled = False, as_MinReplicas = 0, as_MaxReplicas = 0,
        as_TargetCPUUtilizationPercentage = 0\<rparr>,
      PodAnnotations = None, PodLabels = None, NodeSelector = None, Tolerations = None,
      Affinity = None, MaxUnavailable = None, MaxSurge = None\<rparr>"

definition zeroStatus :: WordPressStatus where
  "zeroStatus =
     \<lparr>wst_ObservedGeneration = 0, wst_Phase = [], wst_URL = [], wst_Replicas = 0,
      wst_ReadyReplicas = 0, wst_DatabaseHost = [], wst_Conditions = []\<rparr>"

text \<open>A resource \<^verbatim>\<open>blog\<close> with the given finalizers and spec.\<close>

definition sampleWP :: "string list \<Rightarrow> WordPressSpec \<Rightarrow> WordPress" where
  "sampleWP fs s =
     object.extend
       ((newMeta ''blog'' ''default'' None None)\<lparr>UID := ''u1'', Generation := 1, Finalizers := fs\<rparr>)
       (WordPress.fields s zeroStatus)"

definition clusterOf :: "WordPress \<Rightarrow> cluster" where
  "clusterOf wp = emptyCluster\<lparr>c_wordpresses := [wp]\<rparr>"

lemma sampleWP_fields [simp]:
  "Name (sampleWP fs s) = ''blog''" "Namespace (sampleWP fs s) = ''default''"
  "UID (sampleWP fs s) = ''u1''" "Finalizers (sampleWP fs s) = fs" "Spec (sampleWP fs s) = s"
  "DeletionTimestamp (sampleWP fs s) = None" "Status (sampleWP fs s) = zeroStatus"
  "Annotations (sampleWP fs s) = None"
  "ObjectKeyFromObject (sampleWP fs s) = (''default'', ''blog'')"
  by (simp_all add: sampleWP_def newMeta_def object.defs WordPress.defs ObjectKeyFromObject_def)

lemma Get_clusterOf:
  "Get (wordpresses demoEnv) (ObjectKeyFromObject wp) (clusterOf wp) = (Inr wp, clusterOf wp)"
  by (simp add: demoEnv_def demoBase_def memStore_def clusterOf_def hasKey_def)

lemma writes_clusterOf [simp]: "writes (clusterOf wp) = []"
  by (simp add: clusterOf_def emptyCluster_def)

subsection \<open>A namespace with nothing in it\<close>

text \<open>
  A second instance, whose world is just the log: one resource, every Secret asked for is there,
  nothing else is, every write succeeds and none conflicts. Its answers do not depend on what was
  written, so a whole pass over it evaluates by simplification.
\<close>

definition blankStore :: "('o \<Rightarrow> kobj) \<Rightarrow> ('o, call list) store" where
  "blankStore wrap =
     \<lparr>Get = (\<lambda>k w. (Inl notFoundErr, w)),
      Create = (\<lambda>ob w. (None, w @ [Created (wrap ob)])),
      Update = (\<lambda>ob w. (None, w @ [Updated (wrap ob)])),
      Delete = (\<lambda>ob w. (None, w @ [Deleted (wrap ob)]))\<rparr>"

definition secretNamed :: "nsname \<Rightarrow> Secret" where
  "secretNamed k = object.extend (newMeta (snd k) (fst k) None None) (Secret.fields None [] [])"

definition blankEnv :: "WordPress \<Rightarrow> call list env" where
  "blankEnv wp =
     \<lparr>wordpresses = (blankStore KWordPress)\<lparr>Get := (\<lambda>k w.
        (if k = ObjectKeyFromObject wp then Inr wp else Inl notFoundErr, w))\<rparr>,
      StatusUpdate = (\<lambda>ob w. (None, w @ [StatusUpdated ob])),
      secrets = (blankStore KSecret)\<lparr>Get := (\<lambda>k w. (Inr (secretNamed k), w))\<rparr>,
      services = blankStore KService,
      statefulsets = blankStore KStatefulSet,
      pvcs = blankStore KPVC,
      deployments = blankStore KDeployment,
      ingresses = blankStore KIngress,
      hpas = blankStore KHPA,
      Recorder = None,
      RandRead = (\<lambda>n w. (Inr (replicate n 0), w)),
      SetStatusCondition = (\<lambda>cs c w. (upsertCondition cs c 0, w)),
      RemoveStatusCondition = (\<lambda>cs t. filter (\<lambda>c. co_Type c \<noteq> t) cs),
      IsStatusConditionTrue = (\<lambda>cs t.
        (case find (\<lambda>c. co_Type c = t) cs of None \<Rightarrow> False | Some c \<Rightarrow> co_Status c = ConditionTrue)),
      RetryOnConflict = (\<lambda>fn w. fn w),
      Backoff = (\<lambda>w. w),
      IsNotFound = (\<lambda>e. reasonOf e = ''NotFound''),
      IsConflict = (\<lambda>e. reasonOf e = ''Conflict''),
      ContainsFinalizer = (\<lambda>fs f. f \<in> set fs),
      AddFinalizer = (\<lambda>fs f. if f \<in> set fs then fs else fs @ [f]),
      RemoveFinalizer = (\<lambda>fs f. filter (\<lambda>g. g \<noteq> f) fs),
      SetControllerReference = (\<lambda>owner ob. Inr
        [\<lparr>or_APIVersion = [], or_Kind = ''WordPress'', or_Name = Name owner, or_UID = UID owner,
          or_Controller = Some True, or_BlockOwnerDeletion = Some True\<rparr>]),
      IsControlledBy = demoControlledBy,
      ParseQuantity = demoQuantity,
      QuoteUnicode = (\<lambda>s. s)\<rparr>"

lemma blank_key_laws: "key_laws (blankEnv wp)"
  by (auto simp: key_laws_def key_law_def blankEnv_def blankStore_def secretNamed_def newMeta_def
      object.defs Secret.defs ObjectKeyFromObject_def split: if_splits)

lemma blank_owner_law: "owner_law (blankEnv wp)"
  by (simp add: owner_law_def blankEnv_def demoControlledBy_def isController_def)

lemma blank_error_laws: "error_laws (blankEnv wp)"
  by (simp add: error_laws_def blankEnv_def)

lemma blank_finalizer_laws: "finalizer_laws (blankEnv wp)"
  by (auto simp: finalizer_laws_def blankEnv_def)

lemma blank_condition_laws: "condition_laws (blankEnv wp)"
  unfolding condition_laws_def
  by (simp add: blankEnv_def condView_upsert condView_filter)
    (simp add: condView_def split: option.splits)

lemma blank_retry_law: "retry_law (blankEnv wp)"
  unfolding retry_law_def by (rule exI [of _ 0]) (simp add: blankEnv_def)

lemma blank_logs: "logs (\<lambda>w. w) (blankEnv wp)"
  by (simp add: logs_def store_logs_def blankEnv_def blankStore_def)

lemmas blank_laws = blank_logs blank_key_laws blank_owner_law blank_retry_law blank_condition_laws

text \<open>What the calls of a pass return there.\<close>

lemma blank_calls [simp]:
  "Get (wordpresses (blankEnv wp)) k w =
     (if k = ObjectKeyFromObject wp then Inr wp else Inl notFoundErr, w)"
  "Get (secrets (blankEnv wp)) k w = (Inr (secretNamed k), w)"
  "Get (services (blankEnv wp)) k w = (Inl notFoundErr, w)"
  "Get (statefulsets (blankEnv wp)) k w = (Inl notFoundErr, w)"
  "Get (pvcs (blankEnv wp)) k w = (Inl notFoundErr, w)"
  "Get (deployments (blankEnv wp)) k w = (Inl notFoundErr, w)"
  "Get (ingresses (blankEnv wp)) k w = (Inl notFoundErr, w)"
  "Get (hpas (blankEnv wp)) k w = (Inl notFoundErr, w)"
  "IsNotFound (blankEnv wp) notFoundErr" "IsConflict (blankEnv wp) e \<longleftrightarrow> reasonOf e = ''Conflict''"
  "ContainsFinalizer (blankEnv wp) fs f \<longleftrightarrow> f \<in> set fs"
  "RetryOnConflict (blankEnv wp) fn w = fn w"
  "StatusUpdate (blankEnv wp) ob w = (None, w @ [StatusUpdated ob])"
  by (simp_all add: blankEnv_def blankStore_def notFoundErr_def)

lemma blank_writes [simp]:
  "Create (secrets (blankEnv wp)) s w = (None, w @ [Created (KSecret s)])"
  "Create (services (blankEnv wp)) svc w = (None, w @ [Created (KService svc)])"
  "Create (statefulsets (blankEnv wp)) ss w = (None, w @ [Created (KStatefulSet ss)])"
  "Create (pvcs (blankEnv wp)) p w = (None, w @ [Created (KPVC p)])"
  "Create (deployments (blankEnv wp)) d w = (None, w @ [Created (KDeployment d)])"
  "Create (ingresses (blankEnv wp)) i w = (None, w @ [Created (KIngress i)])"
  "Create (hpas (blankEnv wp)) h w = (None, w @ [Created (KHPA h)])"
  "Update (wordpresses (blankEnv wp)) ob w = (None, w @ [Updated (KWordPress ob)])"
  by (simp_all add: blankEnv_def blankStore_def)

definition ownedBy :: "WordPress \<Rightarrow> 'a object_scheme \<Rightarrow> 'a object_scheme" where
  "ownedBy owner d = setOwners
     [\<lparr>or_APIVersion = [], or_Kind = ''WordPress'', or_Name = Name owner, or_UID = UID owner,
       or_Controller = Some True, or_BlockOwnerDeletion = Some True\<rparr>] d"

lemma blank_withController [simp]: "withController (blankEnv wp) ob d = Inr (ownedBy ob d)"
  by (simp add: withController_def blankEnv_def ownedBy_def)

end
