(* ===== verification/Validation.thy ===== *)
theory Validation
  imports Defaults DemoCluster
begin

section \<open>Spec validation (wordpress\_controller.go, validateSpec)\<close>

text \<open>
  The fast-path validation of a defaulted spec, with its error texts, and the declarative
  predicate \<open>validSpec\<close> it decides. \<open>noNilDeref\<close> is what the rest of the pass relies on:
  every pointer the selected database mode makes it dereference is set.
\<close>

definition validateDatabase :: "'w env \<Rightarrow> DatabaseSpec \<Rightarrow> gerror option" where
  "validateDatabase E d =
     (if Mode d = DatabaseModeExternal then
        (case External d of
           None \<Rightarrow> Some (Errorf ''database.mode=External requires database.external'')
         | Some x \<Rightarrow>
             if ext_Host x = [] then Some (Errorf ''database.external.host must be set'')
             else if skr_Name (ext_PasswordSecret x) = [] \<or> skr_Key (ext_PasswordSecret x) = []
             then Some (Errorf ''database.external.passwordSecret must reference a Secret'')
             else None)
      else if Mode d = DatabaseModeInternal then None
      else Some (Errorf (''unsupported database.mode '' @ fmtQ (QuoteUnicode E) (Mode d))))"

definition validateSpec :: "'w env \<Rightarrow> WordPress \<Rightarrow> gerror option" where
  "validateSpec E wp =
     (let s = Spec wp in
      case validateDatabase E (Database s) of
        Some err \<Rightarrow> Some err
      | None \<Rightarrow>
          if as_Enabled (Autoscaling s)
             \<and> sint (as_MaxReplicas (Autoscaling s)) < sint (as_MinReplicas (Autoscaling s))
          then Some (Errorf ''autoscaling.maxReplicas must be >= autoscaling.minReplicas'')
          else if igs_Enabled (IngressS s) \<and> igs_Host (IngressS s) = []
          then Some (Errorf ''ingress.enabled=true requires ingress.host'')
          else None)"

definition validDatabase :: "DatabaseSpec \<Rightarrow> bool" where
  "validDatabase d \<longleftrightarrow>
     Mode d = DatabaseModeInternal
     \<or> (Mode d = DatabaseModeExternal
        \<and> (case External d of
             None \<Rightarrow> False
           | Some x \<Rightarrow> ext_Host x \<noteq> [] \<and> skr_Name (ext_PasswordSecret x) \<noteq> []
               \<and> skr_Key (ext_PasswordSecret x) \<noteq> []))"

definition validSpec :: "WordPressSpec \<Rightarrow> bool" where
  "validSpec s \<longleftrightarrow>
     validDatabase (Database s)
     \<and> (as_Enabled (Autoscaling s) \<longrightarrow>
          sint (as_MinReplicas (Autoscaling s)) \<le> sint (as_MaxReplicas (Autoscaling s)))
     \<and> (igs_Enabled (IngressS s) \<longrightarrow> igs_Host (IngressS s) \<noteq> [])"

definition noNilDeref :: "DatabaseSpec \<Rightarrow> bool" where
  "noNilDeref d \<longleftrightarrow>
     (if Mode d = DatabaseModeExternal then External d \<noteq> None else Internal d \<noteq> None)"

lemma validateDatabase_None_iff: "validateDatabase E d = None \<longleftrightarrow> validDatabase d"
  by (auto simp: validateDatabase_def validDatabase_def split: option.splits)

lemma validateSpec_None_iff: "validateSpec E wp = None \<longleftrightarrow> validSpec (Spec wp)"
  using validateDatabase_None_iff [of E "Database (Spec wp)"]
  by (auto simp: validateSpec_def validSpec_def Let_def not_less split: option.splits)

lemma validDatabase_mode:
  "validDatabase d \<Longrightarrow> Mode d = DatabaseModeExternal \<or> Mode d = DatabaseModeInternal"
  by (auto simp: validDatabase_def)

lemma validated_noNilDeref:
  assumes "validateSpec E (applyDefaults wp) = None"
  shows "noNilDeref (Database (Spec (applyDefaults wp)))"
proof -
  let ?d = "Database (Spec (applyDefaults wp))"
  have "validDatabase ?d"
    using assms by (simp add: validateSpec_None_iff validSpec_def)
  moreover have "defaultedDatabase ?d"
    using defaultSpec_defaulted [of "Spec wp"] by (simp add: defaulted_def Spec_applyDefaults)
  ultimately show ?thesis
    by (auto simp: noNilDeref_def validDatabase_def defaultedDatabase_def split: option.splits)
qed

text \<open>C23. Validation accepts exactly the valid specs, whatever the order of its checks: a mode
  that is Internal, or External with host and password reference; replica bounds in order when
  autoscaling; a host when the ingress is enabled.\<close>

theorem validateSpec_decides:
  "validateSpec E wp = None \<longleftrightarrow> validSpec (Spec wp)"
  by (rule validateSpec_None_iff)

text \<open>A rejected spec is rejected by an error of the operator's own, never one that the
  API machinery would read as a NotFound or Conflict.\<close>

theorem validateSpec_error_is_own:
  assumes "error_laws E" and "validateSpec E wp = Some err"
  shows "\<not> IsNotFound E err \<and> \<not> IsConflict E err \<and> errorText err \<noteq> []"
  using assms
  by (auto simp: validateSpec_def validateDatabase_def error_laws_def Let_def
      split: option.splits if_splits)

theorem validateSpec_error_is_own_witness:
  "\<exists>err. validateSpec demoEnv (sampleWP [] zeroSpec) = Some err
     \<and> \<not> IsNotFound demoEnv err \<and> \<not> IsConflict demoEnv err \<and> errorText err \<noteq> []"
proof -
  have "Mode (Database (Spec (sampleWP [] zeroSpec))) = []" by (simp add: zeroSpec_def)
  then obtain err where err: "validateSpec demoEnv (sampleWP [] zeroSpec) = Some err"
    by (simp add: validateSpec_def validateDatabase_def Let_def)
  with validateSpec_error_is_own [OF demo_error_laws err] show ?thesis by blast
qed

end
