(* ===== verification/OwnedObjects.thy ===== *)
theory OwnedObjects
  imports StatusReport Validation
begin

section \<open>Reconciling the owned objects (wordpress\_controller.go, lines 175 to 494)\<close>

text \<open>
  The reconcile functions of the database, the volume claim, the Deployment, the Service, the
  Ingress and the autoscaler, on the state of a pass (the in-memory object and the world). A
  Go pair \<^verbatim>\<open>(ctrl.Result, error)\<close> is a pair, a nil error is \<open>None\<close>, a nil-pointer
  panic is the outer \<open>None\<close>. \<^verbatim>\<open>log\<close> calls are left out.
\<close>

record Result =
  Requeue :: bool
  RequeueAfter :: int  \<comment> \<open>nanoseconds\<close>

definition zeroResult :: Result where
  "zeroResult = \<lparr>Requeue = False, RequeueAfter = 0\<rparr>"

definition second :: int where
  "second = 1000000000"

definition requeueAfter :: "int \<Rightarrow> Result" where
  "requeueAfter d = \<lparr>Requeue = False, RequeueAfter = d\<rparr>"

definition EventTypeWarning :: string where
  [go_consts]: "EventTypeWarning = ''Warning''"

definition EventTypeNormal :: string where
  [go_consts]: "EventTypeNormal = ''Normal''"

subsection \<open>Database\<close>

definition reconcileExternalDatabase ::
    "'w env \<Rightarrow> 'w rs \<Rightarrow> ((Result \<times> gerror option) \<times> 'w rs) option" where
  "reconcileExternalDatabase E st =
     do {
       x \<leftarrow> External (Database (Spec (cr st)));
       let secretName = skr_Name (ext_PasswordSecret x);
       Some (case api (Get (secrets E) (Namespace (cr st), secretName)) st of
         (Inl err, st) \<Rightarrow>
           if IsNotFound E err then
             (let msg = ''Secret '' @ fmtQ (QuoteUnicode E) secretName @ '' not found'';
                  st = setCond E (newCondition ConditionTypeDatabaseReady ConditionFalse
                    ''ExternalSecretMissing'' msg) st;
                  st = event E EventTypeWarning ''ExternalSecretMissing'' msg st
              in ((requeueAfter (30 * second), None), st))
           else ((zeroResult, Some err), st)
       | (Inr s, st) \<Rightarrow>
           ((zeroResult, None),
            setCond E (newCondition ConditionTypeDatabaseReady ConditionTrue
              ''ExternalDatabase'' ''Using external database'') st))
     }"

definition mysqlReadiness :: "'w env \<Rightarrow> StatefulSet option \<Rightarrow> 'w rs \<Rightarrow> 'w rs" where
  "mysqlReadiness E existing st =
     (let ready = (case existing of None \<Rightarrow> 0 | Some ss \<Rightarrow> ws_ReadyReplicas (sts_Status ss)) in
      if 1 \<le> sint ready
      then setCond E (newCondition ConditionTypeDatabaseReady ConditionTrue
        ''MySQLReady'' ''MySQL StatefulSet has at least one ready replica'') st
      else setCond E (newCondition ConditionTypeDatabaseReady ConditionFalse
        ''MySQLNotReady'' ''Waiting for MySQL StatefulSet to become ready'') st)"

definition reconcileMySQLStatefulSet ::
    "'w env \<Rightarrow> 'w rs \<Rightarrow> ((Result \<times> gerror option) \<times> 'w rs) option" where
  "reconcileMySQLStatefulSet E st =
     do {
       built \<leftarrow> buildMySQLStatefulSet E (cr st);
       Some (case built of
         Inl err \<Rightarrow> ((zeroResult, Some err), st)
       | Inr desiredSS \<Rightarrow>
           (case withController E (cr st) desiredSS of
              Inl err \<Rightarrow> ((zeroResult, Some err), st)
            | Inr desiredSS \<Rightarrow>
                (case api (syncStatefulSet E desiredSS) st of
                   (Inl err, st) \<Rightarrow> ((zeroResult, Some err), st)
                 | (Inr existing, st) \<Rightarrow> ((zeroResult, None), mysqlReadiness E existing st))))
     }"

definition reconcileMySQLService :: "'w env \<Rightarrow> 'w rs \<Rightarrow> gerror option \<times> 'w rs" where
  "reconcileMySQLService E st =
     (case withController E (cr st) (buildMySQLHeadlessService (cr st)) of
        Inl err \<Rightarrow> (Some err, st)
      | Inr desiredSvc \<Rightarrow> api (applyService E desiredSvc) st)"

definition reconcileMySQLSecret :: "'w env \<Rightarrow> 'w rs \<Rightarrow> gerror option \<times> 'w rs" where
  "reconcileMySQLSecret E st =
     (case api (buildMySQLSecret E (cr st)) st of
        (Inl err, st) \<Rightarrow> (Some err, st)
      | (Inr desiredSecret, st) \<Rightarrow>
          (case withController E (cr st) desiredSecret of
             Inl err \<Rightarrow> (Some err, st)
           | Inr desiredSecret \<Rightarrow> api (ensureSecret E desiredSecret) st))"

definition reconcileInternalDatabase ::
    "'w env \<Rightarrow> 'w rs \<Rightarrow> ((Result \<times> gerror option) \<times> 'w rs) option" where
  "reconcileInternalDatabase E st =
     (case reconcileMySQLSecret E st of
        (Some err, st) \<Rightarrow> Some ((zeroResult, Some err), st)
      | (None, st) \<Rightarrow>
          (case reconcileMySQLService E st of
             (Some err, st) \<Rightarrow> Some ((zeroResult, Some err), st)
           | (None, st) \<Rightarrow> reconcileMySQLStatefulSet E st))"

definition reconcileDatabase ::
    "'w env \<Rightarrow> 'w rs \<Rightarrow> ((Result \<times> gerror option) \<times> 'w rs) option" where
  "reconcileDatabase E st =
     (if Mode (Database (Spec (cr st))) = DatabaseModeExternal
      then reconcileExternalDatabase E st
      else reconcileInternalDatabase E st)"

subsection \<open>Volume claim, Deployment, Service\<close>

definition reconcilePVC :: "'w env \<Rightarrow> 'w rs \<Rightarrow> gerror option \<times> 'w rs" where
  "reconcilePVC E st =
     (if \<not> per_Enabled (Persistence (Spec (cr st))) then (None, st)
      else
        (case buildWordPressPVC E (cr st) of
           Inl err \<Rightarrow> (Some err, st)
         | Inr desired \<Rightarrow>
             (case withController E (cr st) desired of
                Inl err \<Rightarrow> (Some err, st)
              | Inr desired \<Rightarrow> api (ensurePVC E desired) st)))"

definition reconcileWordPressDeployment :: "'w env \<Rightarrow> 'w rs \<Rightarrow> (gerror option \<times> 'w rs) option" where
  "reconcileWordPressDeployment E st =
     do {
       (host, port) \<leftarrow> resolvedDBHost (cr st);
       let st = modStatus (\<lambda>s. s\<lparr>wst_DatabaseHost := host\<rparr>) st;
       dbEnv \<leftarrow>
         (if Mode (Database (Spec (cr st))) = DatabaseModeInternal
          then Some (envFromInternalDBSecret (dbSecretName (cr st)))
          else do {
            x \<leftarrow> External (Database (Spec (cr st)));
            Some (envFromExternalDBSecret (ext_PasswordSecret x))
          });
       Some (case withController E (cr st) (buildWordPressDeployment (cr st) host port dbEnv) of
         Inl err \<Rightarrow> (Some err, st)
       | Inr desired \<Rightarrow> api (syncDeployment E desired) st)
     }"

definition reconcileWordPressService :: "'w env \<Rightarrow> 'w rs \<Rightarrow> gerror option \<times> 'w rs" where
  "reconcileWordPressService E st =
     (case withController E (cr st) (buildWordPressService (cr st)) of
        Inl err \<Rightarrow> (Some err, st)
      | Inr desired \<Rightarrow> api (applyService E desired) st)"

subsection \<open>Ingress and autoscaler\<close>

definition reconcileIngress :: "'w env \<Rightarrow> 'w rs \<Rightarrow> gerror option \<times> 'w rs" where
  "reconcileIngress E st =
     (if \<not> igs_Enabled (IngressS (Spec (cr st))) then
        (case api (dropIngress E (cr st)) st of
           (Inl err, st) \<Rightarrow> (Some err, st)
         | (Inr missing, st) \<Rightarrow>
             (None, if missing then removeCond E ConditionTypeIngressConfigured st else st))
      else
        (case withController E (cr st) (buildWordPressIngress (cr st)) of
           Inl err \<Rightarrow> (Some err, st)
         | Inr desired \<Rightarrow>
             (case api (syncIngress E desired) st of
                (Inl err, st) \<Rightarrow> (Some err, st)
              | (Inr created, st) \<Rightarrow>
                  (None,
                   setCond E
                     (if created
                      then newCondition ConditionTypeIngressConfigured ConditionTrue
                        ''Created'' ''Ingress created''
                      else newCondition ConditionTypeIngressConfigured ConditionTrue
                        ''Reconciled'' ''Ingress is up-to-date'') st))))"

definition reconcileHPA :: "'w env \<Rightarrow> 'w rs \<Rightarrow> gerror option \<times> 'w rs" where
  "reconcileHPA E st =
     (if \<not> as_Enabled (Autoscaling (Spec (cr st))) then api (dropHPA E (cr st)) st
      else
        (case withController E (cr st) (buildWordPressHPA (cr st)) of
           Inl err \<Rightarrow> (Some err, st)
         | Inr desired \<Rightarrow> api (syncHPA E desired) st))"

subsection \<open>No nil dereference after validation\<close>

lemma reconcileMySQLSecret_frame:
  assumes "reconcileMySQLSecret E st = (r, st')"
  shows "cr st' = cr st"
  using assms
  by (auto simp: reconcileMySQLSecret_def split: prod.splits sum.splits dest!: api_frame(1))

lemma reconcileMySQLService_frame:
  assumes "reconcileMySQLService E st = (r, st')"
  shows "cr st' = cr st"
  using assms by (auto simp: reconcileMySQLService_def split: sum.splits dest!: api_frame(1))

lemma reconcileDatabase_total:
  assumes "noNilDeref (Database (Spec (cr st)))"
  shows "reconcileDatabase E st \<noteq> None"
proof (cases "Mode (Database (Spec (cr st))) = DatabaseModeExternal")
  case True
  with assms obtain x where "External (Database (Spec (cr st))) = Some x"
    by (auto simp: noNilDeref_def)
  with True show ?thesis
    by (simp add: reconcileDatabase_def reconcileExternalDatabase_def Let_def del: not_None_eq)
next
  case False
  with assms have "Internal (Database (Spec (cr st))) \<noteq> None" by (simp add: noNilDeref_def)
  then have "reconcileMySQLStatefulSet E st' \<noteq> None" if "cr st' = cr st" for st'
    using that buildMySQLStatefulSet_total [of "cr st" E]
    by (cases "buildMySQLStatefulSet E (cr st)")
      (simp_all add: reconcileMySQLStatefulSet_def del: not_None_eq)
  with False show ?thesis
    by (auto simp: reconcileDatabase_def reconcileInternalDatabase_def
        split: prod.splits option.splits
        dest!: reconcileMySQLSecret_frame reconcileMySQLService_frame)
qed

lemma reconcileWordPressDeployment_total:
  assumes "noNilDeref (Database (Spec (cr st)))"
    and "Mode (Database (Spec (cr st))) = DatabaseModeExternal
      \<or> Mode (Database (Spec (cr st))) = DatabaseModeInternal"
  shows "reconcileWordPressDeployment E st \<noteq> None"
  using assms
  by (auto simp: reconcileWordPressDeployment_def resolvedDBHost_def noNilDeref_def Let_def
      frame_simps)

end
