(* ===== verification/Reconciler.thy ===== *)
theory Reconciler
  imports OwnedObjects
begin

section \<open>The reconcile pass (wordpress\_controller.go, lines 61 to 141 and 550 to 587)\<close>

text \<open>
  \<^verbatim>\<open>Reconcile\<close> and \<^verbatim>\<open>handleDeletion\<close>. The Go function is one sequence of early
  returns; here each stretch between two of them is a definition, composed in the same order:
  deletion, finalizer registration, rejection of an invalid spec, database, the other owned
  objects, status.
\<close>

subsection \<open>Deletion\<close>

definition mysqlPVCName :: "WordPress \<Rightarrow> string" where
  [name_defs]: "mysqlPVCName wp = ''data-'' @ dbStatefulSetName wp @ ''-0''"

definition retainsData :: "WordPress \<Rightarrow> bool" where
  "retainsData wp \<longleftrightarrow> mapGet (Annotations wp) RetainDataAnnotation = ''true''"

definition cleanupMySQL :: "'w env \<Rightarrow> 'w rs \<Rightarrow> gerror option \<times> 'w rs" where
  "cleanupMySQL E st =
     (let retain = retainsData (cr st) in
      if Mode (Database (Spec (cr st))) = DatabaseModeInternal \<and> \<not> retain then
        (let pvcName = mysqlPVCName (cr st) in
         case api (Get (pvcs E) (Namespace (cr st), pvcName)) st of
           (Inr pvc, st) \<Rightarrow>
             (let st = event E EventTypeNormal ''DeletingMySQLPVC''
                    (''Deleting MySQL data PVC '' @ fmtQ (QuoteUnicode E) pvcName) st in
              case api (Delete (pvcs E) pvc) st of
                (None, st) \<Rightarrow> (None, st)
              | (Some delErr, st) \<Rightarrow>
                  if \<not> IsNotFound E delErr then (Some delErr, st) else (None, st))
         | (Inl err, st) \<Rightarrow> if \<not> IsNotFound E err then (Some err, st) else (None, st))
      else if retain then
        (None, event E EventTypeNormal ''RetainingMySQLPVC''
           ''MySQL data PVC retained due to retain-data annotation'' st)
      else (None, st))"

definition dropFinalizer :: "'w env \<Rightarrow> 'w rs \<Rightarrow> (Result \<times> gerror option) \<times> 'w rs" where
  "dropFinalizer E st =
     (let wp = (cr st)\<lparr>Finalizers := RemoveFinalizer E (Finalizers (cr st)) WordPressFinalizer\<rparr> in
      case api (Update (wordpresses E) wp) (st\<lparr>cr := wp\<rparr>) of
        (Some err, st) \<Rightarrow> ((zeroResult, ignoreConflict E (Some err)), st)
      | (None, st) \<Rightarrow> ((zeroResult, None), st))"

definition handleDeletion :: "'w env \<Rightarrow> 'w rs \<Rightarrow> (Result \<times> gerror option) \<times> 'w rs" where
  "handleDeletion E st =
     (if \<not> ContainsFinalizer E (Finalizers (cr st)) WordPressFinalizer then ((zeroResult, None), st)
      else
        (case cleanupMySQL E st of
           (Some err, st) \<Rightarrow> ((zeroResult, Some err), st)
         | (None, st) \<Rightarrow> dropFinalizer E st))"

subsection \<open>The stretches of Reconcile\<close>

definition registerFinalizer :: "'w env \<Rightarrow> 'w rs \<Rightarrow> (Result \<times> gerror option) \<times> 'w rs" where
  "registerFinalizer E st =
     (let wp = (cr st)\<lparr>Finalizers := AddFinalizer E (Finalizers (cr st)) WordPressFinalizer\<rparr> in
      case api (Update (wordpresses E) wp) (st\<lparr>cr := wp\<rparr>) of
        (Some err, st) \<Rightarrow> ((zeroResult, Some err), st)
      | (None, st) \<Rightarrow> ((zeroResult, None), st))"

definition rejectSpec :: "'w env \<Rightarrow> gerror \<Rightarrow> 'w rs \<Rightarrow> (Result \<times> gerror option) \<times> 'w rs" where
  "rejectSpec E err st =
     (let st = event E EventTypeWarning ''InvalidSpec'' (errorText err) st;
          st = snd (markFailed E ''InvalidSpec'' (errorText err) st)
      in ((zeroResult, None), st))"

text \<open>\<^verbatim>\<open>if err := step(); err != nil { return ctrl.Result{}, ignoreConflict(err) }\<close>,
  then the rest of the pass.\<close>

definition orReturn ::
    "'w env \<Rightarrow> gerror option \<times> 'w rs \<Rightarrow> ('w rs \<Rightarrow> ((Result \<times> gerror option) \<times> 'w rs) option)
     \<Rightarrow> ((Result \<times> gerror option) \<times> 'w rs) option" where
  "orReturn E step rest =
     (case step of
        (Some err, st) \<Rightarrow> Some ((zeroResult, ignoreConflict E (Some err)), st)
      | (None, st) \<Rightarrow> rest st)"

definition finishPass :: "'w rs \<Rightarrow> (Result \<times> gerror option) \<times> 'w rs" where
  "finishPass st =
     (if wst_Phase (Status (cr st)) \<noteq> PhaseReady
      then ((requeueAfter (15 * second), None), st)
      else ((zeroResult, None), st))"

definition reconcileWorkload :: "'w env \<Rightarrow> 'w rs \<Rightarrow> ((Result \<times> gerror option) \<times> 'w rs) option" where
  "reconcileWorkload E st =
     orReturn E (reconcilePVC E st) (\<lambda>st. do {
       deployed \<leftarrow> reconcileWordPressDeployment E st;
       orReturn E deployed (\<lambda>st.
         orReturn E (reconcileWordPressService E st) (\<lambda>st.
           orReturn E (reconcileIngress E st) (\<lambda>st.
             orReturn E (reconcileHPA E st) (\<lambda>st.
               orReturn E (updateStatus E st) (\<lambda>st. Some (finishPass st))))))
     })"

definition reconcileResources :: "'w env \<Rightarrow> 'w rs \<Rightarrow> ((Result \<times> gerror option) \<times> 'w rs) option" where
  "reconcileResources E st =
     do {
       ((res, err), st) \<leftarrow> reconcileDatabase E st;
       if err \<noteq> None then
         Some ((res, ignoreConflict E err), snd (persistStatus E st))
       else if res \<noteq> zeroResult then
         (case persistStatus E st of
            (Some statusErr, st) \<Rightarrow> Some ((res, Some statusErr), st)
          | (None, st) \<Rightarrow> Some ((res, None), st))
       else reconcileWorkload E st
     }"

definition reconcileObject :: "'w env \<Rightarrow> 'w rs \<Rightarrow> ((Result \<times> gerror option) \<times> 'w rs) option" where
  "reconcileObject E st =
     (if \<not> timeIsZero (DeletionTimestamp (cr st)) then Some (handleDeletion E st)
      else if \<not> ContainsFinalizer E (Finalizers (cr st)) WordPressFinalizer
      then Some (registerFinalizer E st)
      else
        (let st = st\<lparr>cr := applyDefaults (cr st)\<rparr> in
         case validateSpec E (cr st) of
           Some err \<Rightarrow> Some (rejectSpec E err st)
         | None \<Rightarrow> reconcileResources E st))"

definition Reconcile ::
    "'w env \<Rightarrow> nsname \<Rightarrow> 'w \<Rightarrow> ((Result \<times> gerror option) \<times> 'w) option" where
  "Reconcile E req w =
     (case Get (wordpresses E) req w of
        (Inl err, w) \<Rightarrow>
          if IsNotFound E err then Some ((zeroResult, None), w)
          else Some ((zeroResult, Some err), w)
      | (Inr wp, w) \<Rightarrow>
          do {
            (res, st) \<leftarrow> reconcileObject E \<lparr>cr = wp, world = w\<rparr>;
            Some (res, world st)
          })"

subsection \<open>The pass never dereferences nil\<close>

lemma orReturn_total: "(\<And>st. step = (None, st) \<Longrightarrow> rest st \<noteq> None) \<Longrightarrow> orReturn E step rest \<noteq> None"
  by (cases step; cases "fst step") (auto simp: orReturn_def)

definition readyToRun :: "'w rs \<Rightarrow> bool" where
  "readyToRun st \<longleftrightarrow> noNilDeref (Database (Spec (cr st)))
     \<and> (Mode (Database (Spec (cr st))) = DatabaseModeExternal
        \<or> Mode (Database (Spec (cr st))) = DatabaseModeInternal)"

lemma reconcilePVC_frame:
  assumes "reconcilePVC E st = (r, st')"
  shows "cr st' = cr st"
  using assms
  by (auto simp: reconcilePVC_def split: if_splits sum.splits dest!: api_frame(1))

lemma reconcileExternalDatabase_frame:
  assumes "reconcileExternalDatabase E st = Some (r, st')"
  shows "metaOf (cr st') = metaOf (cr st)" "Spec (cr st') = Spec (cr st)"
  using assms
  by (auto simp: reconcileExternalDatabase_def Let_def frame_simps split: bind_splits prod.splits
      sum.splits if_splits dest!: api_frame(1))

lemma reconcileMySQLStatefulSet_frame:
  assumes "reconcileMySQLStatefulSet E st = Some (r, st')"
  shows "metaOf (cr st') = metaOf (cr st)" "Spec (cr st') = Spec (cr st)"
  using assms
  by (auto simp: reconcileMySQLStatefulSet_def mysqlReadiness_def Let_def frame_simps
      split: bind_splits prod.splits sum.splits if_splits dest!: api_frame(1))

lemma reconcileDatabase_frame:
  assumes "reconcileDatabase E st = Some (r, st')"
  shows "metaOf (cr st') = metaOf (cr st)" "Spec (cr st') = Spec (cr st)"
  using assms
  by (auto simp: reconcileDatabase_def reconcileInternalDatabase_def
      split: if_splits prod.splits option.splits
      dest: reconcileExternalDatabase_frame reconcileMySQLStatefulSet_frame
      dest!: reconcileMySQLSecret_frame reconcileMySQLService_frame)

lemma reconcileWorkload_total: "readyToRun st \<Longrightarrow> reconcileWorkload E st \<noteq> None"
  unfolding reconcileWorkload_def
proof (rule orReturn_total)
  fix st' assume ready: "readyToRun st" and "reconcilePVC E st = (None, st')"
  then have "cr st' = cr st" by (auto dest: reconcilePVC_frame)
  with ready obtain d where d: "reconcileWordPressDeployment E st' = Some d"
    using reconcileWordPressDeployment_total [of st' E] by (auto simp: readyToRun_def)
  have "orReturn E d (\<lambda>st. orReturn E (reconcileWordPressService E st) (\<lambda>st.
      orReturn E (reconcileIngress E st) (\<lambda>st. orReturn E (reconcileHPA E st) (\<lambda>st.
        orReturn E (updateStatus E st) (\<lambda>st. Some (finishPass st)))))) \<noteq> None"
    by (intro orReturn_total) simp
  with d show "reconcileWordPressDeployment E st' \<bind> (\<lambda>deployed. orReturn E deployed (\<lambda>st.
      orReturn E (reconcileWordPressService E st) (\<lambda>st. orReturn E (reconcileIngress E st) (\<lambda>st.
        orReturn E (reconcileHPA E st) (\<lambda>st. orReturn E (updateStatus E st)
          (\<lambda>st. Some (finishPass st))))))) \<noteq> None"
    by simp
qed

lemma reconcileResources_total:
  assumes "readyToRun st"
  shows "reconcileResources E st \<noteq> None"
proof -
  obtain res err st' where db: "reconcileDatabase E st = Some ((res, err), st')"
    using reconcileDatabase_total [of st E] assms unfolding readyToRun_def by fastforce
  with assms have "readyToRun st'"
    using reconcileDatabase_frame(2) [OF db] by (simp add: readyToRun_def)
  then have "reconcileWorkload E st' \<noteq> None" by (rule reconcileWorkload_total)
  with db show ?thesis
    by (cases "persistStatus E st'"; cases "fst (persistStatus E st')")
      (auto simp: reconcileResources_def)
qed

lemma validated_readyToRun:
  assumes "validateSpec E (applyDefaults wp) = None"
  shows "readyToRun \<lparr>cr = applyDefaults wp, world = w\<rparr>"
  using validated_noNilDeref [OF assms] assms
  by (auto simp: readyToRun_def validateSpec_None_iff validSpec_def dest: validDatabase_mode)

lemma reconcileObject_total: "reconcileObject E st \<noteq> None"
proof -
  have "reconcileResources E (st\<lparr>cr := applyDefaults (cr st)\<rparr>) \<noteq> None"
    if "validateSpec E (applyDefaults (cr st)) = None"
  proof (rule reconcileResources_total)
    show "readyToRun (st\<lparr>cr := applyDefaults (cr st)\<rparr>)"
      using validated_readyToRun [OF that, of "world st"] by (simp add: readyToRun_def)
  qed
  then show ?thesis
    by (cases "validateSpec E (applyDefaults (cr st))") (simp_all add: reconcileObject_def Let_def del: not_None_eq)
qed

lemma Reconcile_total: "Reconcile E req w \<noteq> None"
proof (cases "Get (wordpresses E) req w")
  case (Pair g w1)
  show ?thesis
  proof (cases g)
    case (Inl e)
    with Pair show ?thesis by (simp add: Reconcile_def)
  next
    case (Inr wp)
    obtain res st where "reconcileObject E \<lparr>cr = wp, world = w1\<rparr> = Some (res, st)"
      using reconcileObject_total [of E "\<lparr>cr = wp, world = w1\<rparr>"] by fastforce
    with Pair Inr show ?thesis by (simp add: Reconcile_def)
  qed
qed

text \<open>C13. A pass never panics on a nil pointer: whatever object the API server returns and
  whatever its answers are, Reconcile returns a result.\<close>

theorem Reconcile_never_panics: "\<exists>res err w'. Reconcile E req w = Some ((res, err), w')"
  using Reconcile_total [of E req w] by auto

end
