(* ===== verification/StatusFlow.thy ===== *)
theory StatusFlow
  imports Reconciler
begin

section \<open>The status through a pass\<close>

text \<open>
  A pass changes the in-memory status in few ways: the database and Ingress conditions, the database
  host, the computed status, the mark of a rejected spec. A property of the status that these keep
  (\<open>statusInv\<close>) survives every step of the pass; \<open>Permissions\<close> takes it on to the statuses the
  pass writes.
\<close>

definition statusInv :: "'w env \<Rightarrow> (WordPressStatus \<Rightarrow> bool) \<Rightarrow> bool" where
  "statusInv E I \<longleftrightarrow>
     (\<forall>c st. co_Type c = ConditionTypeDatabaseReady \<or> co_Type c = ConditionTypeIngressConfigured \<longrightarrow>
          I (Status (cr st)) \<longrightarrow> I (Status (cr (setCond E c st))))
     \<and> (\<forall>st :: 'w rs. I (Status (cr st)) \<longrightarrow>
          I (Status (cr (removeCond E ConditionTypeIngressConfigured st))))
     \<and> (\<forall>s h. I s \<longrightarrow> I (s\<lparr>wst_DatabaseHost := h\<rparr>))
     \<and> (\<forall>dep st. I (Status (cr st)) \<longrightarrow> I (Status (cr (computeStatus E dep st))))
     \<and> (\<forall>reason msg st. I (Status (cr st)) \<longrightarrow>
          I (Status (cr (snd (markFailed E reason msg st)))))"

lemma statusInvD:
  assumes "statusInv E I"
  shows "co_Type c = ConditionTypeDatabaseReady \<or> co_Type c = ConditionTypeIngressConfigured \<Longrightarrow>
      I (Status (cr st)) \<Longrightarrow> I (Status (cr (setCond E c st)))"
    and "I (Status (cr st)) \<Longrightarrow> I (Status (cr (removeCond E ConditionTypeIngressConfigured st)))"
    and "I (Status (cr st)) \<Longrightarrow> I (Status (cr (modStatus (\<lambda>s. s\<lparr>wst_DatabaseHost := h\<rparr>) st)))"
    and "I (Status (cr st)) \<Longrightarrow> I (Status (cr (computeStatus E dep st)))"
    and "I (Status (cr st)) \<Longrightarrow> I (Status (cr (snd (markFailed E reason msg st))))"
  using assms unfolding statusInv_def modStatus_frame by blast+

lemma statusInv_True: "statusInv E (\<lambda>_. True)"
  by (simp add: statusInv_def)

lemma reconcileExternalDatabase_status:
  assumes "statusInv E I" and "I (Status (cr st))" and "reconcileExternalDatabase E st = Some (r, st')"
  shows "I (Status (cr st'))"
  using assms(2,3) statusInvD(1) [OF assms(1)]
  by (auto simp: reconcileExternalDatabase_def Let_def frame_simps newCondition_def split: bind_splits
      prod.splits sum.splits if_splits dest!: api_frame(1))

lemma mysqlReadiness_status:
  assumes "statusInv E I" and "I (Status (cr st))"
  shows "I (Status (cr (mysqlReadiness E ex st)))"
  using assms(2) statusInvD(1) [OF assms(1)] by (simp add: mysqlReadiness_def Let_def newCondition_def)

lemma reconcileMySQLStatefulSet_status:
  assumes "statusInv E I" and "I (Status (cr st))" and "reconcileMySQLStatefulSet E st = Some (r, st')"
  shows "I (Status (cr st'))"
  using assms(2,3) mysqlReadiness_status [OF assms(1)]
  by (auto simp: reconcileMySQLStatefulSet_def split: bind_splits prod.splits sum.splits
      dest!: api_frame(1))

lemma reconcileDatabase_status:
  assumes I: "statusInv E I" and "I (Status (cr st))" and "reconcileDatabase E st = Some (r, st')"
  shows "I (Status (cr st'))"
  using assms(2,3)
  by (auto simp: reconcileDatabase_def reconcileInternalDatabase_def
      split: if_splits prod.splits option.splits
      intro: reconcileExternalDatabase_status [OF I]
      dest!: reconcileMySQLSecret_frame reconcileMySQLService_frame)
    (metis reconcileMySQLStatefulSet_status [OF I])

lemma reconcileWordPressDeployment_status:
  assumes "statusInv E I" and "I (Status (cr st))"
    and "reconcileWordPressDeployment E st = Some (r, st')"
  shows "I (Status (cr st'))"
  using assms(2,3) statusInvD(3) [OF assms(1)]
  by (auto simp: reconcileWordPressDeployment_def Let_def split: bind_splits prod.splits sum.splits
      if_splits dest!: api_frame(1))

lemma reconcileWordPressService_frame:
  assumes "reconcileWordPressService E st = (r, st')"
  shows "cr st' = cr st"
  using assms by (auto simp: reconcileWordPressService_def split: sum.splits dest!: api_frame(1))

lemma reconcileIngress_status:
  assumes "statusInv E I" and "I (Status (cr st))" and "reconcileIngress E st = (r, st')"
  shows "I (Status (cr st'))"
  using assms(2,3) statusInvD(1,2) [OF assms(1)]
  by (auto simp: reconcileIngress_def newCondition_def split: prod.splits sum.splits if_splits
      dest!: api_frame(1))

lemma reconcileHPA_frame:
  assumes "reconcileHPA E st = (r, st')"
  shows "cr st' = cr st"
  using assms by (auto simp: reconcileHPA_def split: if_splits sum.splits dest!: api_frame(1))

end
