(* ===== verification/Permissions.thy ===== *)
theory Permissions
  imports StatusFlow DemoCluster
begin

section \<open>What a pass may write\<close>

text \<open>
  The contract of a reconcile pass towards the API server: for a fetched resource, the writes
  that may be sent, stated on their own (\<open>permitted\<close>) and independent of the order, the
  answers and the retries. The lemmas show, one per reconcile function, that every write is
  permitted; a pass state is tracked by \<open>tracks\<close>: metadata and spec of the in-memory object
  are those the pass started with, and the world property holds.
\<close>

definition internalMode :: "WordPress \<Rightarrow> bool" where
  "internalMode wp \<longleftrightarrow> Mode (Database (Spec wp)) = DatabaseModeInternal"

text \<open>The object is one the resource may own under that name.\<close>

definition at :: "WordPress \<Rightarrow> string \<Rightarrow> 'a object_scheme \<Rightarrow> bool" where
  "at wp n ob \<longleftrightarrow> ObjectKeyFromObject ob = (Namespace wp, n)"

definition owns :: "'w env \<Rightarrow> WordPress \<Rightarrow> 'a object_scheme \<Rightarrow> bool" where
  "owns E wp ob \<longleftrightarrow> IsControlledBy E (metaOf ob) (metaOf wp)"

text \<open>The writes of a pass over a valid, defaulted resource.\<close>

fun resourceCall :: "'w env \<Rightarrow> WordPress \<Rightarrow> call \<Rightarrow> bool" where
  "resourceCall E wp (StatusUpdated ob) \<longleftrightarrow> ObjectKeyFromObject ob = ObjectKeyFromObject wp"
| "resourceCall E wp (Created (KSecret s)) \<longleftrightarrow> internalMode wp \<and> at wp (dbSecretName wp) s \<and> owns E wp
  s"
| "resourceCall E wp (Created (KService s)) \<longleftrightarrow>
     (at wp (wpName wp) s \<or> internalMode wp \<and> at wp (dbServiceName wp) s) \<and> owns E wp s"
| "resourceCall E wp (Updated (KService s)) \<longleftrightarrow>
     at wp (wpName wp) s \<or> internalMode wp \<and> at wp (dbServiceName wp) s"
| "resourceCall E wp (Created (KStatefulSet s)) \<longleftrightarrow>
     internalMode wp \<and> at wp (dbStatefulSetName wp) s \<and> owns E wp s"
| "resourceCall E wp (Updated (KStatefulSet s)) \<longleftrightarrow> internalMode wp \<and> at wp (dbStatefulSetName wp) s"
| "resourceCall E wp (Created (KPVC p)) \<longleftrightarrow>
     per_Enabled (Persistence (Spec wp)) \<and> at wp (wpPVCName wp) p \<and> owns E wp p"
| "resourceCall E wp (Created (KDeployment d)) \<longleftrightarrow> at wp (wpName wp) d \<and> owns E wp d"
| "resourceCall E wp (Updated (KDeployment d)) \<longleftrightarrow> at wp (wpName wp) d"
| "resourceCall E wp (Created (KIngress i)) \<longleftrightarrow>
     igs_Enabled (IngressS (Spec wp)) \<and> at wp (wpName wp) i \<and> owns E wp i"
| "resourceCall E wp (Updated (KIngress i)) \<longleftrightarrow> igs_Enabled (IngressS (Spec wp)) \<and> at wp (wpName wp)
  i"
| "resourceCall E wp (Deleted (KIngress i)) \<longleftrightarrow>
     \<not> igs_Enabled (IngressS (Spec wp)) \<and> at wp (wpName wp) i \<and> owns E wp i"
| "resourceCall E wp (Created (KHPA h)) \<longleftrightarrow>
     as_Enabled (Autoscaling (Spec wp)) \<and> at wp (hpaName wp) h \<and> owns E wp h"
| "resourceCall E wp (Updated (KHPA h)) \<longleftrightarrow> as_Enabled (Autoscaling (Spec wp)) \<and> at wp (hpaName wp) h"
| "resourceCall E wp (Deleted (KHPA h)) \<longleftrightarrow>
     \<not> as_Enabled (Autoscaling (Spec wp)) \<and> at wp (hpaName wp) h \<and> owns E wp h"
| "resourceCall E wp _ \<longleftrightarrow> False"

text \<open>The writes of a pass over a resource being deleted.\<close>

fun deletionCall :: "'w env \<Rightarrow> WordPress \<Rightarrow> call \<Rightarrow> bool" where
  "deletionCall E wp (Deleted (KPVC p)) \<longleftrightarrow>
     internalMode wp \<and> \<not> retainsData wp \<and> at wp (mysqlPVCName wp) p"
| "deletionCall E wp (Updated (KWordPress ob)) \<longleftrightarrow>
     ob = wp\<lparr>Finalizers := RemoveFinalizer E (Finalizers wp) WordPressFinalizer\<rparr>"
| "deletionCall E wp _ \<longleftrightarrow> False"

definition permitted :: "'w env \<Rightarrow> WordPress \<Rightarrow> call \<Rightarrow> bool" where
  "permitted E wp c \<longleftrightarrow>
     (if \<not> timeIsZero (DeletionTimestamp wp) then
        ContainsFinalizer E (Finalizers wp) WordPressFinalizer \<and> deletionCall E wp c
      else if \<not> ContainsFinalizer E (Finalizers wp) WordPressFinalizer then
        c = Updated (KWordPress
          (wp\<lparr>Finalizers := AddFinalizer E (Finalizers wp) WordPressFinalizer\<rparr>))
      else if \<not> validSpec (Spec (applyDefaults wp)) then
        (case c of StatusUpdated ob \<Rightarrow> ObjectKeyFromObject ob = ObjectKeyFromObject wp | _ \<Rightarrow> False)
      else resourceCall E (applyDefaults wp) c)"

subsection \<open>Tracking a pass\<close>

definition tracks :: "('w \<Rightarrow> bool) \<Rightarrow> WordPress \<Rightarrow> 'w rs \<Rightarrow> bool" where
  "tracks P wp st \<longleftrightarrow> metaOf (cr st) = metaOf wp \<and> Spec (cr st) = Spec wp \<and> P (world st)"

lemma tracksD:
  assumes "tracks P wp st"
  shows "metaOf (cr st) = metaOf wp" "Name (cr st) = Name wp" "Namespace (cr st) = Namespace wp"
    "Spec (cr st) = Spec wp" "ObjectKeyFromObject (cr st) = ObjectKeyFromObject wp"
  using assms meta_eqD(1,2) [of "cr st" wp] meta_key [of "cr st" wp]
  by (simp_all add: tracks_def)

lemma tracks_world: "tracks P wp st \<Longrightarrow> P (world st)"
  by (simp add: tracks_def)

text \<open>A world effect keeps track, and so does an effect on the status alone.\<close>

lemma tracks_api:
  assumes "tracks P wp st" and "keeps P f" and "api f st = (r, st')"
  shows "tracks P wp st'"
  using assms api_frame(1) [OF assms(3)] api_keeps [OF assms(2,3)] by (simp add: tracks_def)

lemma tracks_setCond [keeps_intros]:
  "admits P ok E \<Longrightarrow> tracks P wp st \<Longrightarrow> tracks P wp (setCond E c st)"
  by (simp add: tracks_def frame_simps setCond_keeps)

lemma tracks_removeCond [keeps_intros]: "tracks P wp st \<Longrightarrow> tracks P wp (removeCond E t st)"
  by (simp add: tracks_def frame_simps)

lemma tracks_event [keeps_intros]:
  "admits P ok E \<Longrightarrow> tracks P wp st \<Longrightarrow> tracks P wp (event E t r m st)"
  by (simp add: tracks_def frame_simps event_keeps)

lemma tracks_modStatus [keeps_intros]: "tracks P wp st \<Longrightarrow> tracks P wp (modStatus f st)"
  by (simp add: tracks_def frame_simps)

lemma tracks_mysqlReadiness [keeps_intros]:
  "admits P ok E \<Longrightarrow> tracks P wp st \<Longrightarrow> tracks P wp (mysqlReadiness E ex st)"
  by (simp add: mysqlReadiness_def Let_def keeps_intros)

text \<open>Names depend on the metadata only; an owner reference makes the object controlled.\<close>

lemma tracks_names [simp]:
  assumes "tracks P wp st"
  shows "wpName (cr st) = wpName wp" "dbServiceName (cr st) = dbServiceName wp"
    "dbStatefulSetName (cr st) = dbStatefulSetName wp" "dbSecretName (cr st) = dbSecretName wp"
    "wpPVCName (cr st) = wpPVCName wp" "hpaName (cr st) = hpaName wp"
    "mysqlPVCName (cr st) = mysqlPVCName wp"
  using tracksD(2) [OF assms] by (simp_all add: name_defs)

lemma withController_Inr:
  assumes "owner_law E" and "withController E wp d = Inr d'"
  shows "IsControlledBy E (metaOf d') (metaOf wp)"
    and "ObjectKeyFromObject d' = ObjectKeyFromObject d"
    and "Labels d' = Labels d" and "Annotations d' = Annotations d"
  using assms by (auto simp: withController_def owner_law_def split: sum.splits)


lemma patch_keys [simp]:
  "ObjectKeyFromObject (patchService ex d) = ObjectKeyFromObject ex"
  "ObjectKeyFromObject (patchStatefulSet ex1 ss) = ObjectKeyFromObject ex1"
  "ObjectKeyFromObject (patchDeployment ex2 dep) = ObjectKeyFromObject ex2"
  "ObjectKeyFromObject (patchIngress ex3 ing) = ObjectKeyFromObject ex3"
  "ObjectKeyFromObject (patchHPA ex4 h) = ObjectKeyFromObject ex4"
  by (simp_all add: ObjectKeyFromObject_def patchService_def patchStatefulSet_def
      patchDeployment_def patchIngress_def patchHPA_def Let_def)

text \<open>The environment of the WordPress container that has the database password.\<close>

definition passwordEnv :: "WordPress \<Rightarrow> EnvVar list option" where
  "passwordEnv wp =
     (if Mode (Database (Spec wp)) = DatabaseModeInternal
      then Some (envFromInternalDBSecret (dbSecretName wp))
      else do {
        x \<leftarrow> External (Database (Spec wp));
        Some (envFromExternalDBSecret (ext_PasswordSecret x))
      })"

text \<open>
  \<open>blocksKeep\<close>: the world property \<open>P\<close> survives every block the pass may run for the in-memory
  object \<open>ob\<close>, on the very object it builds. With \<open>steady\<close>, which also asks for the reads, the
  local effects and the status writes, \<open>P\<close> survives the pass: this is shown once, below. The
  writes of a pass (\<open>governed\<close>), the presence of objects and their being up to date are three
  such properties.
\<close>

definition blocksKeep :: "'w env \<Rightarrow> ('w \<Rightarrow> bool) \<Rightarrow> WordPress \<Rightarrow> bool" where
  "blocksKeep E P ob \<longleftrightarrow>
     (internalMode ob \<longrightarrow>
        (\<forall>w s w' d. buildMySQLSecret E ob w = (Inr s, w') \<longrightarrow> withController E ob s = Inr d \<longrightarrow>
           keeps P (ensureSecret E d))
        \<and> (\<forall>d. withController E ob (buildMySQLHeadlessService ob) = Inr d \<longrightarrow>
           keeps P (applyService E d))
        \<and> (\<forall>s d. buildMySQLStatefulSet E ob = Some (Inr s) \<longrightarrow> withController E ob s = Inr d \<longrightarrow>
           keeps P (syncStatefulSet E d)))
     \<and> (per_Enabled (Persistence (Spec ob)) \<longrightarrow>
        (\<forall>p d. buildWordPressPVC E ob = Inr p \<longrightarrow> withController E ob p = Inr d \<longrightarrow>
           keeps P (ensurePVC E d)))
     \<and> (\<forall>host port env d. resolvedDBHost ob = Some (host, port) \<longrightarrow> passwordEnv ob = Some env \<longrightarrow>
        withController E ob (buildWordPressDeployment ob host port env) = Inr d \<longrightarrow>
        keeps P (syncDeployment E d))
     \<and> (\<forall>d. withController E ob (buildWordPressService ob) = Inr d \<longrightarrow> keeps P (applyService E d))
     \<and> (if igs_Enabled (IngressS (Spec ob))
        then \<forall>d. withController E ob (buildWordPressIngress ob) = Inr d \<longrightarrow> keeps P (syncIngress E d)
        else keeps P (dropIngress E ob))
     \<and> (if as_Enabled (Autoscaling (Spec ob))
        then \<forall>d. withController E ob (buildWordPressHPA ob) = Inr d \<longrightarrow> keeps P (syncHPA E d)
        else keeps P (dropHPA E ob))"

definition statusOf :: "WordPress \<Rightarrow> call \<Rightarrow> bool" where
  "statusOf wp c \<longleftrightarrow>
     (case c of StatusUpdated ob \<Rightarrow> ObjectKeyFromObject ob = ObjectKeyFromObject wp | _ \<Rightarrow> False)"

lemma statusOf_simps [simp]:
  "statusOf wp (StatusUpdated ob) = (ObjectKeyFromObject ob = ObjectKeyFromObject wp)"
  by (simp add: statusOf_def)

text \<open>\<open>steadyFor\<close> says which status updates \<open>P\<close> survives; \<open>steady\<close>: all of this resource.\<close>

definition steadyFor :: "(call \<Rightarrow> bool) \<Rightarrow> 'w env \<Rightarrow> ('w \<Rightarrow> bool) \<Rightarrow> WordPress \<Rightarrow> bool" where
  "steadyFor ok E P wp \<longleftrightarrow>
     admits P ok E \<and> key_laws E \<and> retry_law E
     \<and> (\<forall>ob. metaOf ob = metaOf wp \<longrightarrow> Spec ob = Spec wp \<longrightarrow> blocksKeep E P ob)"

abbreviation steady :: "'w env \<Rightarrow> ('w \<Rightarrow> bool) \<Rightarrow> WordPress \<Rightarrow> bool" where
  "steady E P wp \<equiv> steadyFor (statusOf wp) E P wp"

lemma steadyD:
  assumes "steadyFor ok E P wp"
  shows "admits P ok E" "key_laws E" "retry_law E"
  using assms by (simp_all add: steadyFor_def)

lemma steady_blocks: "steadyFor ok E P wp \<Longrightarrow> tracks P wp st \<Longrightarrow> blocksKeep E P (cr st)"
  by (simp add: steadyFor_def tracks_def)

lemma blocksKeepD:
  assumes "blocksKeep E P ob"
  shows "internalMode ob \<Longrightarrow> buildMySQLSecret E ob w = (Inr s, w') \<Longrightarrow>
      withController E ob s = Inr sec \<Longrightarrow> keeps P (ensureSecret E sec)"
    and "internalMode ob \<Longrightarrow> withController E ob (buildMySQLHeadlessService ob) = Inr svc \<Longrightarrow>
      keeps P (applyService E svc)"
    and "internalMode ob \<Longrightarrow> buildMySQLStatefulSet E ob = Some (Inr ss) \<Longrightarrow>
      withController E ob ss = Inr sts \<Longrightarrow> keeps P (syncStatefulSet E sts)"
    and "per_Enabled (Persistence (Spec ob)) \<Longrightarrow> buildWordPressPVC E ob = Inr p \<Longrightarrow>
      withController E ob p = Inr pvc \<Longrightarrow> keeps P (ensurePVC E pvc)"
    and "resolvedDBHost ob = Some (host, port) \<Longrightarrow> passwordEnv ob = Some env \<Longrightarrow>
      withController E ob (buildWordPressDeployment ob host port env) = Inr dep \<Longrightarrow>
      keeps P (syncDeployment E dep)"
    and "withController E ob (buildWordPressService ob) = Inr svc \<Longrightarrow> keeps P (applyService E svc)"
    and "igs_Enabled (IngressS (Spec ob)) \<Longrightarrow>
      withController E ob (buildWordPressIngress ob) = Inr ing \<Longrightarrow> keeps P (syncIngress E ing)"
    and "\<not> igs_Enabled (IngressS (Spec ob)) \<Longrightarrow> keeps P (dropIngress E ob)"
    and "as_Enabled (Autoscaling (Spec ob)) \<Longrightarrow>
      withController E ob (buildWordPressHPA ob) = Inr hpa \<Longrightarrow> keeps P (syncHPA E hpa)"
    and "\<not> as_Enabled (Autoscaling (Spec ob)) \<Longrightarrow> keeps P (dropHPA E ob)"
proof -
  note k = assms [unfolded blocksKeep_def]
  note r1 = k [THEN conjunct2]
  note r2 = r1 [THEN conjunct2]
  note r3 = r2 [THEN conjunct2]
  note r4 = r3 [THEN conjunct2]
  show "keeps P (ensureSecret E sec)" if "internalMode ob"
    "buildMySQLSecret E ob w = (Inr s, w')" "withController E ob s = Inr sec"
    using k [THEN conjunct1] that by blast
  show "keeps P (applyService E svc)" if "internalMode ob"
    "withController E ob (buildMySQLHeadlessService ob) = Inr svc"
    using k [THEN conjunct1] that by blast
  show "keeps P (syncStatefulSet E sts)" if "internalMode ob"
    "buildMySQLStatefulSet E ob = Some (Inr ss)" "withController E ob ss = Inr sts"
    using k [THEN conjunct1] that by blast
  show "keeps P (ensurePVC E pvc)" if "per_Enabled (Persistence (Spec ob))"
    "buildWordPressPVC E ob = Inr p" "withController E ob p = Inr pvc"
    using r1 [THEN conjunct1] that by blast
  show "keeps P (syncDeployment E dep)" if "resolvedDBHost ob = Some (host, port)"
    "passwordEnv ob = Some env"
    "withController E ob (buildWordPressDeployment ob host port env) = Inr dep"
    using r2 [THEN conjunct1] that by blast
  show "keeps P (applyService E svc)" if "withController E ob (buildWordPressService ob) = Inr svc"
    using r3 [THEN conjunct1] that by blast
  show "keeps P (syncIngress E ing)" if "igs_Enabled (IngressS (Spec ob))"
    "withController E ob (buildWordPressIngress ob) = Inr ing"
    using r4 [THEN conjunct1] that by simp
  show "keeps P (dropIngress E ob)" if "\<not> igs_Enabled (IngressS (Spec ob))"
    using r4 [THEN conjunct1] that by simp
  show "keeps P (syncHPA E hpa)" if "as_Enabled (Autoscaling (Spec ob))"
    "withController E ob (buildWordPressHPA ob) = Inr hpa"
    using r4 [THEN conjunct2] that by simp
  show "keeps P (dropHPA E ob)" if "\<not> as_Enabled (Autoscaling (Spec ob))"
    using r4 [THEN conjunct2] that by simp
qed

subsection \<open>Database\<close>

lemma reconcileExternalDatabase_tracks:
  assumes g: "steadyFor ok E P wp" and t: "tracks P wp st"
    and run: "reconcileExternalDatabase E st = Some (r, st')"
  shows "tracks P wp st'"
proof -
  note E = steadyD(1) [OF g]
  obtain x where x: "External (Database (Spec (cr st))) = Some x"
    using run by (auto simp: reconcileExternalDatabase_def split: bind_splits)
  obtain s st1 where get:
    "api (Get (secrets E) (Namespace (cr st), skr_Name (ext_PasswordSecret x))) st = (s, st1)"
    by fastforce
  have "tracks P wp st1" by (rule tracks_api [OF t read_keeps(2) [OF E] get])
  with run x get E show ?thesis
    by (auto simp: reconcileExternalDatabase_def Let_def split: sum.splits if_splits
        intro!: keeps_intros)
qed

lemma reconcileMySQLSecret_tracks:
  assumes g: "steadyFor ok E P wp" and t: "tracks P wp st" and mode: "internalMode wp"
    and run: "reconcileMySQLSecret E st = (r, st')"
  shows "tracks P wp st'"
proof -
  note E = steadyD(1) [OF g]
  obtain b st1 where build: "api (buildMySQLSecret E (cr st)) st = (b, st1)" by fastforce
  have t1: "tracks P wp st1" by (rule tracks_api [OF t buildMySQLSecret_keeps [OF E] build])
  have cr: "cr st1 = cr st" using build by (rule api_frame)
  have "internalMode (cr st)" using mode tracksD(4) [OF t] by (simp add: internalMode_def)
  note kept = blocksKeepD(1) [OF steady_blocks [OF g t] this]
  have "tracks P wp st'"
    if b: "b = Inr s" and s': "withController E (cr st1) s = Inr s'"
      and put: "api (ensureSecret E s') st1 = (r, st')" for s s'
    using api_frame(2) [OF build] s' unfolding b cr
    by (intro tracks_api [OF t1 _ put]) (rule kept)
  with run build t1 show ?thesis
    by (auto simp: reconcileMySQLSecret_def split: sum.splits)
qed

lemma reconcileMySQLService_tracks:
  assumes g: "steadyFor ok E P wp" and t: "tracks P wp st" and mode: "internalMode wp"
    and run: "reconcileMySQLService E st = (r, st')"
  shows "tracks P wp st'"
proof -
  have "internalMode (cr st)" using mode tracksD(4) [OF t] by (simp add: internalMode_def)
  with run t show ?thesis
    by (auto simp: reconcileMySQLService_def split: sum.splits
        intro: tracks_api [OF t blocksKeepD(2) [OF steady_blocks [OF g t]]])
qed

lemma reconcileMySQLStatefulSet_tracks:
  assumes g: "steadyFor ok E P wp" and t: "tracks P wp st" and mode: "internalMode wp"
    and run: "reconcileMySQLStatefulSet E st = Some (r, st')"
  shows "tracks P wp st'"
proof -
  note E = steadyD(1) [OF g]
  have "internalMode (cr st)" using mode tracksD(4) [OF t] by (simp add: internalMode_def)
  note kept = blocksKeepD(3) [OF steady_blocks [OF g t] this]
  obtain b where build: "buildMySQLStatefulSet E (cr st) = Some b"
    using run by (auto simp: reconcileMySQLStatefulSet_def split: bind_splits)
  show ?thesis
  proof (cases b)
    case (Inl e)
    with run build t show ?thesis by (simp add: reconcileMySQLStatefulSet_def)
  next
    case (Inr ss)
    show ?thesis
    proof (cases "withController E (cr st) ss")
      case (Inl e)
      with run build t \<open>b = Inr ss\<close> show ?thesis by (simp add: reconcileMySQLStatefulSet_def)
    next
      case ss': (Inr ss')
      obtain x st1 where sync: "api (syncStatefulSet E ss') st = (x, st1)" by fastforce
      have "tracks P wp st1" by (rule tracks_api [OF t kept [OF _ ss'] sync]) (use build Inr in
        simp)
      with run build Inr ss' sync E show ?thesis
        by (cases x) (auto simp: reconcileMySQLStatefulSet_def intro!: keeps_intros)
    qed
  qed
qed

lemma reconcileDatabase_tracks:
  assumes g: "steadyFor ok E P wp" and t: "tracks P wp st"
    and mode: "internalMode wp \<or> Mode (Database (Spec wp)) = DatabaseModeExternal"
    and run: "reconcileDatabase E st = Some (r, st')"
  shows "tracks P wp st'"
proof (cases "Mode (Database (Spec wp)) = DatabaseModeExternal")
  case True
  with run t show ?thesis
    by (auto simp: reconcileDatabase_def tracksD(4)
        intro: reconcileExternalDatabase_tracks [OF g t])
next
  case False
  with mode have "internalMode wp" by simp
  note steps = reconcileMySQLSecret_tracks [OF g _ this] reconcileMySQLService_tracks [OF g _ this]
    reconcileMySQLStatefulSet_tracks [OF g _ this]
  show ?thesis using run False t
    by (auto simp: reconcileDatabase_def reconcileInternalDatabase_def tracksD(4)
        split: prod.splits option.splits) (blast intro: steps)+
qed

subsection \<open>WordPress objects\<close>

lemma reconcilePVC_tracks:
  assumes g: "steadyFor ok E P wp" and t: "tracks P wp st"
    and run: "reconcilePVC E st = (r, st')"
  shows "tracks P wp st'"
  using run t
  by (auto simp: reconcilePVC_def split: if_splits sum.splits
      intro: tracks_api [OF t blocksKeepD(4) [OF steady_blocks [OF g t]]])

lemma modStatus_names [simp]:
  "resolvedDBHost (cr (modStatus f st)) = resolvedDBHost (cr st)"
  "passwordEnv (cr (modStatus f st)) = passwordEnv (cr st)"
  by (simp_all add: resolvedDBHost_def passwordEnv_def modStatus_def name_defs)

lemma reconcileWordPressDeployment_cases:
  assumes "reconcileWordPressDeployment E st = Some (r, st')"
  obtains host port env st1 where "resolvedDBHost (cr st) = Some (host, port)"
    "passwordEnv (cr st) = Some env" "st1 = modStatus (\<lambda>s. s\<lparr>wst_DatabaseHost := host\<rparr>) st"
    "(case withController E (cr st1) (buildWordPressDeployment (cr st1) host port env) of
       Inl err \<Rightarrow> (Some err, st1) | Inr d \<Rightarrow> api (syncDeployment E d) st1) = (r, st')"
proof -
  obtain host port where hp: "resolvedDBHost (cr st) = Some (host, port)"
    using assms by (auto simp: reconcileWordPressDeployment_def split: bind_splits)
  let ?st1 = "modStatus (\<lambda>s. s\<lparr>wst_DatabaseHost := host\<rparr>) st"
  have "passwordEnv (cr st) = passwordEnv (cr ?st1)" by simp
  with assms hp show ?thesis
    by (auto simp: reconcileWordPressDeployment_def Let_def passwordEnv_def Option.bind_eq_Some_conv
        split: if_splits intro: that)
qed

lemma reconcileWordPressDeployment_tracks:
  assumes g: "steadyFor ok E P wp" and t: "tracks P wp st"
    and run: "reconcileWordPressDeployment E st = Some (r, st')"
  shows "tracks P wp st'"
proof -
  obtain host port env st1 where hp: "resolvedDBHost (cr st) = Some (host, port)"
    "passwordEnv (cr st) = Some env" and st1: "st1 = modStatus (\<lambda>s. s\<lparr>wst_DatabaseHost := host\<rparr>) st"
    and put: "(case withController E (cr st1) (buildWordPressDeployment (cr st1) host port env) of
       Inl err \<Rightarrow> (Some err, st1) | Inr d \<Rightarrow> api (syncDeployment E d) st1) = (r, st')"
    using run by (rule reconcileWordPressDeployment_cases)
  have t1: "tracks P wp st1" using t by (simp add: st1 keeps_intros)
  have "resolvedDBHost (cr st1) = Some (host, port)" "passwordEnv (cr st1) = Some env"
    using hp by (simp_all add: st1)
  note kept = blocksKeepD(5) [OF steady_blocks [OF g t1] this]
  from put t1 show ?thesis
    by (auto split: sum.splits intro: tracks_api [OF t1 kept])
qed

lemma reconcileWordPressService_tracks:
  assumes g: "steadyFor ok E P wp" and t: "tracks P wp st"
    and run: "reconcileWordPressService E st = (r, st')"
  shows "tracks P wp st'"
  using run t
  by (auto simp: reconcileWordPressService_def split: sum.splits
      intro: tracks_api [OF t blocksKeepD(6) [OF steady_blocks [OF g t]]])

subsection \<open>Ingress and autoscaler\<close>

lemma reconcileIngress_tracks:
  assumes g: "steadyFor ok E P wp" and t: "tracks P wp st"
    and run: "reconcileIngress E st = (r, st')"
  shows "tracks P wp st'"
proof (cases "igs_Enabled (IngressS (Spec (cr st)))")
  case False
  obtain m st1 where drop: "api (dropIngress E (cr st)) st = (m, st1)" by fastforce
  have "tracks P wp st1"
    by (rule tracks_api [OF t blocksKeepD(8) [OF steady_blocks [OF g t] False] drop])
  with run False drop show ?thesis
    by (auto simp: reconcileIngress_def split: sum.splits intro: keeps_intros)
next
  case True
  show ?thesis
  proof (cases "withController E (cr st) (buildWordPressIngress (cr st))")
    case (Inl e)
    with run True t show ?thesis by (simp add: reconcileIngress_def)
  next
    case (Inr d)
    obtain m st1 where sync: "api (syncIngress E d) st = (m, st1)" by fastforce
    have "tracks P wp st1"
      by (rule tracks_api [OF t blocksKeepD(7) [OF steady_blocks [OF g t] True Inr] sync])
    with run True Inr sync steadyD(1) [OF g] show ?thesis
      by (cases m) (auto simp: reconcileIngress_def intro: keeps_intros)
  qed
qed

lemma reconcileHPA_tracks:
  assumes g: "steadyFor ok E P wp" and t: "tracks P wp st"
    and run: "reconcileHPA E st = (r, st')"
  shows "tracks P wp st'"
  using run t
  by (auto simp: reconcileHPA_def split: if_splits sum.splits
      intro: tracks_api [OF t blocksKeepD(9) [OF steady_blocks [OF g t]]]
        tracks_api [OF t blocksKeepD(10) [OF steady_blocks [OF g t]]])

subsection \<open>The whole pass\<close>

text \<open>The writer of a status knows that it is one the pass computed: with \<open>reporting\<close>, a status
  property \<open>I\<close> that the steps keep holds of every status the pass sends.\<close>

definition reporting ::
    "(WordPressStatus \<Rightarrow> bool) \<Rightarrow> (call \<Rightarrow> bool) \<Rightarrow> 'w env \<Rightarrow> WordPress \<Rightarrow> bool" where
  "reporting I ok E wp \<longleftrightarrow>
     statusInv E I
     \<and> (\<forall>ob. ObjectKeyFromObject ob = ObjectKeyFromObject wp \<longrightarrow> I (Status ob) \<longrightarrow> ok (StatusUpdated ob))"

definition tracksI ::
    "(WordPressStatus \<Rightarrow> bool) \<Rightarrow> ('w \<Rightarrow> bool) \<Rightarrow> WordPress \<Rightarrow> 'w rs \<Rightarrow> bool" where
  "tracksI I P wp st \<longleftrightarrow> tracks P wp st \<and> I (Status (cr st))"

lemma reporting_True: "reporting (\<lambda>_. True) (statusOf wp) E wp"
  by (simp add: reporting_def statusInv_True)

lemma persistStatus_tracksI:
  assumes g: "steadyFor ok E P wp" and I: "reporting I ok E wp" and t: "tracksI I P wp st"
    and run: "persistStatus E st = (r, st')"
  shows "tracksI I P wp st'"
proof -
  have "P (world st')"
    by (rule persistStatus_keeps [OF steadyD [OF g] _ run])
      (use I t in \<open>auto simp: tracksI_def reporting_def tracksD(5) tracks_world\<close>)
  with t persistStatus_frame [OF run] show ?thesis by (simp add: tracksI_def tracks_def)
qed

lemma updateStatus_reports:
  assumes g: "steadyFor ok E P wp" and I: "reporting I ok E wp" and t: "tracksI I P wp st"
    and run: "updateStatus E st = (r, st')"
  shows "P (world st')"
proof (rule updateStatus_keeps_with [OF steadyD [OF g] _ _ run])
  show "I (Status (cr (computeStatus E dep s)))" if "cr s = cr st" for dep s
    using I t that statusInvD(4) [of E I s dep] by (simp add: tracksI_def reporting_def)
qed (use I t in \<open>auto simp: tracksI_def reporting_def tracksD(5) tracks_world\<close>)

lemma orReturn_tracksI:
  assumes run: "orReturn E step rest = Some (res, st')"
    and step: "\<And>r st1. step = (r, st1) \<Longrightarrow> tracksI I P wp st1"
    and rest: "\<And>st1. step = (None, st1) \<Longrightarrow> tracksI I P wp st1 \<Longrightarrow> rest st1 = Some (res, st') \<Longrightarrow>
      P (world st')"
  shows "P (world st')"
  using assms by (auto simp: orReturn_def tracksI_def tracks_def split: prod.splits option.splits)

lemma step_tracksI:
  assumes g: "steadyFor ok E P wp" and inv: "statusInv E I" and t: "tracksI I P wp st"
  shows "reconcilePVC E st = (r, st') \<Longrightarrow> tracksI I P wp st'"
    and "reconcileWordPressDeployment E st = Some (r, st') \<Longrightarrow> tracksI I P wp st'"
    and "reconcileWordPressService E st = (r, st') \<Longrightarrow> tracksI I P wp st'"
    and "reconcileIngress E st = (r, st') \<Longrightarrow> tracksI I P wp st'"
    and "reconcileHPA E st = (r, st') \<Longrightarrow> tracksI I P wp st'"
proof -
  have t': "tracks P wp st" and s: "I (Status (cr st))" using t by (simp_all add: tracksI_def)
  show "tracksI I P wp st'" if "reconcilePVC E st = (r, st')"
    using reconcilePVC_tracks [OF g t' that] reconcilePVC_frame [OF that] s by (simp add: tracksI_def)
  show "tracksI I P wp st'" if "reconcileWordPressDeployment E st = Some (r, st')"
    using reconcileWordPressDeployment_tracks [OF g t' that]
      reconcileWordPressDeployment_status [OF inv s that] by (simp add: tracksI_def)
  show "tracksI I P wp st'" if "reconcileWordPressService E st = (r, st')"
    using reconcileWordPressService_tracks [OF g t' that] reconcileWordPressService_frame [OF that] s
    by (simp add: tracksI_def)
  show "tracksI I P wp st'" if "reconcileIngress E st = (r, st')"
    using reconcileIngress_tracks [OF g t' that] reconcileIngress_status [OF inv s that]
    by (simp add: tracksI_def)
  show "tracksI I P wp st'" if "reconcileHPA E st = (r, st')"
    using reconcileHPA_tracks [OF g t' that] reconcileHPA_frame [OF that] s by (simp add: tracksI_def)
qed

lemma reconcileWorkload_keeps:
  assumes g: "steadyFor ok E P wp" and I: "reporting I ok E wp" and t: "tracksI I P wp st"
    and run: "reconcileWorkload E st = Some (res, st')"
  shows "P (world st')"
proof -
  note step = step_tracksI [OF g I [unfolded reporting_def, THEN conjunct1]]
  note chain = orReturn_tracksI [where I = I and P = P and wp = wp]
  have final: "P (world st')"
    if "tracksI I P wp s" "orReturn E (updateStatus E s) (\<lambda>st. Some (finishPass st)) = Some (res, st')"
    for s
    using that(2) updateStatus_reports [OF g I that(1)]
    by (auto simp: orReturn_def finishPass_def split: prod.splits option.splits if_splits)
  have hpa: "P (world st')"
    if "tracksI I P wp s" "orReturn E (reconcileHPA E s) (\<lambda>st. orReturn E (updateStatus E st)
      (\<lambda>st. Some (finishPass st))) = Some (res, st')" for s
    by (rule chain [OF that(2)], erule step(5) [OF that(1)], rule final)
  have ingress: "P (world st')"
    if "tracksI I P wp s" "orReturn E (reconcileIngress E s) (\<lambda>st. orReturn E (reconcileHPA E st)
      (\<lambda>st. orReturn E (updateStatus E st) (\<lambda>st. Some (finishPass st)))) = Some (res, st')" for s
    by (rule chain [OF that(2)], erule step(4) [OF that(1)], rule hpa)
  have service: "P (world st')"
    if "tracksI I P wp s" "orReturn E (reconcileWordPressService E s) (\<lambda>st.
      orReturn E (reconcileIngress E st) (\<lambda>st. orReturn E (reconcileHPA E st)
      (\<lambda>st. orReturn E (updateStatus E st) (\<lambda>st. Some (finishPass st))))) = Some (res, st')" for s
    by (rule chain [OF that(2)], erule step(3) [OF that(1)], rule ingress)
  have deployment: "P (world st')"
    if start: "tracksI I P wp s" and more: "reconcileWordPressDeployment E s \<bind> (\<lambda>deployed. orReturn E deployed (\<lambda>st.
      orReturn E (reconcileWordPressService E st) (\<lambda>st. orReturn E (reconcileIngress E st) (\<lambda>st.
        orReturn E (reconcileHPA E st) (\<lambda>st. orReturn E (updateStatus E st)
          (\<lambda>st. Some (finishPass st))))))) = Some (res, st')" for s
  proof -
    obtain r2 s2 where dep: "reconcileWordPressDeployment E s = Some (r2, s2)"
      and rest: "orReturn E (r2, s2) (\<lambda>st.
        orReturn E (reconcileWordPressService E st) (\<lambda>st. orReturn E (reconcileIngress E st) (\<lambda>st.
          orReturn E (reconcileHPA E st) (\<lambda>st. orReturn E (updateStatus E st)
            (\<lambda>st. Some (finishPass st)))))) = Some (res, st')"
      using more by (auto split: bind_splits)
    have t2: "tracksI I P wp s2" by (rule step(2) [OF start dep])
    show ?thesis
    proof (rule chain [OF rest])
      show "tracksI I P wp st1" if "(r2, s2) = (r, st1)" for r st1 using that t2 by simp
    qed (rule service)
  qed
  show ?thesis
    by (rule chain [OF run [unfolded reconcileWorkload_def]], erule step(1) [OF t], rule deployment)
qed

lemma reconcileResources_keeps:
  assumes g: "steadyFor ok E P wp" and I: "reporting I ok E wp" and t: "tracksI I P wp st"
    and mode: "internalMode wp \<or> Mode (Database (Spec wp)) = DatabaseModeExternal"
    and run: "reconcileResources E st = Some (res, st')"
  shows "P (world st')"
proof -
  obtain r err st1 where db: "reconcileDatabase E st = Some ((r, err), st1)"
    using run by (auto simp: reconcileResources_def split: bind_splits prod.splits)
  have t1: "tracksI I P wp st1"
    using t reconcileDatabase_tracks [OF g _ mode db]
      reconcileDatabase_status [OF I [unfolded reporting_def, THEN conjunct1] _ db]
    by (simp add: tracksI_def)
  obtain e2 st2 where ps: "persistStatus E st1 = (e2, st2)" by fastforce
  have "P (world st2)"
    using persistStatus_tracksI [OF g I t1 ps] by (simp add: tracksI_def tracks_def)
  with run db ps reconcileWorkload_keeps [OF g I t1] show ?thesis
    by (auto simp: reconcileResources_def split: if_splits option.splits)
qed

subsection \<open>Permitted writes keep it steady\<close>

definition governed :: "'w env \<Rightarrow> ('w \<Rightarrow> bool) \<Rightarrow> WordPress \<Rightarrow> bool" where
  "governed E P wp \<longleftrightarrow>
     admits P (resourceCall E wp) E \<and> key_laws E \<and> owner_law E \<and> retry_law E"

lemma governedD:
  assumes "governed E P wp"
  shows "admits P (resourceCall E wp) E" "key_laws E" "owner_law E" "retry_law E"
  using assms by (simp_all add: governed_def)

text \<open>The owned object as it is sent: its key and its controller.\<close>

lemma withController_at:
  assumes "owner_law E" and "withController E ob d = Inr d'"
    and "ObjectKeyFromObject d = (Namespace ob, n)"
  shows "at ob n d'" and "owns E ob d'"
  using withController_Inr [OF assms(1,2)] assms(3) by (simp_all add: at_def owns_def)

fun isStatus :: "call \<Rightarrow> bool" where
  "isStatus (StatusUpdated ob) \<longleftrightarrow> True"
| "isStatus (Created ob) \<longleftrightarrow> False"
| "isStatus (Updated ob) \<longleftrightarrow> False"
| "isStatus (Deleted ob) \<longleftrightarrow> False"

lemma governed_blocks:
  assumes E: "admits P (\<lambda>c. resourceCall E ob c \<and> \<not> isStatus c) E"
    and key: "key_laws E" and owner: "owner_law E"
  shows "blocksKeep E P ob"
proof -
  note sent = withController_at [OF owner]
  have svc: "keeps P (applyService E d')"
    if "withController E ob d = Inr d'" "ObjectKeyFromObject d = (Namespace ob, n)"
      "n = wpName ob \<or> internalMode ob \<and> n = dbServiceName ob" for d d' n
    using sent [OF that(1,2)] that(3)
    by (intro applyService_keeps [OF E key]) (auto simp: at_def)
  have secret: "keeps P (ensureSecret E d)"
    if "internalMode ob" "buildMySQLSecret E ob w = (Inr s, w')" "withController E ob s = Inr d"
    for w s w' d
    using that sent [OF that(3) buildMySQLSecret_Inr [OF that(2)]]
    by (intro ensureSecret_keeps [OF E]) simp
  have sts: "keeps P (syncStatefulSet E d)"
    if "internalMode ob" "buildMySQLStatefulSet E ob = Some (Inr s)" "withController E ob s = Inr d"
    for s d
  proof -
    have "ObjectKeyFromObject s = (Namespace ob, dbStatefulSetName ob)"
      using that(2) by (rule buildMySQLStatefulSet_Inr)
    with that(1) sent [OF that(3) this] show ?thesis
      by (intro syncStatefulSet_keeps [OF E key]) (simp_all add: at_def)
  qed
  have pvc: "keeps P (ensurePVC E d)"
    if "per_Enabled (Persistence (Spec ob))" "buildWordPressPVC E ob = Inr p"
      "withController E ob p = Inr d" for p d
    using that(1) sent [OF that(3) buildWordPressPVC_Inr [OF that(2)]]
    by (intro ensurePVC_keeps [OF E]) simp
  have dep: "keeps P (syncDeployment E d)"
    if "withController E ob (buildWordPressDeployment ob h p e) = Inr d" for h p e d
    using sent [OF that buildWordPressDeployment_fields(1)]
    by (intro syncDeployment_keeps [OF E key]) (simp_all add: at_def)
  have ing: "keeps P (syncIngress E d)"
    if "igs_Enabled (IngressS (Spec ob))" "withController E ob (buildWordPressIngress ob) = Inr d"
      for d
    using that(1) sent [OF that(2) buildWordPressIngress_fields(1)]
    by (intro syncIngress_keeps [OF E key]) (simp_all add: at_def)
  have hpa: "keeps P (syncHPA E d)"
    if "as_Enabled (Autoscaling (Spec ob))" "withController E ob (buildWordPressHPA ob) = Inr d" for
      d
    using that(1) sent [OF that(2) buildWordPressHPA_fields(1)]
    by (intro syncHPA_keeps [OF E key]) (simp_all add: at_def)
  have noIng: "keeps P (dropIngress E ob)" if "\<not> igs_Enabled (IngressS (Spec ob))"
    using that by (intro dropIngress_keeps [OF E key]) (simp add: at_def owns_def)
  have noHPA: "keeps P (dropHPA E ob)" if "\<not> as_Enabled (Autoscaling (Spec ob))"
    using that by (intro dropHPA_keeps [OF E key]) (simp add: at_def owns_def)
  show ?thesis
    unfolding blocksKeep_def
    using secret svc [OF _ buildMySQLHeadlessService_fields(1)] sts pvc dep
      svc [OF _ buildWordPressService_fields(1)] ing hpa noIng noHPA
    by auto
qed

lemma resourceCall_same:
  assumes "metaOf ob = metaOf wp" and "Spec ob = Spec wp"
  shows "resourceCall E ob c = resourceCall E wp c"
proof -
  have "internalMode ob = internalMode wp" "Namespace ob = Namespace wp" "wpName ob = wpName wp"
    "dbServiceName ob = dbServiceName wp" "dbStatefulSetName ob = dbStatefulSetName wp"
    "dbSecretName ob = dbSecretName wp" "wpPVCName ob = wpPVCName wp" "hpaName ob = hpaName wp"
    "ObjectKeyFromObject ob = ObjectKeyFromObject wp"
    using assms meta_eqD [OF assms(1)] meta_key [OF assms(1)]
    by (simp_all add: internalMode_def name_defs)
  then show ?thesis
    using assms by (cases "(E, wp, c)" rule: resourceCall.cases) (simp_all add: at_def owns_def)
qed

lemma admits_mono: "admits P ok E \<Longrightarrow> (\<And>c. ok' c \<Longrightarrow> ok c) \<Longrightarrow> admits P ok' E"
  unfolding admits_def store_admits_def by meson

lemma permitted_steady:
  assumes "admits P ok E" and "admits P (\<lambda>c. resourceCall E wp c \<and> \<not> isStatus c) E"
    and laws: "key_laws E" "owner_law E" "retry_law E"
  shows "steadyFor ok E P wp"
proof -
  have "blocksKeep E P ob" if "metaOf ob = metaOf wp" "Spec ob = Spec wp" for ob
    by (rule governed_blocks [OF _ laws(1,2)])
      (use assms(2) in \<open>simp add: resourceCall_same [OF that]\<close>)
  with assms(1) laws(1,3) show ?thesis by (simp add: steadyFor_def)
qed

lemma governed_steady:
  assumes "governed E P wp"
  shows "steady E P wp"
proof (rule permitted_steady [OF _ _ governedD(2-4) [OF assms]])
  show "admits P (statusOf wp) E"
    by (rule admits_mono [OF governedD(1) [OF assms]]) (simp add: statusOf_def split: call.splits)
  show "admits P (\<lambda>c. resourceCall E wp c \<and> \<not> isStatus c) E"
    by (rule admits_mono [OF governedD(1) [OF assms]]) simp
qed

lemma cleanupMySQL_keeps:
  assumes E: "admits P ok E" and key: "key_laws E" and w: "P (world st)"
    and ok: "\<And>p. internalMode (cr st) \<Longrightarrow> \<not> retainsData (cr st) \<Longrightarrow>
      at (cr st) (mysqlPVCName (cr st)) p \<Longrightarrow> ok (Deleted (KPVC p))"
    and run: "cleanupMySQL E st = (r, st')"
  shows "P (world st') \<and> cr st' = cr st"
proof (cases "internalMode (cr st) \<and> \<not> retainsData (cr st)")
  case True
  obtain p st1 where get: "api (Get (pvcs E) (Namespace (cr st), mysqlPVCName (cr st))) st = (p,
    st1)"
    by fastforce
  have st1: "P (world st1)" "cr st1 = cr st"
    using api_keeps [OF read_keeps(5) [OF E] get w] api_frame(1) [OF get] by auto
  show ?thesis
  proof (cases p)
    case (Inl e)
    with run True get st1 show ?thesis
      by (auto simp: cleanupMySQL_def Let_def internalMode_def split: if_splits)
  next
    case (Inr pvc)
    let ?st2 = "event E EventTypeNormal ''DeletingMySQLPVC'' (''Deleting MySQL data PVC ''
      @ fmtQ (QuoteUnicode E) (mysqlPVCName (cr st))) st1"
    have st2: "P (world ?st2)" "cr ?st2 = cr st" using st1 E by (simp_all add: keeps_intros
      frame_simps)
    obtain d st3 where del: "api (Delete (pvcs E) pvc) ?st2 = (d, st3)" by fastforce
    have "at (cr st) (mysqlPVCName (cr st)) pvc"
      using key_lawD [OF key_lawsD(4) [OF key]] api_frame(2) [OF get] Inr by (auto simp: at_def)
    with True ok have "ok (Deleted (KPVC pvc))" by blast
    then have "P (world st3)" "cr st3 = cr st"
      using api_keeps [OF store_admitsD(4) [OF admitsD(5) [OF E]] del] st2 api_frame(1) [OF del]
      by auto
    with run True get Inr del show ?thesis
      by (auto simp: cleanupMySQL_def Let_def internalMode_def split: option.splits if_splits)
  qed
next
  case False
  with run w E show ?thesis
    by (auto simp: cleanupMySQL_def internalMode_def Let_def keeps_intros frame_simps split:
      if_splits)
qed

lemma sendUpdate_keeps:
  assumes "admits P ok E" and "ok (Updated (KWordPress ob))" and "P (world st)"
    and "api (Update (wordpresses E) ob) st = (r, st')"
  shows "P (world st')"
  using api_keeps [OF store_admitsD(3) [OF admitsD(1) [OF assms(1)]] assms(4)] assms(2,3) by blast

text \<open>A call whose status, when it carries one, satisfies \<open>I\<close>.\<close>

definition reports :: "(WordPressStatus \<Rightarrow> bool) \<Rightarrow> call \<Rightarrow> bool" where
  "reports I c \<longleftrightarrow>
     (case c of
        StatusUpdated ob \<Rightarrow> I (Status ob)
      | Updated (KWordPress ob) \<Rightarrow> I (Status ob)
      | _ \<Rightarrow> True)"

lemma reports_simps [simp]:
  "reports I (StatusUpdated ob) = I (Status ob)" "reports I (Updated (KWordPress ob)) = I (Status ob)"
  "reports I (Created k)" "reports I (Deleted k)"
  by (simp_all add: reports_def split: kobj.splits)

lemma reports_True [simp]: "reports (\<lambda>_. True) c"
  by (simp add: reports_def split: call.splits kobj.splits)

lemma resourceCall_reports: "resourceCall E wp c \<Longrightarrow> \<not> isStatus c \<Longrightarrow> reports I c"
  by (cases "(E, wp, c)" rule: resourceCall.cases) (simp_all add: reports_def)

lemma handleDeletion_keeps:
  assumes E: "admits P (\<lambda>c. permitted E wp c \<and> reports I c) E" and key: "key_laws E"
    and w: "P (world st)" and wp: "cr st = wp" "\<not> timeIsZero (DeletionTimestamp wp)"
    and I: "I (Status wp)" and run: "handleDeletion E st = (res, st')"
  shows "P (world st')"
proof (cases "ContainsFinalizer E (Finalizers wp) WordPressFinalizer")
  case False
  with run w wp show ?thesis by (simp add: handleDeletion_def)
next
  case True
  obtain r st1 where clean: "cleanupMySQL E st = (r, st1)" by fastforce
  have "P (world st1) \<and> cr st1 = cr st"
    by (rule cleanupMySQL_keeps [OF E key w _ clean]) (use wp True in \<open>simp add: permitted_def\<close>)
  then have st1: "P (world st1)" "cr st1 = wp" using wp by simp_all
  let ?wp = "wp\<lparr>Finalizers := RemoveFinalizer E (Finalizers wp) WordPressFinalizer\<rparr>"
  obtain u st2 where upd: "api (Update (wordpresses E) ?wp) (st1\<lparr>cr := ?wp\<rparr>) = (u, st2)" by fastforce
  have "P (world st2)"
    by (rule sendUpdate_keeps [OF E _ _ upd]) (use wp True st1 I in \<open>simp_all add: permitted_def\<close>)
  with run clean wp True st1 upd show ?thesis
    by (auto simp: handleDeletion_def dropFinalizer_def Let_def split: option.splits)
qed

lemma registerFinalizer_keeps:
  assumes E: "admits P (\<lambda>c. permitted E wp c \<and> reports I c) E" and w: "P (world st)"
    and wp: "cr st = wp" "timeIsZero (DeletionTimestamp wp)"
      "\<not> ContainsFinalizer E (Finalizers wp) WordPressFinalizer"
    and I: "I (Status wp)" and run: "registerFinalizer E st = (res, st')"
  shows "P (world st')"
proof -
  let ?wp = "wp\<lparr>Finalizers := AddFinalizer E (Finalizers wp) WordPressFinalizer\<rparr>"
  obtain u st1 where upd: "api (Update (wordpresses E) ?wp) (st\<lparr>cr := ?wp\<rparr>) = (u, st1)" by fastforce
  have "P (world st1)"
    by (rule sendUpdate_keeps [OF E _ _ upd]) (use wp w I in \<open>simp_all add: permitted_def\<close>)
  with run wp upd show ?thesis
    by (auto simp: registerFinalizer_def Let_def split: option.splits)
qed

lemma rejectSpec_keeps:
  assumes E: "admits P ok E" and laws: "key_laws E" "retry_law E" and w: "P (world st)"
    and inv: "statusInv E I" and I: "I (Status (cr st))"
    and ok: "\<And>ob. ObjectKeyFromObject ob = ObjectKeyFromObject (cr st) \<Longrightarrow> I (Status ob) \<Longrightarrow>
      ok (StatusUpdated ob)"
    and run: "rejectSpec E err st = (res, st')"
  shows "P (world st')"
proof -
  let ?st = "event E EventTypeWarning ''InvalidSpec'' (errorText err) st"
  obtain r st1 where mark: "markFailed E ''InvalidSpec'' (errorText err) ?st = (r, st1)" by fastforce
  have failed: "I (Status (cr (snd (markFailed E ''InvalidSpec'' (errorText err) ?st))))"
    by (rule statusInvD(5) [OF inv]) (simp add: I event_frame)
  have "P (world st1)"
    by (rule markFailed_keeps [OF E laws _ mark])
      (use ok failed w E in \<open>simp_all add: frame_simps keeps_intros\<close>)
  with run mark show ?thesis by (simp add: rejectSpec_def Let_def)
qed

lemma reconcileObject_reports:
  assumes E: "admits P (\<lambda>c. permitted E wp c \<and> reports I c) E" (is "admits P ?ok E")
    and laws: "key_laws E" "owner_law E" "retry_law E" and inv: "statusInv E I"
    and w: "P (world st)" and wp: "cr st = wp" and I: "I (Status wp)"
    and run: "reconcileObject E st = Some (res, st')"
  shows "P (world st')"
proof -
  let ?wp = "applyDefaults wp" and ?st = "st\<lparr>cr := applyDefaults wp\<rparr>"
  have key: "ObjectKeyFromObject ?wp = ObjectKeyFromObject wp" and I': "I (Status ?wp)"
    using I by (simp_all add: ObjectKeyFromObject_def frame_simps)
  consider (del) "\<not> timeIsZero (DeletionTimestamp wp)"
    | (fin) "timeIsZero (DeletionTimestamp wp)"
        "\<not> ContainsFinalizer E (Finalizers wp) WordPressFinalizer"
    | (bad) err where "timeIsZero (DeletionTimestamp wp)"
        "ContainsFinalizer E (Finalizers wp) WordPressFinalizer" "validateSpec E ?wp = Some err"
    | (good) "timeIsZero (DeletionTimestamp wp)"
        "ContainsFinalizer E (Finalizers wp) WordPressFinalizer" "validateSpec E ?wp = None"
    by (cases "validateSpec E ?wp") blast+
  then show ?thesis
  proof cases
    case del
    then show ?thesis
      using run wp handleDeletion_keeps [OF E laws(1) w wp _ I] by (simp add: reconcileObject_def)
  next
    case fin
    then show ?thesis
      using run wp registerFinalizer_keeps [OF E w wp _ _ I] by (simp add: reconcileObject_def)
  next
    case bad
    then have rej: "rejectSpec E err ?st = (res, st')"
      using run wp by (simp add: reconcileObject_def)
    have invalid: "\<not> validSpec (Spec ?wp)" using bad(3) validateSpec_None_iff [of E ?wp] by simp
    show ?thesis
    proof (rule rejectSpec_keeps [OF E laws(1,3) _ inv _ _ rej])
      show "P (world ?st)" "I (Status (cr ?st))" using w I' by simp_all
      fix ob :: WordPress
      assume "ObjectKeyFromObject ob = ObjectKeyFromObject (cr ?st)" "I (Status ob)"
      then show "?ok (StatusUpdated ob)" using bad invalid key by (simp add: permitted_def)
    qed
  next
    case good
    then have valid: "validSpec (Spec ?wp)" by (simp add: validateSpec_None_iff)
    have perm: "permitted E wp c" if "resourceCall E ?wp c" for c
      using good valid that by (simp add: permitted_def)
    have "admits P (\<lambda>c. resourceCall E ?wp c \<and> \<not> isStatus c) E"
      by (rule admits_mono [OF E]) (use perm resourceCall_reports in blast)
    then have "steadyFor ?ok E P ?wp" by (rule permitted_steady [OF E _ laws])
    moreover have "reporting I ?ok E ?wp" using inv perm by (simp add: reporting_def)
    moreover have "tracksI I P ?wp ?st" using w I' by (simp add: tracksI_def tracks_def)
    moreover have "internalMode ?wp \<or> Mode (Database (Spec ?wp)) = DatabaseModeExternal"
      using valid validDatabase_mode by (auto simp: validSpec_def internalMode_def)
    moreover have "reconcileResources E ?st = Some (res, st')"
      using run wp good by (simp add: reconcileObject_def)
    ultimately show ?thesis by (rule reconcileResources_keeps)
  qed
qed

text \<open>The pass as a whole: what survives the reads and the permitted writes survives it; the
  statuses in those writes keep what the status that was read had.\<close>

lemma Reconcile_reports:
  assumes laws: "key_laws E" "owner_law E" "retry_law E" and inv: "statusInv E I"
    and get: "Get (wordpresses E) req w = (Inr wp, w1)"
    and E: "admits P (\<lambda>c. permitted E wp c \<and> reports I c) E" and w: "P w1" and I: "I (Status wp)"
    and run: "Reconcile E req w = Some (res, w')"
  shows "P w'"
proof -
  obtain st' where "reconcileObject E \<lparr>cr = wp, world = w1\<rparr> = Some (res, st')" "w' = world st'"
    using run get by (auto simp: Reconcile_def split: bind_splits)
  then show ?thesis
    using reconcileObject_reports [OF E laws inv, of "\<lparr>cr = wp, world = w1\<rparr>" res st'] w I by simp
qed

lemma Reconcile_keeps:
  assumes "key_laws E" "owner_law E" "retry_law E"
    and "Get (wordpresses E) req w = (Inr wp, w1)"
    and "admits P (permitted E wp) E" and "P w1" and "Reconcile E req w = Some (res, w')"
  shows "P w'"
  by (rule Reconcile_reports [where I = "\<lambda>_. True" and P = P,
        OF assms(1-3) statusInv_True assms(4) _ assms(6) _ assms(7)])
    (use assms(5) in simp_all)

subsection \<open>Properties\<close>

text \<open>C1. Least privilege of a pass: in the log of API writes, a pass over a fetched resource
  adds only permitted calls. In particular it creates only objects it controls, under the
  naming scheme; it never updates or deletes a Secret, never updates a volume claim, deletes an
  Ingress or autoscaler only when it is disabled and controlled, deletes a data volume claim only
  while the resource is being deleted in Internal mode without the retain annotation, and writes
  the resource itself only to add or remove its finalizer.\<close>

theorem Reconcile_sends_permitted:
  assumes "logs tr E" and "key_laws E" and "owner_law E" and "retry_law E"
    and "Get (wordpresses E) req w = (Inr wp, w1)"
    and "Reconcile E req w = Some (res, w')"
  shows "\<exists>cs. tr w' = tr w1 @ cs \<and> list_all (permitted E wp) cs"
  using Reconcile_keeps [OF assms(2-5) logs_admits [OF assms(1)] sentI assms(6)]
  by (simp add: sent_def)

theorem Reconcile_sends_permitted_witness:
  "\<exists>res w' cs. Reconcile demoEnv (''default'', ''blog'')
       (clusterOf (sampleWP [WordPressFinalizer] zeroSpec)) = Some (res, w')
     \<and> writes w' = cs \<and> list_all (permitted demoEnv (sampleWP [WordPressFinalizer] zeroSpec)) cs"
proof -
  let ?wp = "sampleWP [WordPressFinalizer] zeroSpec"
  obtain res w' where run: "Reconcile demoEnv (''default'', ''blog'') (clusterOf ?wp) = Some (res,
    w')"
    using Reconcile_total [of demoEnv "(''default'', ''blog'')" "clusterOf ?wp"] by fastforce
  have get: "Get (wordpresses demoEnv) (''default'', ''blog'') (clusterOf ?wp) = (Inr ?wp, clusterOf
    ?wp)"
    using Get_clusterOf [of ?wp] by simp
  show ?thesis
    using Reconcile_sends_permitted [OF demo_logs demo_key_laws demo_owner_law demo_retry_law get
      run]
      run by simp
qed

end
