(* ===== verification/Conflicts.thy ===== *)
theory Conflicts
  imports Permissions
begin

section \<open>Where a conflict error comes from\<close>

text \<open>
  The reconciler swallows a conflict: \<open>ignoreConflict\<close> ends the pass with no error, as if it
  were complete. A theorem about complete passes therefore needs to know that no call failed with
  a conflict. \<open>conflict_law\<close> ties a ghost predicate \<open>seen\<close> on worlds to the calls that did:
  it holds after every call answered with a conflict, and once it holds it stays. Every error of
  every step of the pass is the error of one of its calls, so a step that ends with a conflict ends
  in a world where \<open>seen\<close> holds, and a pass that ends where it does not hold met none.
\<close>

definition marks :: "'w env \<Rightarrow> ('w \<Rightarrow> bool) \<Rightarrow> ('w \<Rightarrow> gerror option \<times> 'w) \<Rightarrow> bool" where
  "marks E seen f \<longleftrightarrow> (\<forall>w e w'. f w = (Some e, w') \<longrightarrow> IsConflict E e \<longrightarrow> seen w')"

definition marksL :: "'w env \<Rightarrow> ('w \<Rightarrow> bool) \<Rightarrow> ('w \<Rightarrow> (gerror + 'r) \<times> 'w) \<Rightarrow> bool" where
  "marksL E seen f \<longleftrightarrow> (\<forall>w e w'. f w = (Inl e, w') \<longrightarrow> IsConflict E e \<longrightarrow> seen w')"

definition store_marks :: "'w env \<Rightarrow> ('w \<Rightarrow> bool) \<Rightarrow> ('o, 'w) store \<Rightarrow> bool" where
  "store_marks E seen S \<longleftrightarrow>
     (\<forall>k. marksL E seen (Get S k)) \<and> (\<forall>ob. marks E seen (Create S ob))
     \<and> (\<forall>ob. marks E seen (Update S ob)) \<and> (\<forall>ob. marks E seen (Delete S ob))"

text \<open>Errors of the randomness, of the quantity parser and of \<^verbatim>\<open>SetControllerReference\<close>
  are no answers of the API server and so no conflicts.\<close>

definition conflict_law :: "('w \<Rightarrow> bool) \<Rightarrow> 'w env \<Rightarrow> bool" where
  "conflict_law seen E \<longleftrightarrow>
     admits seen (\<lambda>_. True) E \<and> error_laws E
     \<and> store_marks E seen (wordpresses E) \<and> (\<forall>ob. marks E seen (StatusUpdate E ob))
     \<and> store_marks E seen (secrets E) \<and> store_marks E seen (services E)
     \<and> store_marks E seen (statefulsets E) \<and> store_marks E seen (pvcs E)
     \<and> store_marks E seen (deployments E) \<and> store_marks E seen (ingresses E)
     \<and> store_marks E seen (hpas E)
     \<and> (\<forall>n w e w'. RandRead E n w = (Inl e, w') \<longrightarrow> \<not> IsConflict E e)
     \<and> (\<forall>s e. ParseQuantity E s = Inl e \<longrightarrow> \<not> IsConflict E e)
     \<and> (\<forall>a b e. SetControllerReference E a b = Inl e \<longrightarrow> \<not> IsConflict E e)"

lemma store_marksD:
  assumes "store_marks E seen S"
  shows "Get S k w = (Inl e, w') \<Longrightarrow> IsConflict E e \<Longrightarrow> seen w'"
    and "Create S ob w = (Some e, w') \<Longrightarrow> IsConflict E e \<Longrightarrow> seen w'"
    and "Update S ob w = (Some e, w') \<Longrightarrow> IsConflict E e \<Longrightarrow> seen w'"
    and "Delete S ob w = (Some e, w') \<Longrightarrow> IsConflict E e \<Longrightarrow> seen w'"
  using assms unfolding store_marks_def marks_def marksL_def by blast+

lemma conflict_lawD:
  assumes "conflict_law seen E"
  shows "admits seen (\<lambda>_. True) E" "error_laws E"
    "store_marks E seen (wordpresses E)" "marks E seen (StatusUpdate E ob)"
    "store_marks E seen (secrets E)" "store_marks E seen (services E)"
    "store_marks E seen (statefulsets E)" "store_marks E seen (pvcs E)"
    "store_marks E seen (deployments E)" "store_marks E seen (ingresses E)"
    "store_marks E seen (hpas E)"
  using assms unfolding conflict_law_def by blast+

lemma local_errors:
  assumes "conflict_law seen E"
  shows "withController E wp d = Inl e \<Longrightarrow> \<not> IsConflict E e"
    and "ParseQuantity E s = Inl e \<Longrightarrow> \<not> IsConflict E (Wrapf t e)"
    and "generatePassword E w = (Inl e, w') \<Longrightarrow> \<not> IsConflict E (Wrapf t e)"
proof -
  have "\<not> IsConflict E (Wrapf t e)" if "\<not> IsConflict E e"
    using conflict_lawD(2) [OF assms] that by (simp add: error_laws_def)
  moreover have "\<not> IsConflict E e" if "RandRead E 24 w = (Inl e, w')"
    using assms that unfolding conflict_law_def by blast
  moreover have "withController E wp d = Inl e \<Longrightarrow> \<not> IsConflict E e"
    "ParseQuantity E s = Inl e \<Longrightarrow> \<not> IsConflict E e"
    using assms unfolding conflict_law_def
    by (auto simp: withController_def split: sum.splits)
  moreover have "generatePassword E w = (Inl e, w') \<Longrightarrow> RandRead E 24 w = (Inl e, w')"
    by (auto simp: generatePassword_def split: sum.splits prod.splits)
  ultimately show "withController E wp d = Inl e \<Longrightarrow> \<not> IsConflict E e"
    "ParseQuantity E s = Inl e \<Longrightarrow> \<not> IsConflict E (Wrapf t e)"
    "generatePassword E w = (Inl e, w') \<Longrightarrow> \<not> IsConflict E (Wrapf t e)"
    by blast+
qed

subsection \<open>The blocks\<close>

lemma marksL_errOf: "marks E seen (\<lambda>w. errOf (f w)) \<Longrightarrow> marksL E seen f"
  unfolding marks_def marksL_def errOf_def by (metis fst_conv snd_conv sum.case(1))

lemma blocks_mark:
  assumes law: "conflict_law seen E"
  shows "marks E seen (ensureSecret E d1)" and "marks E seen (ensurePVC E d2)"
    and "marks E seen (applyService E d3)" and "marksL E seen (syncStatefulSet E d4)"
    and "marks E seen (syncDeployment E d5)" and "marksL E seen (syncIngress E d6)"
    and "marksL E seen (dropIngress E wp)" and "marks E seen (syncHPA E d7)"
    and "marks E seen (dropHPA E wp)"
proof -
  let ?B = "\<lambda>e w. IsConflict E e \<longrightarrow> seen w"
  show "marks E seen (ensureSecret E d1)"
    unfolding marks_def
    using secretC.run_error [where B = ?B and E = E and d = d1]
      store_marksD [OF conflict_lawD(5) [OF law]]
    by (auto simp: getFor_def)
  show "marks E seen (ensurePVC E d2)"
    unfolding marks_def
    using pvcC.run_error [where B = ?B and E = E and d = d2]
      store_marksD [OF conflict_lawD(8) [OF law]]
    by (auto simp: getFor_def)
  show "marks E seen (applyService E d3)"
    unfolding marks_def
    using serviceC.run_error [where B = ?B and E = E and d = d3]
      store_marksD [OF conflict_lawD(6) [OF law]]
    by (auto simp: getFor_def)
  show "marksL E seen (syncStatefulSet E d4)"
  proof (rule marksL_errOf)
    show "marks E seen (\<lambda>w. errOf (syncStatefulSet E d4 w))"
      unfolding marks_def
      using stsC.run_error [where B = ?B and E = E and d = d4]
      store_marksD [OF conflict_lawD(7) [OF law]]
    by (auto simp: getFor_def)
  qed
  show "marks E seen (syncDeployment E d5)"
    unfolding marks_def
    using deploymentC.run_error [where B = ?B and E = E and d = d5]
      store_marksD [OF conflict_lawD(9) [OF law]]
    by (auto simp: getFor_def)
  show "marksL E seen (syncIngress E d6)"
  proof (rule marksL_errOf)
    show "marks E seen (\<lambda>w. errOf (syncIngress E d6 w))"
      unfolding marks_def
      using ingressC.run_error [where B = ?B and E = E and d = d6]
      store_marksD [OF conflict_lawD(10) [OF law]]
    by (auto simp: getFor_def)
  qed
  show "marksL E seen (dropIngress E wp)"
  proof (rule marksL_errOf)
    show "marks E seen (\<lambda>w. errOf (dropIngress E wp w))"
      unfolding marks_def
      using ingressOffC.run_error [where B = ?B and E = E and d = wp]
      store_marksD [OF conflict_lawD(10) [OF law]]
    by (auto simp: getFor_def)
  qed
  show "marks E seen (syncHPA E d7)"
    unfolding marks_def
    using hpaC.run_error [where B = ?B and E = E and d = d7]
      store_marksD [OF conflict_lawD(11) [OF law]]
    by (auto simp: getFor_def)
  show "marks E seen (dropHPA E wp)"
    unfolding marks_def
    using hpaOffC.run_error [where B = ?B and E = E and d = wp]
      store_marksD [OF conflict_lawD(11) [OF law]]
    by auto
qed

lemma api_marks:
  assumes "marks E seen f" and "api f st = (Some e, st')" and "IsConflict E e"
  shows "seen (world st')"
  using assms api_frame(2) [OF assms(2)] unfolding marks_def by blast

lemma api_marksL:
  assumes "marksL E seen f" and "api f st = (Inl e, st')" and "IsConflict E e"
  shows "seen (world st')"
  using assms api_frame(2) [OF assms(2)] unfolding marksL_def by blast

lemma persistStatus_marks:
  assumes law: "conflict_law seen E" and retry: "retry_law E"
    and run: "persistStatus E st = (Some e, st')" and c: "IsConflict E e"
  shows "seen (world st')"
proof -
  have fn: "marks E seen (writeStatus E k s)" for k s
    using store_marksD(1) [OF conflict_lawD(3) [OF law]] conflict_lawD(4) [OF law]
    unfolding marks_def by (auto simp: writeStatus_def split: prod.splits sum.splits)
  have "marks E seen (retryN E n (writeStatus E k s))" for n k s
  proof (induction n)
    case 0
    with fn show ?case by (simp add: marks_def)
  next
    case (Suc n)
    with fn show ?case
      unfolding marks_def by (auto split: prod.splits option.splits if_splits)
  qed
  then have "marks E seen (RetryOnConflict E (writeStatus E k s))" for k s
    using retry unfolding retry_law_def marks_def by metis
  then show ?thesis using run c unfolding persistStatus_def by (rule api_marks)
qed

subsection \<open>The steps\<close>

lemma steps_mark:
  assumes law: "conflict_law seen E" and c: "IsConflict E e"
  shows "reconcilePVC E st = (Some e, st') \<Longrightarrow> seen (world st')"
    and "reconcileWordPressDeployment E st = Some (Some e, st') \<Longrightarrow> seen (world st')"
    and "reconcileWordPressService E st = (Some e, st') \<Longrightarrow> seen (world st')"
    and "reconcileIngress E st = (Some e, st') \<Longrightarrow> seen (world st')"
    and "reconcileHPA E st = (Some e, st') \<Longrightarrow> seen (world st')"
proof -
  note local_errors = local_errors [OF law] and blocks = blocks_mark [OF law]
  show "reconcilePVC E st = (Some e, st') \<Longrightarrow> seen (world st')"
    using c api_marks [OF blocks(2)]
    by (auto simp: reconcilePVC_def buildWordPressPVC_def Let_def split: if_splits sum.splits dest: local_errors)
  show "reconcileWordPressDeployment E st = Some (Some e, st') \<Longrightarrow> seen (world st')"
    using c api_marks [OF blocks(5)]
    by (auto simp: reconcileWordPressDeployment_def Let_def split: bind_splits if_splits sum.splits
        dest: local_errors)
  show "reconcileWordPressService E st = (Some e, st') \<Longrightarrow> seen (world st')"
    using c api_marks [OF blocks(3)]
    by (auto simp: reconcileWordPressService_def split: sum.splits dest: local_errors)
  show "reconcileIngress E st = (Some e, st') \<Longrightarrow> seen (world st')"
    using c api_marksL [OF blocks(6)] api_marksL [OF blocks(7)]
    by (auto simp: reconcileIngress_def split: if_splits sum.splits prod.splits dest: local_errors)
  show "reconcileHPA E st = (Some e, st') \<Longrightarrow> seen (world st')"
    using c api_marks [OF blocks(8)] api_marks [OF blocks(9)]
    by (auto simp: reconcileHPA_def split: if_splits sum.splits dest: local_errors)
qed

lemma updateStatus_marks:
  assumes law: "conflict_law seen E" and retry: "retry_law E" and c: "IsConflict E e"
    and run: "updateStatus E st = (Some e, st')"
  shows "seen (world st')"
  using run persistStatus_marks [OF law retry _ c] c
    store_marksD(1) [OF conflict_lawD(9) [OF law]]
  by (auto simp: updateStatus_def split: sum.splits prod.splits if_splits dest!: api_frame(2))

lemma reconcileDatabase_marks:
  assumes law: "conflict_law seen E" and c: "IsConflict E e"
    and run: "reconcileDatabase E st = Some ((r, Some e), st')"
  shows "seen (world st')"
proof -
  note local_errors = local_errors [OF law] and blocks = blocks_mark [OF law]
  have secret: "seen (world s')" if "reconcileMySQLSecret E s = (Some e, s')" for s s'
    using that c api_marks [OF blocks(1)]
    by (auto simp: reconcileMySQLSecret_def buildMySQLSecret_def split: sum.splits prod.splits
        dest: local_errors dest!: api_frame(2))
  have service: "seen (world s')" if "reconcileMySQLService E s = (Some e, s')" for s s'
    using that c api_marks [OF blocks(3)]
    by (auto simp: reconcileMySQLService_def split: sum.splits dest: local_errors)
  have set: "seen (world s')" if "reconcileMySQLStatefulSet E s = Some ((r, Some e), s')" for s s'
    using that c api_marksL [OF blocks(4)]
    by (auto simp: reconcileMySQLStatefulSet_def buildMySQLStatefulSet_def Let_def
        split: bind_splits sum.splits prod.splits dest: local_errors)
  have external: "seen (world s')" if "reconcileExternalDatabase E s = Some ((r, Some e), s')" for s s'
    using that c store_marksD(1) [OF conflict_lawD(5) [OF law]]
    by (auto simp: reconcileExternalDatabase_def Let_def
        split: bind_splits sum.splits prod.splits if_splits dest!: api_frame(2))
  from run secret service set external show ?thesis
    by (auto simp: reconcileDatabase_def reconcileInternalDatabase_def
        split: if_splits prod.splits option.splits)
qed

text \<open>A step that ended with no conflict, followed by the rest of the pass.\<close>

lemma orReturn_success:
  assumes "\<And>e st1. step = (Some e, st1) \<Longrightarrow> IsConflict E e \<Longrightarrow> seen (world st1)"
    and "\<not> seen (world st')" and "orReturn E step rest = Some ((res, None), st')"
  obtains st1 where "step = (None, st1)" "rest st1 = Some ((res, None), st')"
  using assms
  by (auto simp: orReturn_def ignoreConflict_def split: prod.splits option.splits if_splits)

text \<open>No call of a pass over the empty namespace is answered with a conflict.\<close>

lemma blank_conflict_law: "conflict_law (\<lambda>_. False) (blankEnv wp)"
  using blank_error_laws
  by (simp add: conflict_law_def admits_def store_admits_def keeps_def store_marks_def marks_def
      marksL_def blankEnv_def blankStore_def notFoundErr_def demoQuantity_def)

end
