(* ===== verification/Wiring.thy ===== *)
theory Wiring
  imports Validation Resources DemoCluster
begin

section \<open>How the built objects fit together\<close>

text \<open>
  The objects of one resource refer to each other by name, label, port and Secret key. The
  properties of this theory show that these references meet: selectors match the pods, the
  database address names the MySQL Service, both containers read the same generated password,
  the Ingress and the autoscaler point at the objects the operator builds.
\<close>

subsection \<open>Labels\<close>

text \<open>The pod labels of the user leave the selector labels alone.\<close>

definition podLabelsCompatible :: "WordPress \<Rightarrow> bool" where
  "podLabelsCompatible wp \<longleftrightarrow>
     list_all (\<lambda>(k, v). case fmlookup (entries (PodLabels (Spec wp))) k of
         None \<Rightarrow> True | Some u \<Rightarrow> u = v)
       [(LabelName, ''wordpress''), (LabelInstance, Name wp), (LabelComponent, ComponentWordPress)]"

lemma selects_mapLit:
  assumes "distinct (map fst kvs)"
  shows "selects (mapLit kvs) m \<longleftrightarrow> list_all (\<lambda>(k, v). fmlookup (entries m) k = Some v) kvs"
  using assms by (auto simp: selects_iff fmlookup_mapLit list_all_iff)

lemma selects_merged_iff:
  "selects (selectorLabels wp ComponentWordPress)
     (mergeStringMaps (commonLabels wp ComponentWordPress) [PodLabels (Spec wp)])
   \<longleftrightarrow> podLabelsCompatible wp"
proof -
  let ?kvs = "[(LabelName, ''wordpress''), (LabelInstance, Name wp), (LabelComponent, ComponentWordPress)]"
  have "selects (mapLit ?kvs) m \<longleftrightarrow> list_all (\<lambda>(k, v). fmlookup (entries m) k = Some v) ?kvs" for m
    by (rule selects_mapLit) simp
  moreover have "fmlookup (entries (commonLabels wp ComponentWordPress)) k = Some v"
    if "(k, v) \<in> set ?kvs" for k v
    using that by (auto simp: commonLabels_def fmlookup_mapLit)
  ultimately show ?thesis
    by (simp add: selectorLabels_def podLabelsCompatible_def fmlookup_mergeStringMaps
        split: option.splits)
qed

text \<open>C26. The Deployment and the Service of a resource select the pods of the Deployment's own
  template exactly when the user's pod labels do not override a selector label: the pod labels
  are merged over the common labels, so an override breaks both selectors.\<close>

theorem selectors_match_pods:
  "selects (dep_Selector (buildWordPressDeployment wp host port dbEnv))
     (pt_Labels (dep_Template (buildWordPressDeployment wp host port dbEnv)))
     = podLabelsCompatible wp
   \<and> selects (ss_Selector (svc_Spec (buildWordPressService wp)))
     (pt_Labels (dep_Template (buildWordPressDeployment wp host port dbEnv)))
     = podLabelsCompatible wp"
  by (simp add: selects_merged_iff)

text \<open>The MySQL StatefulSet, when it is built, selects its own pods, is governed by the
  headless Service of the same resource, and that Service selects its pods and no WordPress pod
  of any resource whose labels are not overridden.\<close>

theorem mysql_selectors_match:
  assumes "buildMySQLStatefulSet E wp = Some (Inr ss)"
  shows "selects (sts_Selector ss) (pt_Labels (sts_Template ss))
    \<and> sts_ServiceName ss = Name (buildMySQLHeadlessService wp)
    \<and> Namespace ss = Namespace (buildMySQLHeadlessService wp)
    \<and> selects (ss_Selector (svc_Spec (buildMySQLHeadlessService wp))) (pt_Labels (sts_Template ss))
    \<and> \<not> selects (ss_Selector (svc_Spec (buildMySQLHeadlessService wp)))
        (commonLabels wp' ComponentWordPress)"
proof -
  obtain internal q where
    ss: "ObjectKeyFromObject ss = (Namespace wp, dbStatefulSetName wp)"
      "sts_ServiceName ss = dbServiceName wp" "sts_Selector ss = selectorLabels wp ComponentMySQL"
      "pt_Labels (sts_Template ss) = commonLabels wp ComponentMySQL"
    using assms by (rule buildMySQLStatefulSet_Inr) blast
  have "ObjectKeyFromObject (buildMySQLHeadlessService wp) = (Namespace wp, dbServiceName wp)"
    by simp
  with ss show ?thesis
    by (auto simp: ObjectKeyFromObject_def dest: selects_selector_commonD)
qed

definition internalSpec :: WordPressSpec where
  "internalSpec = defaultSpec zeroSpec"

lemma internalSpec_fields [simp]:
  "Mode (Database internalSpec) = DatabaseModeInternal"
  "db_User (Database internalSpec) = ''wordpress''"
  "db_Name (Database internalSpec) = ''wordpress''"
  "Internal (Database internalSpec) = Some (defaultInternal None)"
  "External (Database internalSpec) = None" "Env internalSpec = []"
  "SiteURL internalSpec = []"
  by (simp_all add: internalSpec_def zeroSpec_def defaultSpec_def defaultWorkload_def Let_def
      defaultDatabase_def defaultAutoscaling_def orElse_def)

lemma build_internal_sample:
  "\<exists>ss. buildMySQLStatefulSet demoEnv (sampleWP fs internalSpec) = Some (Inr ss)"
  by (simp add: buildMySQLStatefulSet_def demoEnv_def demoBase_def demoQuantity_def
      defaultInternal_def orElse_def zeroInternalDatabaseSpec_def Let_def)

theorem mysql_selectors_match_witness:
  "\<exists>ss. buildMySQLStatefulSet demoEnv (sampleWP [] internalSpec) = Some (Inr ss)
     \<and> selects (sts_Selector ss) (pt_Labels (sts_Template ss))
     \<and> sts_ServiceName ss = ''blog-mysql''"
proof -
  obtain ss where ss: "buildMySQLStatefulSet demoEnv (sampleWP [] internalSpec) = Some (Inr ss)"
    using build_internal_sample by blast
  have "Name (buildMySQLHeadlessService (sampleWP [] internalSpec)) = ''blog-mysql''"
    using buildMySQLHeadlessService_fields(1) [of "sampleWP [] internalSpec"]
    by (simp add: ObjectKeyFromObject_def dbServiceName_def)
  with mysql_selectors_match [OF ss, of "sampleWP [] internalSpec"] ss show ?thesis by auto
qed

subsection \<open>Database address and credentials\<close>

text \<open>The value Kubernetes gives a variable: the last entry of that name.\<close>

definition envLookup :: "EnvVar list \<Rightarrow> string \<Rightarrow> EnvVar option" where
  "envLookup envs n = find (\<lambda>e. ev_Name e = n) (rev envs)"

definition containerEnv :: "Container \<Rightarrow> EnvVar list" where
  "containerEnv c = sliceElems (c_Env c)"

definition userEnvOf :: "WordPress \<Rightarrow> string \<Rightarrow> EnvVar option" where
  "userEnvOf wp n = envLookup (Env (Spec wp)) n"

lemma find_append_option:
  "find P (xs @ ys) = (case find P xs of None \<Rightarrow> find P ys | Some x \<Rightarrow> Some x)"
  by (induction xs) auto

lemma envLookup_append:
  "envLookup (xs @ ys) n = (case envLookup ys n of None \<Rightarrow> envLookup xs n | Some e \<Rightarrow> Some e)"
  by (simp add: envLookup_def find_append_option split: option.splits)

lemma envLookup_simps [simp]:
  "envLookup [] n = None"
  by (simp add: envLookup_def)

lemma envLookup_Cons:
  "envLookup (e # es) n =
     (case envLookup es n of None \<Rightarrow> if ev_Name e = n then Some e else None | Some e' \<Rightarrow> Some e')"
  using envLookup_append [of "[e]" es n] by (auto simp: envLookup_def split: option.splits)

lemma env_names [simp]:
  "ev_Name (envValue n v) = n" "ev_Name (envSecret n s k) = n"
  "ev_Value (envValue n v) = v" "ev_ValueFrom (envSecret n s k) = Some (fromSecret s k)"
  by (simp_all add: envValue_def envSecret_def)

lemma wordpressEnv_value:
  "envLookup (sliceElems (wordpressEnvs wp host port (envFromInternalDBSecret secret))) n =
     (case userEnvOf wp n of
        Some e \<Rightarrow> Some e
      | None \<Rightarrow>
          if SiteURL (Spec wp) \<noteq> [] \<and> (n = ''WORDPRESS_HOME'' \<or> n = ''WORDPRESS_SITEURL'')
          then Some (envValue n (SiteURL (Spec wp)))
          else map_of
            [(''WORDPRESS_DB_HOST'', envValue ''WORDPRESS_DB_HOST'' (host @ '':'' @ fmtD port)),
             (''WORDPRESS_DB_NAME'', envValue ''WORDPRESS_DB_NAME'' (db_Name (Database (Spec wp)))),
             (''WORDPRESS_DB_USER'', envValue ''WORDPRESS_DB_USER'' (db_User (Database (Spec wp)))),
             (''WORDPRESS_TABLE_PREFIX'', envValue ''WORDPRESS_TABLE_PREFIX''
                (TablePrefix (Database (Spec wp)))),
             (''WORDPRESS_DB_PASSWORD'', envSecret ''WORDPRESS_DB_PASSWORD'' secret
                ''wordpress-password'')] n)"
  by (simp add: wordpressEnvs_def Let_def envLookup_append envLookup_Cons userEnvOf_def
      envFromInternalDBSecret_def split: option.splits)

text \<open>C27. The generated password: 24 random bytes as 32 characters of the URL-safe base64
  alphabet, from which the bytes can be read back.\<close>

theorem generatePassword_encodes:
  assumes "rand_law E" and "generatePassword E w = (Inr pwd, w')"
  shows "length pwd = 32 \<and> set pwd \<subseteq> set urlAlphabet
    \<and> RandRead E 24 w = (Inr (decode64 pwd), w') \<and> length (decode64 pwd) = 24"
proof -
  obtain bs where bs: "RandRead E 24 w = (Inr bs, w')" "pwd = encode64 bs"
    using assms(2) by (auto simp: generatePassword_def split: prod.splits sum.splits)
  moreover have "length bs = 24" using assms(1) bs(1) unfolding rand_law_def by blast
  ultimately show ?thesis using set_encode64 [of bs] by (simp add: length_encode64 decode64_encode64)
qed

theorem generatePassword_encodes_witness:
  "\<exists>pwd w'. generatePassword demoEnv emptyCluster = (Inr pwd, w') \<and> length pwd = 32
     \<and> decode64 pwd = map of_nat [0..<24]"
proof -
  have rand: "RandRead demoEnv 24 emptyCluster = (Inr (map of_nat [0..<24]), emptyCluster\<lparr>clock := 24\<rparr>)"
    by (simp only: demoEnv_def demoBase_def demoRand_def emptyCluster_def env.simps cluster.simps
        add_0)
  then have gen: "generatePassword demoEnv emptyCluster =
    (Inr (encode64 (map of_nat [0..<24])), emptyCluster\<lparr>clock := 24\<rparr>)"
    by (simp only: generatePassword_def prod.case sum.case)
  have "length (encode64 (map of_nat [0..<24])) = 32"
    using generatePassword_encodes [OF demo_rand_law gen] by (rule conjunct1)
  with gen show ?thesis using decode64_encode64 by blast
qed

text \<open>C25. The two ends of an internal database agree: unless the user's variables override
  them, the WordPress container and the MySQL container take the password from the same key of
  the generated Secret, where it is present, and use the same database and user names.\<close>

theorem database_credentials_agree:
  assumes "buildMySQLSecret E wp w = (Inr s, w')"
    and "userEnvOf wp ''WORDPRESS_DB_PASSWORD'' = None"
    and "userEnvOf wp ''WORDPRESS_DB_NAME'' = None"
    and "userEnvOf wp ''WORDPRESS_DB_USER'' = None"
  shows "(\<exists>key pwd. fmlookup (entries (StringData s)) key = Some pwd
       \<and> map_option ev_ValueFrom (envLookup (sliceElems (wordpressEnvs wp host port
            (envFromInternalDBSecret (dbSecretName wp)))) ''WORDPRESS_DB_PASSWORD'')
          = Some (Some (fromSecret (Name s) key))
       \<and> map_option ev_ValueFrom (envLookup (mysqlEnvs wp internal) ''MYSQL_PASSWORD'')
          = Some (Some (fromSecret (Name s) key)))
    \<and> map_option ev_Value (envLookup (sliceElems (wordpressEnvs wp host port
          (envFromInternalDBSecret (dbSecretName wp)))) ''WORDPRESS_DB_NAME'')
       = map_option ev_Value (envLookup (mysqlEnvs wp internal) ''MYSQL_DATABASE'')
    \<and> map_option ev_Value (envLookup (sliceElems (wordpressEnvs wp host port
          (envFromInternalDBSecret (dbSecretName wp)))) ''WORDPRESS_DB_USER'')
       = map_option ev_Value (envLookup (mysqlEnvs wp internal) ''MYSQL_USER'')"
proof -
  obtain rootPwd wpPwd where
    s: "ObjectKeyFromObject s = (Namespace wp, dbSecretName wp)"
      "StringData s = mapLit [(SecretKeyRoot, rootPwd), (SecretKeyWordPressPassword, wpPwd),
         (SecretKeyWordPressUser, db_User (Database (Spec wp))),
         (SecretKeyWordPressDB, db_Name (Database (Spec wp)))]"
    using assms(1) by (rule buildMySQLSecret_Inr) blast
  have pwd: "fmlookup (entries (StringData s)) SecretKeyWordPressPassword = Some wpPwd"
    using secret_keys_distinct(2) by (simp add: s(2) fmlookup_mapLit)
  have name: "Name s = dbSecretName wp" using s(1) by (simp add: ObjectKeyFromObject_def)
  have mysql:
    "envLookup (mysqlEnvs wp internal) ''MYSQL_PASSWORD'' =
       Some (envSecret ''MYSQL_PASSWORD'' (dbSecretName wp) SecretKeyWordPressPassword)"
    "envLookup (mysqlEnvs wp internal) ''MYSQL_DATABASE'' =
       Some (envValue ''MYSQL_DATABASE'' (db_Name (Database (Spec wp))))"
    "envLookup (mysqlEnvs wp internal) ''MYSQL_USER'' =
       Some (envValue ''MYSQL_USER'' (db_User (Database (Spec wp))))"
    by (simp_all add: mysqlEnvs_def envLookup_Cons)
  have key: "SecretKeyWordPressPassword = ''wordpress-password''" by (simp add: go_consts)
  show ?thesis
    using assms(2-4) pwd mysql
    by (simp add: wordpressEnv_value name key) (metis key)
qed

text \<open>The database host WordPress is configured with is the cluster name of the MySQL
  Service of the same resource, the port is one of that Service's ports, and the init container
  waits on the same host.\<close>

lemma database_address_is_service:
  assumes "Mode (Database (Spec wp)) = DatabaseModeInternal"
    and "resolvedDBHost wp = Some (host, port)"
  shows "host = Name (buildMySQLHeadlessService wp) @ ''.''
      @ Namespace (buildMySQLHeadlessService wp) @ ''.svc''
    \<and> map sp_Port (sliceElems (ss_Ports (svc_Spec (buildMySQLHeadlessService wp)))) = [port]
    \<and> map c_Command (sliceElems (wordpressInitContainers wp)) =
        [Some [''sh'', ''-c'', waitForDBCmd host]]"
proof -
  have "Name (buildMySQLHeadlessService wp) = dbServiceName wp
    \<and> Namespace (buildMySQLHeadlessService wp) = Namespace wp"
    using buildMySQLHeadlessService_fields(1) [of wp] by (simp add: ObjectKeyFromObject_def)
  moreover have "ss_Ports (svc_Spec (buildMySQLHeadlessService wp)) =
    Some [\<lparr>sp_Name = ''mysql'', sp_Port = 3306, sp_TargetPort = IntVal 3306,
      sp_Protocol = ProtocolTCP, sp_NodePort = 0, sp_rest = []\<rparr>]"
    by (simp add: buildMySQLHeadlessService_def newMeta_def object.defs Service.defs)
  ultimately show ?thesis
    using assms
    by (simp add: resolvedDBHost_def wordpressInitContainers_def Let_def dbServiceName_def)
qed

lemma database_address_is_service_witness:
  "resolvedDBHost (sampleWP [] internalSpec) = Some (''blog-mysql.default.svc'', 3306)
   \<and> map c_Command (sliceElems (wordpressInitContainers (sampleWP [] internalSpec))) =
       [Some [''sh'', ''-c'', waitForDBCmd ''blog-mysql.default.svc'']]"
proof -
  let ?wp = "sampleWP [] internalSpec"
  have host: "resolvedDBHost ?wp = Some (''blog-mysql.default.svc'', 3306)"
    by (simp add: resolvedDBHost_def dbServiceName_def)
  then show ?thesis using database_address_is_service [of ?wp, OF _ host] by simp
qed

theorem database_credentials_agree_witness:
  "\<exists>s w' key pwd. buildMySQLSecret demoEnv (sampleWP [] internalSpec) emptyCluster = (Inr s, w')
     \<and> fmlookup (entries (StringData s)) key = Some pwd
     \<and> map_option ev_ValueFrom (envLookup (mysqlEnvs (sampleWP [] internalSpec)
          (defaultInternal None)) ''MYSQL_PASSWORD'') = Some (Some (fromSecret (Name s) key))"
proof -
  let ?wp = "sampleWP [] internalSpec"
  obtain s w' where s: "buildMySQLSecret demoEnv ?wp emptyCluster = (Inr s, w')"
    by (simp add: buildMySQLSecret_def generatePassword_def demoEnv_def demoBase_def demoRand_def)
  have user: "userEnvOf ?wp n = None" for n by (simp add: userEnvOf_def)
  show ?thesis
    using database_credentials_agree [OF s user user user, of "[]" 0 "defaultInternal None"] s by blast
qed

subsection \<open>Storage, ingress, autoscaler\<close>

text \<open>The pod's volume \<^verbatim>\<open>wp-content\<close>, mounted at the document root, is backed by the claim the
  operator builds for the same resource when persistence is enabled, and by an empty directory
  otherwise.\<close>

lemma content_volume_backing:
  assumes "buildWordPressPVC E wp = Inr pvc"
  shows "map vm_Name (concat (map (\<lambda>c. sliceElems (c_VolumeMounts c)) (sliceElems
        (ps_Containers (pt_Spec (dep_Template (buildWordPressDeployment wp host port dbEnv)))))))
      = map vol_Name (sliceElems
        (ps_Volumes (pt_Spec (dep_Template (buildWordPressDeployment wp host port dbEnv)))))
    \<and> map vol_Source (sliceElems
        (ps_Volumes (pt_Spec (dep_Template (buildWordPressDeployment wp host port dbEnv)))))
      = [if per_Enabled (Persistence (Spec wp)) then PVCVolume (Name pvc) [] else EmptyDirVolume []]
    \<and> Namespace pvc = Namespace (buildWordPressDeployment wp host port dbEnv)"
  using buildWordPressPVC_Inr [OF assms] buildWordPressDeployment_fields(1) [of wp host port dbEnv]
  by (simp add: wordpressContainer_def wordpressVolumes_def ObjectKeyFromObject_def)

lemma content_volume_backing_witness:
  "\<exists>pvc. buildWordPressPVC demoEnv (sampleWP [] internalSpec) = Inr pvc
     \<and> Namespace pvc = Namespace (buildWordPressDeployment (sampleWP [] internalSpec) [] 0 [])"
proof -
  let ?wp = "sampleWP [] internalSpec"
  have "per_Size (Persistence internalSpec) = ''5Gi''"
    by (simp add: internalSpec_def zeroSpec_def defaultSpec_def defaultWorkload_def Let_def
        defaultPersistence_def orElse_def)
  then obtain pvc where pvc: "buildWordPressPVC demoEnv ?wp = Inr pvc"
    by (simp add: buildWordPressPVC_def demoEnv_def demoBase_def demoQuantity_def Let_def)
  with content_volume_backing [OF pvc, of "[]" 0 "[]"] show ?thesis by blast
qed

text \<open>The Ingress routes every path of the configured host to the Service the operator
  builds, on the port that Service exposes and forwards to the container's port; it asks for TLS
  exactly when a TLS secret (and a host) is configured.\<close>

lemma ingress_routes_to_service:
  "map (\<lambda>r. (ir_Host r, map_option (\<lambda>ps. map (\<lambda>p. (ip_Path p, map_option
        (\<lambda>b. (isb_Name b, isb_PortNumber b)) (ip_Service p))) (sliceElems ps)) (ir_HTTP r)))
      (sliceElems (is_Rules (ing_Spec (buildWordPressIngress wp))))
    = [(igs_Host (IngressS (Spec wp)),
        Some [(''/'', Some (Name (buildWordPressService wp),
          sp_Port (hd (sliceElems (ss_Ports (svc_Spec (buildWordPressService wp)))))))])]
   \<and> map sp_TargetPort (sliceElems (ss_Ports (svc_Spec (buildWordPressService wp))))
     = map (IntVal \<circ> cp_ContainerPort) (sliceElems (c_Ports (wordpressContainer wp envs)))
   \<and> concat (map (sliceElems \<circ> tls_Hosts) (sliceElems (is_TLS (ing_Spec (buildWordPressIngress wp)))))
     = (if igs_TLSSecretName (IngressS (Spec wp)) \<noteq> [] \<and> igs_Host (IngressS (Spec wp)) \<noteq> []
        then [igs_Host (IngressS (Spec wp))] else [])"
proof -
  have "Name (buildWordPressService wp) = wpName wp"
    using buildWordPressService_fields(1) [of wp] by (simp add: ObjectKeyFromObject_def)
  moreover have "sliceElems (ss_Ports (svc_Spec (buildWordPressService wp))) =
    [\<lparr>sp_Name = ''http'', sp_Port = svs_Port (ServiceS (Spec wp)), sp_TargetPort = IntVal 80,
      sp_Protocol = ProtocolTCP,
      sp_NodePort = (if svs_Type (ServiceS (Spec wp)) = ServiceTypeNodePort
        \<and> 0 < sint (svs_NodePort (ServiceS (Spec wp))) then svs_NodePort (ServiceS (Spec wp)) else 0),
      sp_rest = []\<rparr>]"
    by (simp add: buildWordPressService_def newMeta_def object.defs Service.defs Let_def)
  ultimately show ?thesis
    by (simp add: buildWordPressIngress_def newMeta_def object.defs Ingress.defs Let_def
        wordpressContainer_def)
qed

text \<open>With autoscaling on, a validated resource yields an autoscaler with ordered bounds
  whose target is the Deployment the operator builds, and that Deployment leaves the replica
  count open.\<close>

theorem autoscaler_is_consistent:
  assumes "validateSpec E wp = None" and "as_Enabled (Autoscaling (Spec wp))"
  shows "(case hs_MinReplicas (hpa_Spec (buildWordPressHPA wp)) of
        None \<Rightarrow> False
      | Some lo \<Rightarrow> sint lo \<le> sint (hs_MaxReplicas (hpa_Spec (buildWordPressHPA wp))))
    \<and> st_Kind (hs_ScaleTargetRef (hpa_Spec (buildWordPressHPA wp))) = ''Deployment''
    \<and> st_Name (hs_ScaleTargetRef (hpa_Spec (buildWordPressHPA wp)))
      = Name (buildWordPressDeployment wp host port dbEnv)
    \<and> Namespace (buildWordPressHPA wp) = Namespace (buildWordPressDeployment wp host port dbEnv)
    \<and> dep_Replicas (buildWordPressDeployment wp host port dbEnv) = None"
proof -
  have "sint (as_MinReplicas (Autoscaling (Spec wp))) \<le> sint (as_MaxReplicas (Autoscaling (Spec wp)))"
    using assms by (simp add: validateSpec_None_iff validSpec_def)
  moreover have "Name (buildWordPressDeployment wp host port dbEnv) = wpName wp
    \<and> Namespace (buildWordPressDeployment wp host port dbEnv) = Namespace wp
    \<and> Namespace (buildWordPressHPA wp) = Namespace wp"
    using buildWordPressDeployment_fields(1) [of wp host port dbEnv] buildWordPressHPA_fields(1) [of wp]
    by (simp add: ObjectKeyFromObject_def)
  ultimately show ?thesis using assms(2) by simp
qed

definition scaledSpec :: WordPressSpec where
  "scaledSpec = internalSpec\<lparr>Autoscaling :=
     \<lparr>as_Enabled = True, as_MinReplicas = 2, as_MaxReplicas = 5,
      as_TargetCPUUtilizationPercentage = 80\<rparr>\<rparr>"

theorem autoscaler_is_consistent_witness:
  "validateSpec demoEnv (sampleWP [] scaledSpec) = None
   \<and> dep_Replicas (buildWordPressDeployment (sampleWP [] scaledSpec) [] 0 []) = None"
proof -
  let ?wp = "sampleWP [] scaledSpec"
  have valid: "validateSpec demoEnv ?wp = None"
    by (simp add: validateSpec_None_iff validSpec_def scaledSpec_def validDatabase_def)
      (simp add: internalSpec_def zeroSpec_def defaultSpec_def defaultWorkload_def Let_def)
  have "as_Enabled (Autoscaling (Spec ?wp))" by (simp add: scaledSpec_def)
  with autoscaler_is_consistent [OF valid, of "[]" 0 "[]"] valid show ?thesis by simp
qed

end
