(* ===== verification/Convergence.thy ===== *)
theory Convergence
  imports Conflicts Wiring
begin

section \<open>Convergence, and where it fails\<close>

text \<open>
  On a store that keeps exactly what it is sent (\<open>faithful\<close>) and where nobody else writes,
  each create-or-patch block settles after one success: the next run only reads. The API server
  is not such a store for the fields it defaults; the later properties show the updates that
  this makes the operator repeat in every pass, and the objects two resources fight over.
\<close>

definition faithful ::
    "(gerror \<Rightarrow> bool) \<Rightarrow> ('w \<Rightarrow> nsname \<Rightarrow> 'o object_scheme option) \<Rightarrow> ('o object_scheme, 'w) store \<Rightarrow> bool" where
  "faithful notfound V S \<longleftrightarrow>
     (\<forall>k w. V (snd (Get S k w)) = V w
        \<and> (case V w k of
             None \<Rightarrow> (\<exists>e. fst (Get S k w) = Inl e \<and> notfound e)
           | Some ob \<Rightarrow> fst (Get S k w) = Inr ob))
     \<and> (\<forall>ob w w'. Create S ob w = (None, w') \<longrightarrow> V w' = (V w)(ObjectKeyFromObject ob \<mapsto> ob))
     \<and> (\<forall>ob w w'. Update S ob w = (None, w') \<longrightarrow> V w' = (V w)(ObjectKeyFromObject ob \<mapsto> ob))"

lemma faithful_get:
  assumes "faithful nf V S"
  shows "Get S k w = (Inr ob, w') \<Longrightarrow> V w k = Some ob \<and> V w' = V w"
    and "V w k = Some ob \<Longrightarrow> \<exists>w'. Get S k w = (Inr ob, w')"
proof -
  have get: "V (snd (Get S k w)) = V w"
    "case V w k of None \<Rightarrow> (\<exists>e. fst (Get S k w) = Inl e \<and> nf e) | Some ob \<Rightarrow> fst (Get S k w) = Inr ob"
    using assms unfolding faithful_def by blast+
  show "V w k = Some ob \<and> V w' = V w" if "Get S k w = (Inr ob, w')"
    using get that by (auto split: option.splits)
  show "\<exists>w'. Get S k w = (Inr ob, w')" if "V w k = Some ob"
    using get(2) that by (cases "Get S k w") simp
qed

lemma faithful_stored:
  assumes "faithful nf V S" and "Create S d w1 = (None, w2)"
  shows "\<exists>w3. getFor S d w2 = (Inr d, w3)"
proof -
  have "V w2 (ObjectKeyFromObject d) = Some d" using assms by (simp add: faithful_def)
  then show ?thesis unfolding getFor_def by (rule faithful_get(2) [OF assms(1)])
qed

lemma faithful_patched:
  assumes "faithful nf V S" and "key_law S" and "getFor S d w = (Inr ex, w1)"
    and "ObjectKeyFromObject p = ObjectKeyFromObject ex" and "Update S p w1 = (None, w2)"
  shows "\<exists>w3. getFor S d w2 = (Inr p, w3)"
proof -
  have "ObjectKeyFromObject p = ObjectKeyFromObject d"
    using assms(2-4) unfolding getFor_def by (metis key_lawD)
  then have "V w2 (ObjectKeyFromObject d) = Some p" using assms(1,5) by (simp add: faithful_def)
  then show ?thesis unfolding getFor_def by (rule faithful_get(2) [OF assms(1)])
qed

lemma faithful_quiet:
  assumes "faithful nf V S" and "getFor S d w = (Inr ex, w1)"
  shows "\<exists>w2. getFor S d w1 = (Inr ex, w2)"
  using faithful_get [OF assms(1)] assms(2) unfolding getFor_def by metis

lemma faithful_memStore:
  assumes "\<And>f w. sel (upd f w) = f (sel w)" and "\<And>w c. sel (logCall c w) = sel w"
    and "nf notFoundErr"
  shows "faithful nf (\<lambda>w k. find (hasKey k) (sel w)) (memStore sel upd wrap)"
proof -
  have new: "find (\<lambda>x. ObjectKeyFromObject x = k) (xs @ [ob]) =
    (case find (\<lambda>x. ObjectKeyFromObject x = k) xs of
       None \<Rightarrow> if ObjectKeyFromObject ob = k then Some ob else None | Some x \<Rightarrow> Some x)"
    for k xs and ob :: "'a object_scheme"
    by (induction xs) auto
  have upd: "find (\<lambda>x. ObjectKeyFromObject x = k)
      (map (\<lambda>x. if ObjectKeyFromObject x = ObjectKeyFromObject ob then ob else x) xs) =
    (case find (\<lambda>x. ObjectKeyFromObject x = k) xs of
       None \<Rightarrow> None | Some x \<Rightarrow> if ObjectKeyFromObject ob = k then Some ob else Some x)"
    for k xs and ob :: "'a object_scheme"
    by (induction xs) auto
  show ?thesis
    using assms by (auto simp: faithful_def memStore_def Let_def hasKey_def new upd fun_eq_iff
        split: option.splits if_splits)
qed

subsection \<open>One success settles an object\<close>

lemma applyService_settles:
  assumes "faithful (IsNotFound E) V (services E)" and "key_law (services E)"
    and "applyService E d w = (None, w1)"
  shows "applyService E d w1 = (None, snd (getFor (services E) d w1))"
proof -
  have "\<exists>ex w2. getFor (services E) d w1 = (Inr ex, w2) \<and> serviceEqual ex (patchService ex d)
    \<and> applyService E d w1 = (None, w2)"
    by (rule serviceC.run_settles [OF faithful_stored [OF assms(1)]
          faithful_patched [OF assms(1,2)] faithful_quiet [OF assms(1)] assms(3)]) simp_all
  then show ?thesis by auto
qed

lemma syncDeployment_settles:
  assumes "faithful (IsNotFound E) V (deployments E)" and "key_law (deployments E)"
    and "syncDeployment E d w = (None, w1)"
  shows "syncDeployment E d w1 = (None, snd (getFor (deployments E) d w1))"
proof -
  have "\<exists>ex w2. getFor (deployments E) d w1 = (Inr ex, w2)
    \<and> deploymentEqual ex (patchDeployment ex d) \<and> syncDeployment E d w1 = (None, w2)"
    by (rule deploymentC.run_settles [OF faithful_stored [OF assms(1)]
          faithful_patched [OF assms(1,2)] faithful_quiet [OF assms(1)] assms(3)]) simp_all
  then show ?thesis by auto
qed

lemma syncHPA_settles:
  assumes "faithful (IsNotFound E) V (hpas E)" and "key_law (hpas E)"
    and "syncHPA E d w = (None, w1)"
  shows "syncHPA E d w1 = (None, snd (getFor (hpas E) d w1))"
proof -
  have "\<exists>ex w2. getFor (hpas E) d w1 = (Inr ex, w2) \<and> hpaEqual ex (patchHPA ex d)
    \<and> syncHPA E d w1 = (None, w2)"
    by (rule hpaC.run_settles [OF faithful_stored [OF assms(1)]
          faithful_patched [OF assms(1,2)] faithful_quiet [OF assms(1)] assms(3)]) simp_all
  then show ?thesis by auto
qed

lemma syncIngress_settles:
  assumes "faithful (IsNotFound E) V (ingresses E)" and "key_law (ingresses E)"
    and "errOf (syncIngress E d w) = (None, w1)"
  shows "errOf (syncIngress E d w1) = (None, snd (getFor (ingresses E) d w1))"
proof -
  have "\<exists>ex w2. getFor (ingresses E) d w1 = (Inr ex, w2) \<and> ingressEqual ex (patchIngress ex d)
    \<and> errOf (syncIngress E d w1) = (None, w2)"
    by (rule ingressC.run_settles [OF faithful_stored [OF assms(1)]
          faithful_patched [OF assms(1,2)] faithful_quiet [OF assms(1)] assms(3)]) simp_all
  then show ?thesis by auto
qed

lemma syncStatefulSet_settles:
  assumes "faithful (IsNotFound E) V (statefulsets E)" and "key_law (statefulsets E)"
    and "errOf (syncStatefulSet E d w) = (None, w1)"
  shows "errOf (syncStatefulSet E d w1) = (None, snd (getFor (statefulsets E) d w1))"
proof -
  have "\<exists>ex w2. getFor (statefulsets E) d w1 = (Inr ex, w2)
    \<and> statefulSetEqual ex (patchStatefulSet ex d)
    \<and> errOf (syncStatefulSet E d w1) = (None, w2)"
    by (rule stsC.run_settles [OF faithful_stored [OF assms(1)]
          faithful_patched [OF assms(1,2)] faithful_quiet [OF assms(1)] assms(3)]) simp_all
  then show ?thesis by auto
qed

text \<open>Convergence of the create-or-patch blocks: on stores that keep what they are sent, a
  block that succeeded only reads when it runs again with the same desired object, and succeeds.\<close>

theorem blocks_settle:
  assumes "key_laws E"
    and "faithful (IsNotFound E) Vsvc (services E)" and "faithful (IsNotFound E) Vdep (deployments E)"
    and "faithful (IsNotFound E) Vsts (statefulsets E)" and "faithful (IsNotFound E) Ving (ingresses E)"
    and "faithful (IsNotFound E) Vhpa (hpas E)"
  shows "(applyService E svc w = (None, w1) \<longrightarrow>
        applyService E svc w1 = (None, snd (getFor (services E) svc w1)))
    \<and> (syncDeployment E dep w = (None, w1) \<longrightarrow>
        syncDeployment E dep w1 = (None, snd (getFor (deployments E) dep w1)))
    \<and> (errOf (syncStatefulSet E sts w) = (None, w1) \<longrightarrow>
        errOf (syncStatefulSet E sts w1) = (None, snd (getFor (statefulsets E) sts w1)))
    \<and> (errOf (syncIngress E ing w) = (None, w1) \<longrightarrow>
        errOf (syncIngress E ing w1) = (None, snd (getFor (ingresses E) ing w1)))
    \<and> (syncHPA E hpa w = (None, w1) \<longrightarrow>
        syncHPA E hpa w1 = (None, snd (getFor (hpas E) hpa w1)))"
  using applyService_settles [OF assms(2) key_lawsD(2) [OF assms(1)], of svc w w1]
    syncDeployment_settles [OF assms(3) key_lawsD(5) [OF assms(1)], of dep w w1]
    syncStatefulSet_settles [OF assms(4) key_lawsD(3) [OF assms(1)], of sts w w1]
    syncIngress_settles [OF assms(5) key_lawsD(6) [OF assms(1)], of ing w w1]
    syncHPA_settles [OF assms(6) key_lawsD(7) [OF assms(1)], of hpa w w1]
  by (intro conjI impI)

lemma demo_faithful:
  "faithful (IsNotFound demoEnv) (\<lambda>w k. find (hasKey k) (c_services w)) (services demoEnv)"
  "faithful (IsNotFound demoEnv) (\<lambda>w k. find (hasKey k) (c_deployments w)) (deployments demoEnv)"
  "faithful (IsNotFound demoEnv) (\<lambda>w k. find (hasKey k) (c_statefulsets w)) (statefulsets demoEnv)"
  "faithful (IsNotFound demoEnv) (\<lambda>w k. find (hasKey k) (c_ingresses w)) (ingresses demoEnv)"
  "faithful (IsNotFound demoEnv) (\<lambda>w k. find (hasKey k) (c_hpas w)) (hpas demoEnv)"
  by (simp_all add: demoEnv_def demoBase_def faithful_memStore logCall_def notFoundErr_def)

theorem blocks_settle_witness:
  "\<exists>w1. applyService demoEnv (buildWordPressService (sampleWP [] internalSpec)) emptyCluster = (None, w1)
     \<and> length (writes w1) = 1
     \<and> applyService demoEnv (buildWordPressService (sampleWP [] internalSpec)) w1 = (None, w1)"
proof -
  let ?svc = "buildWordPressService (sampleWP [] internalSpec)"
  let ?w1 = "c_services_update (\<lambda>xs. xs @ [?svc]) (logCall (Created (KService ?svc)) emptyCluster)"
  have run: "applyService demoEnv ?svc emptyCluster = (None, ?w1)"
    by (simp add: applyService_def demoEnv_def demoBase_def memStore_def emptyCluster_def
        notFoundErr_def Let_def)
  have "getFor (services demoEnv) ?svc ?w1 = (Inr ?svc, ?w1)"
    by (simp add: getFor_def demoEnv_def demoBase_def memStore_def emptyCluster_def logCall_def
        hasKey_def)
  with blocks_settle [OF demo_key_laws demo_faithful(1,2,3,4,5), of ?svc emptyCluster ?w1] run
  have "applyService demoEnv ?svc ?w1 = (None, ?w1)" by simp
  moreover have "length (writes ?w1) = 1" by (simp add: logCall_def emptyCluster_def)
  ultimately show ?thesis using run by blast
qed

subsection \<open>What keeps changing\<close>

lemma withController_fields:
  assumes "withController E wp d = Inr d'"
  shows "d' = setOwners (OwnerReferences d') d"
  using assms by (auto simp: withController_def split: sum.splits)

lemma setOwners_Service [simp]: "svc_Spec (setOwners rs s) = svc_Spec s"
  by (simp add: setOwners_def)

lemma setOwners_Deployment [simp]:
  "dep_Replicas (setOwners rs d) = dep_Replicas d" "dep_Template (setOwners rs d) = dep_Template d"
  by (simp_all add: setOwners_def)

text \<open>Updating a Service keeps the cluster IP and every field the operator does not mention,
  and replaces the whole list of ports: a port added by someone else is removed.\<close>

theorem patchService_replaces_ports:
  "ss_Ports (svc_Spec (patchService existing desired)) = ss_Ports (svc_Spec desired)
   \<and> ss_ClusterIP (svc_Spec (patchService existing desired)) = ss_ClusterIP (svc_Spec existing)
   \<and> ss_rest (svc_Spec (patchService existing desired)) = ss_rest (svc_Spec existing)
   \<and> svc_Status (patchService existing desired) = svc_Status existing
   \<and> (metaOf (patchService existing desired))\<lparr>Labels := Labels existing, Annotations := Annotations existing\<rparr>
     = metaOf existing
   \<and> (serviceEqual existing (patchService existing desired) \<longleftrightarrow>
        Labels existing = Labels desired \<and> Annotations existing = Annotations desired
        \<and> ss_Type (svc_Spec existing) = ss_Type (svc_Spec desired)
        \<and> ss_Selector (svc_Spec existing) = ss_Selector (svc_Spec desired)
        \<and> ss_SessionAffinity (svc_Spec existing) = ss_SessionAffinity (svc_Spec desired)
        \<and> ss_Ports (svc_Spec existing) = ss_Ports (svc_Spec desired))"
  by (cases "svc_Spec existing")
    (auto simp: patchService_def serviceEqual_def Let_def metaOf_def object.defs)

text \<open>The session affinity of the WordPress Service is never set by the builder. Where the
  server has defaulted it to \<^verbatim>\<open>None\<close>, the comparison sees a difference, and every pass sends
  an update of the Service that tries to blank it again.\<close>

theorem service_update_repeats:
  assumes "withController E wp (buildWordPressService wp) = Inr desired"
    and "Get (services E) (ObjectKeyFromObject desired) w = (Inr existing, w1)"
    and "ss_SessionAffinity (svc_Spec existing) = ServiceAffinityNone"
  shows "applyService E desired w = Update (services E) (patchService existing desired) w1
    \<and> ss_SessionAffinity (svc_Spec (patchService existing desired)) = []"
proof -
  have "svc_Spec desired = svc_Spec (buildWordPressService wp)"
    using withController_fields [OF assms(1)] by (metis setOwners_Service)
  then have "ss_SessionAffinity (svc_Spec desired) = []" by simp
  moreover from this have "ss_SessionAffinity (svc_Spec (patchService existing desired)) = []"
    by (simp add: patchService_def Let_def)
  moreover have "ServiceAffinityNone \<noteq> []" by (simp add: go_consts)
  ultimately have "\<not> serviceEqual existing (patchService existing desired)"
    using assms(3) by (auto simp: serviceEqual_def)
  with assms(2) \<open>ss_SessionAffinity (svc_Spec (patchService existing desired)) = []\<close>
  show ?thesis by (simp add: applyService_def Let_def)
qed


lemma demo_withController:
  fixes d :: "'a object_scheme"
  assumes "OwnerReferences d = []"
  shows "\<exists>d'. withController demoEnv wp d = Inr d' \<and> ObjectKeyFromObject d' = ObjectKeyFromObject d"
  using assms by (simp add: withController_def demoEnv_def demoBase_def demoSetController_def)

lemma Get_demo:
  "Get (services demoEnv) (ObjectKeyFromObject svc) (emptyCluster\<lparr>c_services := [svc]\<rparr>)
     = (Inr svc, emptyCluster\<lparr>c_services := [svc]\<rparr>)"
  "Get (deployments demoEnv) (ObjectKeyFromObject dep) (emptyCluster\<lparr>c_deployments := [dep]\<rparr>)
     = (Inr dep, emptyCluster\<lparr>c_deployments := [dep]\<rparr>)"
  by (simp_all add: demoEnv_def demoBase_def memStore_def hasKey_def)

theorem service_update_repeats_witness:
  "\<exists>desired existing w. applyService demoEnv desired w =
       Update (services demoEnv) (patchService existing desired) w
     \<and> ss_SessionAffinity (svc_Spec existing) = ServiceAffinityNone
     \<and> ss_SessionAffinity (svc_Spec (patchService existing desired)) = []"
proof -
  let ?wp = "sampleWP [] internalSpec"
  have "OwnerReferences (buildWordPressService ?wp) = []"
    by (simp add: buildWordPressService_def newMeta_def object.defs Let_def)
  then obtain d where d: "withController demoEnv ?wp (buildWordPressService ?wp) = Inr d"
    using demo_withController by blast
  let ?ex = "d\<lparr>svc_Spec := (svc_Spec d)\<lparr>ss_SessionAffinity := ServiceAffinityNone\<rparr>\<rparr>"
  have key: "ObjectKeyFromObject ?ex = ObjectKeyFromObject d" by (simp add: ObjectKeyFromObject_def)
  have aff: "ss_SessionAffinity (svc_Spec ?ex) = ServiceAffinityNone" by simp
  show ?thesis
    using service_update_repeats [OF d Get_demo(1) [of ?ex, unfolded key] aff] aff by blast
qed


subsection \<open>Two resources in one namespace\<close>

lemma claim_names_differ: "wpPVCName a \<noteq> mysqlPVCName b"
proof
  assume "wpPVCName a = mysqlPVCName b"
  then have "last (wpPVCName a) = last (mysqlPVCName b)" by simp
  then show False by (simp add: name_defs)
qed

text \<open>Names of owned objects, kind by kind: two resources of one namespace own disjoint
  Secrets, StatefulSets, volume claims and autoscalers exactly when their names differ, but their
  Services are disjoint only when neither is named like the other's MySQL Service.\<close>

lemma owned_names_disjoint:
  "(dbSecretName a = dbSecretName b \<longleftrightarrow> Name a = Name b)
   \<and> (dbStatefulSetName a = dbStatefulSetName b \<longleftrightarrow> Name a = Name b)
   \<and> (hpaName a = hpaName b \<longleftrightarrow> Name a = Name b)
   \<and> ({wpPVCName a, mysqlPVCName a} \<inter> {wpPVCName b, mysqlPVCName b} = {} \<longleftrightarrow> Name a \<noteq> Name b)
   \<and> ({wpName a, dbServiceName a} \<inter> {wpName b, dbServiceName b} = {} \<longleftrightarrow>
        Name a \<noteq> Name b \<and> Name a \<noteq> dbServiceName b \<and> Name b \<noteq> dbServiceName a)"
proof -
  have "wpPVCName a = wpPVCName b \<longleftrightarrow> Name a = Name b"
    "mysqlPVCName a = mysqlPVCName b \<longleftrightarrow> Name a = Name b"
    by (simp_all add: name_defs)
  moreover have "wpPVCName a \<noteq> mysqlPVCName b" "mysqlPVCName a \<noteq> wpPVCName b"
    using claim_names_differ [of a b] claim_names_differ [of b a] by simp_all
  ultimately show ?thesis by (auto simp: dbSecretName_def dbStatefulSetName_def hpaName_def
      wpName_def dbServiceName_def)
qed

text \<open>C29. When they are not, the two resources rewrite one Service forever: after a pass of
  either has written it, the comparison in a pass of the other finds a difference (the selectors
  differ), and nothing in between checks who controls the Service.\<close>

theorem colliding_services_fight:
  assumes "Name b = dbServiceName a" and "Namespace b = Namespace a"
  shows "ObjectKeyFromObject (buildWordPressService b) = ObjectKeyFromObject (buildMySQLHeadlessService a)
    \<and> \<not> serviceEqual (patchService ex (buildWordPressService b))
        (patchService (patchService ex (buildWordPressService b)) (buildMySQLHeadlessService a))
    \<and> \<not> serviceEqual (patchService ex (buildMySQLHeadlessService a))
        (patchService (patchService ex (buildMySQLHeadlessService a)) (buildWordPressService b))"
proof -
  have "selectorLabels b ComponentWordPress \<noteq> selectorLabels a ComponentMySQL"
    by (metis components_distinct(1) selectorLabels_component)
  moreover have "ss_Selector (svc_Spec (patchService ex d)) = ss_Selector (svc_Spec d)" for ex d
    by (simp add: patchService_def Let_def)
  moreover have "serviceEqual x y \<Longrightarrow> ss_Selector (svc_Spec x) = ss_Selector (svc_Spec y)" for x y
    by (simp add: serviceEqual_def)
  ultimately show ?thesis
    using assms by (metis buildMySQLHeadlessService_fields(1,4) buildWordPressService_fields(1,4)
        wpName_def)
qed

theorem colliding_services_fight_witness:
  "\<exists>a b ex. Name b = dbServiceName a \<and> Namespace b = Namespace a
     \<and> \<not> serviceEqual (patchService ex (buildWordPressService b))
        (patchService (patchService ex (buildWordPressService b)) (buildMySQLHeadlessService a))"
proof -
  let ?a = "sampleWP [] internalSpec"
  let ?b = "?a\<lparr>Name := ''blog-mysql''\<rparr>"
  have names: "Name ?b = dbServiceName ?a" "Namespace ?b = Namespace ?a"
    by (simp_all add: dbServiceName_def)
  then show ?thesis
    using colliding_services_fight [OF names, of "buildWordPressService ?a"] by blast
qed

end
