(* ===== verification/StatusContract.thy ===== *)
theory StatusContract
  imports StatusReport Wiring
begin

section \<open>What the status says\<close>

text \<open>
  The contract of the status code: the phase and the conditions as functions of the observed
  Deployment and the database condition, the URL against the Ingress the operator builds, and the
  writes of \<^verbatim>\<open>persistStatus\<close> under conflicts.
\<close>

subsection \<open>Phase and conditions\<close>

lemma condView_modStatus [simp]:
  assumes "\<And>s. wst_Conditions (f s) = wst_Conditions s"
  shows "wst_Conditions (Status (cr (modStatus f st))) = wst_Conditions (Status (cr st))"
  using assms by (simp add: frame_simps)

lemma modStatus_cr: "Status (cr (modStatus f st)) = f (Status (cr st))"
  by (simp add: frame_simps)

lemma computeStatus_phase:
  assumes "condition_laws E"
  shows "wst_Phase (Status (cr (computeStatus E dep st))) =
     (if IsStatusConditionTrue E (wst_Conditions (Status (cr st))) ConditionTypeDatabaseReady
         \<and> deploymentReady dep
      then PhaseReady else PhaseProvisioning)"
proof -
  have "IsStatusConditionTrue E (wst_Conditions (Status (cr (setCond E c st')))) t
    = IsStatusConditionTrue E (wst_Conditions (Status (cr st'))) t"
    if "co_Type c \<noteq> t" for c t and st' :: "'a rs"
    using assms that by (simp add: IsStatusConditionTrue_view condView_setCond)
  then show ?thesis by (simp add: computeStatus_def Let_def frame_simps)
qed

lemma computeStatus_conditions:
  assumes "condition_laws E"
  shows "condView (wst_Conditions (Status (cr (computeStatus E dep st)))) t =
     (if t = ConditionTypeReady then
        (if IsStatusConditionTrue E (wst_Conditions (Status (cr st))) ConditionTypeDatabaseReady
            \<and> deploymentReady dep
         then Some (ConditionTrue, ''AllReady'', ''WordPress and its database are ready'')
         else Some (ConditionFalse, ''Progressing'', ''Resources are still being provisioned''))
      else if t = ConditionTypeDeploymentReady then
        (if deploymentReady dep
         then Some (ConditionTrue, ''AllReplicasReady'', ''All WordPress replicas are ready'')
         else Some (ConditionFalse, ''Progressing'',
           fmtD (ws_ReadyReplicas dep) @ ''/'' @ fmtD (ws_Replicas dep) @ '' replicas ready''))
      else condView (wst_Conditions (Status (cr st))) t)"
  using assms
  by (auto simp: computeStatus_def Let_def modStatus_cr condView_setCond IsStatusConditionTrue_view)

lemma computeStatus_counts:
  "wst_Replicas (Status (cr (computeStatus E dep st))) = ws_Replicas dep"
  "wst_ReadyReplicas (Status (cr (computeStatus E dep st))) = ws_ReadyReplicas dep"
  "wst_ObservedGeneration (Status (cr (computeStatus E dep st))) = Generation (cr st)"
  "wst_DatabaseHost (Status (cr (computeStatus E dep st))) = wst_DatabaseHost (Status (cr st))"
  by (simp_all add: computeStatus_def Let_def frame_simps)

text \<open>C21. The computed status: the phase is Ready exactly when the database condition is true
  and the Deployment has at least one replica, all of them ready, and Provisioning otherwise; the
  Ready and DeploymentReady conditions say the same; every other condition is kept; counts and
  observed generation are those of the Deployment and the resource.\<close>

theorem computeStatus_reports:
  assumes "condition_laws E"
  shows "(wst_Phase (Status (cr (computeStatus E dep st))) = PhaseReady \<longleftrightarrow>
        (\<exists>r m. condView (wst_Conditions (Status (cr st))) ConditionTypeDatabaseReady
           = Some (ConditionTrue, r, m))
        \<and> 0 < sint (ws_ReadyReplicas dep) \<and> ws_ReadyReplicas dep = ws_Replicas dep)
    \<and> wst_Phase (Status (cr (computeStatus E dep st))) \<in> {PhaseReady, PhaseProvisioning}
    \<and> ((\<exists>r m. condView (wst_Conditions (Status (cr (computeStatus E dep st)))) ConditionTypeReady
          = Some (ConditionTrue, r, m))
        \<longleftrightarrow> wst_Phase (Status (cr (computeStatus E dep st))) = PhaseReady)
    \<and> ((\<exists>r m. condView (wst_Conditions (Status (cr (computeStatus E dep st)))) ConditionTypeDeploymentReady
          = Some (ConditionTrue, r, m)) \<longleftrightarrow> deploymentReady dep)
    \<and> condView (wst_Conditions (Status (cr (computeStatus E dep st)))) ConditionTypeDatabaseReady
        = condView (wst_Conditions (Status (cr st))) ConditionTypeDatabaseReady
    \<and> condView (wst_Conditions (Status (cr (computeStatus E dep st)))) ConditionTypeIngressConfigured
        = condView (wst_Conditions (Status (cr st))) ConditionTypeIngressConfigured
    \<and> wst_Replicas (Status (cr (computeStatus E dep st))) = ws_Replicas dep
    \<and> wst_ReadyReplicas (Status (cr (computeStatus E dep st))) = ws_ReadyReplicas dep
    \<and> wst_ObservedGeneration (Status (cr (computeStatus E dep st))) = Generation (cr st)"
  using assms
  by (auto simp: computeStatus_phase computeStatus_conditions computeStatus_counts
      IsStatusConditionTrue_view deploymentReady_def)

definition databaseUp :: "WordPress \<Rightarrow> WordPress" where
  "databaseUp wp = wp\<lparr>Status := zeroStatus\<lparr>wst_Conditions :=
     [newCondition ConditionTypeDatabaseReady ConditionTrue ''MySQLReady'' []]\<rparr>\<rparr>"

theorem computeStatus_reports_witness:
  "wst_Phase (Status (cr (computeStatus demoEnv \<lparr>ws_Replicas = 2, ws_ReadyReplicas = 2, ws_rest = []\<rparr>
     \<lparr>cr = databaseUp (sampleWP [] internalSpec), world = emptyCluster\<rparr>))) = PhaseReady"
  using computeStatus_reports [OF demo_condition_laws,
      of "\<lparr>ws_Replicas = 2, ws_ReadyReplicas = 2, ws_rest = []\<rparr>"
        "\<lparr>cr = databaseUp (sampleWP [] internalSpec), world = emptyCluster\<rparr>"]
  by (simp add: databaseUp_def zeroStatus_def condView_def)

subsection \<open>The URL\<close>

text \<open>The reported URL is the site URL when one is set. Otherwise, for an accepted spec, it is
  empty without an ingress, and with one it is the host of the Ingress the operator builds, under
  https exactly when that Ingress has TLS.\<close>

lemma computeURL_matches_ingress:
  assumes "validateSpec E wp = None" and "SiteURL (Spec wp) = []"
  shows "computeURL wp =
     (if igs_Enabled (IngressS (Spec wp))
      then (if is_TLS (ing_Spec (buildWordPressIngress wp)) = None then ''http'' else ''https'')
        @ ''://'' @ ir_Host (hd (sliceElems (is_Rules (ing_Spec (buildWordPressIngress wp)))))
      else [])"
proof -
  have "igs_Host (IngressS (Spec wp)) \<noteq> []" if "igs_Enabled (IngressS (Spec wp))"
    using assms(1) that by (simp add: validateSpec_None_iff validSpec_def)
  with assms(2) show ?thesis
    by (auto simp: computeURL_def buildWordPressIngress_def newMeta_def object.defs Ingress.defs
        Let_def)
qed

definition exposedSpec :: WordPressSpec where
  "exposedSpec = internalSpec\<lparr>IngressS :=
     \<lparr>igs_Enabled = True, igs_IngressClassName = None, igs_Host = ''blog.example'',
      igs_TLSSecretName = ''tls'', igs_Annotations = None\<rparr>\<rparr>"

lemma computeURL_matches_ingress_witness:
  "computeURL (sampleWP [] exposedSpec) = ''https://blog.example''
   \<and> is_TLS (ing_Spec (buildWordPressIngress (sampleWP [] exposedSpec))) \<noteq> None"
proof -
  let ?wp = "sampleWP [] exposedSpec"
  have "as_Enabled (Autoscaling exposedSpec) = False"
    by (simp add: exposedSpec_def internalSpec_def zeroSpec_def defaultSpec_def defaultWorkload_def
        defaultAutoscaling_def Let_def)
  then have valid: "validateSpec demoEnv ?wp = None"
    by (simp add: validateSpec_None_iff validSpec_def validDatabase_def)
      (simp add: exposedSpec_def)
  have site: "SiteURL (Spec ?wp) = []" by (simp add: exposedSpec_def)
  have tls: "is_TLS (ing_Spec (buildWordPressIngress ?wp)) \<noteq> None"
    and host: "ir_Host (hd (sliceElems (is_Rules (ing_Spec (buildWordPressIngress ?wp))))) = ''blog.example''"
    by (simp_all add: buildWordPressIngress_def newMeta_def object.defs Ingress.defs Let_def
        exposedSpec_def)
  have "igs_Enabled (IngressS (Spec ?wp))" by (simp add: exposedSpec_def)
  then show ?thesis
    using computeURL_matches_ingress [OF valid site] tls unfolding host by simp
qed

subsection \<open>Writing the status\<close>

definition statusWrite :: "WordPress \<Rightarrow> call \<Rightarrow> bool" where
  "statusWrite wp c \<longleftrightarrow>
     (case c of
        StatusUpdated ob \<Rightarrow>
          ObjectKeyFromObject ob = ObjectKeyFromObject wp \<and> Status ob = Status wp
      | _ \<Rightarrow> False)"

lemma logsD:
  assumes "logs tr E"
  shows "tr (snd (Get (wordpresses E) k w)) = tr w"
    and "tr (snd (StatusUpdate E ob w)) = tr w @ [StatusUpdated ob]"
    and "tr (snd (Update (wordpresses E) ob w)) = tr w @ [Updated (KWordPress ob)]"
    and "tr (Backoff E w) = tr w"
  proof -
  have wps: "store_logs tr KWordPress (wordpresses E)"
    and status: "\<And>ob w. tr (snd (StatusUpdate E ob w)) = tr w @ [StatusUpdated ob]"
    and backoff: "\<And>w. tr (Backoff E w) = tr w"
    using assms unfolding logs_def by (elim conjE, simp)+
  then show "tr (snd (Get (wordpresses E) k w)) = tr w"
    "tr (snd (StatusUpdate E ob w)) = tr w @ [StatusUpdated ob]"
    "tr (snd (Update (wordpresses E) ob w)) = tr w @ [Updated (KWordPress ob)]"
    "tr (Backoff E w) = tr w"
    unfolding store_logs_def by blast+
qed

lemma writeStatus_logged:
  assumes E: "logs tr E" "key_laws E"
    and run: "writeStatus E (ObjectKeyFromObject wp) (Status wp) w = (r, w')"
  shows "\<exists>cs. tr w' = tr w @ cs \<and> list_all (statusWrite wp) cs \<and> length cs \<le> 1
    \<and> (r = None \<longrightarrow> cs \<noteq> [])"
proof -
  obtain g w1 where get: "Get (wordpresses E) (ObjectKeyFromObject wp) w = (g, w1)" by fastforce
  then have w1: "tr w1 = tr w" using logsD(1) [OF E(1), of "ObjectKeyFromObject wp" w] by simp
  show ?thesis
  proof (cases g)
    case (Inl e)
    with run get w1 show ?thesis by (auto simp: writeStatus_def)
  next
    case (Inr latest)
    let ?ob = "latest\<lparr>Status := Status wp\<rparr>"
    have "ObjectKeyFromObject latest = ObjectKeyFromObject wp"
      using key_lawD [OF key_lawsD(1) [OF E(2)]] get Inr by blast
    then have "statusWrite wp (StatusUpdated ?ob)"
      by (simp add: statusWrite_def ObjectKeyFromObject_def)
    moreover have "tr w' = tr w @ [StatusUpdated ?ob]"
      using run get Inr w1 logsD(2) [OF E(1), of ?ob w1] by (simp add: writeStatus_def)
    ultimately show ?thesis by simp
  qed
qed

lemma retryN_logged:
  assumes "logs tr E"
    and "\<And>w r w'. fn w = (r, w') \<Longrightarrow> \<exists>cs. tr w' = tr w @ cs \<and> list_all ok cs \<and> length cs \<le> 1
      \<and> (r = None \<longrightarrow> cs \<noteq> [])"
    and "retryN E n fn w = (r, w')"
  shows "\<exists>cs. tr w' = tr w @ cs \<and> list_all ok cs \<and> length cs \<le> Suc n \<and> (r = None \<longrightarrow> cs \<noteq> [])"
  using assms(3)
proof (induction n arbitrary: w)
  case 0
  then show ?case using assms(2) [of w r w'] by auto
next
  case (Suc n)
  obtain r1 w1 where step: "fn w = (r1, w1)" by fastforce
  from assms(2) [OF this] obtain cs where cs: "tr w1 = tr w @ cs" "list_all ok cs" "length cs \<le> 1"
    "r1 = None \<longrightarrow> cs \<noteq> []" by blast
  show ?case
  proof (cases "\<exists>err. r1 = Some err \<and> IsConflict E err")
    case True
    then have "retryN E n fn (Backoff E w1) = (r, w')" using Suc.prems step by auto
    from Suc.IH [OF this] obtain ds where ds: "tr w' = tr (Backoff E w1) @ ds" "list_all ok ds"
      "length ds \<le> Suc n" "r = None \<longrightarrow> ds \<noteq> []" by blast
    then show ?thesis
      using cs logsD(4) [OF assms(1), of w1] by (intro exI [of _ "cs @ ds"]) auto
  next
    case False
    then have "r = r1 \<and> w' = w1" using Suc.prems step by (auto split: option.splits)
    with cs show ?thesis by (intro exI [of _ cs]) auto
  qed
qed

lemma persistStatus_logged:
  assumes "logs tr E" and "key_laws E"
    and retry: "\<And>fn w. RetryOnConflict E fn w = retryN E n fn w"
    and run: "persistStatus E st = (r, st')"
  shows "\<exists>cs. tr (world st') = tr (world st) @ cs \<and> list_all (statusWrite (cr st)) cs
    \<and> length cs \<le> Suc n \<and> (r = None \<longrightarrow> cs \<noteq> [])"
proof -
  have "retryN E n (writeStatus E (ObjectKeyFromObject (cr st)) (Status (cr st))) (world st)
    = (r, world st')"
    using api_frame(2) [OF run [unfolded persistStatus_def]] by (simp add: retry)
  from retryN_logged [OF assms(1) _ this, of "statusWrite (cr st)"] show ?thesis
    using writeStatus_logged [OF assms(1,2)] by blast
qed

text \<open>C22. Persisting the status sends nothing but status updates of the same resource that carry
  exactly the in-memory status, at most one per attempt of \<^verbatim>\<open>RetryOnConflict\<close>, and sends at
  least one when it reports success; the in-memory object stays as it is.\<close>

theorem persistStatus_writes:
  assumes "logs tr E" and "key_laws E"
    and "\<And>fn w. RetryOnConflict E fn w = retryN E n fn w"
    and "persistStatus E st = (r, st')"
  shows "cr st' = cr st \<and> (\<exists>cs. tr (world st') = tr (world st) @ cs
    \<and> list_all (statusWrite (cr st)) cs \<and> length cs \<le> Suc n \<and> (r = None \<longrightarrow> cs \<noteq> []))"
  using persistStatus_frame [OF assms(4)] persistStatus_logged [OF assms] by blast

theorem persistStatus_writes_witness:
  "\<exists>st' cs. persistStatus demoEnv \<lparr>cr = sampleWP [] internalSpec,
       world = clusterOf (sampleWP [] internalSpec)\<rparr> = (None, st')
     \<and> writes (world st') = cs \<and> cs \<noteq> [] \<and> length cs \<le> 5
     \<and> list_all (statusWrite (sampleWP [] internalSpec)) cs"
proof -
  let ?wp = "sampleWP [] internalSpec"
  let ?st = "\<lparr>cr = ?wp, world = clusterOf ?wp\<rparr>"
  have retry: "RetryOnConflict demoEnv fn w = retryN demoEnv 4 fn w" for fn w
    unfolding retryN_demo by (simp add: demoEnv_def)
  have "writeStatus demoEnv (ObjectKeyFromObject ?wp) (Status ?wp) (clusterOf ?wp) =
    StatusUpdate demoEnv (?wp\<lparr>Status := Status ?wp\<rparr>) (clusterOf ?wp)"
    unfolding writeStatus_def Get_clusterOf by (simp only: prod.case sum.case)
  moreover have "fst (StatusUpdate demoEnv (?wp\<lparr>Status := Status ?wp\<rparr>) (clusterOf ?wp)) = None"
    by (simp add: demoEnv_def demoBase_def demoStatusUpdate_def clusterOf_def hasKey_def Let_def
        ObjectKeyFromObject_def del: sampleWP_fields(7))
  ultimately obtain w1 where wrote:
    "writeStatus demoEnv (ObjectKeyFromObject ?wp) (Status ?wp) (clusterOf ?wp) = (None, w1)"
    by (metis prod.collapse)
  have "retryN demoEnv 4 (writeStatus demoEnv (ObjectKeyFromObject ?wp) (Status ?wp)) (clusterOf ?wp)
    = (None, w1)"
    by (simp only: numeral_eq_Suc retryN.simps wrote prod.case option.case)
  then obtain st' where run: "persistStatus demoEnv ?st = (None, st')"
    by (simp add: persistStatus_def api_def retry del: sampleWP_fields)
  show ?thesis
    using persistStatus_writes [OF demo_logs demo_key_laws retry run] run by auto
qed

end
