(* ===== verification/Passes.thy ===== *)
theory Passes
  imports Convergence StatusContract
begin

section \<open>What a pass does, case by case\<close>

text \<open>
  The outcome of a reconcile pass for each state the fetched resource can be in: being deleted,
  without the finalizer, with an invalid spec, with a missing external Secret, valid. Every
  statement is about the whole function \<^verbatim>\<open>Reconcile\<close> and the log of the writes it sends.
\<close>

lemma Reconcile_found:
  assumes "Get (wordpresses E) req w = (Inr wp, w1)"
  shows "Reconcile E req w =
    map_option (\<lambda>(res, st). (res, world st)) (reconcileObject E \<lparr>cr = wp, world = w1\<rparr>)"
  using assms
  by (cases "reconcileObject E \<lparr>cr = wp, world = w1\<rparr>") (auto simp: Reconcile_def)

text \<open>Local effects and reads leave the log alone.\<close>

lemma logs_quiet:
  assumes "logs tr E"
  shows "admits (\<lambda>w. tr w = l) (\<lambda>_. False) E"
proof -
  have "sent tr l (\<lambda>_. False) = (\<lambda>w. tr w = l)"
    by (auto simp: sent_def fun_eq_iff list_all_iff)
  with logs_admits [OF assms, of l "\<lambda>_. False"] show ?thesis by simp
qed

lemma quiet_event: "logs tr E \<Longrightarrow> tr (world (event E t r m st)) = tr (world st)"
  using event_keeps [where P = "\<lambda>w. tr w = tr (world st)" and st = st, OF logs_quiet] by blast

lemma quiet_setCond: "logs tr E \<Longrightarrow> tr (world (setCond E c st)) = tr (world st)"
  using setCond_keeps [where P = "\<lambda>w. tr w = tr (world st)" and st = st, OF logs_quiet] by blast

subsection \<open>An invalid spec\<close>

definition failedStatus :: "string \<Rightarrow> call \<Rightarrow> bool" where
  "failedStatus msg c \<longleftrightarrow>
     (case c of
        StatusUpdated ob \<Rightarrow>
          wst_Phase (Status ob) = PhaseFailed
          \<and> condView (wst_Conditions (Status ob)) ConditionTypeReady
            = Some (ConditionFalse, ''InvalidSpec'', msg)
      | _ \<Rightarrow> False)"

lemma rejectSpec_logged:
  assumes E: "logs tr E" "key_laws E" "retry_law E" "condition_laws E"
    and run: "rejectSpec E err st = (res, st')"
  shows "res = (zeroResult, None)
    \<and> (\<exists>cs. tr (world st') = tr (world st) @ cs \<and> list_all (failedStatus (errorText err)) cs)"
proof -
  let ?e = "event E EventTypeWarning ''InvalidSpec'' (errorText err) st"
  let ?m = "setCond E (newCondition ConditionTypeReady ConditionFalse ''InvalidSpec'' (errorText err))
    (modStatus (\<lambda>s. s\<lparr>wst_Phase := PhaseFailed\<rparr>) ?e)"
  obtain n where retry: "\<And>fn w. RetryOnConflict E fn w = retryN E n fn w"
    using E(3) by (auto simp: retry_law_def)
  obtain r st1 where ps: "persistStatus E ?m = (r, st1)" by fastforce
  have res: "res = (zeroResult, None)" "st' = st1"
    using run ps by (simp_all add: rejectSpec_def markFailed_def Let_def)
  obtain cs where cs: "tr (world st1) = tr (world ?m) @ cs" "list_all (statusWrite (cr ?m)) cs"
    using persistStatus_logged [OF E(1,2) retry ps] by blast
  have quiet: "tr (world ?m) = tr (world st)"
    using E(1) by (simp add: quiet_setCond quiet_event frame_simps)
  have "wst_Phase (Status (cr ?m)) = PhaseFailed"
    by (simp add: frame_simps)
  moreover have "condView (wst_Conditions (Status (cr ?m))) ConditionTypeReady
    = Some (ConditionFalse, ''InvalidSpec'', errorText err)"
    using E(4) by (simp add: condView_setCond)
  ultimately have "statusWrite (cr ?m) c \<Longrightarrow> failedStatus (errorText err) c" for c
    by (cases c) (simp_all add: statusWrite_def failedStatus_def)
  then have "list_all (failedStatus (errorText err)) cs"
    using cs(2) by (simp add: list_all_iff)
  with res cs(1) quiet show ?thesis by auto
qed

text \<open>C17. A live resource with the finalizer whose defaulted spec is invalid: the pass creates,
  updates and deletes nothing. It sends only status updates, with phase Failed and a Ready
  condition that carries the text of the validation error, and asks for no requeue.\<close>

theorem invalid_spec_only_marks_failed:
  assumes "logs tr E" and "key_laws E" and "retry_law E" and "condition_laws E"
    and "Get (wordpresses E) req w = (Inr wp, w1)"
    and "timeIsZero (DeletionTimestamp wp)"
    and "ContainsFinalizer E (Finalizers wp) WordPressFinalizer"
    and "validateSpec E (applyDefaults wp) = Some err"
  shows "\<exists>w' cs. Reconcile E req w = Some ((zeroResult, None), w')
    \<and> tr w' = tr w1 @ cs \<and> list_all (failedStatus (errorText err)) cs"
proof -
  let ?st = "\<lparr>cr = applyDefaults wp, world = w1\<rparr>"
  obtain res st' where rej: "rejectSpec E err ?st = (res, st')" by fastforce
  have "Reconcile E req w = Some (res, world st')"
    unfolding Reconcile_found [OF assms(5)] using assms(6-8) rej by (simp add: reconcileObject_def)
  with rejectSpec_logged [OF assms(1-4) rej] show ?thesis by auto
qed

definition badSpec :: WordPressSpec where
  "badSpec = zeroSpec\<lparr>Database := (Database zeroSpec)\<lparr>Mode := ''Shared''\<rparr>\<rparr>"

lemma badSpec_rejected:
  "\<exists>err. validateSpec demoEnv (applyDefaults (sampleWP fs badSpec)) = Some err"
proof -
  have "Mode (Database (Spec (applyDefaults (sampleWP fs badSpec)))) = ''Shared''"
    by (simp add: applyDefaults_def defaultSpec_def Let_def defaultDatabase_def badSpec_def
        defaultWorkload_def orElse_def go_consts)
  then have "\<not> validSpec (Spec (applyDefaults (sampleWP fs badSpec)))"
    by (simp add: validSpec_def validDatabase_def go_consts)
  then show ?thesis
    using validateSpec_None_iff [of demoEnv "applyDefaults (sampleWP fs badSpec)"] by blast
qed

theorem invalid_spec_only_marks_failed_witness:
  "\<exists>w' msg. Reconcile demoEnv (''default'', ''blog'')
       (clusterOf (sampleWP [WordPressFinalizer] badSpec)) = Some ((zeroResult, None), w')
     \<and> list_all (failedStatus msg) (writes w')"
proof -
  let ?wp = "sampleWP [WordPressFinalizer] badSpec"
  obtain err where err: "validateSpec demoEnv (applyDefaults ?wp) = Some err"
    using badSpec_rejected by blast
  have get: "Get (wordpresses demoEnv) (''default'', ''blog'') (clusterOf ?wp) = (Inr ?wp, clusterOf ?wp)"
    using Get_clusterOf [of ?wp] by simp
  have "timeIsZero (DeletionTimestamp ?wp)"
    "ContainsFinalizer demoEnv (Finalizers ?wp) WordPressFinalizer"
    by (simp_all add: timeIsZero_def demoEnv_def demoBase_def)
  from invalid_spec_only_marks_failed [OF demo_logs demo_key_laws demo_retry_law
      demo_condition_laws get this err]
  show ?thesis by auto
qed

subsection \<open>The finalizer comes first\<close>

lemma finalizer_pass:
  assumes "logs tr E" and "finalizer_laws E"
    and "Get (wordpresses E) req w = (Inr wp, w1)"
    and "timeIsZero (DeletionTimestamp wp)" and "WordPressFinalizer \<notin> set (Finalizers wp)"
  shows "\<exists>w' err fs. Reconcile E req w = Some ((zeroResult, err), w')
    \<and> tr w' = tr w1 @ [Updated (KWordPress (wp\<lparr>Finalizers := fs\<rparr>))]
    \<and> set fs = insert WordPressFinalizer (set (Finalizers wp))
    \<and> err = fst (Update (wordpresses E) (wp\<lparr>Finalizers := fs\<rparr>) w1)"
proof -
  let ?fs = "AddFinalizer E (Finalizers wp) WordPressFinalizer"
  let ?wp = "wp\<lparr>Finalizers := ?fs\<rparr>"
  obtain err w' where upd: "Update (wordpresses E) ?wp w1 = (err, w')" by fastforce
  have "\<not> ContainsFinalizer E (Finalizers wp) WordPressFinalizer"
    using assms(2,5) by (simp add: finalizer_laws_def)
  then have "Reconcile E req w = Some ((zeroResult, err), w')"
    unfolding Reconcile_found [OF assms(3)] using assms(4) upd
    by (simp add: reconcileObject_def registerFinalizer_def api_def Let_def split: option.splits)
  moreover have "tr w' = tr w1 @ [Updated (KWordPress ?wp)]"
    using logsD(3) [OF assms(1), of ?wp w1] upd by simp
  moreover have "set ?fs = insert WordPressFinalizer (set (Finalizers wp))"
    using assms(2) by (simp add: finalizer_laws_def)
  ultimately show ?thesis using upd by (metis fst_conv)
qed

text \<open>A live resource without the finalizer: whatever its spec, the pass sends exactly one
  write, the resource itself with the finalizer added and nothing else changed, and stops with
  an empty result, the update's error if it failed. No object is created before the finalizer
  is stored, and the operator does not ask to be called again.\<close>

lemma finalizer_registered_first:
  assumes "logs tr E" and "finalizer_laws E"
    and "Get (wordpresses E) req w = (Inr wp, w1)"
    and "timeIsZero (DeletionTimestamp wp)" and "WordPressFinalizer \<notin> set (Finalizers wp)"
  shows "\<exists>w' err fs. Reconcile E req w = Some ((zeroResult, err), w')
    \<and> tr w' = tr w1 @ [Updated (KWordPress (wp\<lparr>Finalizers := fs\<rparr>))]
    \<and> set fs = insert WordPressFinalizer (set (Finalizers wp))
    \<and> err = fst (Update (wordpresses E) (wp\<lparr>Finalizers := fs\<rparr>) w1)"
  by (rule finalizer_pass [OF assms])

lemma finalizer_registered_first_witness:
  "\<exists>w' err fs. Reconcile demoEnv (''default'', ''blog'') (clusterOf (sampleWP [] badSpec))
       = Some ((zeroResult, err), w')
     \<and> writes w' = [Updated (KWordPress (sampleWP fs badSpec))] \<and> WordPressFinalizer \<in> set fs"
proof -
  let ?wp = "sampleWP [] badSpec"
  have get: "Get (wordpresses demoEnv) (''default'', ''blog'') (clusterOf ?wp) = (Inr ?wp, clusterOf ?wp)"
    using Get_clusterOf [of ?wp] by simp
  have live: "timeIsZero (DeletionTimestamp ?wp)" by (simp add: timeIsZero_def)
  have fin: "WordPressFinalizer \<notin> set (Finalizers ?wp)" by simp
  have "?wp\<lparr>Finalizers := fs\<rparr> = sampleWP fs badSpec" for fs
    by (simp add: sampleWP_def object.defs WordPress.defs)
  with finalizer_registered_first [OF demo_logs demo_finalizer_laws get live fin]
  show ?thesis by auto
qed

subsection \<open>External database without its Secret\<close>

definition onlyStatus :: "call \<Rightarrow> bool" where
  "onlyStatus c \<longleftrightarrow> (case c of StatusUpdated ob \<Rightarrow> True | _ \<Rightarrow> False)"

lemma sent_only_status:
  assumes "logs tr E" "key_laws E" "retry_law E" and "persistStatus E st = (r, st')"
  shows "\<exists>cs. tr (world st') = tr (world st) @ cs \<and> list_all (statusWrite (cr st)) cs"
proof -
  obtain n where "\<And>fn w. RetryOnConflict E fn w = retryN E n fn w"
    using assms(3) by (auto simp: retry_law_def)
  from persistStatus_logged [OF assms(1,2) this assms(4)] show ?thesis by blast
qed

text \<open>C18. An accepted resource in External mode whose password Secret does not exist: the pass
  stops before creating any object. It sends only status updates, whose DatabaseReady condition
  is false, and asks to be called again after 30 seconds. The phase is written back as it was: a
  resource that was Ready before its Secret disappeared still says Ready.\<close>

theorem external_secret_missing_requeues:
  assumes laws: "logs tr E" "key_laws E" "retry_law E" "condition_laws E"
    and get: "Get (wordpresses E) req w = (Inr wp, w1)"
    and live: "timeIsZero (DeletionTimestamp wp)"
      "ContainsFinalizer E (Finalizers wp) WordPressFinalizer"
    and valid: "validateSpec E (applyDefaults wp) = None"
    and ext: "Mode (Database (Spec (applyDefaults wp))) = DatabaseModeExternal"
      "External (Database (Spec (applyDefaults wp))) = Some x"
    and missing: "Get (secrets E) (Namespace wp, skr_Name (ext_PasswordSecret x)) w1 = (Inl e, w2)"
      "IsNotFound E e"
  shows "\<exists>w' err cs. Reconcile E req w = Some ((requeueAfter (30 * second), err), w')
    \<and> tr w' = tr w1 @ cs \<and> list_all onlyStatus cs
    \<and> list_all (\<lambda>c. case c of StatusUpdated ob \<Rightarrow>
         map_option fst (condView (wst_Conditions (Status ob)) ConditionTypeDatabaseReady)
           = Some ConditionFalse
         \<and> wst_Phase (Status ob) = wst_Phase (Status wp) | _ \<Rightarrow> False) cs"
proof -
  let ?st = "\<lparr>cr = applyDefaults wp, world = w1\<rparr>"
  let ?msg = "''Secret '' @ fmtQ (QuoteUnicode E) (skr_Name (ext_PasswordSecret x)) @ '' not found''"
  let ?s = "setCond E (newCondition ConditionTypeDatabaseReady ConditionFalse
    ''ExternalSecretMissing'' ?msg) \<lparr>cr = applyDefaults wp, world = w2\<rparr>"
  let ?m = "event E EventTypeWarning ''ExternalSecretMissing'' ?msg ?s"
  have "Namespace (applyDefaults wp) = Namespace wp" by (simp add: frame_simps)
  then have db: "reconcileDatabase E ?st = Some ((requeueAfter (30 * second), None), ?m)"
    using ext missing
    by (simp add: reconcileDatabase_def reconcileExternalDatabase_def api_def Let_def)
  obtain r st' where ps: "persistStatus E ?m = (r, st')" by fastforce
  have "requeueAfter (30 * second) \<noteq> zeroResult"
    by (simp add: requeueAfter_def zeroResult_def second_def)
  then have run: "Reconcile E req w = Some ((requeueAfter (30 * second), r), world st')"
    unfolding Reconcile_found [OF get] using live valid db ps
    by (simp add: reconcileObject_def reconcileResources_def Let_def split: option.splits)
  have "tr w2 = tr w1"
    using keepsD [OF read_keeps(2) [OF logs_quiet [OF laws(1)]] missing(1)] by blast
  then have "tr (world ?m) = tr w1"
    using laws(1) by (simp add: quiet_event quiet_setCond)
  moreover have "condView (wst_Conditions (Status (cr ?m))) ConditionTypeDatabaseReady
      = Some (ConditionFalse, ''ExternalSecretMissing'', ?msg)"
    using laws(4) by (simp add: frame_simps condView_setCond)
  moreover have "wst_Phase (Status (cr ?m)) = wst_Phase (Status wp)" by (simp add: frame_simps)
  moreover obtain cs where "tr (world st') = tr (world ?m) @ cs" "list_all (statusWrite (cr ?m)) cs"
    using sent_only_status [OF laws(1-3) ps] by blast
  ultimately show ?thesis using run
    by (intro exI [of _ "world st'"] exI [of _ r] exI [of _ cs])
      (auto simp: list_all_iff statusWrite_def onlyStatus_def split: call.splits)
qed

definition externalSpec :: WordPressSpec where
  "externalSpec = zeroSpec\<lparr>Database := (Database zeroSpec)\<lparr>Mode := DatabaseModeExternal,
     External := Some \<lparr>ext_Host = ''db'', ext_Port = 0,
       ext_PasswordSecret = \<lparr>skr_Name = ''dbpw'', skr_Key = ''password''\<rparr>\<rparr>\<rparr>\<rparr>"

definition externalRef :: ExternalDatabaseSpec where
  "externalRef = \<lparr>ext_Host = ''db'', ext_Port = 3306,
     ext_PasswordSecret = \<lparr>skr_Name = ''dbpw'', skr_Key = ''password''\<rparr>\<rparr>"

lemma externalSpec_defaulted:
  "Mode (Database (Spec (applyDefaults (sampleWP fs externalSpec)))) = DatabaseModeExternal"
  "External (Database (Spec (applyDefaults (sampleWP fs externalSpec)))) = Some externalRef"
  "as_Enabled (Autoscaling (Spec (applyDefaults (sampleWP fs externalSpec)))) = False"
  "igs_Enabled (IngressS (Spec (applyDefaults (sampleWP fs externalSpec)))) = False"
  by (simp_all add: applyDefaults_def defaultSpec_def Let_def defaultDatabase_def externalSpec_def
      defaultWorkload_def orElse_def defaultExternal_def defaultAutoscaling_def zeroSpec_def
      externalRef_def)

theorem external_secret_missing_requeues_witness:
  "\<exists>w' err. Reconcile demoEnv (''default'', ''blog'')
       (clusterOf (sampleWP [WordPressFinalizer] externalSpec))
         = Some ((requeueAfter (30 * second), err), w')
     \<and> list_all onlyStatus (writes w')"
proof -
  let ?wp = "sampleWP [WordPressFinalizer] externalSpec"
  have get: "Get (wordpresses demoEnv) (''default'', ''blog'') (clusterOf ?wp) = (Inr ?wp, clusterOf ?wp)"
    using Get_clusterOf [of ?wp] by simp
  have live: "timeIsZero (DeletionTimestamp ?wp)"
    "ContainsFinalizer demoEnv (Finalizers ?wp) WordPressFinalizer"
    by (simp_all add: timeIsZero_def demoEnv_def demoBase_def)
  have valid: "validateSpec demoEnv (applyDefaults ?wp) = None"
    unfolding validateSpec_None_iff validSpec_def
    by (simp add: externalSpec_defaulted validDatabase_def) (simp add: externalRef_def)
  have missing: "Get (secrets demoEnv) (Namespace ?wp, skr_Name (ext_PasswordSecret externalRef))
      (clusterOf ?wp) = (Inl notFoundErr, clusterOf ?wp)" "IsNotFound demoEnv notFoundErr"
    by (simp_all add: demoEnv_def demoBase_def memStore_def clusterOf_def emptyCluster_def
        notFoundErr_def)
  from external_secret_missing_requeues [OF demo_logs demo_key_laws demo_retry_law
      demo_condition_laws get live valid externalSpec_defaulted(1,2) missing]
  show ?thesis by auto
qed

subsection \<open>How a pass ends\<close>

lemma reconcileDatabase_result:
  assumes "reconcileDatabase E st = Some ((res, err), st')"
  shows "res = zeroResult \<or> res = requeueAfter (30 * second) \<and> err = None"
  using assms
  by (auto simp: reconcileDatabase_def reconcileExternalDatabase_def reconcileInternalDatabase_def
      reconcileMySQLStatefulSet_def Let_def
      split: if_splits bind_splits sum.splits prod.splits option.splits)

lemma orReturn_result:
  assumes "orReturn E step rest = Some ((res, err), st')"
  shows "res = zeroResult \<or> (\<exists>st1. step = (None, st1) \<and> rest st1 = Some ((res, err), st'))"
  using assms by (auto simp: orReturn_def split: prod.splits option.splits)

lemma reconcileWorkload_result:
  assumes "reconcileWorkload E st = Some ((res, err), st')"
  shows "res = zeroResult \<or> res = requeueAfter (15 * second) \<and> err = None"
  using assms unfolding reconcileWorkload_def
  by (elim orReturn_result [THEN disjE] exE conjE bind_eq_Some_conv [THEN iffD1, elim_format])
    (auto simp: finishPass_def split: if_splits elim!: orReturn_result [THEN disjE])

lemma always_steady:
  assumes "key_laws E" "retry_law E"
  shows "steady E (\<lambda>_. True) wp"
  using assms
  by (simp add: steadyFor_def admits_def store_admits_def keeps_def blocksKeep_def)

text \<open>C28. The results a pass can return: nothing to do, again in 15 seconds, again in 30 seconds;
  never an immediate requeue, and an error together with a delay only when the missing-Secret
  status could not be written.\<close>

theorem Reconcile_results:
  "case Reconcile E req w of
     None \<Rightarrow> False
   | Some ((res, err), w') \<Rightarrow>
       (res = zeroResult \<or> res = requeueAfter (15 * second) \<and> err = None
        \<or> res = requeueAfter (30 * second)) \<and> \<not> Requeue res"
proof -
  have object: "res = zeroResult \<or> res = requeueAfter (15 * second) \<and> err = None
      \<or> res = requeueAfter (30 * second)"
    if run: "reconcileObject E st = Some ((res, err), st')" for st st' :: "'a rs" and res err
  proof -
    have "res = zeroResult" if "handleDeletion E st = ((res, err), st')"
      using that by (auto simp: handleDeletion_def dropFinalizer_def Let_def
          split: if_splits prod.splits option.splits)
    moreover have "res = zeroResult" if "registerFinalizer E st = ((res, err), st')"
      using that by (auto simp: registerFinalizer_def Let_def split: prod.splits option.splits)
    moreover have "res = zeroResult" if "rejectSpec E e s = ((res, err), st')" for e and s :: "'a rs"
      using that by (simp add: rejectSpec_def Let_def)
    moreover have "res = zeroResult \<or> res = requeueAfter (15 * second) \<and> err = None
        \<or> res = requeueAfter (30 * second)"
      if "reconcileResources E s = Some ((res, err), st')" for s :: "'a rs"
      using that
      by (auto simp: reconcileResources_def split: bind_splits prod.splits if_splits option.splits
          dest: reconcileWorkload_result reconcileDatabase_result)
    ultimately show ?thesis
      using run by (auto simp: reconcileObject_def Let_def split: if_splits option.splits)
  qed
  have shape: "\<not> Requeue zeroResult" "\<not> Requeue (requeueAfter d)" for d
    by (simp_all add: zeroResult_def requeueAfter_def)
  have total: "\<exists>res err w'. Reconcile E req w = Some ((res, err), w')"
    using Reconcile_total [of E req w] by auto
  have "res = zeroResult \<or> res = requeueAfter (15 * second) \<and> err = None
      \<or> res = requeueAfter (30 * second)"
    if run: "Reconcile E req w = Some ((res, err), w')" for res err w'
  proof (cases "\<exists>wp w1. Get (wordpresses E) req w = (Inr wp, w1)")
    case True
    then obtain wp w1 where "Get (wordpresses E) req w = (Inr wp, w1)" by blast
    with run object show ?thesis by (auto simp: Reconcile_found)
  next
    case False
    with run show ?thesis by (auto simp: Reconcile_def split: prod.splits sum.splits if_splits)
  qed
  with total shape show ?thesis by auto
qed

lemma quiet_computeStatus:
  "logs tr E \<Longrightarrow> tr (world (computeStatus E dep st)) = tr (world st)"
  by (simp add: computeStatus_def Let_def quiet_setCond frame_simps)

lemma updateStatus_logged:
  assumes E: "logs tr E" "key_laws E" "retry_law E" "condition_laws E"
    and run: "updateStatus E st = (None, st')"
  shows "\<exists>l ob. tr (world st') = tr (world st) @ l @ [StatusUpdated ob] \<and> Status ob = Status (cr st')
    \<and> ObjectKeyFromObject ob = ObjectKeyFromObject (cr st)
    \<and> wst_Phase (Status (cr st')) \<in> {PhaseReady, PhaseProvisioning}"
proof -
  obtain g st1 where get: "api (Get (deployments E) (Namespace (cr st), wpName (cr st))) st = (g, st1)"
    by fastforce
  then have st1: "cr st1 = cr st" by (rule api_frame(1))
  have quiet: "tr (world st1) = tr (world st)"
    using api_keeps [OF read_keeps(6) [OF logs_quiet [OF E(1)]] get] by blast
  obtain dep where ps: "persistStatus E (computeStatus E dep st1) = (None, st')"
    using run get by (auto simp: updateStatus_def split: sum.splits if_splits)
  obtain n where "\<And>fn w. RetryOnConflict E fn w = retryN E n fn w"
    using E(3) by (auto simp: retry_law_def)
  from persistStatus_logged [OF E(1,2) this ps] obtain cs where
    cs: "tr (world st') = tr (world (computeStatus E dep st1)) @ cs"
      "list_all (statusWrite (cr (computeStatus E dep st1))) cs" "cs \<noteq> []" by blast
  then obtain cs0 c where "cs = cs0 @ [c]" by (metis rev_exhaust)
  with cs(2) have c: "statusWrite (cr (computeStatus E dep st1)) c" by simp
  then obtain ob where ob: "c = StatusUpdated ob" "Status ob = Status (cr (computeStatus E dep st1))"
    "ObjectKeyFromObject ob = ObjectKeyFromObject (cr (computeStatus E dep st1))"
    by (auto simp: statusWrite_def split: call.splits)
  have "ObjectKeyFromObject (cr (computeStatus E dep st1)) = ObjectKeyFromObject (cr st)"
    using meta_key [OF computeStatus_frame(1) [of E dep st1]] st1 by simp
  moreover have "cr st' = cr (computeStatus E dep st1)" by (rule persistStatus_frame [OF ps])
  ultimately show ?thesis
    using cs(1) \<open>cs = cs0 @ [c]\<close> ob computeStatus_phase [OF E(4), of dep st1]
      quiet_computeStatus [OF E(1), of dep st1] quiet by auto
qed

text \<open>The stretch of a pass after the database, step by step, when no step failed.\<close>

lemma reconcileWorkload_chain:
  assumes quiet: "conflict_law seen E" "\<not> seen (world st')" and retry: "retry_law E"
    and run: "reconcileWorkload E st = Some ((res, None), st')"
  obtains st1 st2 st3 st4 st5 where
    "reconcilePVC E st = (None, st1)" "reconcileWordPressDeployment E st1 = Some (None, st2)"
    "reconcileWordPressService E st2 = (None, st3)" "reconcileIngress E st3 = (None, st4)"
    "reconcileHPA E st4 = (None, st5)" "updateStatus E st5 = (None, st')"
    "finishPass st' = ((res, None), st')"
proof -
  note ok = orReturn_success [where seen = seen and E = E]
  note marks = steps_mark [OF quiet(1)] updateStatus_marks [OF quiet(1) retry]
  obtain st1 where 1: "reconcilePVC E st = (None, st1)"
    and rest1: "reconcileWordPressDeployment E st1 \<bind> (\<lambda>deployed. orReturn E deployed (\<lambda>st.
      orReturn E (reconcileWordPressService E st) (\<lambda>st. orReturn E (reconcileIngress E st) (\<lambda>st.
        orReturn E (reconcileHPA E st) (\<lambda>st. orReturn E (updateStatus E st)
          (\<lambda>st. Some (finishPass st))))))) = Some ((res, None), st')"
    using _ quiet(2) run [unfolded reconcileWorkload_def] by (rule ok) (use marks in blast)
  obtain d where d: "reconcileWordPressDeployment E st1 = Some d"
    and rest1': "orReturn E d (\<lambda>st.
      orReturn E (reconcileWordPressService E st) (\<lambda>st. orReturn E (reconcileIngress E st) (\<lambda>st.
        orReturn E (reconcileHPA E st) (\<lambda>st. orReturn E (updateStatus E st)
          (\<lambda>st. Some (finishPass st)))))) = Some ((res, None), st')"
    using rest1 by (auto simp: bind_eq_Some_conv)
  obtain st2 where 2: "d = (None, st2)" and rest2: "orReturn E (reconcileWordPressService E st2) (\<lambda>st.
      orReturn E (reconcileIngress E st) (\<lambda>st. orReturn E (reconcileHPA E st) (\<lambda>st.
        orReturn E (updateStatus E st) (\<lambda>st. Some (finishPass st))))) = Some ((res, None), st')"
    using _ quiet(2) rest1' by (rule ok) (use d marks in blast)
  obtain st3 where 3: "reconcileWordPressService E st2 = (None, st3)"
    and rest3: "orReturn E (reconcileIngress E st3) (\<lambda>st. orReturn E (reconcileHPA E st) (\<lambda>st.
        orReturn E (updateStatus E st) (\<lambda>st. Some (finishPass st)))) = Some ((res, None), st')"
    using _ quiet(2) rest2 by (rule ok) (use marks in blast)
  obtain st4 where 4: "reconcileIngress E st3 = (None, st4)"
    and rest4: "orReturn E (reconcileHPA E st4) (\<lambda>st.
        orReturn E (updateStatus E st) (\<lambda>st. Some (finishPass st))) = Some ((res, None), st')"
    using _ quiet(2) rest3 by (rule ok) (use marks in blast)
  obtain st5 where 5: "reconcileHPA E st4 = (None, st5)"
    and rest5: "orReturn E (updateStatus E st5) (\<lambda>st. Some (finishPass st)) = Some ((res, None), st')"
    using _ quiet(2) rest4 by (rule ok) (use marks in blast)
  obtain st6 where 6: "updateStatus E st5 = (None, st6)"
    and fin: "Some (finishPass st6) = Some ((res, None), st')"
    using _ quiet(2) rest5 by (rule ok) (use marks in blast)
  have "st6 = st'" using fin by (auto simp: finishPass_def split: if_splits)
  with 1 d 2 3 4 5 6 fin show thesis by (intro that) simp_all
qed

lemma reconcileWorkload_ends:
  assumes E: "logs tr E" "key_laws E" "owner_law E" "retry_law E" "condition_laws E"
    and quiet: "conflict_law seen E" "\<not> seen (world st')"
    and run: "reconcileWorkload E st = Some ((res, None), st')"
  shows "\<exists>l ob. tr (world st') = l @ [StatusUpdated ob]
    \<and> ObjectKeyFromObject ob = ObjectKeyFromObject (cr st)
    \<and> (wst_Phase (Status ob) = PhaseReady \<and> res = zeroResult
       \<or> wst_Phase (Status ob) = PhaseProvisioning \<and> res = requeueAfter (15 * second))"
proof -
  note g = always_steady [OF E(2,4), of "cr st"]
  have t: "tracks (\<lambda>_. True) (cr st) st" by (simp add: tracks_def)
  obtain st1 st2 st3 st4 st5 where steps:
    "reconcilePVC E st = (None, st1)" "reconcileWordPressDeployment E st1 = Some (None, st2)"
    "reconcileWordPressService E st2 = (None, st3)" "reconcileIngress E st3 = (None, st4)"
    "reconcileHPA E st4 = (None, st5)" "updateStatus E st5 = (None, st')"
    and fin: "finishPass st' = ((res, None), st')"
    using quiet E(4) run by (rule reconcileWorkload_chain)
  have "tracks (\<lambda>_. True) (cr st) st5"
    by (rule reconcileHPA_tracks [OF g reconcileIngress_tracks [OF g
          reconcileWordPressService_tracks [OF g reconcileWordPressDeployment_tracks [OF g
            reconcilePVC_tracks [OF g t steps(1)] steps(2)] steps(3)] steps(4)] steps(5)])
  then have "ObjectKeyFromObject (cr st5) = ObjectKeyFromObject (cr st)" by (rule tracksD(5))
  with updateStatus_logged [OF E(1,2,4,5) steps(6)] fin show ?thesis
    by (auto simp: finishPass_def split: if_splits)
qed

lemma complete_pass_steps:
  assumes laws: "key_laws E" "retry_law E"
    and quiet: "conflict_law seen E" "\<not> seen w'"
    and get: "Get (wordpresses E) req w = (Inr wp, w1)"
    and live: "timeIsZero (DeletionTimestamp wp)"
      "ContainsFinalizer E (Finalizers wp) WordPressFinalizer"
    and valid: "validateSpec E (applyDefaults wp) = None"
    and run: "Reconcile E req w = Some ((res, None), w')"
    and res: "res \<noteq> requeueAfter (30 * second)"
  obtains st1 st' where
    "reconcileDatabase E \<lparr>cr = applyDefaults wp, world = w1\<rparr> = Some ((zeroResult, None), st1)"
    "reconcileWorkload E st1 = Some ((res, None), st')" "w' = world st'"
proof -
  let ?st = "\<lparr>cr = applyDefaults wp, world = w1\<rparr>"
  obtain st' where "reconcileResources E ?st = Some ((res, None), st')" and w': "w' = world st'"
    using run live valid by (auto simp: Reconcile_found [OF get] reconcileObject_def)
  then obtain r err st1 where db: "reconcileDatabase E ?st = Some ((r, err), st1)"
    and rest: "(if err \<noteq> None then Some ((r, ignoreConflict E err), snd (persistStatus E st1))
      else if r \<noteq> zeroResult then (case persistStatus E st1 of
        (Some statusErr, st) \<Rightarrow> Some ((r, Some statusErr), st) | (None, st) \<Rightarrow> Some ((r, None), st))
      else reconcileWorkload E st1) = Some ((res, None), st')"
    by (auto simp: reconcileResources_def split: bind_splits prod.splits)
  have err: "err = None"
  proof (rule ccontr)
    assume "err \<noteq> None"
    then obtain e where e: "err = Some e" by blast
    with rest have c: "IsConflict E e" and st': "st' = snd (persistStatus E st1)"
      by (auto simp: ignoreConflict_def split: if_splits)
    obtain p st2 where ps: "persistStatus E st1 = (p, st2)" by fastforce
    have "seen (world st1)" using quiet(1) c db unfolding e by (rule reconcileDatabase_marks)
    then have "seen (world st2)"
      by (intro persistStatus_keeps [OF conflict_lawD(1) [OF quiet(1)] laws _ ps]) simp_all
    with quiet(2) w' st' ps show False by simp
  qed
  moreover have "r = zeroResult"
    using reconcileDatabase_result [OF db] rest res err
    by (auto split: if_splits prod.splits option.splits)
  ultimately show thesis using that db rest w' by simp
qed

text \<open>C12. A complete pass reports where it stands: over an accepted resource, when no call failed
  with a conflict, a pass that returns no error (other than for a missing external Secret) has
  as its last write the status, and asks to be called again in 15 seconds exactly when the phase
  it wrote is not Ready.\<close>

theorem complete_pass_reports_status:
  assumes "logs tr E" "key_laws E" "owner_law E" "retry_law E" "condition_laws E"
    and quiet: "conflict_law seen E" "\<not> seen w'"
    and get: "Get (wordpresses E) req w = (Inr wp, w1)"
    and live: "timeIsZero (DeletionTimestamp wp)"
      "ContainsFinalizer E (Finalizers wp) WordPressFinalizer"
    and valid: "validateSpec E (applyDefaults wp) = None"
    and run: "Reconcile E req w = Some ((res, None), w')"
    and res: "res \<noteq> requeueAfter (30 * second)"
  shows "\<exists>l ob. tr w' = l @ [StatusUpdated ob] \<and> ObjectKeyFromObject ob = ObjectKeyFromObject wp
    \<and> (wst_Phase (Status ob) = PhaseReady \<and> res = zeroResult
       \<or> wst_Phase (Status ob) = PhaseProvisioning \<and> res = requeueAfter (15 * second))"
proof -
  obtain st1 st' where db:
    "reconcileDatabase E \<lparr>cr = applyDefaults wp, world = w1\<rparr> = Some ((zeroResult, None), st1)"
    and workload: "reconcileWorkload E st1 = Some ((res, None), st')" and w': "w' = world st'"
    using assms(2,4) quiet get live valid run res by (rule complete_pass_steps)
  have "metaOf (cr st1) = metaOf wp"
    using reconcileDatabase_frame(1) [OF db] by (simp add: frame_simps)
  then have "ObjectKeyFromObject (cr st1) = ObjectKeyFromObject wp" by (rule meta_key)
  then show ?thesis
    using reconcileWorkload_ends [OF assms(1-6) _ workload] quiet(2) w' by metis
qed

text \<open>A pass over the empty namespace, for a resource with an external database.\<close>

lemma blank_effects [simp]:
  "event (blankEnv wp) t r m st = st"
  "world (setCond (blankEnv wp) c st) = world st"
  by (simp_all add: event_def blankEnv_def setCond_def)

lemma blank_workload:
  assumes "Mode (Database (Spec (cr st))) = DatabaseModeExternal"
    and "External (Database (Spec (cr st))) = Some x"
    and "\<not> per_Enabled (Persistence (Spec (cr st)))" and "\<not> igs_Enabled (IngressS (Spec (cr st)))"
    and "\<not> as_Enabled (Autoscaling (Spec (cr st)))"
    and "ObjectKeyFromObject (cr st) = ObjectKeyFromObject wp"
  shows "\<exists>st'. reconcileWorkload (blankEnv wp) st = Some ((requeueAfter (15 * second), None), st')"
proof -
  have phase: "wst_Phase (Status (cr (computeStatus (blankEnv wp) zeroWorkloadStatus s)))
      \<noteq> PhaseReady" for s
    by (simp add: computeStatus_phase [OF blank_condition_laws] deploymentReady_def
        zeroWorkloadStatus_def)
  have meta: "ObjectKeyFromObject (cr (computeStatus (blankEnv wp) zeroWorkloadStatus s))
      = ObjectKeyFromObject (cr s)" for s
    by (rule meta_key) (rule computeStatus_frame)
  have persist: "persistStatus (blankEnv wp) s = (None, s\<lparr>world := world s @
      [StatusUpdated (wp\<lparr>Status := Status (cr s)\<rparr>)]\<rparr>)"
    if "ObjectKeyFromObject (cr s) = ObjectKeyFromObject wp" for s
    using that by (simp add: persistStatus_def writeStatus_def api_def)
  have key: "ObjectKeyFromObject (cr (modStatus f st)) = ObjectKeyFromObject wp"
    "ObjectKeyFromObject (cr (removeCond (blankEnv wp) t s)) = ObjectKeyFromObject (cr s)" for f t s
    using assms(6) meta_key [OF modStatus_frame(1)] meta_key [OF removeCond_frame(1)] by metis+
  show ?thesis
    using assms phase
    by (simp add: reconcileWorkload_def orReturn_def reconcilePVC_def reconcileWordPressDeployment_def
        resolvedDBHost_def Let_def frame_simps syncDeployment_def reconcileWordPressService_def
        applyService_def reconcileIngress_def dropIngress_def reconcileHPA_def dropHPA_def
        updateStatus_def api_def key meta persist finishPass_def)
qed

lemma externalSpec_plain:
  "per_Enabled (Persistence (Spec (applyDefaults (sampleWP fs externalSpec)))) = False"
  by (simp add: applyDefaults_def defaultSpec_def Let_def externalSpec_def defaultWorkload_def
      defaultPersistence_def zeroSpec_def)

lemma externalSpec_valid: "validateSpec E (applyDefaults (sampleWP fs externalSpec)) = None"
  unfolding validateSpec_None_iff validSpec_def
  by (simp add: externalSpec_defaulted validDatabase_def) (simp add: externalRef_def)

lemma blank_pass:
  fixes fs
  defines "wp \<equiv> sampleWP [WordPressFinalizer] externalSpec"
  shows "\<exists>w'. Reconcile (blankEnv wp) (''default'', ''blog'') [] =
    Some ((requeueAfter (15 * second), None), w')"
proof -
  let ?st = "\<lparr>cr = applyDefaults wp, world = []\<rparr>"
  have get: "Get (wordpresses (blankEnv wp)) (''default'', ''blog'') [] = (Inr wp, [])"
    by (simp add: wp_def)
  have live: "timeIsZero (DeletionTimestamp wp)" "WordPressFinalizer \<in> set (Finalizers wp)"
    by (simp_all add: wp_def timeIsZero_def)
  obtain st1 where db: "reconcileDatabase (blankEnv wp) ?st = Some ((zeroResult, None), st1)"
    by (simp add: reconcileDatabase_def reconcileExternalDatabase_def api_def Let_def wp_def
        externalSpec_defaulted)
  note frame = reconcileDatabase_frame [OF db]
  have "ObjectKeyFromObject (cr st1) = ObjectKeyFromObject (applyDefaults wp)"
    using meta_key [OF frame(1)] by simp
  then have key: "ObjectKeyFromObject (cr st1) = ObjectKeyFromObject wp"
    by (simp add: ObjectKeyFromObject_def frame_simps)
  obtain st2 where "reconcileWorkload (blankEnv wp) st1 = Some ((requeueAfter (15 * second), None), st2)"
    using blank_workload [of st1 externalRef wp] key frame(2) externalSpec_defaulted externalSpec_plain
    by (auto simp: wp_def)
  with db have "reconcileResources (blankEnv wp) ?st = Some ((requeueAfter (15 * second), None), st2)"
    by (simp add: reconcileResources_def)
  moreover have "validateSpec (blankEnv wp) (applyDefaults wp) = None"
    using externalSpec_valid by (simp add: wp_def)
  ultimately show ?thesis
    unfolding Reconcile_found [OF get] using live by (simp add: reconcileObject_def)
qed

theorem complete_pass_reports_status_witness:
  "\<exists>w' l ob. Reconcile (blankEnv (sampleWP [WordPressFinalizer] externalSpec)) (''default'', ''blog'') []
       = Some ((requeueAfter (15 * second), None), w')
     \<and> w' = l @ [StatusUpdated ob] \<and> wst_Phase (Status ob) = PhaseProvisioning"
proof -
  let ?wp = "sampleWP [WordPressFinalizer] externalSpec"
  obtain w' where run: "Reconcile (blankEnv ?wp) (''default'', ''blog'') [] =
    Some ((requeueAfter (15 * second), None), w')"
    using blank_pass by blast
  have get: "Get (wordpresses (blankEnv ?wp)) (''default'', ''blog'') [] = (Inr ?wp, [])" by simp
  have live: "timeIsZero (DeletionTimestamp ?wp)"
    "ContainsFinalizer (blankEnv ?wp) (Finalizers ?wp) WordPressFinalizer"
    by (simp_all add: timeIsZero_def)
  have delay: "requeueAfter (15 * second) \<noteq> requeueAfter (30 * second)"
    "requeueAfter (15 * second) \<noteq> zeroResult"
    by (simp_all add: requeueAfter_def zeroResult_def second_def)
  show ?thesis
    using complete_pass_reports_status [OF blank_laws blank_conflict_law _ get live externalSpec_valid
        run delay(1)] run delay(2) by auto
qed

subsection \<open>Conflicts\<close>

text \<open>A conflict ends a pass without a trace: when a database step fails with a conflict, the
  pass returns an empty result and no error, so the queue is not asked to run it again; only a
  later event does.\<close>

lemma conflict_ends_pass_silently:
  assumes "Get (wordpresses E) req w = (Inr wp, w1)"
    and "timeIsZero (DeletionTimestamp wp)"
    and "ContainsFinalizer E (Finalizers wp) WordPressFinalizer"
    and "validateSpec E (applyDefaults wp) = None"
    and "reconcileDatabase E \<lparr>cr = applyDefaults wp, world = w1\<rparr> = Some ((r, Some e), st)"
    and "IsConflict E e"
  shows "\<exists>w'. Reconcile E req w = Some ((zeroResult, None), w')"
proof -
  have "r = zeroResult" using reconcileDatabase_result [OF assms(5)] by simp
  then show ?thesis
    unfolding Reconcile_found [OF assms(1)] using assms(2-6)
    by (simp add: reconcileObject_def reconcileResources_def Let_def ignoreConflict_def)
qed

text \<open>A server that refuses the creation of the Secret with a conflict.\<close>

definition conflictErr :: gerror where
  "conflictErr = Foreign ''Conflict'' ''object has been modified''"

definition busyEnv :: "WordPress \<Rightarrow> call list env" where
  "busyEnv wp = (blankEnv wp)\<lparr>secrets := (blankStore KSecret)\<lparr>Create := (\<lambda>ob w. (Some conflictErr, w))\<rparr>\<rparr>"

lemma internalSpec_valid: "validateSpec E (applyDefaults (sampleWP fs internalSpec)) = None"
proof -
  have "defaulted (Spec (sampleWP fs internalSpec))"
    using defaultSpec_defaulted [of zeroSpec] by (simp add: internalSpec_def)
  then have "Spec (applyDefaults (sampleWP fs internalSpec)) = internalSpec"
    using defaultSpec_fix by (simp add: Spec_applyDefaults)
  moreover have "as_Enabled (Autoscaling internalSpec) = False" "igs_Enabled (IngressS internalSpec) = False"
    by (simp_all add: internalSpec_def zeroSpec_def defaultSpec_def defaultWorkload_def Let_def
        defaultAutoscaling_def)
  ultimately show ?thesis
    by (simp add: validateSpec_None_iff validSpec_def validDatabase_def)
qed

lemma conflict_ends_pass_silently_witness:
  "\<exists>w'. Reconcile (busyEnv (sampleWP [WordPressFinalizer] internalSpec)) (''default'', ''blog'') []
     = Some ((zeroResult, None), w')"
proof -
  let ?wp = "sampleWP [WordPressFinalizer] internalSpec"
  have get: "Get (wordpresses (busyEnv ?wp)) (''default'', ''blog'') [] = (Inr ?wp, [])"
    using blank_calls(1) [of ?wp] by (simp add: busyEnv_def)
  have live: "timeIsZero (DeletionTimestamp ?wp)"
    "ContainsFinalizer (busyEnv ?wp) (Finalizers ?wp) WordPressFinalizer"
    by (simp_all add: timeIsZero_def busyEnv_def)
  have "Mode (Database (Spec (applyDefaults ?wp))) = DatabaseModeInternal"
    by (simp add: Spec_applyDefaults defaultSpec_def Let_def defaultDatabase_def defaultWorkload_def)
  moreover have "withController (busyEnv ?wp) ob d = Inr (ownedBy ob d)" for ob and d :: Secret
    by (simp add: withController_def busyEnv_def blankEnv_def ownedBy_def)
  moreover have "RandRead (busyEnv ?wp) n w = (Inr (replicate n 0), w)" for n w
    by (simp add: busyEnv_def blankEnv_def)
  moreover have "Get (secrets (busyEnv ?wp)) k w = (Inl notFoundErr, w)"
    "Create (secrets (busyEnv ?wp)) s w = (Some conflictErr, w)"
    "IsNotFound (busyEnv ?wp) notFoundErr" for k w s
    by (simp_all add: busyEnv_def blankStore_def)
  ultimately have db: "reconcileDatabase (busyEnv ?wp) \<lparr>cr = applyDefaults ?wp, world = []\<rparr> =
    Some ((zeroResult, Some conflictErr), \<lparr>cr = applyDefaults ?wp, world = []\<rparr>)"
    by (simp add: reconcileDatabase_def reconcileInternalDatabase_def reconcileMySQLSecret_def
        buildMySQLSecret_def generatePassword_def api_def ensureSecret_def)
  have "IsConflict (busyEnv ?wp) conflictErr" by (simp add: busyEnv_def conflictErr_def)
  with conflict_ends_pass_silently [OF get live internalSpec_valid db] show ?thesis by blast
qed

end
