(* ===== verification/Lifecycle.thy ===== *)
theory Lifecycle
  imports Passes
begin

section \<open>Deletion, and runs of many passes\<close>

text \<open>
  The end of a resource (\<^verbatim>\<open>handleDeletion\<close>) and invariants over whole runs: passes over any
  resources, in any order, interleaved with steps of other actors. Between the calls of one pass
  the world may move as well, since a call may return any world its law allows.
\<close>

subsection \<open>Deletion\<close>

lemma handleDeletion_cases:
  assumes "ContainsFinalizer E (Finalizers (cr st)) WordPressFinalizer"
    and "handleDeletion E st = ((res, err), st')"
  obtains (stuck) e where "cleanupMySQL E st = (Some e, st')" "err = Some e"
    | (released) st1 u where "cleanupMySQL E st = (None, st1)"
        "api (Update (wordpresses E) ((cr st1)\<lparr>Finalizers :=
           RemoveFinalizer E (Finalizers (cr st1)) WordPressFinalizer\<rparr>))
           (st1\<lparr>cr := (cr st1)\<lparr>Finalizers :=
             RemoveFinalizer E (Finalizers (cr st1)) WordPressFinalizer\<rparr>\<rparr>) = (u, st')"
        "err = ignoreConflict E u"
  using assms
  by (auto simp: handleDeletion_def dropFinalizer_def Let_def ignoreConflict_def
      split: prod.splits option.splits)

lemma finalizer_update_logged:
  assumes "logs tr E" and "api (Update (wordpresses E) ob) st = (u, st')"
  shows "tr (world st') = tr (world st) @ [Updated (KWordPress ob)]"
  using logsD(3) [OF assms(1), of ob "world st"] api_frame(2) [OF assms(2)] by simp

lemma cleanup_skipped:
  assumes "logs tr E" and "\<not> (internalMode (cr st) \<and> \<not> retainsData (cr st))"
  shows "\<exists>st1. cleanupMySQL E st = (None, st1) \<and> cr st1 = cr st
    \<and> tr (world st1) = tr (world st)"
  using assms by (auto simp: cleanupMySQL_def internalMode_def Let_def quiet_event frame_simps)

lemma deleted_pass:
  assumes "Get (wordpresses E) req w = (Inr wp, w1)" and "\<not> timeIsZero (DeletionTimestamp wp)"
  shows "Reconcile E req w =
    Some (let (r, st) = handleDeletion E \<lparr>cr = wp, world = w1\<rparr> in (r, world st))"
  using assms by (simp add: Reconcile_found reconcileObject_def split: prod.splits)

lemma skipped_deletion_writes:
  assumes "logs tr E" and get: "Get (wordpresses E) req w = (Inr wp, w1)"
    and "\<not> timeIsZero (DeletionTimestamp wp)"
    and "ContainsFinalizer E (Finalizers wp) WordPressFinalizer"
    and "\<not> (internalMode wp \<and> \<not> retainsData wp)"
  shows "\<exists>err w'. Reconcile E req w = Some ((zeroResult, err), w')
    \<and> tr w' = tr w1 @ [Updated (KWordPress
        (wp\<lparr>Finalizers := RemoveFinalizer E (Finalizers wp) WordPressFinalizer\<rparr>))]"
proof -
  let ?st = "\<lparr>cr = wp, world = w1\<rparr>"
  let ?wp = "wp\<lparr>Finalizers := RemoveFinalizer E (Finalizers wp) WordPressFinalizer\<rparr>"
  obtain st1 where clean: "cleanupMySQL E ?st = (None, st1)" "cr st1 = wp" "tr (world st1) = tr w1"
    using cleanup_skipped [OF assms(1), of ?st] assms(5) by auto
  obtain u st2 where upd: "api (Update (wordpresses E) ?wp) (st1\<lparr>cr := ?wp\<rparr>) = (u, st2)" by fastforce
  have "handleDeletion E ?st = ((zeroResult, ignoreConflict E u), st2)"
    using clean upd assms(4)
    by (simp add: handleDeletion_def dropFinalizer_def Let_def ignoreConflict_def split: option.splits)
  moreover have "tr (world st2) = tr w1 @ [Updated (KWordPress ?wp)]"
    using finalizer_update_logged [OF assms(1) upd] clean(3) by simp
  ultimately show ?thesis unfolding deleted_pass [OF get assms(3)] by simp
qed

text \<open>C20. Deleting a resource that has the retain annotation, or whose stored mode is not
  Internal: the only write of the pass is the update that removes the finalizer; no claim is
  deleted.\<close>

theorem retained_data_survives_deletion:
  assumes "logs tr E" and "Get (wordpresses E) req w = (Inr wp, w1)"
    and "\<not> timeIsZero (DeletionTimestamp wp)"
    and "ContainsFinalizer E (Finalizers wp) WordPressFinalizer"
    and "retainsData wp \<or> Mode (Database (Spec wp)) \<noteq> DatabaseModeInternal"
  shows "\<exists>err w'. Reconcile E req w = Some ((zeroResult, err), w')
    \<and> tr w' = tr w1 @ [Updated (KWordPress
        (wp\<lparr>Finalizers := RemoveFinalizer E (Finalizers wp) WordPressFinalizer\<rparr>))]"
  by (rule skipped_deletion_writes [OF assms(1-4)]) (use assms(5) in \<open>auto simp: internalMode_def\<close>)

definition deletedWP :: "WordPressSpec \<Rightarrow> gomap \<Rightarrow> WordPress" where
  "deletedWP s ann = (sampleWP [WordPressFinalizer] s)\<lparr>DeletionTimestamp := Some 1, Annotations := ann\<rparr>"

lemma deletedWP_fields [simp]:
  "Spec (deletedWP s ann) = s" "Finalizers (deletedWP s ann) = [WordPressFinalizer]"
  "Annotations (deletedWP s ann) = ann" "\<not> timeIsZero (DeletionTimestamp (deletedWP s ann))"
  "ObjectKeyFromObject (deletedWP s ann) = (''default'', ''blog'')"
  "Name (deletedWP s ann) = ''blog''" "Namespace (deletedWP s ann) = ''default''"
  using sampleWP_fields(9)
  by (simp_all add: deletedWP_def timeIsZero_def ObjectKeyFromObject_def)

theorem retained_data_survives_deletion_witness:
  "\<exists>err w'. Reconcile demoEnv (''default'', ''blog'')
       (clusterOf (deletedWP internalSpec (mapLit [(RetainDataAnnotation, ''true'')])))
         = Some ((zeroResult, err), w')
     \<and> (\<exists>ob. writes w' = [Updated (KWordPress ob)])"
proof -
  let ?wp = "deletedWP internalSpec (mapLit [(RetainDataAnnotation, ''true'')])"
  have get: "Get (wordpresses demoEnv) (''default'', ''blog'') (clusterOf ?wp) = (Inr ?wp, clusterOf ?wp)"
    using Get_clusterOf [of ?wp] by simp
  have fin: "ContainsFinalizer demoEnv (Finalizers ?wp) WordPressFinalizer"
    by (simp add: demoEnv_def demoBase_def)
  have "retainsData ?wp" by (simp add: retainsData_def)
  then show ?thesis
    using retained_data_survives_deletion [OF demo_logs get deletedWP_fields(4) fin] by auto
qed

text \<open>C31. Deletion reads the stored mode, not the defaulted one. A resource stored without a mode
  is reconciled as Internal while it lives, with a MySQL StatefulSet and its data claim, but its
  deletion removes the finalizer and leaves the claim behind, without any annotation.\<close>

theorem unset_mode_leaks_claim:
  assumes "logs tr E" and "Get (wordpresses E) req w = (Inr wp, w1)"
    and "\<not> timeIsZero (DeletionTimestamp wp)"
    and "ContainsFinalizer E (Finalizers wp) WordPressFinalizer"
    and "Mode (Database (Spec wp)) = []"
  shows "internalMode (applyDefaults wp)
    \<and> (\<exists>err w'. Reconcile E req w = Some ((zeroResult, err), w')
        \<and> tr w' = tr w1 @ [Updated (KWordPress
            (wp\<lparr>Finalizers := RemoveFinalizer E (Finalizers wp) WordPressFinalizer\<rparr>))])"
proof -
  have "internalMode (applyDefaults wp)"
    using assms(5) by (simp add: internalMode_def applyDefaults_def defaultSpec_def Let_def
        defaultDatabase_def defaultWorkload_def orElse_def)
  moreover have "\<not> (internalMode wp \<and> \<not> retainsData wp)"
    using assms(5) by (simp add: internalMode_def)
  ultimately show ?thesis using skipped_deletion_writes [OF assms(1-4)] by blast
qed

theorem unset_mode_leaks_claim_witness:
  "\<exists>err w'. Reconcile demoEnv (''default'', ''blog'') (clusterOf (deletedWP zeroSpec None))
       = Some ((zeroResult, err), w')
     \<and> (\<exists>ob. writes w' = [Updated (KWordPress ob)])
     \<and> internalMode (applyDefaults (deletedWP zeroSpec None))"
proof -
  let ?wp = "deletedWP zeroSpec None"
  have get: "Get (wordpresses demoEnv) (''default'', ''blog'') (clusterOf ?wp) = (Inr ?wp, clusterOf ?wp)"
    using Get_clusterOf [of ?wp] by simp
  have fin: "ContainsFinalizer demoEnv (Finalizers ?wp) WordPressFinalizer"
    by (simp add: demoEnv_def demoBase_def)
  have "Mode (Database (Spec ?wp)) = []" by (simp add: zeroSpec_def)
  then show ?thesis
    using unset_mode_leaks_claim [OF demo_logs get deletedWP_fields(4) fin] by auto
qed

text \<open>
  Which claims are live (stored, and not marked for deletion), as seen through the API: a
  lookup that finds nothing means not live, so does a deletion that succeeds or finds nothing,
  and nothing but a creation makes a claim live.
\<close>

definition claim_law :: "('w \<Rightarrow> nsname \<Rightarrow> bool) \<Rightarrow> 'w env \<Rightarrow> bool" where
  "claim_law live E \<longleftrightarrow>
     (\<forall>k w e w'. Get (pvcs E) k w = (Inl e, w') \<longrightarrow> IsNotFound E e \<longrightarrow> \<not> live w' k)
     \<and> (\<forall>p w r w'. Delete (pvcs E) p w = (r, w') \<longrightarrow>
          (case r of None \<Rightarrow> True | Some e \<Rightarrow> IsNotFound E e) \<longrightarrow> \<not> live w' (ObjectKeyFromObject p))
     \<and> (\<forall>k. admits (\<lambda>w. \<not> live w k) (\<lambda>c. case c of Created (KPVC p) \<Rightarrow> False | _ \<Rightarrow> True) E)"

lemma cleanup_removes_claim:
  assumes law: "claim_law live E" "key_laws E"
    and due: "internalMode (cr st)" "\<not> retainsData (cr st)"
    and run: "cleanupMySQL E st = (None, st')"
  shows "\<not> live (world st') (Namespace (cr st), mysqlPVCName (cr st))"
proof -
  let ?k = "(Namespace (cr st), mysqlPVCName (cr st))"
  obtain g st1 where get: "api (Get (pvcs E) ?k) st = (g, st1)" by fastforce
  note frame = api_frame [OF get]
  show ?thesis
  proof (cases g)
    case (Inl e)
    then have "IsNotFound E e" "st' = st1"
      using run due get by (auto simp: cleanupMySQL_def internalMode_def Let_def split: if_splits)
    then show ?thesis using law(1) frame(2) Inl unfolding claim_law_def by blast
  next
    case (Inr pvc)
    let ?st2 = "event E EventTypeNormal ''DeletingMySQLPVC'' (''Deleting MySQL data PVC ''
      @ fmtQ (QuoteUnicode E) (mysqlPVCName (cr st))) st1"
    obtain d st3 where del: "api (Delete (pvcs E) pvc) ?st2 = (d, st3)" by fastforce
    have "(case d of None \<Rightarrow> True | Some e \<Rightarrow> IsNotFound E e) \<and> st' = st3"
      using run due get Inr del
      by (auto simp: cleanupMySQL_def internalMode_def Let_def split: if_splits option.splits)
    moreover have "ObjectKeyFromObject pvc = ?k"
      using key_lawD [OF key_lawsD(4) [OF law(2)]] frame(2) Inr by blast
    ultimately show ?thesis using law(1) api_frame(2) [OF del] unfolding claim_law_def by metis
  qed
qed

lemma cleanup_logged:
  assumes "logs tr E" and "key_laws E" and "cleanupMySQL E st = (r, st')"
  shows "\<exists>cs. tr (world st') = tr (world st) @ cs \<and> (\<forall>ob. Updated (KWordPress ob) \<notin> set cs)"
proof -
  let ?ok = "\<lambda>c. \<forall>ob. c \<noteq> Updated (KWordPress ob)"
  have "sent tr (tr (world st)) ?ok (world st') \<and> cr st' = cr st"
    by (rule cleanupMySQL_keeps [OF logs_admits [OF assms(1)] assms(2) sentI _ assms(3)]) simp
  then show ?thesis by (auto simp: sent_def list_all_iff)
qed

text \<open>C6. The finalizer outlives the data: when the deletion pass of an Internal resource without
  the retain annotation sends the update that removes the finalizer, the MySQL data claim is no
  longer live. If it could neither be found missing nor deleted, no update is sent and the error
  is returned, so the pass is retried.\<close>

theorem finalizer_released_after_claim:
  assumes logs: "logs tr E" and law: "claim_law live E" "key_laws E"
    and get: "Get (wordpresses E) req w = (Inr wp, w1)"
    and del: "\<not> timeIsZero (DeletionTimestamp wp)"
      "ContainsFinalizer E (Finalizers wp) WordPressFinalizer"
    and due: "Mode (Database (Spec wp)) = DatabaseModeInternal" "\<not> retainsData wp"
    and run: "Reconcile E req w = Some ((res, err), w')"
  shows "\<exists>cs. tr w' = tr w1 @ cs
    \<and> ((\<exists>ob. Updated (KWordPress ob) \<in> set cs) \<and> \<not> live w' (Namespace wp, mysqlPVCName wp)
       \<or> (\<forall>ob. Updated (KWordPress ob) \<notin> set cs) \<and> err \<noteq> None)"
proof -
  let ?st = "\<lparr>cr = wp, world = w1\<rparr>" and ?k = "(Namespace wp, mysqlPVCName wp)"
  obtain st' where h: "handleDeletion E ?st = ((res, err), st')" and w': "w' = world st'"
    using run unfolding deleted_pass [OF get del(1)] by (auto split: prod.splits)
  have fin: "ContainsFinalizer E (Finalizers (cr ?st)) WordPressFinalizer" using del(2) by simp
  show ?thesis
  proof (rule handleDeletion_cases [OF fin h])
    fix e assume "cleanupMySQL E ?st = (Some e, st')" "err = Some e"
    with cleanup_logged [OF logs law(2)] w' show ?thesis by fastforce
  next
    fix st1 :: "'a rs" and u
    let ?ob = "(cr st1)\<lparr>Finalizers := RemoveFinalizer E (Finalizers (cr st1)) WordPressFinalizer\<rparr>"
    assume clean: "cleanupMySQL E ?st = (None, st1)"
      and upd: "api (Update (wordpresses E) ?ob) (st1\<lparr>cr := ?ob\<rparr>) = (u, st')"
    have "\<not> live (world st1) ?k"
      using cleanup_removes_claim [OF law, of ?st] clean due by (simp add: internalMode_def)
    moreover have "admits (\<lambda>w. \<not> live w ?k)
        (\<lambda>c. case c of Created (KPVC p) \<Rightarrow> False | _ \<Rightarrow> True) E"
      using law(1) by (simp add: claim_law_def)
    ultimately have "\<not> live (world st') ?k"
      using sendUpdate_keeps [OF _ _ _ upd] by fastforce
    moreover obtain cs where "tr (world st1) = tr w1 @ cs"
      using cleanup_logged [OF logs law(2) clean] by auto
    ultimately show ?thesis
      using finalizer_update_logged [OF logs upd] w' by auto
  qed
qed

lemma demo_claim_law: "claim_law (\<lambda>w k. find (hasKey k) (c_pvcs w) \<noteq> None) demoEnv"
proof -
  have gone: "find P (filter (\<lambda>x. \<not> P x) xs) = None" for P and xs :: "PersistentVolumeClaim list"
    by (simp add: find_None_iff)
  have stay: "find P xs = None \<Longrightarrow> find P (filter Q xs) = None" for P Q
    and xs :: "PersistentVolumeClaim list"
    by (auto simp: find_None_iff)
  have upd: "find (hasKey k) xs = None \<Longrightarrow>
      find (hasKey k) (map (\<lambda>x. if hasKey (ObjectKeyFromObject ob) x then ob else x) xs) = None"
    for k ob and xs :: "PersistentVolumeClaim list"
    by (auto simp: find_None_iff hasKey_def)
  show ?thesis
    unfolding claim_law_def admits_def store_admits_def keeps_def
    using gone stay upd
    by (simp add: demoEnv_def demoBase_def memStore_def demoStatusUpdate_def logCall_def Let_def
        demoRand_def tick_def split: option.splits)
qed

theorem finalizer_released_after_claim_witness:
  "\<exists>res err w'. Reconcile demoEnv (''default'', ''blog'') (clusterOf (deletedWP internalSpec None))
       = Some ((res, err), w')
     \<and> ((\<exists>ob. Updated (KWordPress ob) \<in> set (writes w'))
          \<and> find (hasKey (''default'', ''data-blog-mysql-0'')) (c_pvcs w') = None
        \<or> err \<noteq> None)"
proof -
  let ?wp = "deletedWP internalSpec None"
  have get: "Get (wordpresses demoEnv) (''default'', ''blog'') (clusterOf ?wp) = (Inr ?wp, clusterOf ?wp)"
    using Get_clusterOf [of ?wp] by simp
  have fin: "ContainsFinalizer demoEnv (Finalizers ?wp) WordPressFinalizer"
    by (simp add: demoEnv_def demoBase_def)
  have mode: "Mode (Database (Spec ?wp)) = DatabaseModeInternal" "\<not> retainsData ?wp"
    by (simp_all add: retainsData_def)
  obtain res err w' where run: "Reconcile demoEnv (''default'', ''blog'') (clusterOf ?wp) = Some ((res, err), w')"
    using Reconcile_total [of demoEnv "(''default'', ''blog'')" "clusterOf ?wp"] by fastforce
  have "mysqlPVCName ?wp = ''data-blog-mysql-0''" by (simp add: name_defs)
  then show ?thesis
    using finalizer_released_after_claim [OF demo_logs demo_claim_law demo_key_laws get
        deletedWP_fields(4) fin mode run] run by auto
qed

subsection \<open>Runs\<close>

text \<open>Worlds reachable by passes over any requests, interleaved with steps of others.\<close>

inductive reaches :: "'w env \<Rightarrow> ('w \<Rightarrow> 'w \<Rightarrow> bool) \<Rightarrow> 'w \<Rightarrow> 'w \<Rightarrow> bool"
  for E :: "'w env" and other :: "'w \<Rightarrow> 'w \<Rightarrow> bool" and w0 :: 'w where
  start: "reaches E other w0 w0"
| pass: "reaches E other w0 w \<Longrightarrow> Reconcile E req w = Some (res, w') \<Longrightarrow> reaches E other w0 w'"
| other: "reaches E other w0 w \<Longrightarrow> other w w' \<Longrightarrow> reaches E other w0 w'"

inductive_cases reachesE: "reaches E other w0 w"

lemma Reconcile_preserves:
  assumes laws: "key_laws E" "owner_law E" "retry_law E"
    and E: "\<And>wp. admits P (permitted E wp) E" and w: "P w"
    and run: "Reconcile E req w = Some (res, w')"
  shows "P w'"
proof -
  obtain g w1 where get: "Get (wordpresses E) req w = (g, w1)" by fastforce
  have w1: "P w1" using keepsD [OF read_keeps(1) [OF E] get w] .
  show ?thesis
  proof (cases g)
    case (Inl e)
    with run get w1 show ?thesis by (auto simp: Reconcile_def split: if_splits)
  next
    case (Inr wp)
    with get have "Get (wordpresses E) req w = (Inr wp, w1)" by simp
    then show ?thesis by (rule Reconcile_keeps [OF laws _ E w1 run])
  qed
qed

lemma reaches_invariant:
  assumes run: "reaches E other w0 w"
    and laws: "key_laws E" "owner_law E" "retry_law E"
    and E: "\<And>wp. admits P (permitted E wp) E"
    and others: "\<And>w w'. other w w' \<Longrightarrow> P w \<Longrightarrow> P w'"
    and w0: "P w0"
  shows "P w"
  using run
proof induction
  case start
  show ?case by (rule w0)
next
  case pass
  then show ?case using Reconcile_preserves [OF laws E] by blast
next
  case other
  then show ?case using others by blast
qed

text \<open>
  A stored object stays as it is under everything but an update or deletion of its kind: reads,
  writes of other kinds, and creations (of another name, or refused).
\<close>

definition stored_law :: "(call \<Rightarrow> bool) \<Rightarrow> ('w \<Rightarrow> nsname \<Rightarrow> 'o option) \<Rightarrow> 'w env \<Rightarrow> bool" where
  "stored_law touches V E \<longleftrightarrow>
     (\<forall>k ob. admits (\<lambda>w. V w k = Some ob) (\<lambda>c. \<not> touches c) E)"

definition touchesSecret :: "call \<Rightarrow> bool" where
  "touchesSecret c \<longleftrightarrow>
     (case c of Updated (KSecret s) \<Rightarrow> True | Deleted (KSecret s) \<Rightarrow> True | _ \<Rightarrow> False)"

lemma resourceCall_no_secret: "resourceCall E wp c \<Longrightarrow> \<not> touchesSecret c"
  by (cases "(E, wp, c)" rule: resourceCall.cases) (auto simp: touchesSecret_def)

lemma deletionCall_no_secret: "deletionCall E wp c \<Longrightarrow> \<not> touchesSecret c"
  by (cases "(E, wp, c)" rule: deletionCall.cases) (auto simp: touchesSecret_def)

lemma permitted_no_secret: "permitted E wp c \<Longrightarrow> \<not> touchesSecret c"
  by (auto simp: permitted_def touchesSecret_def[of "Updated (KWordPress x)" for x]
      dest: resourceCall_no_secret deletionCall_no_secret
      split: if_splits call.splits) (simp_all add: touchesSecret_def)

text \<open>C2. Credentials are never rotated: over any run of passes, for any resources and with any
  answers of the server, interleaved with actors that leave Secrets alone, a Secret that exists
  keeps its content.\<close>

theorem secrets_never_rotated:
  assumes "key_laws E" "owner_law E" "retry_law E" "stored_law touchesSecret V E"
    and "\<And>w w' k. other w w' \<Longrightarrow> V w' k = V w k"
    and "reaches E other w0 w" and "V w0 k = Some s"
  shows "V w k = Some s"
proof (rule reaches_invariant [OF assms(6,1-3)])
  fix wp
  have "admits (\<lambda>w. V w k = Some s) (\<lambda>c. \<not> touchesSecret c) E"
    using assms(4) unfolding stored_law_def by blast
  then show "admits (\<lambda>w. V w k = Some s) (permitted E wp) E"
    by (rule admits_mono) (rule permitted_no_secret)
qed (use assms(5,7) in auto)

lemma find_snoc_stays:
  "find P xs = Some ob \<Longrightarrow> find P (xs @ ys) = Some ob"
  by (induction xs) (auto split: if_splits)

lemma demo_stored_secrets: "stored_law touchesSecret (\<lambda>w k. find (hasKey k) (c_secrets w)) demoEnv"
  unfolding stored_law_def admits_def store_admits_def keeps_def
  by (simp add: demoEnv_def demoBase_def memStore_def demoStatusUpdate_def logCall_def Let_def
      demoRand_def tick_def touchesSecret_def find_snoc_stays)

definition sampleSecret :: Secret where
  "sampleSecret = secretNamed (''default'', ''blog-mysql-credentials'')"

theorem secrets_never_rotated_witness:
  "\<exists>w'. reaches demoEnv (\<lambda>w w'. w' = tick w)
       ((clusterOf (sampleWP [WordPressFinalizer] internalSpec))\<lparr>c_secrets := [sampleSecret]\<rparr>) w'
     \<and> find (hasKey (''default'', ''blog-mysql-credentials'')) (c_secrets w') = Some sampleSecret
     \<and> (\<exists>w res. Reconcile demoEnv (''default'', ''blog'') w = Some (res, w'))"
proof -
  let ?w = "(clusterOf (sampleWP [WordPressFinalizer] internalSpec))\<lparr>c_secrets := [sampleSecret]\<rparr>"
  obtain res w' where run: "Reconcile demoEnv (''default'', ''blog'') ?w = Some (res, w')"
    using Reconcile_total [of demoEnv "(''default'', ''blog'')" ?w] by fastforce
  have reach: "reaches demoEnv (\<lambda>w w'. w' = tick w) ?w w'"
    by (rule reaches.pass [OF reaches.start run])
  have there: "find (hasKey (''default'', ''blog-mysql-credentials'')) (c_secrets ?w) = Some sampleSecret"
    by (simp add: hasKey_def sampleSecret_def secretNamed_def newMeta_def object.defs Secret.defs
        ObjectKeyFromObject_def)
  have "find (hasKey (''default'', ''blog-mysql-credentials'')) (c_secrets w') = Some sampleSecret"
    by (rule secrets_never_rotated [where V = "\<lambda>w k. find (hasKey k) (c_secrets w)",
          OF demo_key_laws demo_owner_law demo_retry_law demo_stored_secrets _ reach there])
      (simp add: tick_def)
  with reach run show ?thesis by blast
qed

definition touchesClaim :: "nsname \<Rightarrow> call \<Rightarrow> bool" where
  "touchesClaim k c \<longleftrightarrow>
     (case c of
        Updated (KPVC p) \<Rightarrow> ObjectKeyFromObject p = k
      | Deleted (KPVC p) \<Rightarrow> ObjectKeyFromObject p = k
      | _ \<Rightarrow> False)"

lemma resourceCall_no_claim: "resourceCall E wp c \<Longrightarrow> \<not> touchesClaim k c"
  by (cases "(E, wp, c)" rule: resourceCall.cases) (auto simp: touchesClaim_def)

lemma permitted_content_claim:
  assumes "permitted E wp c"
  shows "\<not> touchesClaim (ns, wpPVCName wp') c"
proof -
  have "\<not> touchesClaim (ns, wpPVCName wp') c" if "deletionCall E wp c"
    using that claim_names_differ [of wp' wp]
    by (cases "(E, wp, c)" rule: deletionCall.cases) (auto simp: touchesClaim_def at_def)
  with assms show ?thesis
    by (auto simp: permitted_def dest: resourceCall_no_claim split: if_splits call.splits)
      (auto simp: touchesClaim_def)
qed

text \<open>C3. The site's content is never touched: over any run, the volume claim that holds the
  files of a resource (of any resource, also one that was deleted) is neither updated nor
  deleted by the operator.\<close>

theorem content_claims_kept:
  assumes "key_laws E" "owner_law E" "retry_law E"
    and "\<And>ob. admits (\<lambda>w. V w (ns, wpPVCName wp) = Some ob) (\<lambda>c. \<not> touchesClaim (ns, wpPVCName wp) c) E"
    and "\<And>w w'. other w w' \<Longrightarrow> V w' (ns, wpPVCName wp) = V w (ns, wpPVCName wp)"
    and "reaches E other w0 w" and "V w0 (ns, wpPVCName wp) = Some claim"
  shows "V w (ns, wpPVCName wp) = Some claim"
proof (rule reaches_invariant [OF assms(6,1-3)])
  fix wp'
  show "admits (\<lambda>w. V w (ns, wpPVCName wp) = Some claim) (permitted E wp') E"
    by (rule admits_mono [OF assms(4)]) (rule permitted_content_claim)
qed (use assms(5,7) in auto)

lemma demo_stored_claims:
  "admits (\<lambda>w. find (hasKey k) (c_pvcs w) = Some ob) (\<lambda>c. \<not> touchesClaim k c) demoEnv"
proof -
  have upd: "find (hasKey k) (map (\<lambda>x. if hasKey (ObjectKeyFromObject p) x then p else x) xs) = Some ob"
    if "find (hasKey k) xs = Some ob" "ObjectKeyFromObject p \<noteq> k" for p xs
    using that by (induction xs) (auto simp: hasKey_def split: if_splits)
  have del: "find (hasKey k) (filter (\<lambda>x. \<not> hasKey (ObjectKeyFromObject p) x) xs) = Some ob"
    if "find (hasKey k) xs = Some ob" "ObjectKeyFromObject p \<noteq> k" for xs
      and p :: PersistentVolumeClaim
    using that by (induction xs) (auto simp: hasKey_def split: if_splits)
  show ?thesis
    unfolding admits_def store_admits_def keeps_def
    using upd del
    by (simp add: demoEnv_def demoBase_def memStore_def demoStatusUpdate_def logCall_def Let_def
        demoRand_def tick_def touchesClaim_def find_snoc_stays)
qed

theorem content_claims_kept_witness:
  "\<exists>claim w'. reaches demoEnv (\<lambda>w w'. w' = tick w)
       ((clusterOf (deletedWP internalSpec None))\<lparr>c_pvcs := [claim]\<rparr>) w'
     \<and> (\<exists>w res. Reconcile demoEnv (''default'', ''blog'') w = Some (res, w'))
     \<and> find (hasKey (''default'', ''blog-content'')) (c_pvcs w') = Some claim"
proof -
  let ?wp = "deletedWP internalSpec None"
  let ?claim = "object.extend (newMeta ''blog-content'' ''default'' None None)
    (PersistentVolumeClaim.fields \<lparr>pvc_AccessModes = [], pvc_StorageClassName = None,
      pvc_Requests = None, pvcs_rest = []\<rparr> [])"
  let ?w = "(clusterOf ?wp)\<lparr>c_pvcs := [?claim]\<rparr>"
  obtain res w' where run: "Reconcile demoEnv (''default'', ''blog'') ?w = Some (res, w')"
    using Reconcile_total [of demoEnv "(''default'', ''blog'')" ?w] by fastforce
  have reach: "reaches demoEnv (\<lambda>w w'. w' = tick w) ?w w'"
    by (rule reaches.pass [OF reaches.start run])
  have name: "wpPVCName ?wp = ''blog-content''" by (simp add: name_defs)
  have there: "find (hasKey (''default'', wpPVCName ?wp)) (c_pvcs ?w) = Some ?claim"
    unfolding name
    by (simp add: hasKey_def newMeta_def object.defs PersistentVolumeClaim.defs
        ObjectKeyFromObject_def)
  have "find (hasKey (''default'', wpPVCName ?wp)) (c_pvcs w') = Some ?claim"
    by (rule content_claims_kept [where V = "\<lambda>w k. find (hasKey k) (c_pvcs w)",
          OF demo_key_laws demo_owner_law demo_retry_law _ _ reach there])
      (simp_all add: tick_def demo_stored_claims)
  with reach run show ?thesis unfolding name by blast
qed

end
