(* ===== verification/Manager.thy ===== *)
theory Manager
  imports Lifecycle
begin

section \<open>The manager process (cmd/main.go, SetupWithManager)\<close>

text \<open>
  The options \<^verbatim>\<open>main\<close> derives from the parsed command line, the registration of the
  controller, and the startup sequence with its exit codes. The parsed flags are a record (theory
  \<open>CommandLine\<close> parses them); creating and running the manager is library code, the functions in
  the fields of \<open>startup\<close>. A TLS option is a function on the TLS configuration, as in the code.
\<close>

subsection \<open>Options\<close>

record flags =
  metricsAddr :: string
  probeAddr :: string
  enableLeaderElection :: bool
  secureMetrics :: bool
  webhookCertPath :: string
  webhookCertName :: string
  webhookCertKey :: string
  metricsCertPath :: string
  metricsCertName :: string
  metricsCertKey :: string
  enableHTTP2 :: bool

definition defaultFlags :: flags where
  "defaultFlags =
     \<lparr>metricsAddr = ''0'', probeAddr = '':8081'', enableLeaderElection = False, secureMetrics = True,
      webhookCertPath = [], webhookCertName = ''tls.crt'', webhookCertKey = ''tls.key'',
      metricsCertPath = [], metricsCertName = ''tls.crt'', metricsCertKey = ''tls.key'',
      enableHTTP2 = False\<rparr>"

record tlsConfig =
  NextProtos :: "string list"
  tls_rest :: raw

record serverOptions =
  TLSOpts :: "(tlsConfig \<Rightarrow> tlsConfig) list"
  CertDir :: string
  CertName :: string
  KeyName :: string

record metricsOptions = serverOptions +
  BindAddress :: string
  SecureServing :: bool
  FilterProvider :: "string option"  \<comment> \<open>the function installed, by name\<close>

record managerOptions =
  Metrics :: metricsOptions
  WebhookServer :: serverOptions
  HealthProbeBindAddress :: string
  LeaderElection :: bool
  LeaderElectionID :: string

definition disableHTTP2 :: "tlsConfig \<Rightarrow> tlsConfig" where
  "disableHTTP2 c = c\<lparr>NextProtos := [''http/1.1'']\<rparr>"

definition tlsOpts :: "flags \<Rightarrow> (tlsConfig \<Rightarrow> tlsConfig) list" where
  "tlsOpts f = (if \<not> enableHTTP2 f then [disableHTTP2] else [])"

definition webhookServerOptions :: "flags \<Rightarrow> serverOptions" where
  "webhookServerOptions f =
     (let o1 = \<lparr>TLSOpts = tlsOpts f, CertDir = [], CertName = [], KeyName = []\<rparr> in
      if 0 < length (webhookCertPath f)
      then o1\<lparr>CertDir := webhookCertPath f, CertName := webhookCertName f, KeyName := webhookCertKey f\<rparr>
      else o1)"

definition metricsServerOptions :: "flags \<Rightarrow> metricsOptions" where
  "metricsServerOptions f =
     (let o1 = \<lparr>TLSOpts = tlsOpts f, CertDir = [], CertName = [], KeyName = [],
               BindAddress = metricsAddr f, SecureServing = secureMetrics f, FilterProvider = None\<rparr>;
          o2 = (if secureMetrics f
                then o1\<lparr>FilterProvider := Some ''WithAuthenticationAndAuthorization''\<rparr> else o1)
      in (if 0 < length (metricsCertPath f)
          then o2\<lparr>CertDir := metricsCertPath f, CertName := metricsCertName f, KeyName := metricsCertKey f\<rparr>
          else o2))"

definition newManagerOptions :: "flags \<Rightarrow> managerOptions" where
  "newManagerOptions f =
     \<lparr>Metrics = metricsServerOptions f, WebhookServer = webhookServerOptions f,
      HealthProbeBindAddress = probeAddr f, LeaderElection = enableLeaderElection f,
      LeaderElectionID = ''869f5990.kubesphere.ai''\<rparr>"

subsection \<open>The controller registration\<close>

record controllerSpec =
  ForKind :: string
  ForPredicates :: "string list"
  OwnsKinds :: "string list"
  ControllerName :: string
  RecorderName :: "string option"  \<comment> \<open>the recorder \<^verbatim>\<open>SetupWithManager\<close> asks the manager for\<close>

definition SetupWithManager :: "'r option \<Rightarrow> controllerSpec" where
  "SetupWithManager recorder =
     \<lparr>ForKind = ''WordPress'', ForPredicates = [''GenerationChangedPredicate''],
      OwnsKinds = [''Deployment'', ''StatefulSet'', ''Service'', ''Secret'', ''PersistentVolumeClaim'',
        ''Ingress'', ''HorizontalPodAutoscaler''],
      ControllerName = ''wordpress'',
      RecorderName = (if recorder = None then Some ''wordpress-controller'' else None)\<rparr>"

subsection \<open>Startup\<close>

record ('m, 'w) startup =
  NewManager :: "managerOptions \<Rightarrow> 'w \<Rightarrow> (gerror + 'm) \<times> 'w"
  Complete :: "'m \<Rightarrow> controllerSpec \<Rightarrow> 'w \<Rightarrow> gerror option \<times> 'w"
  AddHealthzCheck :: "'m \<Rightarrow> string \<Rightarrow> 'w \<Rightarrow> gerror option \<times> 'w"
  AddReadyzCheck :: "'m \<Rightarrow> string \<Rightarrow> 'w \<Rightarrow> gerror option \<times> 'w"
  Start :: "'m \<Rightarrow> 'w \<Rightarrow> gerror option \<times> 'w"

text \<open>The rest of \<^verbatim>\<open>main\<close> after a step that may fail; \<open>os.Exit(1)\<close> is exit code 1.\<close>

definition orExit :: "gerror option \<times> 'w \<Rightarrow> ('w \<Rightarrow> nat \<times> 'w) \<Rightarrow> nat \<times> 'w" where
  "orExit step rest = (case step of (Some err, w) \<Rightarrow> (1, w) | (None, w) \<Rightarrow> rest w)"

definition runMain :: "('m, 'w) startup \<Rightarrow> flags \<Rightarrow> 'w \<Rightarrow> nat \<times> 'w" where
  "runMain S f w =
     (case NewManager S (newManagerOptions f) w of
        (Inl err, w) \<Rightarrow> (1, w)
      | (Inr mgr, w) \<Rightarrow>
          orExit (Complete S mgr (SetupWithManager (None :: unit option)) w) (\<lambda>w.
            orExit (AddHealthzCheck S mgr ''healthz'' w) (\<lambda>w.
              orExit (AddReadyzCheck S mgr ''readyz'' w) (\<lambda>w.
                orExit (Start S mgr w) (\<lambda>w. (0, w))))))"

subsection \<open>Properties\<close>

text \<open>HTTP/2 is off unless asked for: whatever TLS configuration the metrics and webhook
  servers start from, the configured options leave only HTTP/1.1 as a protocol when the flag is
  not set, and leave the configuration alone when it is.\<close>

theorem http2_disabled_by_default:
  "foldl (\<lambda>c opt. opt c) c (TLSOpts (Metrics (newManagerOptions f)))
     = (if enableHTTP2 f then c else c\<lparr>NextProtos := [''http/1.1'']\<rparr>)
   \<and> foldl (\<lambda>c opt. opt c) c (TLSOpts (WebhookServer (newManagerOptions f)))
     = (if enableHTTP2 f then c else c\<lparr>NextProtos := [''http/1.1'']\<rparr>)
   \<and> (FilterProvider (Metrics (newManagerOptions f)) = None) = (\<not> secureMetrics f)
   \<and> SecureServing (Metrics (newManagerOptions f)) = secureMetrics f"
  by (simp add: newManagerOptions_def metricsServerOptions_def webhookServerOptions_def tlsOpts_def
      disableHTTP2_def Let_def)

text \<open>The process exits with 0 only when every step of the startup succeeded and the manager
  ran to its end without an error, and the manager is started only after the controller and both
  health checks are registered; every failure is exit code 1.\<close>

lemma runMain_exit_code:
  "fst (runMain S f w) \<in> {0, 1}
   \<and> (fst (runMain S f w) = 0 \<longleftrightarrow>
        (\<exists>mgr w1 w2 w3 w4. NewManager S (newManagerOptions f) w = (Inr mgr, w1)
           \<and> Complete S mgr (SetupWithManager (None :: unit option)) w1 = (None, w2)
           \<and> AddHealthzCheck S mgr ''healthz'' w2 = (None, w3)
           \<and> AddReadyzCheck S mgr ''readyz'' w3 = (None, w4)
           \<and> Start S mgr w4 = (None, snd (runMain S f w))))"
  by (auto simp: runMain_def orExit_def split: prod.splits sum.splits option.splits)

fun kindOf :: "kobj \<Rightarrow> string" where
  "kindOf (KWordPress ob) = ''WordPress''"
| "kindOf (KSecret ob) = ''Secret''"
| "kindOf (KService ob) = ''Service''"
| "kindOf (KStatefulSet ob) = ''StatefulSet''"
| "kindOf (KPVC ob) = ''PersistentVolumeClaim''"
| "kindOf (KDeployment ob) = ''Deployment''"
| "kindOf (KIngress ob) = ''Ingress''"
| "kindOf (KHPA ob) = ''HorizontalPodAutoscaler''"

lemma permitted_kind_watched:
  assumes "permitted E wp (Created ob)"
  shows "kindOf ob \<in> set (OwnsKinds (SetupWithManager recorder))"
  using assms
  by (cases ob)
    (auto simp: permitted_def SetupWithManager_def elim: deletionCall.elims split: if_splits)

text \<open>C32. The controller watches what it makes: every object a pass creates is of a kind among
  the owned kinds the controller is registered for, so that changes to it
  can trigger a pass.\<close>

theorem created_kinds_are_watched:
  assumes "logs tr E" and "key_laws E" and "owner_law E" and "retry_law E"
    and "Get (wordpresses E) req w = (Inr wp, w1)"
    and "Reconcile E req w = Some (res, w')"
  shows "\<exists>cs. tr w' = tr w1 @ cs
    \<and> list_all (\<lambda>c. case c of
        Created ob \<Rightarrow> kindOf ob \<in> set (OwnsKinds (SetupWithManager recorder))
      | _ \<Rightarrow> True) cs"
proof -
  have "sent tr (tr w1) (permitted E wp) w'"
    by (rule Reconcile_keeps [OF assms(2-5) logs_admits [OF assms(1)] sentI assms(6)])
  then obtain cs where "tr w' = tr w1 @ cs" "list_all (permitted E wp) cs"
    by (auto simp: sent_def)
  moreover have "case c of
        Created ob \<Rightarrow> kindOf ob \<in> set (OwnsKinds (SetupWithManager recorder))
      | _ \<Rightarrow> True" if "permitted E wp c" for c
    using that permitted_kind_watched [of E wp] by (cases c) auto
  ultimately show ?thesis by (auto simp: list_all_iff)
qed

theorem created_kinds_are_watched_witness:
  "\<exists>w'. Reconcile (blankEnv (sampleWP [WordPressFinalizer] externalSpec)) (''default'', ''blog'') []
       = Some ((requeueAfter (15 * second), None), w')
     \<and> list_all (\<lambda>c. case c of
         Created ob \<Rightarrow> kindOf ob \<in> set (OwnsKinds (SetupWithManager (None :: unit option)))
       | _ \<Rightarrow> True) w'"
proof -
  let ?wp = "sampleWP [WordPressFinalizer] externalSpec"
  obtain w' where run: "Reconcile (blankEnv ?wp) (''default'', ''blog'') [] =
    Some ((requeueAfter (15 * second), None), w')"
    using blank_pass by blast
  have get: "Get (wordpresses (blankEnv ?wp)) (''default'', ''blog'') [] = (Inr ?wp, [])" by simp
  from created_kinds_are_watched [OF blank_logs blank_key_laws blank_owner_law blank_retry_law
      get run, of "None :: unit option"] run
  show ?thesis by simp
qed

text \<open>An update event of the watched resource reaches the queue when every predicate of the
  registration lets it through; what a predicate of the library decides is a parameter.\<close>

definition updateTriggers ::
    "(string \<Rightarrow> object \<Rightarrow> object \<Rightarrow> bool) \<Rightarrow> controllerSpec \<Rightarrow> object \<Rightarrow> object \<Rightarrow> bool" where
  "updateTriggers decide spec old new \<longleftrightarrow> list_all (\<lambda>p. decide p old new) (ForPredicates spec)"

text \<open>\<^verbatim>\<open>GenerationChangedPredicate\<close> compares the generations.\<close>

definition generation_law :: "(string \<Rightarrow> object \<Rightarrow> object \<Rightarrow> bool) \<Rightarrow> bool" where
  "generation_law decide \<longleftrightarrow>
     (\<forall>old new. decide ''GenerationChangedPredicate'' old new = (Generation old \<noteq> Generation new))"



end
