(* ===== verification/Rbac.thy ===== *)
theory Rbac
  imports Manager
begin

section \<open>Access rules (wordpress\_controller.go, lines 53 to 59)\<close>

text \<open>
  The RBAC markers of the controller, from which the role of the manager
  (\<^verbatim>\<open>config/rbac/role.yaml\<close>) is generated, against the calls a pass makes: the role allows all
  of them, and a smaller one would be enough.
\<close>

subsection \<open>Rules\<close>

record accessRule =
  apiGroups :: "string list"
  ruleResources :: "string list"
  ruleVerbs :: "string list"

definition allVerbs :: "string list" where
  "allVerbs = [''get'', ''list'', ''watch'', ''create'', ''update'', ''patch'', ''delete'']"

definition managerRole :: "accessRule list" where
  "managerRole =
     [\<lparr>apiGroups = [''apps.kubesphere.ai''], ruleResources = [''wordpresses''], ruleVerbs = allVerbs\<rparr>,
      \<lparr>apiGroups = [''apps.kubesphere.ai''], ruleResources = [''wordpresses/status''],
       ruleVerbs = [''get'', ''update'', ''patch'']\<rparr>,
      \<lparr>apiGroups = [''apps.kubesphere.ai''], ruleResources = [''wordpresses/finalizers''],
       ruleVerbs = [''update'']\<rparr>,
      \<lparr>apiGroups = [''apps''], ruleResources = [''deployments'', ''statefulsets''], ruleVerbs = allVerbs\<rparr>,
      \<lparr>apiGroups = [''''],
       ruleResources = [''services'', ''persistentvolumeclaims'', ''secrets'', ''configmaps'', ''events''],
       ruleVerbs = allVerbs\<rparr>,
      \<lparr>apiGroups = [''networking.k8s.io''], ruleResources = [''ingresses''], ruleVerbs = allVerbs\<rparr>,
      \<lparr>apiGroups = [''autoscaling''], ruleResources = [''horizontalpodautoscalers''],
       ruleVerbs = allVerbs\<rparr>]"

text \<open>An access: the API group, the resource (with its subresource) and the verb.\<close>

type_synonym access = "string \<times> string \<times> string"

fun covers :: "accessRule \<Rightarrow> access \<Rightarrow> bool" where
  "covers r (g, res, v) \<longleftrightarrow>
     g \<in> set (apiGroups r) \<and> res \<in> set (ruleResources r) \<and> v \<in> set (ruleVerbs r)"

definition allows :: "accessRule list \<Rightarrow> access \<Rightarrow> bool" where
  "allows role a \<longleftrightarrow> list_ex (\<lambda>r. covers r a) role"

subsection \<open>What a pass needs\<close>

text \<open>The group and the resource name of each kind, as the imported API packages register them.\<close>

fun resourceOf :: "kobj \<Rightarrow> string \<times> string" where
  "resourceOf (KWordPress ob) = (''apps.kubesphere.ai'', ''wordpresses'')"
| "resourceOf (KSecret ob) = ('''', ''secrets'')"
| "resourceOf (KService ob) = ('''', ''services'')"
| "resourceOf (KStatefulSet ob) = (''apps'', ''statefulsets'')"
| "resourceOf (KPVC ob) = ('''', ''persistentvolumeclaims'')"
| "resourceOf (KDeployment ob) = (''apps'', ''deployments'')"
| "resourceOf (KIngress ob) = (''networking.k8s.io'', ''ingresses'')"
| "resourceOf (KHPA ob) = (''autoscaling'', ''horizontalpodautoscalers'')"

definition onResource :: "string \<Rightarrow> kobj \<Rightarrow> access" where
  "onResource verb ob = (fst (resourceOf ob), snd (resourceOf ob), verb)"

text \<open>The accesses of one write. Creating an object whose owner reference blocks the deletion of
  its owner also asks for the right to update the finalizers of the owner.\<close>

fun accesses :: "call \<Rightarrow> access list" where
  "accesses (Created ob) =
     [onResource ''create'' ob, (''apps.kubesphere.ai'', ''wordpresses/finalizers'', ''update'')]"
| "accesses (Updated ob) = [onResource ''update'' ob]"
| "accesses (Deleted ob) = [onResource ''delete'' ob]"
| "accesses (StatusUpdated ob) = [(''apps.kubesphere.ai'', ''wordpresses/status'', ''update'')]"

text \<open>The client of the manager reads through a cache, so each kind that is read or watched is
  read, listed and watched; the recorder creates events and patches repeated ones.\<close>

definition reads :: "access list" where
  "reads = concat (map (\<lambda>(g, res). map (\<lambda>v. (g, res, v)) [''get'', ''list'', ''watch''])
     [(''apps.kubesphere.ai'', ''wordpresses''), ('''', ''secrets''), ('''', ''services''),
      (''apps'', ''statefulsets''), ('''', ''persistentvolumeclaims''), (''apps'', ''deployments''),
      (''networking.k8s.io'', ''ingresses''), (''autoscaling'', ''horizontalpodautoscalers'')])"

definition eventAccesses :: "access list" where
  "eventAccesses = [('''', ''events'', ''create''), ('''', ''events'', ''patch'')]"

subsection \<open>A smaller role\<close>

text \<open>Only what a pass uses: no deletion of Secrets, Services or workloads, no update of Secrets and
  claims, no ConfigMaps.\<close>

definition neededRole :: "accessRule list" where
  "neededRole =
     [\<lparr>apiGroups = [''apps.kubesphere.ai''], ruleResources = [''wordpresses''],
       ruleVerbs = [''get'', ''list'', ''watch'', ''update'']\<rparr>,
      \<lparr>apiGroups = [''apps.kubesphere.ai''], ruleResources = [''wordpresses/status''],
       ruleVerbs = [''update'']\<rparr>,
      \<lparr>apiGroups = [''apps.kubesphere.ai''], ruleResources = [''wordpresses/finalizers''],
       ruleVerbs = [''update'']\<rparr>,
      \<lparr>apiGroups = [''apps''], ruleResources = [''deployments'', ''statefulsets''],
       ruleVerbs = [''get'', ''list'', ''watch'', ''create'', ''update'']\<rparr>,
      \<lparr>apiGroups = [''''], ruleResources = [''services''],
       ruleVerbs = [''get'', ''list'', ''watch'', ''create'', ''update'']\<rparr>,
      \<lparr>apiGroups = [''''], ruleResources = [''persistentvolumeclaims''],
       ruleVerbs = [''get'', ''list'', ''watch'', ''create'', ''delete'']\<rparr>,
      \<lparr>apiGroups = [''''], ruleResources = [''secrets''],
       ruleVerbs = [''get'', ''list'', ''watch'', ''create'']\<rparr>,
      \<lparr>apiGroups = [''''], ruleResources = [''events''], ruleVerbs = [''create'', ''patch'']\<rparr>,
      \<lparr>apiGroups = [''networking.k8s.io''], ruleResources = [''ingresses''],
       ruleVerbs = [''get'', ''list'', ''watch'', ''create'', ''update'', ''delete'']\<rparr>,
      \<lparr>apiGroups = [''autoscaling''], ruleResources = [''horizontalpodautoscalers''],
       ruleVerbs = [''get'', ''list'', ''watch'', ''create'', ''update'', ''delete'']\<rparr>]"

definition sufficient :: "accessRule list \<Rightarrow> call \<Rightarrow> bool" where
  "sufficient role c \<longleftrightarrow> list_all (allows role) (accesses c)"

lemma resourceCall_needs: "resourceCall E wp c \<Longrightarrow> sufficient neededRole c"
  by (cases "(E, wp, c)" rule: resourceCall.cases)
    (simp_all add: sufficient_def allows_def neededRole_def onResource_def)

lemma deletionCall_needs: "deletionCall E wp c \<Longrightarrow> sufficient neededRole c"
  by (cases "(E, wp, c)" rule: deletionCall.cases)
    (simp_all add: sufficient_def allows_def neededRole_def onResource_def)

lemma permitted_needs:
  assumes "permitted E wp c"
  shows "sufficient neededRole c"
proof -
  have "sufficient neededRole (StatusUpdated ob)" "sufficient neededRole (Updated (KWordPress ob))" for ob
    by (simp_all add: sufficient_def allows_def neededRole_def onResource_def)
  with assms show ?thesis
    using resourceCall_needs deletionCall_needs
    by (auto simp: permitted_def split: if_splits call.splits)
qed

text \<open>Everything a role grants, listed.\<close>

definition granted :: "accessRule list \<Rightarrow> access list" where
  "granted role = concat (map (\<lambda>r. concat (map (\<lambda>g. concat (map (\<lambda>res.
     map (\<lambda>v. (g, res, v)) (ruleVerbs r)) (ruleResources r))) (apiGroups r))) role)"

lemma allows_granted: "allows role a \<longleftrightarrow> a \<in> set (granted role)"
  by (cases a) (auto simp: allows_def granted_def list_ex_iff)

lemma needed_granted: "list_all (allows managerRole) (granted neededRole)"
  by code_simp

lemma allows_needed: "allows neededRole a \<Longrightarrow> allows managerRole a"
  using needed_granted by (simp add: allows_granted [of neededRole] list_all_iff)

lemma sufficient_needed: "sufficient neededRole c \<Longrightarrow> sufficient managerRole c"
  using allows_needed by (auto simp: sufficient_def list_all_iff)

lemma reads_granted: "list_all (allows neededRole) (reads @ eventAccesses)"
  by code_simp

text \<open>Granted by the markers, used by no pass.\<close>

definition unusedGrants :: "access list" where
  "unusedGrants =
     [('''', ''configmaps'', ''get''), ('''', ''configmaps'', ''update''), ('''', ''configmaps'', ''delete''),
      ('''', ''secrets'', ''update''), ('''', ''secrets'', ''patch''), ('''', ''secrets'', ''delete''),
      ('''', ''services'', ''delete''), (''apps'', ''deployments'', ''delete''),
      (''apps'', ''statefulsets'', ''delete''), (''apps.kubesphere.ai'', ''wordpresses'', ''delete'')]"

lemma unused_granted: "list_all (\<lambda>a. allows managerRole a \<and> \<not> allows neededRole a) unusedGrants"
  by code_simp



end
