(* ===== verification/Scheme.thy ===== *)
theory Scheme
  imports Rbac
begin

section \<open>The scheme (groupversion\_info.go, the init functions)\<close>

text \<open>
  How the types become known to the client: the package of the API types makes a builder for its
  group and version and registers its two types, and \<^verbatim>\<open>main\<close> adds the types of client-go and
  those of the builder to one scheme before it runs. The scheme and the builder are library code:
  the fields of \<open>schemeLib\<close>.
\<close>

record groupVersion =
  Group :: string
  Version :: string

record ('s, 'b) schemeLib =
  NewScheme :: 's
  Builder :: "groupVersion \<Rightarrow> 'b"
  RegisterTypes :: "'b \<Rightarrow> string list \<Rightarrow> 'b"
  AddToScheme :: "'b \<Rightarrow> 's \<Rightarrow> gerror option \<times> 's"
  AddClientGo :: "'s \<Rightarrow> gerror option \<times> 's"
  Recognizes :: "'s \<Rightarrow> groupVersion \<times> string \<Rightarrow> bool"

definition GroupVersion :: groupVersion where
  "GroupVersion = \<lparr>Group = ''apps.kubesphere.ai'', Version = ''v1alpha1''\<rparr>"

definition SchemeBuilder :: "('s, 'b) schemeLib \<Rightarrow> 'b" where
  "SchemeBuilder L = Builder L GroupVersion"

definition typesInit :: "('s, 'b) schemeLib \<Rightarrow> 'b \<Rightarrow> 'b" where
  "typesInit L b = RegisterTypes L b [''WordPress'', ''WordPressList'']"

text \<open>\<^verbatim>\<open>utilruntime.Must\<close> panics on an error.\<close>

definition Must :: "gerror option \<times> 's \<Rightarrow> 's option" where
  "Must r = (case r of (None, s) \<Rightarrow> Some s | (Some err, s) \<Rightarrow> None)"

text \<open>The package variable \<^verbatim>\<open>AddToScheme\<close> is bound to the builder before the types are
  registered with it, but the builder is a pointer: the call sees them.\<close>

definition addToScheme :: "('s, 'b) schemeLib \<Rightarrow> 's \<Rightarrow> gerror option \<times> 's" where
  "addToScheme L s = AddToScheme L (typesInit L (SchemeBuilder L)) s"

definition mainInit :: "('s, 'b) schemeLib \<Rightarrow> 's option" where
  "mainInit L =
     do {
       s \<leftarrow> Must (AddClientGo L (NewScheme L));
       Must (addToScheme L s)
     }"

subsection \<open>Every kind of a pass is known\<close>

fun kindKnown :: "kobj \<Rightarrow> groupVersion \<times> string" where
  "kindKnown (KWordPress ob) = (GroupVersion, ''WordPress'')"
| "kindKnown (KSecret ob) = (\<lparr>Group = [], Version = ''v1''\<rparr>, ''Secret'')"
| "kindKnown (KService ob) = (\<lparr>Group = [], Version = ''v1''\<rparr>, ''Service'')"
| "kindKnown (KStatefulSet ob) = (\<lparr>Group = ''apps'', Version = ''v1''\<rparr>, ''StatefulSet'')"
| "kindKnown (KPVC ob) = (\<lparr>Group = [], Version = ''v1''\<rparr>, ''PersistentVolumeClaim'')"
| "kindKnown (KDeployment ob) = (\<lparr>Group = ''apps'', Version = ''v1''\<rparr>, ''Deployment'')"
| "kindKnown (KIngress ob) = (\<lparr>Group = ''networking.k8s.io'', Version = ''v1''\<rparr>, ''Ingress'')"
| "kindKnown (KHPA ob) = (\<lparr>Group = ''autoscaling'', Version = ''v2''\<rparr>, ''HorizontalPodAutoscaler'')"

definition builtinKinds :: "(groupVersion \<times> string) list" where
  "builtinKinds =
     [(\<lparr>Group = [], Version = ''v1''\<rparr>, ''Secret''), (\<lparr>Group = [], Version = ''v1''\<rparr>, ''Service''),
      (\<lparr>Group = [], Version = ''v1''\<rparr>, ''PersistentVolumeClaim''),
      (\<lparr>Group = ''apps'', Version = ''v1''\<rparr>, ''StatefulSet''),
      (\<lparr>Group = ''apps'', Version = ''v1''\<rparr>, ''Deployment''),
      (\<lparr>Group = ''networking.k8s.io'', Version = ''v1''\<rparr>, ''Ingress''),
      (\<lparr>Group = ''autoscaling'', Version = ''v2''\<rparr>, ''HorizontalPodAutoscaler'')]"

text \<open>Adding types to a scheme that has none of them succeeds, makes them known and forgets none;
  client-go has the built-in kinds, a builder those registered with it.\<close>

definition scheme_laws :: "('s, 'b) schemeLib \<Rightarrow> bool" where
  "scheme_laws L \<longleftrightarrow>
     (\<exists>s. AddClientGo L (NewScheme L) = (None, s) \<and> list_all (Recognizes L s) builtinKinds
       \<and> (\<forall>gv ks. gv \<notin> fst ` set builtinKinds \<longrightarrow>
            (\<exists>s'. AddToScheme L (RegisterTypes L (Builder L gv) ks) s = (None, s')
               \<and> (\<forall>k. Recognizes L s k \<longrightarrow> Recognizes L s' k)
               \<and> list_all (\<lambda>k. Recognizes L s' (gv, k)) ks)))"

lemma kindKnown_cases:
  "kindKnown ob = (GroupVersion, ''WordPress'') \<or> kindKnown ob \<in> set builtinKinds"
  by (cases ob) (simp_all add: builtinKinds_def)

lemma kindKnown_group: "Group (fst (kindKnown ob)) = fst (resourceOf ob)"
  by (cases ob) (simp_all add: GroupVersion_def)

lemma scheme_knows_kinds:
  assumes "scheme_laws L"
  shows "\<exists>s. mainInit L = Some s \<and> Recognizes L s (kindKnown ob)
    \<and> Recognizes L s (GroupVersion, ''WordPressList'')"
proof -
  obtain s where s: "AddClientGo L (NewScheme L) = (None, s)" "list_all (Recognizes L s) builtinKinds"
    and add: "\<And>gv ks. gv \<notin> fst ` set builtinKinds \<Longrightarrow>
            \<exists>s'. AddToScheme L (RegisterTypes L (Builder L gv) ks) s = (None, s')
               \<and> (\<forall>k. Recognizes L s k \<longrightarrow> Recognizes L s' k)
               \<and> list_all (\<lambda>k. Recognizes L s' (gv, k)) ks"
    using assms unfolding scheme_laws_def by blast
  have "GroupVersion \<notin> fst ` set builtinKinds" by (simp add: GroupVersion_def builtinKinds_def)
  from add [OF this, of "[''WordPress'', ''WordPressList'']"]
  obtain s' where "AddToScheme L (typesInit L (SchemeBuilder L)) s = (None, s')"
    and keep: "\<And>k. Recognizes L s k \<Longrightarrow> Recognizes L s' k"
    and own: "Recognizes L s' (GroupVersion, ''WordPress'')"
      "Recognizes L s' (GroupVersion, ''WordPressList'')"
    by (auto simp: typesInit_def SchemeBuilder_def)
  then have init: "mainInit L = Some s'" using s(1) by (simp add: mainInit_def Must_def addToScheme_def)
  have "Recognizes L s' (kindKnown ob)"
  proof (cases "kindKnown ob = (GroupVersion, ''WordPress'')")
    case True
    with own(1) show ?thesis by simp
  next
    case False
    with kindKnown_cases [of ob] s(2) have "Recognizes L s (kindKnown ob)"
      by (simp add: list_all_iff)
    then show ?thesis by (rule keep)
  qed
  with init own(2) show ?thesis by blast
qed

text \<open>A scheme as the list of its kinds.\<close>

definition listScheme :: "((groupVersion \<times> string) list, groupVersion \<times> string list) schemeLib" where
  "listScheme =
     \<lparr>NewScheme = [], Builder = (\<lambda>gv. (gv, [])), RegisterTypes = (\<lambda>(gv, ts) ks. (gv, ts @ ks)),
      AddToScheme = (\<lambda>(gv, ts) s. (None, s @ map (Pair gv) ts)),
      AddClientGo = (\<lambda>s. (None, s @ builtinKinds)), Recognizes = (\<lambda>s k. k \<in> set s)\<rparr>"

lemma listScheme_laws: "scheme_laws listScheme"
  by (simp add: scheme_laws_def listScheme_def list_all_iff)

end
