(* ===== verification/GoFlag.thy ===== *)
theory GoFlag
  imports GoFmt
begin

section \<open>Go's flag package\<close>

text \<open>
  The command-line parser of the standard library, as the program uses it: a set of named flags,
  each a setter on the parsed state \<open>'f\<close>, and one left-to-right scan of the arguments. The
  scan stops at the first argument that is not a flag and after a lone \<^verbatim>\<open>--\<close>; a value follows
  \<^verbatim>\<open>=\<close> or is the next argument, but a boolean flag never takes the next argument.
\<close>

datatype flagError = BadSyntax string | NotDefined string | NeedsArgument string
  | InvalidBoolean string string | InvalidValue string string gerror

record 'f flagDef =
  IsBoolFlag :: bool
  SetFlag :: "string \<Rightarrow> 'f \<Rightarrow> gerror + 'f"

text \<open>\<^verbatim>\<open>strconv.ParseBool\<close>.\<close>

definition parseBool :: "string \<Rightarrow> bool option" where
  "parseBool s =
     (if s \<in> set [''1'', ''t'', ''T'', ''TRUE'', ''true'', ''True''] then Some True
      else if s \<in> set [''0'', ''f'', ''F'', ''FALSE'', ''false'', ''False''] then Some False
      else None)"

definition StringVar :: "((string \<Rightarrow> string) \<Rightarrow> 'f \<Rightarrow> 'f) \<Rightarrow> 'f flagDef" where
  "StringVar upd = \<lparr>IsBoolFlag = False, SetFlag = (\<lambda>v f. Inr (upd (\<lambda>_. v) f))\<rparr>"

definition BoolVar :: "((bool \<Rightarrow> bool) \<Rightarrow> 'f \<Rightarrow> 'f) \<Rightarrow> 'f flagDef" where
  "BoolVar upd = \<lparr>IsBoolFlag = True, SetFlag = (\<lambda>v f.
     case parseBool v of
       None \<Rightarrow> Inl (Errorf ''parse error'')
     | Some b \<Rightarrow> Inr (upd (\<lambda>_. b) f))\<rparr>"

subsection \<open>One argument\<close>

datatype argument = Operand | Terminator | Malformed | Named string "string option"

text \<open>The name and the value after the first \<^verbatim>\<open>=\<close>, which cannot be the first character.\<close>

definition splitValue :: "string \<Rightarrow> string \<times> string option" where
  "splitValue s =
     (case s of
        [] \<Rightarrow> ([], None)
      | c # cs \<Rightarrow>
          (c # takeWhile (\<lambda>x. x \<noteq> CHR ''='') cs,
           if CHR ''='' \<in> set cs then Some (tl (dropWhile (\<lambda>x. x \<noteq> CHR ''='') cs)) else None))"

definition classify :: "string \<Rightarrow> argument" where
  "classify s =
     (if length s < 2 \<or> hd s \<noteq> CHR ''-'' then Operand
      else if s = ''--'' then Terminator
      else
        (let name = (if s ! 1 = CHR ''-'' then drop 2 s else drop 1 s) in
         if name = [] \<or> hd name = CHR ''-'' \<or> hd name = CHR ''='' then Malformed
         else (case splitValue name of (n, v) \<Rightarrow> Named n v)))"

subsection \<open>The scan\<close>

datatype 'f parsed = Parsed 'f "string list" | Help | BadFlag flagError

text \<open>Setting one flag: the value given with \<^verbatim>\<open>=\<close> or as the next argument.\<close>

fun parseArgs :: "(string \<Rightarrow> 'f flagDef option) \<Rightarrow> 'f \<Rightarrow> string list \<Rightarrow> 'f parsed" where
  "parseArgs F st [] = Parsed st []"
| "parseArgs F st (s # args) =
     (case classify s of
        Operand \<Rightarrow> Parsed st (s # args)
      | Terminator \<Rightarrow> Parsed st args
      | Malformed \<Rightarrow> BadFlag (BadSyntax s)
      | Named n v \<Rightarrow>
          (case F n of
             None \<Rightarrow> if n = ''help'' \<or> n = ''h'' then Help else BadFlag (NotDefined n)
           | Some d \<Rightarrow>
               if IsBoolFlag d then
                 (let value = (case v of None \<Rightarrow> ''true'' | Some x \<Rightarrow> x) in
                  case SetFlag d value st of
                    Inl err \<Rightarrow> BadFlag (InvalidBoolean value n)
                  | Inr st \<Rightarrow> parseArgs F st args)
               else
                 (case v of
                    Some value \<Rightarrow>
                      (case SetFlag d value st of
                         Inl err \<Rightarrow> BadFlag (InvalidValue value n err)
                       | Inr st \<Rightarrow> parseArgs F st args)
                  | None \<Rightarrow>
                      (case args of
                         [] \<Rightarrow> BadFlag (NeedsArgument n)
                       | value # args' \<Rightarrow>
                           (case SetFlag d value st of
                              Inl err \<Rightarrow> BadFlag (InvalidValue value n err)
                            | Inr st \<Rightarrow> parseArgs F st args')))))"

subsection \<open>Writing a command line\<close>

definition writeFlag :: "string \<Rightarrow> string \<Rightarrow> string" where
  "writeFlag n v = ''--'' @ n @ ''='' @ v"

definition boolText :: "bool \<Rightarrow> string" where
  "boolText b = (if b then ''true'' else ''false'')"

definition flagName :: "string \<Rightarrow> bool" where
  "flagName n \<longleftrightarrow> n \<noteq> [] \<and> hd n \<noteq> CHR ''-'' \<and> CHR ''='' \<notin> set n"

lemma splitValue_named:
  assumes "flagName n"
  shows "splitValue (n @ CHR ''='' # v) = (n, Some v)"
proof -
  obtain c cs where n: "n = c # cs" using assms by (cases n) (auto simp: flagName_def)
  have stop: "takeWhile (\<lambda>x. x \<noteq> CHR ''='') (cs @ CHR ''='' # v) = cs"
    "dropWhile (\<lambda>x. x \<noteq> CHR ''='') (cs @ CHR ''='' # v) = CHR ''='' # v"
    if "CHR ''='' \<notin> set cs" for cs
    using that by (induction cs) auto
  show ?thesis using assms stop by (simp add: splitValue_def n flagName_def)
qed

lemma classify_writeFlag:
  assumes "flagName n"
  shows "classify (writeFlag n v) = Named n (Some v)"
proof -
  have "hd (n @ CHR ''='' # v) = hd n" "n \<noteq> []" "hd n \<noteq> CHR ''-''" "hd n \<noteq> CHR ''=''"
    using assms by (cases n; auto simp: flagName_def)+
  then show ?thesis
    using splitValue_named [OF assms] by (simp add: classify_def writeFlag_def Let_def)
qed

lemma parseBool_boolText [simp]: "parseBool (boolText b) = Some b"
  by (simp add: parseBool_def boolText_def)

text \<open>A written flag sets its variable and the scan goes on.\<close>

lemma parseArgs_string:
  assumes "flagName n" and "F n = Some (StringVar upd)"
  shows "parseArgs F st (writeFlag n v # args) = parseArgs F (upd (\<lambda>_. v) st) args"
  using assms by (simp add: classify_writeFlag StringVar_def)

lemma parseArgs_bool:
  assumes "flagName n" and "F n = Some (BoolVar upd)"
  shows "parseArgs F st (writeFlag n (boolText b) # args) = parseArgs F (upd (\<lambda>_. b) st) args"
  using assms by (simp add: classify_writeFlag BoolVar_def)

end
