(* ===== verification/CommandLine.thy ===== *)
theory CommandLine
  imports GoFlag Manager
begin

section \<open>The command line of the manager (cmd/main.go, lines 65 to 87)\<close>

text \<open>
  The flags \<^verbatim>\<open>main\<close> defines, scanned by the parser of theory \<open>GoFlag\<close> together with flags that
  libraries add (those of zap and of the client configuration: the parameter \<open>X\<close>, on a state of
  their own), and the whole process: parse, then \<open>runMain\<close>. \<^verbatim>\<open>flag.Parse\<close> exits with 2 on a bad
  command line and with 0 after printing the usage.
\<close>

subsection \<open>Flags\<close>

definition mainFlags :: "(string \<times> flags flagDef) list" where
  "mainFlags =
     [(''metrics-bind-address'', StringVar metricsAddr_update),
      (''health-probe-bind-address'', StringVar probeAddr_update),
      (''leader-elect'', BoolVar enableLeaderElection_update),
      (''metrics-secure'', BoolVar secureMetrics_update),
      (''webhook-cert-path'', StringVar webhookCertPath_update),
      (''webhook-cert-name'', StringVar webhookCertName_update),
      (''webhook-cert-key'', StringVar webhookCertKey_update),
      (''metrics-cert-path'', StringVar metricsCertPath_update),
      (''metrics-cert-name'', StringVar metricsCertName_update),
      (''metrics-cert-key'', StringVar metricsCertKey_update),
      (''enable-http2'', BoolVar enableHTTP2_update)]"

definition onFlags :: "'f flagDef \<Rightarrow> ('f \<times> 'x) flagDef" where
  "onFlags d = \<lparr>IsBoolFlag = IsBoolFlag d,
     SetFlag = (\<lambda>v (f, x). case SetFlag d v f of Inl e \<Rightarrow> Inl e | Inr f \<Rightarrow> Inr (f, x))\<rparr>"

definition onRest :: "'x flagDef \<Rightarrow> ('f \<times> 'x) flagDef" where
  "onRest d = \<lparr>IsBoolFlag = IsBoolFlag d,
     SetFlag = (\<lambda>v (f, x). case SetFlag d v x of Inl e \<Rightarrow> Inl e | Inr x \<Rightarrow> Inr (f, x))\<rparr>"

definition commandLine :: "(string \<Rightarrow> 'x flagDef option) \<Rightarrow> string \<Rightarrow> (flags \<times> 'x) flagDef option" where
  "commandLine X n =
     (case map_of mainFlags n of
        Some d \<Rightarrow> Some (onFlags d)
      | None \<Rightarrow> map_option onRest (X n))"

definition runProgram ::
    "(string \<Rightarrow> 'x flagDef option) \<Rightarrow> 'x \<Rightarrow> ('m, 'w) startup \<Rightarrow> string list \<Rightarrow> 'w \<Rightarrow> nat \<times> 'w" where
  "runProgram X x S args w =
     (case parseArgs (commandLine X) (defaultFlags, x) args of
        Parsed fx operands \<Rightarrow> runMain S (fst fx) w
      | Help \<Rightarrow> (0, w)
      | BadFlag err \<Rightarrow> (2, w))"

subsection \<open>Every setting can be given\<close>

text \<open>A command line that sets every flag of \<^verbatim>\<open>main\<close>.\<close>

definition writeFlags :: "flags \<Rightarrow> string list" where
  "writeFlags f =
     [writeFlag ''metrics-bind-address'' (metricsAddr f),
      writeFlag ''health-probe-bind-address'' (probeAddr f),
      writeFlag ''leader-elect'' (boolText (enableLeaderElection f)),
      writeFlag ''metrics-secure'' (boolText (secureMetrics f)),
      writeFlag ''webhook-cert-path'' (webhookCertPath f),
      writeFlag ''webhook-cert-name'' (webhookCertName f),
      writeFlag ''webhook-cert-key'' (webhookCertKey f),
      writeFlag ''metrics-cert-path'' (metricsCertPath f),
      writeFlag ''metrics-cert-name'' (metricsCertName f),
      writeFlag ''metrics-cert-key'' (metricsCertKey f),
      writeFlag ''enable-http2'' (boolText (enableHTTP2 f))]"

lemma onFlags_String: "onFlags (StringVar upd) = StringVar (\<lambda>g (f, x). (upd g f, x))"
  by (auto simp: onFlags_def StringVar_def fun_eq_iff)

lemma onFlags_Bool: "onFlags (BoolVar upd) = BoolVar (\<lambda>g (f, x). (upd g f, x))"
  by (auto simp: onFlags_def BoolVar_def fun_eq_iff split: option.split)

lemma commandLine_main:
  "map_of mainFlags n = Some d \<Longrightarrow> commandLine X n = Some (onFlags d)"
  by (simp add: commandLine_def)

lemma parse_string:
  assumes "map_of mainFlags n = Some (StringVar upd)" and "flagName n"
  shows "parseArgs (commandLine X) (f, x) (writeFlag n v # args)
    = parseArgs (commandLine X) (upd (\<lambda>_. v) f, x) args"
  using parseArgs_string [OF assms(2), of "commandLine X"] commandLine_main [OF assms(1), of X]
  by (simp add: onFlags_String)

lemma parse_bool:
  assumes "map_of mainFlags n = Some (BoolVar upd)" and "flagName n"
  shows "parseArgs (commandLine X) (f, x) (writeFlag n (boolText b) # args)
    = parseArgs (commandLine X) (upd (\<lambda>_. b) f, x) args"
  using parseArgs_bool [OF assms(2), of "commandLine X"] commandLine_main [OF assms(1), of X]
  by (simp add: onFlags_Bool)

lemma mainFlags_names: "list_all (\<lambda>(n, d). flagName n) mainFlags"
  by (simp add: mainFlags_def flagName_def)

lemma mainFlags_distinct: "distinct (map fst mainFlags)"
  by (simp add: mainFlags_def)

lemma parse_main:
  "parseArgs (commandLine X) (f, x) (writeFlag ''metrics-bind-address'' v # args)
     = parseArgs (commandLine X) (f\<lparr>metricsAddr := v\<rparr>, x) args"
  "parseArgs (commandLine X) (f, x) (writeFlag ''health-probe-bind-address'' v # args)
     = parseArgs (commandLine X) (f\<lparr>probeAddr := v\<rparr>, x) args"
  "parseArgs (commandLine X) (f, x) (writeFlag ''leader-elect'' (boolText b) # args)
     = parseArgs (commandLine X) (f\<lparr>enableLeaderElection := b\<rparr>, x) args"
  "parseArgs (commandLine X) (f, x) (writeFlag ''metrics-secure'' (boolText b) # args)
     = parseArgs (commandLine X) (f\<lparr>secureMetrics := b\<rparr>, x) args"
  "parseArgs (commandLine X) (f, x) (writeFlag ''webhook-cert-path'' v # args)
     = parseArgs (commandLine X) (f\<lparr>webhookCertPath := v\<rparr>, x) args"
  "parseArgs (commandLine X) (f, x) (writeFlag ''webhook-cert-name'' v # args)
     = parseArgs (commandLine X) (f\<lparr>webhookCertName := v\<rparr>, x) args"
  "parseArgs (commandLine X) (f, x) (writeFlag ''webhook-cert-key'' v # args)
     = parseArgs (commandLine X) (f\<lparr>webhookCertKey := v\<rparr>, x) args"
  "parseArgs (commandLine X) (f, x) (writeFlag ''metrics-cert-path'' v # args)
     = parseArgs (commandLine X) (f\<lparr>metricsCertPath := v\<rparr>, x) args"
  "parseArgs (commandLine X) (f, x) (writeFlag ''metrics-cert-name'' v # args)
     = parseArgs (commandLine X) (f\<lparr>metricsCertName := v\<rparr>, x) args"
  "parseArgs (commandLine X) (f, x) (writeFlag ''metrics-cert-key'' v # args)
     = parseArgs (commandLine X) (f\<lparr>metricsCertKey := v\<rparr>, x) args"
  "parseArgs (commandLine X) (f, x) (writeFlag ''enable-http2'' (boolText b) # args)
     = parseArgs (commandLine X) (f\<lparr>enableHTTP2 := b\<rparr>, x) args"
  by (rule parse_string parse_bool; simp add: mainFlags_def flagName_def)+

text \<open>C39. Every configuration can be given on the command line and is read back as it was
  written: whatever the flags were set to before, the written command line sets all of them,
  for any text in the string flags (empty, with \<^verbatim>\<open>=\<close> or \<^verbatim>\<open>-\<close> in it) and whatever flags the
  libraries add; the arguments after it are parsed from there, so a later flag wins.\<close>

theorem written_flags_are_read:
  "parseArgs (commandLine X) (f0, x) (writeFlags f @ args) = parseArgs (commandLine X) (f, x) args"
  by (cases f0; cases f) (simp only: writeFlags_def append.simps parse_main flags.simps)

subsection \<open>What else is on a command line\<close>

text \<open>A boolean flag does not take the next argument: the word after it is an operand, at which the
  scan ends, so \<^verbatim>\<open>--metrics-secure false\<close> leaves the metrics secure and ignores every later flag.\<close>

lemma boolean_value_word_stops:
  assumes "F n = Some (BoolVar upd)" and "flagName n" and "classify v = Operand"
  shows "parseArgs F st ((''--'' @ n) # v # args) = Parsed (upd (\<lambda>_. True) st) (v # args)"
proof -
  obtain c cs where n: "n = c # cs" using assms(2) by (cases n) (auto simp: flagName_def)
  have "takeWhile (\<lambda>x. x \<noteq> CHR ''='') cs = cs" "CHR ''='' \<notin> set cs"
    using assms(2) by (auto simp: flagName_def n takeWhile_eq_all_conv)
  then have "classify (''--'' @ n) = Named n None"
    using assms(2) by (auto simp: classify_def n flagName_def splitValue_def Let_def)
  with assms(1,3) show ?thesis by (simp add: BoolVar_def parseBool_def)
qed

text \<open>The arguments in \<^verbatim>\<open>config/manager/manager.yaml\<close> with the patch for the metrics endpoint.\<close>

definition deployedArgs :: "string list" where
  "deployedArgs =
     [''--metrics-bind-address=:8443'', ''--leader-elect'', ''--health-probe-bind-address=:8081'']"

lemma deployed_flags:
  "parseArgs (commandLine X) (defaultFlags, x) deployedArgs
     = Parsed (defaultFlags\<lparr>metricsAddr := '':8443'', enableLeaderElection := True\<rparr>, x) []"
  by (simp add: deployedArgs_def classify_def splitValue_def commandLine_def mainFlags_def onFlags_def
      StringVar_def BoolVar_def parseBool_def defaultFlags_def Let_def)

text \<open>C40. The exit code of the process and when the manager is reached: a command line with a bad
  flag ends the process with 2, a request for help with 0, both before anything else happens;
  otherwise the process exits with 0 only when every step of the startup succeeded in order and
  the manager ran to its end without an error, and with 1 on the first failure.\<close>

theorem program_exit_code:
  "fst (runProgram X x S args w) \<in> {0, 1, 2}
   \<and> (fst (runProgram X x S args w) = 2 \<longleftrightarrow>
        (\<exists>err. parseArgs (commandLine X) (defaultFlags, x) args = BadFlag err))
   \<and> (fst (runProgram X x S args w) = 0 \<longleftrightarrow>
        parseArgs (commandLine X) (defaultFlags, x) args = Help
        \<or> (\<exists>f x' operands mgr w1 w2 w3 w4.
             parseArgs (commandLine X) (defaultFlags, x) args = Parsed (f, x') operands
             \<and> NewManager S (newManagerOptions f) w = (Inr mgr, w1)
             \<and> Complete S mgr (SetupWithManager (None :: unit option)) w1 = (None, w2)
             \<and> AddHealthzCheck S mgr ''healthz'' w2 = (None, w3)
             \<and> AddReadyzCheck S mgr ''readyz'' w3 = (None, w4)
             \<and> Start S mgr w4 = (None, snd (runProgram X x S args w))))
   \<and> snd (runProgram X x S args w) =
       (case parseArgs (commandLine X) (defaultFlags, x) args of
          Parsed fx operands \<Rightarrow> snd (runMain S (fst fx) w)
        | _ \<Rightarrow> w)"
proof (cases "parseArgs (commandLine X) (defaultFlags, x) args")
  case (Parsed fx operands)
  obtain f x' where fx: "fx = (f, x')" by fastforce
  have run: "runProgram X x S args w = runMain S f w"
    by (simp add: runProgram_def Parsed fx)
  have "fst (runMain S f w) \<in> {0, 1}"
    "fst (runMain S f w) = 0 \<longleftrightarrow>
        (\<exists>mgr w1 w2 w3 w4. NewManager S (newManagerOptions f) w = (Inr mgr, w1)
           \<and> Complete S mgr (SetupWithManager (None :: unit option)) w1 = (None, w2)
           \<and> AddHealthzCheck S mgr ''healthz'' w2 = (None, w3)
           \<and> AddReadyzCheck S mgr ''readyz'' w3 = (None, w4)
           \<and> Start S mgr w4 = (None, snd (runMain S f w)))"
    using runMain_exit_code [of S f w] by blast+
  then show ?thesis unfolding run by (auto simp: Parsed fx)
qed (simp_all add: runProgram_def)

end
