(* ===== verification/Isolation.thy ===== *)
theory Isolation
  imports Manager Convergence
begin

section \<open>Resources do not get in each other's way\<close>

text \<open>
  Everything a pass writes lies in the footprint of its resource: ten names in the namespace of the
  resource, one for each object the operator may make for it. The footprints of two resources are
  disjoint unless, in one namespace, one is named like the other's MySQL Service; so the passes of
  two resources write different objects, in whatever order and however often they run.
\<close>

subsection \<open>Footprints\<close>

text \<open>What a write is about: a kind and a key.\<close>

type_synonym target = "string \<times> nsname"

fun keyOf :: "kobj \<Rightarrow> nsname" where
  "keyOf (KWordPress ob) = ObjectKeyFromObject ob"
| "keyOf (KSecret ob) = ObjectKeyFromObject ob"
| "keyOf (KService ob) = ObjectKeyFromObject ob"
| "keyOf (KStatefulSet ob) = ObjectKeyFromObject ob"
| "keyOf (KPVC ob) = ObjectKeyFromObject ob"
| "keyOf (KDeployment ob) = ObjectKeyFromObject ob"
| "keyOf (KIngress ob) = ObjectKeyFromObject ob"
| "keyOf (KHPA ob) = ObjectKeyFromObject ob"

fun targetOf :: "call \<Rightarrow> target" where
  "targetOf (Created ob) = (kindOf ob, keyOf ob)"
| "targetOf (Updated ob) = (kindOf ob, keyOf ob)"
| "targetOf (Deleted ob) = (kindOf ob, keyOf ob)"
| "targetOf (StatusUpdated ob) = (''WordPress'', ObjectKeyFromObject ob)"

definition footprintNames :: "WordPress \<Rightarrow> (string \<times> string) list" where
  "footprintNames wp =
     [(''WordPress'', Name wp), (''Secret'', dbSecretName wp),
      (''Service'', wpName wp), (''Service'', dbServiceName wp),
      (''StatefulSet'', dbStatefulSetName wp),
      (''PersistentVolumeClaim'', wpPVCName wp), (''PersistentVolumeClaim'', mysqlPVCName wp),
      (''Deployment'', wpName wp), (''Ingress'', wpName wp),
      (''HorizontalPodAutoscaler'', hpaName wp)]"

definition inFootprint :: "WordPress \<Rightarrow> target \<Rightarrow> bool" where
  "inFootprint wp t \<longleftrightarrow>
     fst (snd t) = Namespace wp \<and> (fst t, snd (snd t)) \<in> set (footprintNames wp)"

lemma inFootprint_at [simp]:
  "inFootprint wp (kind, ns, n) \<longleftrightarrow> ns = Namespace wp \<and> (kind, n) \<in> set (footprintNames wp)"
  by (simp add: inFootprint_def)

text \<open>Two resources whose owned objects have different keys.\<close>

definition apart :: "WordPress \<Rightarrow> WordPress \<Rightarrow> bool" where
  "apart a b \<longleftrightarrow> Namespace a \<noteq> Namespace b
     \<or> Name a \<noteq> Name b \<and> Name a \<noteq> dbServiceName b \<and> Name b \<noteq> dbServiceName a"

lemma footprints_disjoint:
  assumes "apart a b" and "inFootprint a t" and "inFootprint b t"
  shows False
proof -
  obtain kind ns n where t: "t = (kind, ns, n)" by (cases t)
  have names: "(kind, n) \<in> set (footprintNames a)" "(kind, n) \<in> set (footprintNames b)"
    and "Namespace a = Namespace b"
    using assms(2,3) by (simp_all add: t)
  then have apart: "Name a \<noteq> Name b" "Name a \<noteq> dbServiceName b" "Name b \<noteq> dbServiceName a"
    using assms(1) by (simp_all add: apart_def)
  show False
    using names apart owned_names_disjoint [of a b]
    by (auto simp: footprintNames_def wpName_def)
qed

lemma footprints_meet:
  assumes "\<not> apart a b"
  shows "\<exists>t. inFootprint a t \<and> inFootprint b t"
proof -
  have ns: "Namespace a = Namespace b" using assms by (simp add: apart_def)
  consider "Name a = Name b" | "Name a = dbServiceName b" | "Name b = dbServiceName a"
    using assms by (auto simp: apart_def)
  then show ?thesis
  proof cases
    case 1
    with ns show ?thesis
      by (intro exI [of _ "(''WordPress'', Namespace a, Name a)"]) (simp add: footprintNames_def)
  next
    case 2
    with ns show ?thesis
      by (intro exI [of _ "(''Service'', Namespace a, Name a)"])
        (simp add: footprintNames_def wpName_def)
  next
    case 3
    with ns show ?thesis
      by (intro exI [of _ "(''Service'', Namespace a, Name b)"])
        (simp add: footprintNames_def wpName_def)
  qed
qed

subsection \<open>A pass stays in the footprint\<close>

lemma footprint_defaults: "inFootprint (applyDefaults wp) t \<longleftrightarrow> inFootprint wp t"
  by (simp add: inFootprint_def footprintNames_def name_defs frame_simps)

lemma resourceCall_footprint: "resourceCall E wp c \<Longrightarrow> inFootprint wp (targetOf c)"
  by (cases "(E, wp, c)" rule: resourceCall.cases)
    (auto simp: at_def footprintNames_def ObjectKeyFromObject_def inFootprint_def)

lemma deletionCall_footprint: "deletionCall E wp c \<Longrightarrow> inFootprint wp (targetOf c)"
  by (cases "(E, wp, c)" rule: deletionCall.cases)
    (auto simp: at_def footprintNames_def ObjectKeyFromObject_def inFootprint_def)

lemma permitted_footprint:
  assumes "permitted E wp c"
  shows "inFootprint wp (targetOf c)"
proof -
  have "inFootprint wp (targetOf (Updated (KWordPress (wp\<lparr>Finalizers := fs\<rparr>))))" for fs
    by (simp add: footprintNames_def ObjectKeyFromObject_def)
  moreover have "inFootprint wp (targetOf (StatusUpdated ob))"
    if "ObjectKeyFromObject ob = ObjectKeyFromObject wp" for ob
    using that by (simp add: footprintNames_def ObjectKeyFromObject_def)
  ultimately show ?thesis
    using assms deletionCall_footprint [of E wp c]
      resourceCall_footprint [of E "applyDefaults wp" c]
    by (auto simp: permitted_def footprint_defaults split: if_splits call.splits)
qed

lemma pass_footprint:
  assumes "logs tr E" "key_laws E" "owner_law E" "retry_law E"
    and "Get (wordpresses E) req w = (Inr wp, w1)" and "Reconcile E req w = Some (res, w')"
  shows "\<exists>cs. tr w' = tr w1 @ cs \<and> list_all (\<lambda>c. inFootprint wp (targetOf c)) cs"
proof -
  have "sent tr (tr w1) (permitted E wp) w'"
    by (rule Reconcile_keeps [OF assms(2-5) logs_admits [OF assms(1)] sentI assms(6)])
  then obtain cs where cs: "tr w' = tr w1 @ cs" "list_all (permitted E wp) cs"
    by (auto simp: sent_def)
  from cs(2) have "list_all (\<lambda>c. inFootprint wp (targetOf c)) cs"
    by (rule list.pred_mono_strong) (rule permitted_footprint)
  with cs(1) show ?thesis by blast
qed

text \<open>C5. Resources are isolated from each other: a pass writes only in the namespace of its
  resource and only objects with the ten names of the resource; and the passes of two resources,
  at any time and against any states of the server, never write the same object, unless the
  two are in one namespace and have the same name or one is named like the other's MySQL Service
  (where their footprints do meet).\<close>

theorem passes_are_isolated:
  assumes "logs tr E" "key_laws E" "owner_law E" "retry_law E"
    and "Get (wordpresses E) ra w = (Inr a, w1)" and "Reconcile E ra w = Some (resa, w')"
    and "Get (wordpresses E) rb v = (Inr b, v1)" and "Reconcile E rb v = Some (resb, v')"
  shows "\<exists>cs ds. tr w' = tr w1 @ cs \<and> tr v' = tr v1 @ ds
    \<and> list_all (\<lambda>c. inFootprint a (targetOf c)) cs
    \<and> list_all (\<lambda>d. inFootprint b (targetOf d)) ds
    \<and> (if apart a b then set (map targetOf cs) \<inter> set (map targetOf ds) = {}
       else \<exists>t. inFootprint a t \<and> inFootprint b t)"
proof -
  obtain cs where cs: "tr w' = tr w1 @ cs" "list_all (\<lambda>c. inFootprint a (targetOf c)) cs"
    using pass_footprint [OF assms(1-6)] by blast
  obtain ds where ds: "tr v' = tr v1 @ ds" "list_all (\<lambda>d. inFootprint b (targetOf d)) ds"
    using pass_footprint [OF assms(1-4,7,8)] by blast
  have "set (map targetOf cs) \<inter> set (map targetOf ds) = {}" if "apart a b"
  proof -
    have "\<forall>t \<in> set (map targetOf cs). inFootprint a t" "\<forall>t \<in> set (map targetOf ds). inFootprint b t"
      using cs(2) ds(2) by (simp_all add: list_all_iff)
    with footprints_disjoint [OF that] show ?thesis by (meson disjoint_iff)
  qed
  with cs ds footprints_meet [of a b] show ?thesis by auto
qed

theorem passes_are_isolated_witness:
  "\<exists>resa w' resb v'.
     Reconcile demoEnv (''default'', ''blog'') (clusterOf (sampleWP [WordPressFinalizer] internalSpec))
       = Some (resa, w')
     \<and> Reconcile demoEnv (''default'', ''shop'')
         (clusterOf ((sampleWP [WordPressFinalizer] internalSpec)\<lparr>Name := ''shop''\<rparr>)) = Some (resb, v')
     \<and> set (map targetOf (writes w')) \<inter> set (map targetOf (writes v')) = {}"
proof -
  let ?a = "sampleWP [WordPressFinalizer] internalSpec"
  let ?b = "?a\<lparr>Name := ''shop''\<rparr>"
  have key: "ObjectKeyFromObject ?a = (''default'', ''blog'')"
    "ObjectKeyFromObject ?b = (''default'', ''shop'')"
    by (simp_all add: ObjectKeyFromObject_def)
  obtain resa w' where a: "Reconcile demoEnv (''default'', ''blog'') (clusterOf ?a) = Some (resa, w')"
    using Reconcile_total [of demoEnv "(''default'', ''blog'')" "clusterOf ?a"] by fastforce
  obtain resb v' where b: "Reconcile demoEnv (''default'', ''shop'') (clusterOf ?b) = Some (resb, v')"
    using Reconcile_total [of demoEnv "(''default'', ''shop'')" "clusterOf ?b"] by fastforce
  have "apart ?a ?b" by (simp add: apart_def dbServiceName_def)
  then have "set (map targetOf (writes w')) \<inter> set (map targetOf (writes v')) = {}"
    using passes_are_isolated [OF demo_logs demo_key_laws demo_owner_law demo_retry_law
        Get_clusterOf [of ?a, unfolded key] a Get_clusterOf [of ?b, unfolded key] b]
    by auto
  with a b show ?thesis by blast
qed

end
