(* ===== verification/GoJson.thy ===== *)
theory GoJson
  imports Prelude "HOL-Library.List_Lexorder" "HOL-Library.Char_ord"
begin

section \<open>JSON values and the rules of encoding/json\<close>

text \<open>
  How \<^verbatim>\<open>encoding/json\<close> maps Go values to JSON trees and back, as far as the struct tags
    of the
  API package use it: \<^verbatim>\<open>omitempty\<close> leaves out \<^verbatim>\<open>false\<close>, 0, nil pointers and
    empty strings,
  slices and maps, but never a struct; a key that is missing or null leaves the zero value; a
  value of the wrong kind, or a number out of range, is an error (\<open>None\<close>). The text syntax of
  JSON is not modelled: strings are taken to be valid UTF-8. The locale \<open>json_codec\<close> is the
  contract of an encoder and its decoder; \<open>norm\<close> is what a value becomes on the way (an empty
  map or slice comes back nil).
\<close>

datatype json =
  JNull | JBool bool | JInt int | JStr string | JArr "json list" | JObj "(string \<times> json) list"

definition members :: "json \<Rightarrow> (string \<times> json) list option" where
  "members j = (case j of JObj kvs \<Rightarrow> Some kvs | _ \<Rightarrow> None)"

lemma members_simps [simp]: "members (JObj kvs) = Some kvs"
  by (simp add: members_def)

subsection \<open>Fields of a struct\<close>

text \<open>The member for a field with \<^verbatim>\<open>omitempty\<close>.\<close>

definition omit :: "string \<Rightarrow> ('a \<Rightarrow> bool) \<Rightarrow> ('a \<Rightarrow> json) \<Rightarrow> 'a \<Rightarrow> (string \<times> json) list" where
  "omit k isz enc x = (if isz x then [] else [(k, enc x)])"

text \<open>Reading a field: the first member of that name, null and missing being the zero value.\<close>

definition fieldOf ::
    "string \<Rightarrow> (json \<Rightarrow> 'a option) \<Rightarrow> 'a \<Rightarrow> (string \<times> json) list \<Rightarrow> 'a option" where
  "fieldOf k dec zero kvs =
     (case map_of kvs k of None \<Rightarrow> Some zero | Some JNull \<Rightarrow> Some zero | Some j \<Rightarrow> dec j)"

text \<open>A struct-valued field: a missing one is the struct with all fields zero, which is what an
  object without members decodes to.\<close>

definition structOf :: "string \<Rightarrow> (json \<Rightarrow> 'a option) \<Rightarrow> (string \<times> json) list \<Rightarrow> 'a option" where
  "structOf k dec kvs =
     (case map_of kvs k of None \<Rightarrow> dec (JObj []) | Some JNull \<Rightarrow> dec (JObj []) | Some j \<Rightarrow> dec j)"

lemma fieldOf_simps [simp]:
  "fieldOf k dec zero [] = Some zero"
  "k \<noteq> k' \<Longrightarrow> fieldOf k dec zero ((k', j) # kvs) = fieldOf k dec zero kvs"
  "k \<noteq> k' \<Longrightarrow> fieldOf k dec zero (omit k' isz enc x @ kvs) = fieldOf k dec zero kvs"
  "k \<noteq> k' \<Longrightarrow> fieldOf k dec zero (omit k' isz enc x) = Some zero"
  by (simp_all add: fieldOf_def omit_def)

lemma map_of_omit [simp]:
  "k \<noteq> k' \<Longrightarrow> map_of (omit k' isz enc x @ kvs) k = map_of kvs k"
  "k \<noteq> k' \<Longrightarrow> map_of (omit k' isz enc x) k = None"
  by (simp_all add: omit_def)

lemma structOf_simps [simp]:
  "k \<noteq> k' \<Longrightarrow> structOf k dec ((k', j) # kvs) = structOf k dec kvs"
  "k \<noteq> k' \<Longrightarrow> structOf k dec (omit k' isz enc x @ kvs) = structOf k dec kvs"
  "structOf k dec ((k, JObj ms) # kvs) = dec (JObj ms)"
  by (simp_all add: structOf_def omit_def)

subsection \<open>The contract\<close>

locale json_codec =
  fixes enc :: "'a \<Rightarrow> json" and dec :: "json \<Rightarrow> 'a option" and norm :: "'a \<Rightarrow> 'a"
    and isz :: "'a \<Rightarrow> bool" and zero :: 'a
  assumes dec_enc: "\<not> isz x \<Longrightarrow> dec (enc x) = Some (norm x)"
    and enc_value: "\<not> isz x \<Longrightarrow> enc x \<noteq> JNull"
    and norm_isz: "isz x \<Longrightarrow> norm x = zero"
begin

lemma field_first [simp]:
  assumes "map_of kvs k = None"
  shows "fieldOf k dec zero (omit k isz enc x @ kvs) = Some (norm x)"
  using assms dec_enc [of x] enc_value [of x] norm_isz [of x]
  by (auto simp: fieldOf_def omit_def split: json.splits)

lemma field_only [simp]: "fieldOf k dec zero (omit k isz enc x) = Some (norm x)"
  using field_first [where kvs = "[]"] by simp

end

subsection \<open>Scalars\<close>

definition decString :: "json \<Rightarrow> string option" where
  "decString j = (case j of JStr s \<Rightarrow> Some s | _ \<Rightarrow> None)"

definition decBool :: "json \<Rightarrow> bool option" where
  "decBool j = (case j of JBool b \<Rightarrow> Some b | _ \<Rightarrow> None)"

definition encInt32 :: "int32 \<Rightarrow> json" where
  "encInt32 w = JInt (sint w)"

definition decInt32 :: "json \<Rightarrow> int32 option" where
  "decInt32 j =
     (case j of JInt i \<Rightarrow> if - (2 ^ 31) \<le> i \<and> i < 2 ^ 31 then Some (word_of_int i) else None
      | _ \<Rightarrow> None)"

definition encInt64 :: "int64 \<Rightarrow> json" where
  "encInt64 w = JInt (sint w)"

definition decInt64 :: "json \<Rightarrow> int64 option" where
  "decInt64 j =
     (case j of JInt i \<Rightarrow> if - (2 ^ 63) \<le> i \<and> i < 2 ^ 63 then Some (word_of_int i) else None
      | _ \<Rightarrow> None)"

interpretation jstring: json_codec JStr decString "\<lambda>s. s" "\<lambda>s. s = []" "[]"
  by unfold_locales (simp_all add: decString_def)

interpretation jbool: json_codec JBool decBool "\<lambda>b. b" Not False
  by unfold_locales (simp_all add: decBool_def)

lemma decInt32_enc: "decInt32 (encInt32 w) = Some w"
  using sint_range_size [of w] by (simp add: decInt32_def encInt32_def word_size)

lemma decInt64_enc: "decInt64 (encInt64 w) = Some w"
  using sint_range_size [of w] by (simp add: decInt64_def encInt64_def word_size)

lemma encInt_value: "encInt32 w \<noteq> JNull" "encInt64 v \<noteq> JNull"
  by (simp_all add: encInt32_def encInt64_def)

interpretation jint32: json_codec encInt32 decInt32 "\<lambda>w. w" "\<lambda>w. w = 0" 0
  by unfold_locales (simp_all add: decInt32_enc encInt_value)

interpretation jint64: json_codec encInt64 decInt64 "\<lambda>w. w" "\<lambda>w. w = 0" 0
  by unfold_locales (simp_all add: decInt64_enc encInt_value)

subsection \<open>Pointers, slices and maps\<close>

definition encPtr :: "('a \<Rightarrow> json) \<Rightarrow> 'a option \<Rightarrow> json" where
  "encPtr enc p = (case p of None \<Rightarrow> JNull | Some x \<Rightarrow> enc x)"

definition decPtr :: "(json \<Rightarrow> 'a option) \<Rightarrow> json \<Rightarrow> 'a option option" where
  "decPtr dec j = (if j = JNull then Some None else map_option Some (dec j))"

lemma ptr_codec:
  assumes "\<And>x. dec (enc x) = Some (norm x)" and "\<And>x. enc x \<noteq> JNull"
  shows "json_codec (encPtr enc) (decPtr dec) (map_option norm) (\<lambda>p. p = None) None"
  using assms by unfold_locales (auto simp: encPtr_def decPtr_def)

definition encList :: "('a \<Rightarrow> json) \<Rightarrow> 'a list \<Rightarrow> json" where
  "encList enc xs = JArr (map enc xs)"

definition decList :: "(json \<Rightarrow> 'a option) \<Rightarrow> json \<Rightarrow> 'a list option" where
  "decList dec j = (case j of JArr js \<Rightarrow> those (map dec js) | _ \<Rightarrow> None)"

lemma those_map_Some: "(\<And>x. f x = Some (g x)) \<Longrightarrow> those (map f xs) = Some (map g xs)"
  by (induction xs) simp_all

lemma list_codec:
  assumes "\<And>x. dec (enc x) = Some x"
  shows "json_codec (encList enc) (decList dec) (\<lambda>xs. xs) (\<lambda>xs. xs = []) []"
  using assms
  by unfold_locales (simp_all add: encList_def decList_def those_map_Some [where g = "\<lambda>x. x"] o_def)

text \<open>A slice that distinguishes nil from empty: the empty one comes back nil.\<close>

definition normSlice :: "'a slice \<Rightarrow> 'a slice" where
  "normSlice s = (if sliceElems s = [] then None else s)"

definition encSlice :: "('a \<Rightarrow> json) \<Rightarrow> 'a slice \<Rightarrow> json" where
  "encSlice enc s = (case s of None \<Rightarrow> JNull | Some xs \<Rightarrow> encList enc xs)"

definition decSlice :: "(json \<Rightarrow> 'a option) \<Rightarrow> json \<Rightarrow> 'a slice option" where
  "decSlice dec j = (if j = JNull then Some None else map_option Some (decList dec j))"

lemma slice_codec:
  assumes "\<And>x. dec (enc x) = Some x"
  shows "json_codec (encSlice enc) (decSlice dec) normSlice (\<lambda>s. sliceElems s = []) None"
proof unfold_locales
  fix s :: "'a slice"
  assume s: "sliceElems s \<noteq> []"
  then obtain xs where xs: "s = Some xs" by (cases s) auto
  then show "decSlice dec (encSlice enc s) = Some (normSlice s)"
    using s assms
    by (simp add: encSlice_def decSlice_def normSlice_def encList_def decList_def
        those_map_Some [where g = "\<lambda>x. x"] o_def)
  from xs show "encSlice enc s \<noteq> JNull" by (simp add: encSlice_def encList_def)
qed (simp add: normSlice_def)

text \<open>\<^verbatim>\<open>map[string]string\<close>: an object with the keys in order; decoding inserts its
  members one
  by one, so that the last of a name wins.\<close>

definition normMap :: "gomap \<Rightarrow> gomap" where
  "normMap m = (if entries m = fmempty then None else m)"

definition encMap :: "gomap \<Rightarrow> json" where
  "encMap m =
     (case m of None \<Rightarrow> JNull
      | Some f \<Rightarrow> JObj (map (\<lambda>k. (k, JStr (mapGet m k))) (sorted_list_of_fset (fmdom f))))"

definition decMap :: "json \<Rightarrow> gomap option" where
  "decMap j =
     (case j of
        JNull \<Rightarrow> Some None
      | JObj kvs \<Rightarrow> map_option (\<lambda>ps. Some (fmap_of_list (rev ps)))
          (those (map (\<lambda>(k, v). map_option (Pair k) (decString v)) kvs))
      | _ \<Rightarrow> None)"

lemma fmap_of_keys:
  assumes "set ks = fset (fmdom f)"
  shows "fmap_of_list (rev (map (\<lambda>k. (k, mapGet (Some f) k)) ks)) = f"
proof (rule fmap_ext)
  fix k
  have "map_of (map (\<lambda>k. (k, mapGet (Some f) k)) (rev ks)) k
      = (if k \<in> set (rev ks) then Some (mapGet (Some f) k) else None)"
    by (simp add: map_of_map_restrict restrict_map_def)
  then show "fmlookup (fmap_of_list (rev (map (\<lambda>k. (k, mapGet (Some f) k)) ks))) k = fmlookup f k"
    using assms by (cases "fmlookup f k") (simp_all add: fmlookup_of_list rev_map mapGet_def
      fmlookup_dom_iff)
qed

interpretation jmap: json_codec encMap decMap normMap "\<lambda>m. entries m = fmempty" None
proof unfold_locales
  fix m :: gomap
  assume ne: "entries m \<noteq> fmempty"
  then obtain f where m: "m = Some f" by (cases m) auto
  let ?ks = "sorted_list_of_fset (fmdom f)"
  have "those (map (\<lambda>(k, v). map_option (Pair k) (decString v)) (map (\<lambda>k. (k, JStr (mapGet m k)))
    ?ks))
      = Some (map (\<lambda>k. (k, mapGet m k)) ?ks)"
    by (simp add: o_def decString_def) (rule those_map_Some, simp)
  moreover have "fmap_of_list (rev (map (\<lambda>k. (k, mapGet (Some f) k)) ?ks)) = f"
    by (rule fmap_of_keys) simp_all
  ultimately show "decMap (encMap m) = Some (normMap m)"
    using ne m by (simp add: encMap_def decMap_def normMap_def)
  show "encMap m \<noteq> JNull" using m by (simp add: encMap_def)
qed (simp add: normMap_def)

end
