(* ===== verification/Encoding.thy ===== *)
theory Encoding
  imports GoJson Validation
begin

section \<open>The JSON form of the spec and the status (wordpress\_types.go)\<close>

text \<open>
  The struct tags of \<^verbatim>\<open>wordpress_types.go\<close> as encoders and decoders of JSON trees, field by
  field in the order of the structs. The codecs of the structs of other packages are a
  parameter, \<open>libCodec\<close>, with the law that they decode what they encode. What the server adds
  to a stored object is in theory \<open>Schema\<close>.
\<close>

record libCodec =
  encRaw :: "raw \<Rightarrow> json"  \<comment> \<open>\<^verbatim>\<open>ResourceRequirements\<close>, \<^verbatim>\<open>Toleration\<close>,
    \<^verbatim>\<open>Affinity\<close>\<close>
  decRaw :: "json \<Rightarrow> raw option"
  encRef :: "string \<Rightarrow> json"  \<comment> \<open>\<^verbatim>\<open>LocalObjectReference\<close>, by its name\<close>
  decRef :: "json \<Rightarrow> string option"
  encEnv :: "EnvVar \<Rightarrow> json"
  decEnv :: "json \<Rightarrow> EnvVar option"
  encIntOrString :: "IntOrString \<Rightarrow> json"
  decIntOrString :: "json \<Rightarrow> IntOrString option"
  encCondition :: "Condition \<Rightarrow> json"
  decCondition :: "json \<Rightarrow> Condition option"

definition libCodec_law :: "libCodec \<Rightarrow> bool" where
  "libCodec_law C \<longleftrightarrow>
     (\<forall>x. decRaw C (encRaw C x) = Some x \<and> encRaw C x \<noteq> JNull)
     \<and> (\<forall>x. decRef C (encRef C x) = Some x \<and> encRef C x \<noteq> JNull)
     \<and> (\<forall>x. decEnv C (encEnv C x) = Some x \<and> encEnv C x \<noteq> JNull)
     \<and> (\<forall>x. decIntOrString C (encIntOrString C x) = Some x \<and> encIntOrString C x \<noteq> JNull)
     \<and> (\<forall>x. decCondition C (encCondition C x) = Some x \<and> encCondition C x \<noteq> JNull)"

subsection \<open>Encoding\<close>

definition encSecretKeyRef :: "SecretKeyRef \<Rightarrow> json" where
  "encSecretKeyRef s = JObj
     ((''name'', JStr (skr_Name s)) #
      (''key'', JStr (skr_Key s)) # [])"

definition encInternal :: "libCodec \<Rightarrow> InternalDatabaseSpec \<Rightarrow> json" where
  "encInternal C s = JObj
     (omit ''image'' (\<lambda>s. s = []) JStr (int_Image s) @
      omit ''imagePullPolicy'' (\<lambda>s. s = []) JStr (int_ImagePullPolicy s) @
      omit ''storageSize'' (\<lambda>s. s = []) JStr (int_StorageSize s) @
      omit ''storageClassName'' (\<lambda>p. p = None) (encPtr JStr) (int_StorageClassName s) @
      (''resources'', encRaw C (int_Resources s)) #
      omit ''rootPasswordSecret'' (\<lambda>p. p = None) (encPtr encSecretKeyRef) (int_RootPasswordSecret s)
        @
      omit ''nodeSelector'' (\<lambda>m. entries m = fmempty) encMap (int_NodeSelector s) @
      omit ''tolerations'' (\<lambda>s. sliceElems s = []) (encSlice (encRaw C)) (int_Tolerations s) @
      omit ''affinity'' (\<lambda>p. p = None) (encPtr (encRaw C)) (int_Affinity s))"

definition encExternal :: "ExternalDatabaseSpec \<Rightarrow> json" where
  "encExternal s = JObj
     ((''host'', JStr (ext_Host s)) #
      omit ''port'' (\<lambda>w. w = 0) encInt32 (ext_Port s) @
      (''passwordSecret'', encSecretKeyRef (ext_PasswordSecret s)) # [])"

definition encDatabase :: "libCodec \<Rightarrow> DatabaseSpec \<Rightarrow> json" where
  "encDatabase C s = JObj
     (omit ''mode'' (\<lambda>s. s = []) JStr (Mode s) @
      omit ''name'' (\<lambda>s. s = []) JStr (db_Name s) @
      omit ''user'' (\<lambda>s. s = []) JStr (db_User s) @
      omit ''tablePrefix'' (\<lambda>s. s = []) JStr (TablePrefix s) @
      omit ''internal'' (\<lambda>p. p = None) (encPtr (encInternal C)) (Internal s) @
      omit ''external'' (\<lambda>p. p = None) (encPtr encExternal) (External s))"

definition encIngress :: "IngressSpec \<Rightarrow> json" where
  "encIngress s = JObj
     (omit ''enabled'' Not JBool (igs_Enabled s) @
      omit ''ingressClassName'' (\<lambda>p. p = None) (encPtr JStr) (igs_IngressClassName s) @
      omit ''host'' (\<lambda>s. s = []) JStr (igs_Host s) @
      omit ''tlsSecretName'' (\<lambda>s. s = []) JStr (igs_TLSSecretName s) @
      omit ''annotations'' (\<lambda>m. entries m = fmempty) encMap (igs_Annotations s))"

definition encService :: "ServiceSpec \<Rightarrow> json" where
  "encService s = JObj
     (omit ''type'' (\<lambda>s. s = []) JStr (svs_Type s) @
      omit ''port'' (\<lambda>w. w = 0) encInt32 (svs_Port s) @
      omit ''nodePort'' (\<lambda>w. w = 0) encInt32 (svs_NodePort s) @
      omit ''annotations'' (\<lambda>m. entries m = fmempty) encMap (svs_Annotations s))"

definition encPersistence :: "PersistenceSpec \<Rightarrow> json" where
  "encPersistence s = JObj
     (omit ''enabled'' Not JBool (per_Enabled s) @
      omit ''size'' (\<lambda>s. s = []) JStr (per_Size s) @
      omit ''storageClassName'' (\<lambda>p. p = None) (encPtr JStr) (per_StorageClassName s) @
      omit ''accessModes'' (\<lambda>xs. xs = []) (encList JStr) (per_AccessModes s))"

definition encAutoscaling :: "AutoscalingSpec \<Rightarrow> json" where
  "encAutoscaling s = JObj
     (omit ''enabled'' Not JBool (as_Enabled s) @
      omit ''minReplicas'' (\<lambda>w. w = 0) encInt32 (as_MinReplicas s) @
      omit ''maxReplicas'' (\<lambda>w. w = 0) encInt32 (as_MaxReplicas s) @
      omit ''targetCPUUtilizationPercentage'' (\<lambda>w. w = 0) encInt32
        (as_TargetCPUUtilizationPercentage s))"

definition encSpec :: "libCodec \<Rightarrow> WordPressSpec \<Rightarrow> json" where
  "encSpec C s = JObj
     (omit ''image'' (\<lambda>s. s = []) JStr (Image s) @
      omit ''imagePullPolicy'' (\<lambda>s. s = []) JStr (ImagePullPolicy s) @
      omit ''imagePullSecrets'' (\<lambda>s. sliceElems s = []) (encSlice (encRef C)) (ImagePullSecrets s) @
      omit ''replicas'' (\<lambda>p. p = None) (encPtr encInt32) (Replicas s) @
      (''resources'', encRaw C (Resources s)) #
      omit ''siteURL'' (\<lambda>s. s = []) JStr (SiteURL s) @
      omit ''env'' (\<lambda>xs. xs = []) (encList (encEnv C)) (Env s) @
      (''database'', encDatabase C (Database s)) #
      (''service'', encService (ServiceS s)) #
      (''ingress'', encIngress (IngressS s)) #
      (''persistence'', encPersistence (Persistence s)) #
      (''autoscaling'', encAutoscaling (Autoscaling s)) #
      omit ''podAnnotations'' (\<lambda>m. entries m = fmempty) encMap (PodAnnotations s) @
      omit ''podLabels'' (\<lambda>m. entries m = fmempty) encMap (PodLabels s) @
      omit ''nodeSelector'' (\<lambda>m. entries m = fmempty) encMap (NodeSelector s) @
      omit ''tolerations'' (\<lambda>s. sliceElems s = []) (encSlice (encRaw C)) (Tolerations s) @
      omit ''affinity'' (\<lambda>p. p = None) (encPtr (encRaw C)) (Affinity s) @
      omit ''maxUnavailable'' (\<lambda>p. p = None) (encPtr (encIntOrString C)) (MaxUnavailable s) @
      omit ''maxSurge'' (\<lambda>p. p = None) (encPtr (encIntOrString C)) (MaxSurge s))"

definition encStatus :: "libCodec \<Rightarrow> WordPressStatus \<Rightarrow> json" where
  "encStatus C s = JObj
     (omit ''observedGeneration'' (\<lambda>w. w = 0) encInt64 (wst_ObservedGeneration s) @
      omit ''phase'' (\<lambda>s. s = []) JStr (wst_Phase s) @
      omit ''url'' (\<lambda>s. s = []) JStr (wst_URL s) @
      omit ''replicas'' (\<lambda>w. w = 0) encInt32 (wst_Replicas s) @
      omit ''readyReplicas'' (\<lambda>w. w = 0) encInt32 (wst_ReadyReplicas s) @
      omit ''databaseHost'' (\<lambda>s. s = []) JStr (wst_DatabaseHost s) @
      omit ''conditions'' (\<lambda>xs. xs = []) (encList (encCondition C)) (wst_Conditions s))"

subsection \<open>Decoding\<close>

definition decSecretKeyRef :: "json \<Rightarrow> SecretKeyRef option" where
  "decSecretKeyRef j = do {
     kvs \<leftarrow> members j;
     v0 \<leftarrow> fieldOf ''name'' decString [] kvs;
     v1 \<leftarrow> fieldOf ''key'' decString [] kvs;
     Some \<lparr>skr_Name = v0, skr_Key = v1\<rparr>
   }"

definition decInternal :: "libCodec \<Rightarrow> json \<Rightarrow> InternalDatabaseSpec option" where
  "decInternal C j = do {
     kvs \<leftarrow> members j;
     v0 \<leftarrow> fieldOf ''image'' decString [] kvs;
     v1 \<leftarrow> fieldOf ''imagePullPolicy'' decString [] kvs;
     v2 \<leftarrow> fieldOf ''storageSize'' decString [] kvs;
     v3 \<leftarrow> fieldOf ''storageClassName'' (decPtr decString) None kvs;
     v4 \<leftarrow> structOf ''resources'' (decRaw C) kvs;
     v5 \<leftarrow> fieldOf ''rootPasswordSecret'' (decPtr decSecretKeyRef) None kvs;
     v6 \<leftarrow> fieldOf ''nodeSelector'' decMap None kvs;
     v7 \<leftarrow> fieldOf ''tolerations'' (decSlice (decRaw C)) None kvs;
     v8 \<leftarrow> fieldOf ''affinity'' (decPtr (decRaw C)) None kvs;
     Some \<lparr>int_Image = v0, int_ImagePullPolicy = v1, int_StorageSize = v2, int_StorageClassName =
       v3, int_Resources = v4, int_RootPasswordSecret = v5, int_NodeSelector = v6, int_Tolerations =
       v7, int_Affinity = v8\<rparr>
   }"

definition decExternal :: "json \<Rightarrow> ExternalDatabaseSpec option" where
  "decExternal j = do {
     kvs \<leftarrow> members j;
     v0 \<leftarrow> fieldOf ''host'' decString [] kvs;
     v1 \<leftarrow> fieldOf ''port'' decInt32 0 kvs;
     v2 \<leftarrow> structOf ''passwordSecret'' decSecretKeyRef kvs;
     Some \<lparr>ext_Host = v0, ext_Port = v1, ext_PasswordSecret = v2\<rparr>
   }"

definition decDatabase :: "libCodec \<Rightarrow> json \<Rightarrow> DatabaseSpec option" where
  "decDatabase C j = do {
     kvs \<leftarrow> members j;
     v0 \<leftarrow> fieldOf ''mode'' decString [] kvs;
     v1 \<leftarrow> fieldOf ''name'' decString [] kvs;
     v2 \<leftarrow> fieldOf ''user'' decString [] kvs;
     v3 \<leftarrow> fieldOf ''tablePrefix'' decString [] kvs;
     v4 \<leftarrow> fieldOf ''internal'' (decPtr (decInternal C)) None kvs;
     v5 \<leftarrow> fieldOf ''external'' (decPtr decExternal) None kvs;
     Some \<lparr>Mode = v0, db_Name = v1, db_User = v2, TablePrefix = v3, Internal = v4, External = v5\<rparr>
   }"

definition decIngress :: "json \<Rightarrow> IngressSpec option" where
  "decIngress j = do {
     kvs \<leftarrow> members j;
     v0 \<leftarrow> fieldOf ''enabled'' decBool False kvs;
     v1 \<leftarrow> fieldOf ''ingressClassName'' (decPtr decString) None kvs;
     v2 \<leftarrow> fieldOf ''host'' decString [] kvs;
     v3 \<leftarrow> fieldOf ''tlsSecretName'' decString [] kvs;
     v4 \<leftarrow> fieldOf ''annotations'' decMap None kvs;
     Some \<lparr>igs_Enabled = v0, igs_IngressClassName = v1, igs_Host = v2, igs_TLSSecretName = v3,
       igs_Annotations = v4\<rparr>
   }"

definition decService :: "json \<Rightarrow> ServiceSpec option" where
  "decService j = do {
     kvs \<leftarrow> members j;
     v0 \<leftarrow> fieldOf ''type'' decString [] kvs;
     v1 \<leftarrow> fieldOf ''port'' decInt32 0 kvs;
     v2 \<leftarrow> fieldOf ''nodePort'' decInt32 0 kvs;
     v3 \<leftarrow> fieldOf ''annotations'' decMap None kvs;
     Some \<lparr>svs_Type = v0, svs_Port = v1, svs_NodePort = v2, svs_Annotations = v3\<rparr>
   }"

definition decPersistence :: "json \<Rightarrow> PersistenceSpec option" where
  "decPersistence j = do {
     kvs \<leftarrow> members j;
     v0 \<leftarrow> fieldOf ''enabled'' decBool False kvs;
     v1 \<leftarrow> fieldOf ''size'' decString [] kvs;
     v2 \<leftarrow> fieldOf ''storageClassName'' (decPtr decString) None kvs;
     v3 \<leftarrow> fieldOf ''accessModes'' (decList decString) [] kvs;
     Some \<lparr>per_Enabled = v0, per_Size = v1, per_StorageClassName = v2, per_AccessModes = v3\<rparr>
   }"

definition decAutoscaling :: "json \<Rightarrow> AutoscalingSpec option" where
  "decAutoscaling j = do {
     kvs \<leftarrow> members j;
     v0 \<leftarrow> fieldOf ''enabled'' decBool False kvs;
     v1 \<leftarrow> fieldOf ''minReplicas'' decInt32 0 kvs;
     v2 \<leftarrow> fieldOf ''maxReplicas'' decInt32 0 kvs;
     v3 \<leftarrow> fieldOf ''targetCPUUtilizationPercentage'' decInt32 0 kvs;
     Some \<lparr>as_Enabled = v0, as_MinReplicas = v1, as_MaxReplicas = v2,
       as_TargetCPUUtilizationPercentage = v3\<rparr>
   }"

definition decSpec :: "libCodec \<Rightarrow> json \<Rightarrow> WordPressSpec option" where
  "decSpec C j = do {
     kvs \<leftarrow> members j;
     v0 \<leftarrow> fieldOf ''image'' decString [] kvs;
     v1 \<leftarrow> fieldOf ''imagePullPolicy'' decString [] kvs;
     v2 \<leftarrow> fieldOf ''imagePullSecrets'' (decSlice (decRef C)) None kvs;
     v3 \<leftarrow> fieldOf ''replicas'' (decPtr decInt32) None kvs;
     v4 \<leftarrow> structOf ''resources'' (decRaw C) kvs;
     v5 \<leftarrow> fieldOf ''siteURL'' decString [] kvs;
     v6 \<leftarrow> fieldOf ''env'' (decList (decEnv C)) [] kvs;
     v7 \<leftarrow> structOf ''database'' (decDatabase C) kvs;
     v8 \<leftarrow> structOf ''service'' decService kvs;
     v9 \<leftarrow> structOf ''ingress'' decIngress kvs;
     v10 \<leftarrow> structOf ''persistence'' decPersistence kvs;
     v11 \<leftarrow> structOf ''autoscaling'' decAutoscaling kvs;
     v12 \<leftarrow> fieldOf ''podAnnotations'' decMap None kvs;
     v13 \<leftarrow> fieldOf ''podLabels'' decMap None kvs;
     v14 \<leftarrow> fieldOf ''nodeSelector'' decMap None kvs;
     v15 \<leftarrow> fieldOf ''tolerations'' (decSlice (decRaw C)) None kvs;
     v16 \<leftarrow> fieldOf ''affinity'' (decPtr (decRaw C)) None kvs;
     v17 \<leftarrow> fieldOf ''maxUnavailable'' (decPtr (decIntOrString C)) None kvs;
     v18 \<leftarrow> fieldOf ''maxSurge'' (decPtr (decIntOrString C)) None kvs;
     Some \<lparr>Image = v0, ImagePullPolicy = v1, ImagePullSecrets = v2, Replicas = v3, Resources = v4,
       SiteURL = v5, Env = v6, Database = v7, ServiceS = v8, IngressS = v9, Persistence = v10,
       Autoscaling = v11, PodAnnotations = v12, PodLabels = v13, NodeSelector = v14, Tolerations =
       v15, Affinity = v16, MaxUnavailable = v17, MaxSurge = v18\<rparr>
   }"

definition decStatus :: "libCodec \<Rightarrow> json \<Rightarrow> WordPressStatus option" where
  "decStatus C j = do {
     kvs \<leftarrow> members j;
     v0 \<leftarrow> fieldOf ''observedGeneration'' decInt64 0 kvs;
     v1 \<leftarrow> fieldOf ''phase'' decString [] kvs;
     v2 \<leftarrow> fieldOf ''url'' decString [] kvs;
     v3 \<leftarrow> fieldOf ''replicas'' decInt32 0 kvs;
     v4 \<leftarrow> fieldOf ''readyReplicas'' decInt32 0 kvs;
     v5 \<leftarrow> fieldOf ''databaseHost'' decString [] kvs;
     v6 \<leftarrow> fieldOf ''conditions'' (decList (decCondition C)) [] kvs;
     Some \<lparr>wst_ObservedGeneration = v0, wst_Phase = v1, wst_URL = v2, wst_Replicas = v3,
       wst_ReadyReplicas = v4, wst_DatabaseHost = v5, wst_Conditions = v6\<rparr>
   }"

subsection \<open>What a value becomes on the way\<close>

text \<open>Empty maps and slices come back nil; nothing else changes.\<close>

definition normInternal :: "InternalDatabaseSpec \<Rightarrow> InternalDatabaseSpec" where
  "normInternal s = s\<lparr>int_NodeSelector := normMap (int_NodeSelector s), int_Tolerations := normSlice
    (int_Tolerations s)\<rparr>"

definition normDatabase :: "DatabaseSpec \<Rightarrow> DatabaseSpec" where
  "normDatabase s = s\<lparr>Internal := map_option normInternal (Internal s)\<rparr>"

definition normIngress :: "IngressSpec \<Rightarrow> IngressSpec" where
  "normIngress s = s\<lparr>igs_Annotations := normMap (igs_Annotations s)\<rparr>"

definition normService :: "ServiceSpec \<Rightarrow> ServiceSpec" where
  "normService s = s\<lparr>svs_Annotations := normMap (svs_Annotations s)\<rparr>"

definition normSpec :: "WordPressSpec \<Rightarrow> WordPressSpec" where
  "normSpec s = s\<lparr>ImagePullSecrets := normSlice (ImagePullSecrets s), Database := normDatabase
    (Database s), ServiceS := normService (ServiceS s), IngressS := normIngress (IngressS s),
    PodAnnotations := normMap (PodAnnotations s), PodLabels := normMap (PodLabels s), NodeSelector
    := normMap (NodeSelector s), Tolerations := normSlice (Tolerations s)\<rparr>"

subsection \<open>Round trips\<close>

lemma structOf_first [simp]: "j \<noteq> JNull \<Longrightarrow> structOf k dec ((k, j) # kvs) = dec j"
  by (cases j) (simp_all add: structOf_def)

lemma fieldOf_first [simp]: "j \<noteq> JNull \<Longrightarrow> fieldOf k dec zero ((k, j) # kvs) = dec j"
  by (cases j) (simp_all add: fieldOf_def)

lemma decString_JStr [simp]: "decString (JStr s) = Some s"
  by (simp add: decString_def)

lemma ptr_codec_same:
  assumes "\<And>x. dec (enc x) = Some x" and "\<And>x. enc x \<noteq> JNull"
  shows "json_codec (encPtr enc) (decPtr dec) (\<lambda>p. p) (\<lambda>p. p = None) None"
  using assms by unfold_locales (auto simp: encPtr_def decPtr_def)

interpretation jstringP: json_codec "encPtr JStr" "decPtr decString" "\<lambda>p. p" "\<lambda>p. p = None" None
  by (rule ptr_codec_same) simp_all

interpretation jint32P: json_codec "encPtr encInt32" "decPtr decInt32" "\<lambda>p. p" "\<lambda>p. p = None" None
  by (rule ptr_codec_same) (simp_all add: decInt32_enc encInt_value)

interpretation jstrings: json_codec "encList JStr" "decList decString" "\<lambda>xs. xs" "\<lambda>xs. xs = []" "[]"
  by (rule list_codec) simp

lemma enc_object [simp]:
  "encSecretKeyRef a \<noteq> JNull"
  "encInternal C b \<noteq> JNull"
  "encExternal c \<noteq> JNull"
  "encDatabase C d \<noteq> JNull"
  "encIngress e \<noteq> JNull"
  "encService f \<noteq> JNull"
  "encPersistence g \<noteq> JNull"
  "encAutoscaling h \<noteq> JNull"
  "encSpec C k \<noteq> JNull"
  "encStatus C l \<noteq> JNull"
  by (simp_all add: encSecretKeyRef_def encInternal_def encExternal_def encDatabase_def
    encIngress_def encService_def encPersistence_def encAutoscaling_def encSpec_def encStatus_def)

lemma SecretKeyRef_roundtrip [simp]: "decSecretKeyRef (encSecretKeyRef s) = Some s"
  by (simp add: encSecretKeyRef_def decSecretKeyRef_def)

lemma External_roundtrip [simp]: "decExternal (encExternal s) = Some s"
  by (simp add: encExternal_def decExternal_def)

lemma Ingress_roundtrip [simp]: "decIngress (encIngress s) = Some (normIngress s)"
  by (simp add: encIngress_def decIngress_def normIngress_def)

lemma Service_roundtrip [simp]: "decService (encService s) = Some (normService s)"
  by (simp add: encService_def decService_def normService_def)

lemma Persistence_roundtrip [simp]: "decPersistence (encPersistence s) = Some s"
  by (simp add: encPersistence_def decPersistence_def)

lemma Autoscaling_roundtrip [simp]: "decAutoscaling (encAutoscaling s) = Some s"
  by (simp add: encAutoscaling_def decAutoscaling_def)

interpretation jsecretKeyRefP: json_codec "encPtr encSecretKeyRef" "decPtr decSecretKeyRef" "\<lambda>p. p"
  "\<lambda>p. p = None" None
  by (rule ptr_codec_same) simp_all

interpretation jexternalP: json_codec "encPtr encExternal" "decPtr decExternal" "\<lambda>p. p"
  "\<lambda>p. p = None" None
  by (rule ptr_codec_same) simp_all

lemma lib_values:
  assumes "libCodec_law C"
  shows "decRaw C (encRaw C r) = Some r" "encRaw C r \<noteq> JNull"
  using assms by (simp_all add: libCodec_law_def)

lemma lib_codecs:
  assumes "libCodec_law C"
  shows "json_codec (encPtr (encRaw C)) (decPtr (decRaw C)) (\<lambda>p. p) (\<lambda>p. p = None) None"
    and "json_codec (encPtr (encIntOrString C)) (decPtr (decIntOrString C)) (\<lambda>p. p) (\<lambda>p. p = None)
      None"
    and "json_codec (encSlice (encRaw C)) (decSlice (decRaw C)) normSlice (\<lambda>s. sliceElems s = [])
      None"
    and "json_codec (encSlice (encRef C)) (decSlice (decRef C)) normSlice (\<lambda>s. sliceElems s = [])
      None"
    and "json_codec (encList (encEnv C)) (decList (decEnv C)) (\<lambda>xs. xs) (\<lambda>xs. xs = []) []"
    and "json_codec (encList (encCondition C)) (decList (decCondition C)) (\<lambda>xs. xs) (\<lambda>xs. xs = [])
      []"
  using assms
  by (simp_all add: libCodec_law_def ptr_codec_same slice_codec list_codec)

lemmas lib_first = lib_codecs [THEN json_codec.field_first]
lemmas lib_only = lib_codecs [THEN json_codec.field_only]

lemma Internal_roundtrip:
  assumes "libCodec_law C"
  shows "decInternal C (encInternal C s) = Some (normInternal s)"
  by (simp add: encInternal_def decInternal_def normInternal_def lib_values [OF assms]
      lib_first [OF assms] lib_only [OF assms])

lemma internal_codec:
  assumes "libCodec_law C"
  shows "json_codec (encPtr (encInternal C)) (decPtr (decInternal C)) (map_option normInternal)
    (\<lambda>p. p = None) None"
  by (rule ptr_codec) (simp_all add: Internal_roundtrip [OF assms])

lemma Database_roundtrip:
  assumes "libCodec_law C"
  shows "decDatabase C (encDatabase C s) = Some (normDatabase s)"
  by (simp add: encDatabase_def decDatabase_def normDatabase_def
      json_codec.field_first [OF internal_codec [OF assms]])

text \<open>The spec and the status survive their JSON form: what the operator sends is read back as it
  was, except that empty maps and slices come back nil.\<close>

lemma Spec_roundtrip:
  assumes "libCodec_law C"
  shows "decSpec C (encSpec C s) = Some (normSpec s)"
  by (simp add: encSpec_def decSpec_def normSpec_def lib_values [OF assms] lib_first [OF assms]
      lib_only [OF assms] Database_roundtrip [OF assms])

lemma Status_roundtrip:
  assumes "libCodec_law C"
  shows "decStatus C (encStatus C s) = Some s"
  by (simp add: encStatus_def decStatus_def lib_first [OF assms] lib_only [OF assms])

subsection \<open>A codec that satisfies the law\<close>

text \<open>\<open>plainCodec\<close> writes the structs of other packages as arrays of their fields.\<close>

definition encOpt :: "('a \<Rightarrow> json) \<Rightarrow> 'a option \<Rightarrow> json" where
  "encOpt enc p = JArr (case p of None \<Rightarrow> [] | Some x \<Rightarrow> [enc x])"

definition decOpt :: "(json \<Rightarrow> 'a option) \<Rightarrow> json \<Rightarrow> 'a option option" where
  "decOpt dec j =
     (case j of JArr [] \<Rightarrow> Some None | JArr [v] \<Rightarrow> map_option Some (dec v) | _ \<Rightarrow> None)"

definition encSelector :: "SecretKeySelector \<Rightarrow> json" where
  "encSelector k = JArr [JStr (sks_Name k), JStr (sks_Key k), JStr (sks_rest k)]"

definition decSelector :: "json \<Rightarrow> SecretKeySelector option" where
  "decSelector j = (case j of
     JArr [JStr n, JStr k, JStr r] \<Rightarrow> Some \<lparr>sks_Name = n, sks_Key = k, sks_rest = r\<rparr> | _ \<Rightarrow> None)"

definition encSource :: "EnvVarSource \<Rightarrow> json" where
  "encSource s = JArr [encOpt encSelector (evs_SecretKeyRef s), JStr (evs_rest s)]"

definition decSource :: "json \<Rightarrow> EnvVarSource option" where
  "decSource j = (case j of
     JArr [k, JStr r] \<Rightarrow>
       map_option (\<lambda>k. \<lparr>evs_SecretKeyRef = k, evs_rest = r\<rparr>) (decOpt decSelector k)
   | _ \<Rightarrow> None)"

definition plainCodec :: libCodec where
  "plainCodec =
     \<lparr>encRaw = (\<lambda>r. JObj [(''raw'', JStr r)]),
      decRaw = (\<lambda>j. members j \<bind> fieldOf ''raw'' decString []),
      encRef = (\<lambda>n. JObj [(''name'', JStr n)]),
      decRef = (\<lambda>j. members j \<bind> fieldOf ''name'' decString []),
      encEnv = (\<lambda>e. JArr [JStr (ev_Name e), JStr (ev_Value e), encOpt encSource (ev_ValueFrom e)]),
      decEnv = (\<lambda>j. case j of
          JArr [JStr n, JStr v, f] \<Rightarrow>
            map_option (\<lambda>f. \<lparr>ev_Name = n, ev_Value = v, ev_ValueFrom = f\<rparr>) (decOpt decSource f)
        | _ \<Rightarrow> None),
      encIntOrString = (\<lambda>x. case x of IntVal w \<Rightarrow> encInt32 w | StrVal t \<Rightarrow> JStr t),
      decIntOrString = (\<lambda>j. case j of
          JStr t \<Rightarrow> Some (StrVal t) | _ \<Rightarrow> map_option IntVal (decInt32 j)),
      encCondition = (\<lambda>c. JArr [JStr (co_Type c), JStr (co_Status c), JStr (co_Reason c),
        JStr (co_Message c), JInt (co_LastTransitionTime c), encInt64 (co_ObservedGeneration c)]),
      decCondition = (\<lambda>j. case j of
          JArr [JStr t, JStr s, JStr r, JStr m, JInt at, g] \<Rightarrow>
            map_option (\<lambda>g. \<lparr>co_Type = t, co_Status = s, co_Reason = r, co_Message = m,
              co_LastTransitionTime = at, co_ObservedGeneration = g\<rparr>) (decInt64 g)
        | _ \<Rightarrow> None)\<rparr>"

lemma opt_roundtrip: "(\<And>x. dec (enc x) = Some x) \<Longrightarrow> decOpt dec (encOpt enc p) = Some p"
  by (cases p) (simp_all add: encOpt_def decOpt_def)

lemma selector_roundtrip: "decSelector (encSelector k) = Some k"
  by (simp add: encSelector_def decSelector_def)

lemma source_roundtrip: "decSource (encSource s) = Some s"
  by (simp add: encSource_def decSource_def opt_roundtrip selector_roundtrip)

lemma intOrString_roundtrip:
  "decIntOrString plainCodec (encIntOrString plainCodec x) = Some x"
  "encIntOrString plainCodec x \<noteq> JNull"
  using decInt32_enc
  by (cases x; simp add: plainCodec_def encInt32_def)+

lemma plainCodec_law: "libCodec_law plainCodec"
  unfolding libCodec_law_def
  by (intro conjI allI)
    (simp_all add: intOrString_roundtrip, simp_all add: plainCodec_def opt_roundtrip
      source_roundtrip decInt64_enc)

end
