(* ===== verification/ObjectForm.thy ===== *)
theory ObjectForm
  imports Encoding DemoCluster
begin

section \<open>The JSON form of a whole resource (wordpress\_types.go, lines 386 to 400)\<close>

text \<open>
  A \<^verbatim>\<open>WordPress\<close> as the client sends it: the members of the inlined \<^verbatim>\<open>TypeMeta\<close>, which the
  serializer of the client fills in, the metadata, the spec and the status. \<^verbatim>\<open>omitzero\<close> leaves out
  metadata and status when they are the zero struct. The codec of \<^verbatim>\<open>ObjectMeta\<close> is library code,
  the parameter \<open>metaCodec\<close>.
\<close>

record typeMeta =
  Kind :: string
  APIVersion :: string

record metaCodec =
  encMeta :: "object \<Rightarrow> json"
  decMeta :: "json \<Rightarrow> object option"

definition normMeta :: "object \<Rightarrow> object" where
  "normMeta m = m\<lparr>Labels := normMap (Labels m), Annotations := normMap (Annotations m)\<rparr>"

definition metaCodec_law :: "metaCodec \<Rightarrow> bool" where
  "metaCodec_law M \<longleftrightarrow> (\<forall>m. decMeta M (encMeta M m) = Some (normMeta m) \<and> encMeta M m \<noteq> JNull)"

definition zeroMeta :: object where
  "zeroMeta = newMeta [] [] None None"

definition encWordPress :: "libCodec \<Rightarrow> metaCodec \<Rightarrow> typeMeta \<Rightarrow> WordPress \<Rightarrow> json" where
  "encWordPress C M t wp = JObj
     (omit ''kind'' (\<lambda>s. s = []) JStr (Kind t) @
      omit ''apiVersion'' (\<lambda>s. s = []) JStr (APIVersion t) @
      omit ''metadata'' (\<lambda>m. m = zeroMeta) (encMeta M) (metaOf wp) @
      (''spec'', encSpec C (Spec wp)) #
      omit ''status'' (\<lambda>s. s = zeroStatus) (encStatus C) (Status wp))"

definition decWordPress :: "libCodec \<Rightarrow> metaCodec \<Rightarrow> json \<Rightarrow> (typeMeta \<times> WordPress) option" where
  "decWordPress C M j = do {
     kvs \<leftarrow> members j;
     v0 \<leftarrow> fieldOf ''kind'' decString [] kvs;
     v1 \<leftarrow> fieldOf ''apiVersion'' decString [] kvs;
     v2 \<leftarrow> fieldOf ''metadata'' (decMeta M) zeroMeta kvs;
     v3 \<leftarrow> structOf ''spec'' (decSpec C) kvs;
     v4 \<leftarrow> fieldOf ''status'' (decStatus C) zeroStatus kvs;
     Some (\<lparr>Kind = v0, APIVersion = v1\<rparr>, object.extend v2 (WordPress.fields v3 v4))
   }"

definition normWordPress :: "WordPress \<Rightarrow> WordPress" where
  "normWordPress wp =
     wp\<lparr>Labels := normMap (Labels wp), Annotations := normMap (Annotations wp),
        Spec := normSpec (Spec wp)\<rparr>"

subsection \<open>The round trip\<close>

lemma meta_codec:
  assumes "metaCodec_law M"
  shows "json_codec (encMeta M) (decMeta M) normMeta (\<lambda>m. m = zeroMeta) zeroMeta"
  using assms
  by unfold_locales (simp_all add: metaCodec_law_def normMeta_def zeroMeta_def newMeta_def normMap_def)

lemma status_codec:
  assumes "libCodec_law C"
  shows "json_codec (encStatus C) (decStatus C) (\<lambda>s. s) (\<lambda>s. s = zeroStatus) zeroStatus"
  by unfold_locales (simp_all add: Status_roundtrip [OF assms])

lemma extend_normMeta:
  "object.extend (normMeta (metaOf wp)) (WordPress.fields (normSpec (Spec wp)) (Status wp))
     = normWordPress wp"
  by (cases wp) (simp add: normWordPress_def normMeta_def metaOf_def object.defs WordPress.defs)


subsection \<open>A metadata codec that satisfies the law\<close>

definition encOwner :: "OwnerReference \<Rightarrow> json" where
  "encOwner r = JArr [JStr (or_APIVersion r), JStr (or_Kind r), JStr (or_Name r), JStr (or_UID r),
     encOpt JBool (or_Controller r), encOpt JBool (or_BlockOwnerDeletion r)]"

definition decOwner :: "json \<Rightarrow> OwnerReference option" where
  "decOwner j = (case j of
     JArr [JStr v, JStr k, JStr n, JStr u, c, b] \<Rightarrow>
       do {
         c \<leftarrow> decOpt decBool c;
         b \<leftarrow> decOpt decBool b;
         Some \<lparr>or_APIVersion = v, or_Kind = k, or_Name = n, or_UID = u, or_Controller = c,
           or_BlockOwnerDeletion = b\<rparr>
       }
   | _ \<Rightarrow> None)"

definition decTime :: "json \<Rightarrow> gotime option" where
  "decTime j = (case j of JInt t \<Rightarrow> Some t | _ \<Rightarrow> None)"

definition plainMeta :: metaCodec where
  "plainMeta =
     \<lparr>encMeta = (\<lambda>m. JArr [JStr (Name m), JStr (Namespace m), JStr (UID m), encInt64 (Generation m),
        encOpt JInt (DeletionTimestamp m), encMap (normMap (Labels m)),
        encMap (normMap (Annotations m)), encList JStr (Finalizers m),
        encList encOwner (OwnerReferences m), JStr (meta_rest m)]),
      decMeta = (\<lambda>j. case j of
          JArr [JStr n, JStr ns, JStr u, g, d, l, a, f, os, JStr r] \<Rightarrow>
            do {
              g \<leftarrow> decInt64 g;
              d \<leftarrow> decOpt decTime d;
              l \<leftarrow> decMap l;
              a \<leftarrow> decMap a;
              f \<leftarrow> decList decString f;
              os \<leftarrow> decList decOwner os;
              Some \<lparr>Name = n, Namespace = ns, UID = u, Generation = g, DeletionTimestamp = d,
                Labels = l, Annotations = a, Finalizers = f, OwnerReferences = os, meta_rest = r\<rparr>
            }
        | _ \<Rightarrow> None)\<rparr>"

lemma owner_roundtrip: "decOwner (encOwner r) = Some r"
  by (simp add: encOwner_def decOwner_def opt_roundtrip decBool_def)

lemma normal_map: "decMap (encMap (normMap m)) = Some (normMap m)"
  using jmap.dec_enc [of m] by (auto simp: normMap_def encMap_def decMap_def)

lemma list_roundtrip: "(\<And>x. dec (enc x) = Some x) \<Longrightarrow> decList dec (encList enc xs) = Some xs"
  using those_map_Some [of "\<lambda>x. dec (enc x)" "\<lambda>x. x"] by (simp add: decList_def encList_def o_def)

lemma plainMeta_law: "metaCodec_law plainMeta"
  by (simp add: metaCodec_law_def plainMeta_def decInt64_enc opt_roundtrip decTime_def normal_map
      list_roundtrip owner_roundtrip normMeta_def)


end
