(* ===== verification/StatusHistory.thy ===== *)
theory StatusHistory
  imports Lifecycle StatusContract
begin

section \<open>The stored status is never at odds with itself\<close>

text \<open>
  An invariant of the statuses in the API server over runs of many passes: the phase is one the
  operator uses, Ready is claimed by the phase and by the Ready condition together, and only with
  all of at least one replica ready. Readers of the status (and the printer columns of the CRD)
  may look at either.
\<close>

subsection \<open>Truthful statuses\<close>

definition conditionTrue :: "WordPressStatus \<Rightarrow> string \<Rightarrow> bool" where
  "conditionTrue s t \<longleftrightarrow> map_option fst (condView (wst_Conditions s) t) = Some ConditionTrue"

definition truthful :: "WordPressStatus \<Rightarrow> bool" where
  "truthful s \<longleftrightarrow>
     wst_Phase s \<in> {[], PhaseProvisioning, PhaseReady, PhaseFailed}
     \<and> (conditionTrue s ConditionTypeReady \<longleftrightarrow> wst_Phase s = PhaseReady)
     \<and> (wst_Phase s = PhaseReady \<longrightarrow>
          conditionTrue s ConditionTypeDeploymentReady
          \<and> 0 < sint (wst_ReadyReplicas s) \<and> wst_ReadyReplicas s = wst_Replicas s)"

lemma truthful_zero: "truthful zeroStatus"
  by (simp add: truthful_def conditionTrue_def zeroStatus_def condView_def go_consts)

lemma conditionTrue_setCond:
  assumes "condition_laws E"
  shows "conditionTrue (Status (cr (setCond E c st))) t =
    (if t = co_Type c then co_Status c = ConditionTrue else conditionTrue (Status (cr st)) t)"
  by (simp add: conditionTrue_def condView_setCond [OF assms])

lemma conditionTrue_fields [simp]:
  "conditionTrue (s\<lparr>wst_DatabaseHost := h\<rparr>) t = conditionTrue s t"
  "conditionTrue (s\<lparr>wst_Phase := p\<rparr>) t = conditionTrue s t"
  by (simp_all add: conditionTrue_def)

lemma truthful_computeStatus:
  assumes "condition_laws E"
  shows "truthful (Status (cr (computeStatus E dep st)))"
  using assms
  by (auto simp: truthful_def conditionTrue_def computeStatus_phase computeStatus_conditions
      computeStatus_counts deploymentReady_def)

lemma markFailed_status:
  "Status (cr (snd (markFailed E reason msg st))) =
     Status (cr (setCond E (newCondition ConditionTypeReady ConditionFalse reason msg)
       (modStatus (\<lambda>s. s\<lparr>wst_Phase := PhaseFailed\<rparr>) st)))"
proof -
  have "cr (snd (persistStatus E s)) = cr s" for s :: "'a rs"
    by (rule persistStatus_frame [OF prod.collapse [symmetric]])
  then show ?thesis by (simp add: markFailed_def Let_def)
qed

lemma truthful_markFailed:
  assumes "condition_laws E"
  shows "truthful (Status (cr (snd (markFailed E reason msg st))))"
  unfolding markFailed_status truthful_def
  by (simp add: conditionTrue_setCond [OF assms] frame_simps newCondition_def)

lemma truthful_inv:
  assumes E: "condition_laws E"
  shows "statusInv E truthful"
proof -
  have "truthful (Status (cr (setCond E c st)))"
    if "co_Type c = ConditionTypeDatabaseReady \<or> co_Type c = ConditionTypeIngressConfigured"
      "truthful (Status (cr st))" for c st
    using that by (auto simp: truthful_def conditionTrue_setCond [OF E] frame_simps)
  moreover have "truthful (Status (cr (removeCond E ConditionTypeIngressConfigured st)))"
    if "truthful (Status (cr st))" for st
    using that condView_removeCond [OF E, of ConditionTypeIngressConfigured st]
    by (auto simp: truthful_def conditionTrue_def removeCond_def)
  moreover have "truthful (s\<lparr>wst_DatabaseHost := h\<rparr>)" if "truthful s" for s h
    using that by (auto simp: truthful_def)
  ultimately show ?thesis
    using truthful_computeStatus [OF E] truthful_markFailed [OF E] unfolding statusInv_def by blast
qed

subsection \<open>Over runs of passes\<close>

text \<open>
  \<open>V w k\<close>: the statuses of the resource \<open>k\<close> the server has given out or may still give out (a
  read through a cache may return an older one). A read returns one of them, and only a write
  that carries a status adds one.
\<close>

definition carries :: "(WordPressStatus \<Rightarrow> bool) \<Rightarrow> call \<Rightarrow> bool" where
  "carries I c \<longleftrightarrow>
     (case c of
        StatusUpdated ob \<Rightarrow> I (Status ob)
      | Updated (KWordPress ob) \<Rightarrow> I (Status ob)
      | Created (KWordPress ob) \<Rightarrow> I (Status ob)
      | _ \<Rightarrow> True)"

definition statuses_law :: "('w \<Rightarrow> nsname \<Rightarrow> WordPressStatus set) \<Rightarrow> 'w env \<Rightarrow> bool" where
  "statuses_law V E \<longleftrightarrow>
     (\<forall>k w ob w'. Get (wordpresses E) k w = (Inr ob, w') \<longrightarrow> Status ob \<in> V w' k)
     \<and> (\<forall>I. admits (\<lambda>w. \<forall>k. \<forall>s\<in>V w k. I s) (carries I) E)"

lemma permitted_carries:
  assumes "permitted E wp c" and "reports I c"
  shows "carries I c"
proof -
  have "\<not> permitted E wp (Created (KWordPress ob))" for ob by (simp add: permitted_def)
  with assms show ?thesis
    by (cases c) (auto simp: carries_def reports_def split: kobj.splits)
qed

lemma Reconcile_statuses:
  assumes laws: "key_laws E" "owner_law E" "retry_law E" and inv: "statusInv E I"
    and V: "statuses_law V E" and w: "\<forall>k. \<forall>s\<in>V w k. I s"
    and run: "Reconcile E req w = Some (res, w')"
  shows "\<forall>k. \<forall>s\<in>V w' k. I s"
proof -
  let ?P = "\<lambda>w. \<forall>k. \<forall>s\<in>V w k. I s"
  have E: "admits ?P (carries I) E" using V unfolding statuses_law_def by blast
  obtain g w1 where get: "Get (wordpresses E) req w = (g, w1)" by fastforce
  have w1: "?P w1" by (rule keepsD [OF read_keeps(1) [OF E] get w])
  show ?thesis
  proof (cases g)
    case (Inl e)
    with run get w1 show ?thesis by (auto simp: Reconcile_def split: if_splits)
  next
    case (Inr wp)
    then have get': "Get (wordpresses E) req w = (Inr wp, w1)" using get by simp
    then have "Status wp \<in> V w1 req" using V unfolding statuses_law_def by blast
    then have I: "I (Status wp)" using w1 by blast
    have "admits ?P (\<lambda>c. permitted E wp c \<and> reports I c) E"
      by (rule admits_mono [OF E]) (use permitted_carries in blast)
    then show ?thesis by (rule Reconcile_reports [where P = ?P, OF laws inv get' _ w1 I run])
  qed
qed

lemma reaches_statuses:
  assumes run: "reaches E other w0 w"
    and laws: "key_laws E" "owner_law E" "retry_law E" and inv: "statusInv E I"
    and V: "statuses_law V E"
    and others: "\<And>w w' k s. other w w' \<Longrightarrow> s \<in> V w' k \<Longrightarrow> s \<in> V w k \<or> I s"
    and w0: "\<forall>k. \<forall>s\<in>V w0 k. I s"
  shows "\<forall>k. \<forall>s\<in>V w k. I s"
  using run
proof induction
  case start
  show ?case by (rule w0)
next
  case pass
  then show ?case using Reconcile_statuses [OF laws inv V] by blast
next
  case other
  then show ?case using others by blast
qed

text \<open>C4. The status never contradicts itself: over any run of passes, for any resources, with any
  answers of the server and stale reads, interleaved with actors that write no untruthful status, a
  stored phase is empty, Provisioning, Ready or Failed; the Ready condition is true exactly when
  the phase is Ready; and a Ready resource has its Deployment condition true and at least one
  replica, all of them ready.\<close>

theorem status_stays_truthful:
  assumes "key_laws E" "owner_law E" "retry_law E" "condition_laws E" "statuses_law V E"
    and "\<And>w w' k s. other w w' \<Longrightarrow> s \<in> V w' k \<Longrightarrow> s \<in> V w k \<or> truthful s"
    and "\<And>k s. s \<in> V w0 k \<Longrightarrow> truthful s"
    and "reaches E other w0 w" and "s \<in> V w k"
  shows "truthful s"
proof -
  have "\<forall>k. \<forall>s\<in>V w0 k. truthful s" using assms(7) by blast
  then have "\<forall>k. \<forall>s\<in>V w k. truthful s"
    by (rule reaches_statuses [OF assms(8,1-3) truthful_inv [OF assms(4)] assms(5), rotated])
      (rule assms(6))
  with assms(9) show ?thesis by blast
qed

definition demoStatuses :: "cluster \<Rightarrow> nsname \<Rightarrow> WordPressStatus set" where
  "demoStatuses w k = {Status ob | ob. ob \<in> set (c_wordpresses w) \<and> hasKey k ob}"

lemma demoStatuses_all:
  "(\<forall>k. \<forall>s\<in>demoStatuses w k. I s) \<longleftrightarrow> (\<forall>ob\<in>set (c_wordpresses w). I (Status ob))"
  by (fastforce simp: demoStatuses_def hasKey_def)

lemma hasKey_status: "hasKey k (x\<lparr>Status := s\<rparr>) = hasKey k x"
  by (simp add: hasKey_def ObjectKeyFromObject_def)

lemma demo_statuses: "statuses_law demoStatuses demoEnv"
proof -
  have "Status ob \<in> demoStatuses w' k" if "Get (wordpresses demoEnv) k w = (Inr ob, w')" for k w ob w'
    using that by (auto simp: demoStatuses_def demoEnv_def demoBase_def memStore_def find_Some_iff
        split: option.splits)
  moreover have "admits (\<lambda>w. \<forall>k. \<forall>s\<in>demoStatuses w k. I s) (carries I) demoEnv" for I
    unfolding admits_def store_admits_def keeps_def demoStatuses_all
    by (intro conjI allI impI)
      (auto simp: demoEnv_def demoBase_def memStore_def demoStatusUpdate_def logCall_def Let_def
        demoRand_def tick_def carries_def hasKey_status split: if_splits)
  ultimately show ?thesis unfolding statuses_law_def by blast
qed

theorem status_stays_truthful_witness:
  "\<exists>res w'. Reconcile demoEnv (''default'', ''blog'')
       (clusterOf (sampleWP [WordPressFinalizer] internalSpec)) = Some (res, w')
     \<and> (\<forall>ob\<in>set (c_wordpresses w'). truthful (Status ob))"
proof -
  let ?w = "clusterOf (sampleWP [WordPressFinalizer] internalSpec)"
  obtain res w' where run: "Reconcile demoEnv (''default'', ''blog'') ?w = Some (res, w')"
    using Reconcile_total [of demoEnv "(''default'', ''blog'')" ?w] by fastforce
  have reach: "reaches demoEnv (\<lambda>w w'. w' = tick w) ?w w'"
    by (rule reaches.pass [OF reaches.start run])
  have start: "truthful s" if "s \<in> demoStatuses ?w k" for s k
    using that truthful_zero by (auto simp: demoStatuses_def clusterOf_def)
  have "truthful (Status ob)" if "ob \<in> set (c_wordpresses w')" for ob
  proof (rule status_stays_truthful [OF demo_key_laws demo_owner_law demo_retry_law
        demo_condition_laws demo_statuses _ start reach])
    show "s \<in> demoStatuses w k \<or> truthful s" if "w' = tick w" "s \<in> demoStatuses w' k" for w w' k s
      using that by (simp add: demoStatuses_def tick_def)
    show "Status ob \<in> demoStatuses w' (ObjectKeyFromObject ob)"
      using that by (auto simp: demoStatuses_def hasKey_def)
  qed
  with run show ?thesis by blast
qed

end
