(* ===== verification/GoHeap.thy ===== *)
theory GoHeap
  imports Names
begin

section \<open>Pointers, and the contract of a deep copy\<close>

text \<open>
  The rest of the development works on values: a pointer is an option, a slice a list, a map a
  finite map, and a \<^verbatim>\<open>DeepCopy\<close> the value itself. This theory has the memory under the
    values:
  the structs of the API as the code lays them out, with an address for every pointer, slice and
  map, a heap of cells, and what it means to read a value through it. The locale \<open>deep_copy\<close>
  is the contract of a copier; the combinators build copiers from copiers the way the
  generated code does, and keep the contract.
\<close>

type_synonym addr = nat

subsection \<open>The structs in memory\<close>

text \<open>A pointer, a slice or a map is the address of a cell, or nil. Structs of other packages
  (\<^verbatim>\<open>Toleration\<close>, \<^verbatim>\<open>Affinity\<close>, \<^verbatim>\<open>EnvVar\<close>, \<^verbatim>\<open>Condition\<close>,
    \<^verbatim>\<open>ObjectMeta\<close>) are values, and
  so are their own deep copies.\<close>

record pInternalDatabaseSpec =
  pin_Image :: string
  pin_ImagePullPolicy :: string
  pin_StorageSize :: string
  pin_StorageClassName :: "addr option"
  pin_Resources :: raw
  pin_RootPasswordSecret :: "addr option"
  pin_NodeSelector :: "addr option"
  pin_Tolerations :: "addr option"
  pin_Affinity :: "addr option"

record pDatabaseSpec =
  pdb_Mode :: string
  pdb_Name :: string
  pdb_User :: string
  pdb_TablePrefix :: string
  pdb_Internal :: "addr option"
  pdb_External :: "addr option"

record pIngressSpec =
  pig_Enabled :: bool
  pig_IngressClassName :: "addr option"
  pig_Host :: string
  pig_TLSSecretName :: string
  pig_Annotations :: "addr option"

record pServiceSpec =
  psv_Type :: string
  psv_Port :: int32
  psv_NodePort :: int32
  psv_Annotations :: "addr option"

record pPersistenceSpec =
  ppe_Enabled :: bool
  ppe_Size :: string
  ppe_StorageClassName :: "addr option"
  ppe_AccessModes :: "addr option"

record pWordPressSpec =
  psp_Image :: string
  psp_ImagePullPolicy :: string
  psp_ImagePullSecrets :: "addr option"
  psp_Replicas :: "addr option"
  psp_Resources :: raw
  psp_SiteURL :: string
  psp_Env :: "addr option"
  psp_Database :: pDatabaseSpec
  psp_Service :: pServiceSpec
  psp_Ingress :: pIngressSpec
  psp_Persistence :: pPersistenceSpec
  psp_Autoscaling :: AutoscalingSpec
  psp_PodAnnotations :: "addr option"
  psp_PodLabels :: "addr option"
  psp_NodeSelector :: "addr option"
  psp_Tolerations :: "addr option"
  psp_Affinity :: "addr option"
  psp_MaxUnavailable :: "addr option"
  psp_MaxSurge :: "addr option"

record pWordPressStatus =
  pst_ObservedGeneration :: int64
  pst_Phase :: string
  pst_URL :: string
  pst_Replicas :: int32
  pst_ReadyReplicas :: int32
  pst_DatabaseHost :: string
  pst_Conditions :: "addr option"

record pWordPress =
  pwp_Meta :: object
  pwp_Spec :: pWordPressSpec
  pwp_Status :: pWordPressStatus

record pWordPressList =
  pwl_Meta :: raw
  pwl_Items :: "addr option"

subsection \<open>The heap\<close>

datatype cell =
  CZero  \<comment> \<open>the zero value of whatever \<^verbatim>\<open>new\<close> or \<^verbatim>\<open>make\<close> made, until it is
    stored to\<close>
| CString string | CInt32 int32 | CIntOrString IntOrString | CRaw raw
| CMap "(string, string) fmap"
| CStrings "string list" | CRaws "raw list" | CEnvs "EnvVar list" | CConditions "Condition list"
| CItems "pWordPress list"
| CSecretKeyRef SecretKeyRef | CInternal pInternalDatabaseSpec | CExternal ExternalDatabaseSpec
| CDatabase pDatabaseSpec | CIngress pIngressSpec | CService pServiceSpec
| CPersistence pPersistenceSpec | CAutoscaling AutoscalingSpec | CSpec pWordPressSpec
| CStatus pWordPressStatus | CWordPress pWordPress | CList pWordPressList

record heap =
  cells :: "addr \<Rightarrow> cell option"
  limit :: addr

definition wfHeap :: "heap \<Rightarrow> bool" where
  "wfHeap h \<longleftrightarrow> (\<forall>a. cells h a \<noteq> None \<longrightarrow> a < limit h)"

text \<open>\<^verbatim>\<open>new\<close> and \<^verbatim>\<open>make\<close>: a cell at a fresh address; a store through a
  pointer.\<close>

definition alloc :: "cell \<Rightarrow> heap \<Rightarrow> addr \<times> heap" where
  "alloc c h = (limit h, \<lparr>cells = (cells h)(limit h \<mapsto> c), limit = Suc (limit h)\<rparr>)"

definition store :: "addr \<Rightarrow> cell \<Rightarrow> heap \<Rightarrow> heap" where
  "store a c h = h\<lparr>cells := (cells h)(a \<mapsto> c)\<rparr>"

text \<open>The cells below an address are the same, and none was freed.\<close>

definition extends :: "heap \<Rightarrow> heap \<Rightarrow> bool" where
  "extends h h' \<longleftrightarrow> limit h \<le> limit h' \<and> (\<forall>a < limit h. cells h' a = cells h a)"

lemma extends_refl [simp]: "extends h h"
  by (simp add: extends_def)

lemma extends_trans: "extends h1 h2 \<Longrightarrow> extends h2 h3 \<Longrightarrow> extends h1 h3"
  unfolding extends_def by (metis less_le_trans order_trans)

lemma alloc_heap:
  assumes "wfHeap h" and "alloc c h = (a, h')"
  shows "wfHeap h'" "extends h h'" "cells h' a = Some c" "a = limit h" "limit h' = Suc (limit h)"
proof -
  show "wfHeap h'" "extends h h'" "cells h' a = Some c" "a = limit h" "limit h' = Suc (limit h)"
    using assms by (auto simp: alloc_def wfHeap_def extends_def less_Suc_eq)
qed

subsection \<open>The contract\<close>

text \<open>
  \<open>read h p\<close> is the value that \<open>p\<close> stands for (\<open>None\<close> when a pointer dangles), \<open>addrs h p\<close> the
  addresses it is read through. A copier, on something that can be read, ends (it dereferences
  nothing that is not there) with something that reads the same, all of whose addresses are new,
  and leaves every old cell as it was.
\<close>

locale deep_copy =
  fixes copy :: "'p \<Rightarrow> heap \<Rightarrow> ('p \<times> heap) option"
    and read :: "heap \<Rightarrow> 'p \<Rightarrow> 'v option"
    and addrs :: "heap \<Rightarrow> 'p \<Rightarrow> addr set"
  assumes copies: "wfHeap h \<Longrightarrow> read h p = Some v \<Longrightarrow>
      \<exists>q h'. copy p h = Some (q, h') \<and> wfHeap h' \<and> extends h h' \<and> read h' q = Some v
        \<and> addrs h' q \<subseteq> {limit h..<limit h'}"
    and local_read: "(\<forall>a \<in> addrs h p. cells h' a = cells h a) \<Longrightarrow>
      read h' p = read h p \<and> addrs h' p = addrs h p"
    and bounded: "wfHeap h \<Longrightarrow> read h p = Some v \<Longrightarrow> a \<in> addrs h p \<Longrightarrow> a < limit h"
begin

lemma stable:
  assumes "wfHeap h" and "read h p = Some v" and "extends h h'"
  shows "read h' p = Some v" "addrs h' p = addrs h p"
proof -
  have "cells h' a = cells h a" if "a \<in> addrs h p" for a
    using that bounded [OF assms(1,2)] assms(3) by (auto simp: extends_def)
  then show "read h' p = Some v" "addrs h' p = addrs h p"
    using local_read [of h p h'] assms(2) by auto
qed

text \<open>The copy and the original share nothing: whatever is stored to old cells, the copy reads the
  same, and whatever is stored to new ones, the original does.\<close>

lemma copy_isolated:
  assumes wf: "wfHeap h" and read: "read h p = Some v" and run: "copy p h = Some (q, h')"
  shows "read h' q = Some v" and "read h' p = Some v"
    and "(\<And>a. limit h \<le> a \<Longrightarrow> cells g a = cells h' a) \<Longrightarrow> read g q = Some v"
    and "(\<And>a. a < limit h \<Longrightarrow> cells g a = cells h' a) \<Longrightarrow> read g p = Some v"
proof -
  from copies [OF wf read] run have ext: "extends h h'" and q: "read h' q = Some v"
    and new: "addrs h' q \<subseteq> {limit h..<limit h'}" by auto
  show "read h' q = Some v" by (rule q)
  show "read h' p = Some v" by (rule stable [OF wf read ext])
  show "read g q = Some v" if "\<And>a. limit h \<le> a \<Longrightarrow> cells g a = cells h' a"
  proof -
    have "\<forall>a \<in> addrs h' q. cells g a = cells h' a" using that new by auto
    from local_read [OF this] q show ?thesis by simp
  qed
  show "read g p = Some v" if "\<And>a. a < limit h \<Longrightarrow> cells g a = cells h' a"
  proof -
    have "cells g a = cells h a" if "a \<in> addrs h p" for a
    proof -
      have "a < limit h" using that by (rule bounded [OF wf read])
      then show ?thesis using \<open>\<And>a. a < limit h \<Longrightarrow> cells g a = cells h' a\<close> ext
        by (simp add: extends_def)
    qed
    then show ?thesis using local_read [of h p g] read by auto
  qed
qed

end

subsection \<open>Copiers from copiers\<close>

text \<open>Normal form of a chain of copies: binds to the right, no \<open>map_option\<close>, no nested
  case expressions.\<close>

lemma chain_simps:
  fixes x :: "'a option"
  shows "map_option f x = Option.bind x (\<lambda>v. Some (f v))"
    and "Some (case z of (a, b) \<Rightarrow> g a b) = (case z of (a, b) \<Rightarrow> Some (g a b))"
    and "Option.bind (case z of (a, b) \<Rightarrow> B a b) G = (case z of (a, b) \<Rightarrow> Option.bind (B a b) G)"
    and "Option.bind (Option.bind x F) G = Option.bind x (\<lambda>v. Option.bind (F v) G)"
  by (cases x; cases z; simp)+

text \<open>A copier seen through the part of a struct it copies.\<close>

lemma deep_copy_via:
  assumes base: "deep_copy c r a"
    and copy: "\<And>p h. copy p h = map_option (\<lambda>(t, h'). (put p t, h')) (c (get p) h)"
    and read: "\<And>h p. read h p = map_option (build p) (r h (get p))"
    and addrs: "\<And>h p. addrs h p = a h (get p)"
    and get: "\<And>p t. get (put p t) = t"
    and build: "\<And>p t v. build (put p t) v = build p v"
  shows "deep_copy copy read addrs"
proof (unfold_locales, goal_cases)
    case (1 h p v)
    then obtain u where u: "r h (get p) = Some u" "v = build p u" by (auto simp: read)
    from deep_copy.copies [OF base 1(1) u(1)] u(2) show ?case
      by (auto simp: copy read addrs get build)
  next
    case (2 h p h')
    then show ?case using deep_copy.local_read [OF base, of h "get p" h'] by (simp add: read addrs)
next
  case (3 h p v a)
  then show ?case using deep_copy.bounded [OF base 3(1)] by (auto simp: read addrs)
qed

text \<open>Two parts, one after the other.\<close>

definition copyPair ::
    "('p \<Rightarrow> heap \<Rightarrow> ('p \<times> heap) option) \<Rightarrow> ('q \<Rightarrow> heap \<Rightarrow> ('q \<times> heap) option)
     \<Rightarrow> 'p \<times> 'q \<Rightarrow> heap \<Rightarrow> (('p \<times> 'q) \<times> heap) option" where
  "copyPair c1 c2 pq h = do {
     (p, h) \<leftarrow> c1 (fst pq) h;
     (q, h) \<leftarrow> c2 (snd pq) h;
     Some ((p, q), h)
   }"

definition readPair :: "(heap \<Rightarrow> 'p \<Rightarrow> 'v option) \<Rightarrow> (heap \<Rightarrow> 'q \<Rightarrow> 'w option)
    \<Rightarrow> heap \<Rightarrow> 'p \<times> 'q \<Rightarrow> ('v \<times> 'w) option" where
  "readPair r1 r2 h pq = do { v \<leftarrow> r1 h (fst pq); w \<leftarrow> r2 h (snd pq); Some (v, w) }"

definition addrsPair :: "(heap \<Rightarrow> 'p \<Rightarrow> addr set) \<Rightarrow> (heap \<Rightarrow> 'q \<Rightarrow> addr set)
    \<Rightarrow> heap \<Rightarrow> 'p \<times> 'q \<Rightarrow> addr set" where
  "addrsPair a1 a2 h pq = a1 h (fst pq) \<union> a2 h (snd pq)"

lemma deep_copy_pair:
  assumes one: "deep_copy c1 r1 a1" and two: "deep_copy c2 r2 a2"
  shows "deep_copy (copyPair c1 c2) (readPair r1 r2) (addrsPair a1 a2)"
proof (unfold_locales, goal_cases)
  case (1 h pq v)
  then obtain v1 v2 where v: "r1 h (fst pq) = Some v1" "r2 h (snd pq) = Some v2" "v = (v1, v2)"
    by (auto simp: readPair_def split: bind_splits)
  obtain p h1 where p: "c1 (fst pq) h = Some (p, h1)" "wfHeap h1" "extends h h1" "r1 h1 p = Some v1"
    "a1 h1 p \<subseteq> {limit h..<limit h1}"
    using deep_copy.copies [OF one 1(1) v(1)] by blast
  have "r2 h1 (snd pq) = Some v2" by (rule deep_copy.stable [OF two 1(1) v(2) p(3)])
  from deep_copy.copies [OF two p(2) this] obtain q h2 where
    q: "c2 (snd pq) h1 = Some (q, h2)" "wfHeap h2" "extends h1 h2" "r2 h2 q = Some v2"
      "a2 h2 q \<subseteq> {limit h1..<limit h2}" by blast
  have "r1 h2 p = Some v1" "a1 h2 p = a1 h1 p"
    by (rule deep_copy.stable [OF one p(2,4) q(3)])+
  moreover have "a1 h1 p \<union> a2 h2 q \<subseteq> {limit h..<limit h2}"
  proof -
    have "limit h \<le> limit h1" "limit h1 \<le> limit h2" using p(3) q(3) by (auto simp: extends_def)
    with p(5) q(5) show ?thesis by fastforce
  qed
  ultimately show ?case
    using p q v(3) extends_trans [OF p(3) q(3)]
    by (simp add: copyPair_def readPair_def addrsPair_def)
next
  case (2 h pq h')
  then have "\<forall>a \<in> a1 h (fst pq). cells h' a = cells h a" "\<forall>a \<in> a2 h (snd pq). cells h' a = cells h
    a"
    by (auto simp: addrsPair_def)
  with deep_copy.local_read [OF one this(1)] deep_copy.local_read [OF two this(2)]
  show ?case by (simp add: readPair_def addrsPair_def)
next
  case (3 h pq v a)
  then obtain v1 v2 where "r1 h (fst pq) = Some v1" "r2 h (snd pq) = Some v2"
    by (auto simp: readPair_def split: bind_splits)
  with deep_copy.bounded [OF one 3(1)] deep_copy.bounded [OF two 3(1)] 3(3) show ?case
    by (auto simp: addrsPair_def)
qed

text \<open>
  \<^verbatim>\<open>if in.F != nil { *out = new(T); **out = **in }\<close>, and a slice of plain values with
  \<^verbatim>\<open>make\<close> and \<^verbatim>\<open>copy\<close>: \<open>mk\<close> and \<open>un\<close> are the cell that holds a \<open>T\<close> and what it
    holds.
\<close>

definition copyPtr ::
    "('v \<Rightarrow> cell) \<Rightarrow> (cell \<Rightarrow> 'v option) \<Rightarrow> addr option \<Rightarrow> heap \<Rightarrow> (addr option \<times> heap) option" where
  "copyPtr mk un p h =
     (case p of
        None \<Rightarrow> Some (None, h)
      | Some a \<Rightarrow> do {
          c \<leftarrow> cells h a;
          v \<leftarrow> un c;
          let (b, h') = alloc (mk v) h;
          Some (Some b, h')
        })"

definition readPtr :: "(cell \<Rightarrow> 'v option) \<Rightarrow> heap \<Rightarrow> addr option \<Rightarrow> 'v option option" where
  "readPtr un h p =
     (case p of None \<Rightarrow> Some None | Some a \<Rightarrow> do { c \<leftarrow> cells h a; v \<leftarrow> un c; Some (Some v) })"

definition addrsPtr :: "heap \<Rightarrow> addr option \<Rightarrow> addr set" where
  "addrsPtr h p = set_option p"

lemma deep_copy_ptr:
  assumes mk: "\<And>v. un (mk v) = Some v"
  shows "deep_copy (copyPtr mk un) (readPtr un) addrsPtr"
proof (unfold_locales, goal_cases)
  case (1 h p v)
  show ?case
  proof (cases p)
    case None
    with 1 show ?thesis by (simp add: copyPtr_def readPtr_def addrsPtr_def)
  next
    case (Some a)
    with 1(2) obtain c u where c: "cells h a = Some c" "un c = Some u" "v = Some u"
      by (auto simp: readPtr_def Option.bind_eq_Some_conv)
    obtain b h' where al: "alloc (mk u) h = (b, h')" by fastforce
    from alloc_heap [OF 1(1) al] Some c al mk show ?thesis
      by (simp add: copyPtr_def readPtr_def addrsPtr_def)
  qed
next
  case (2 h p h')
  then show ?case by (cases p) (simp_all add: readPtr_def addrsPtr_def)
next
  case (3 h p v a)
  then show ?case
    by (cases p) (auto simp: readPtr_def addrsPtr_def wfHeap_def split: bind_splits)
qed

text \<open>A map: \<^verbatim>\<open>make\<close>, then one insertion for every entry the range visits.\<close>

definition asMap :: "cell \<Rightarrow> (string, string) fmap option" where
  "asMap c = (case c of CMap m \<Rightarrow> Some m | _ \<Rightarrow> None)"

definition copyMap :: "addr option \<Rightarrow> heap \<Rightarrow> (addr option \<times> heap) option" where
  "copyMap = copyPtr (\<lambda>m. CMap (rangeInsert fmempty (Some m))) asMap"

lemma deep_copy_map: "deep_copy copyMap (readPtr asMap) addrsPtr"
  unfolding copyMap_def by (rule deep_copy_ptr) (simp add: asMap_def rangeInsert_def)

text \<open>
  A pointer to a struct with a copier of its own, also \<^verbatim>\<open>DeepCopy\<close> itself:
    \<^verbatim>\<open>out := new(T)\<close>,
  \<^verbatim>\<open>in.DeepCopyInto(out)\<close>.
\<close>

definition copyStruct ::
    "('p \<Rightarrow> cell) \<Rightarrow> (cell \<Rightarrow> 'p option) \<Rightarrow> ('p \<Rightarrow> heap \<Rightarrow> ('p \<times> heap) option)
     \<Rightarrow> addr option \<Rightarrow> heap \<Rightarrow> (addr option \<times> heap) option" where
  "copyStruct mk un into p h =
     (case p of
        None \<Rightarrow> Some (None, h)
      | Some a \<Rightarrow> do {
          c \<leftarrow> cells h a;
          s \<leftarrow> un c;
          let (b, h) = alloc CZero h;
          (t, h) \<leftarrow> into s h;
          Some (Some b, store b (mk t) h)
        })"

definition readStruct ::
    "(cell \<Rightarrow> 'p option) \<Rightarrow> (heap \<Rightarrow> 'p \<Rightarrow> 'v option) \<Rightarrow> heap \<Rightarrow> addr option \<Rightarrow> 'v option option" where
  "readStruct un r h p =
     (case p of
        None \<Rightarrow> Some None
      | Some a \<Rightarrow> do { c \<leftarrow> cells h a; s \<leftarrow> un c; v \<leftarrow> r h s; Some (Some v) })"

definition addrsStruct ::
    "(cell \<Rightarrow> 'p option) \<Rightarrow> (heap \<Rightarrow> 'p \<Rightarrow> addr set) \<Rightarrow> heap \<Rightarrow> addr option \<Rightarrow> addr set" where
  "addrsStruct un ad h p =
     (case p of
        None \<Rightarrow> {}
      | Some a \<Rightarrow> insert a (case cells h a of None \<Rightarrow> {} | Some c \<Rightarrow>
          (case un c of None \<Rightarrow> {} | Some s \<Rightarrow> ad h s)))"

lemma deep_copy_struct:
  assumes base: "deep_copy into r ad" and mk: "\<And>v. un (mk v) = Some v"
  shows "deep_copy (copyStruct mk un into) (readStruct un r) (addrsStruct un ad)"
proof (unfold_locales, goal_cases)
  case (1 h p v)
  show ?case
  proof (cases p)
    case None
    with 1 show ?thesis by (simp add: copyStruct_def readStruct_def addrsStruct_def)
  next
    case (Some a)
    with 1(2) obtain c s u where c: "cells h a = Some c" "un c = Some s" "r h s = Some u" "v = Some
      u"
      by (auto simp: readStruct_def Option.bind_eq_Some_conv)
    obtain b h1 where al: "alloc CZero h = (b, h1)" by fastforce
    note h1 = alloc_heap [OF 1(1) al]
    have "r h1 s = Some u" by (rule deep_copy.stable [OF base 1(1) c(3) h1(2)])
    from deep_copy.copies [OF base h1(1) this] obtain t h2 where
      t: "into s h1 = Some (t, h2)" "wfHeap h2" "extends h1 h2" "r h2 t = Some u"
        "ad h2 t \<subseteq> {limit h1..<limit h2}" by blast
    let ?h = "store b (mk t) h2"
    have "\<forall>x \<in> ad h2 t. cells ?h x = cells h2 x"
      using t(5) h1(4,5) by (auto simp: store_def)
    from deep_copy.local_read [OF base this] t(4)
    have same: "r ?h t = Some u" "ad ?h t = ad h2 t" by auto
    have b: "b < limit h2" "limit h \<le> b" using t(3) h1(4,5) by (auto simp: extends_def)
    have wf: "wfHeap ?h" using t(2) b by (auto simp: wfHeap_def store_def)
    have ext: "extends h ?h"
      using extends_trans [OF h1(2) t(3)] b by (auto simp: extends_def store_def)
    have new: "insert b (ad ?h t) \<subseteq> {limit h..<limit ?h}"
      using t(5) b same h1(5) by (auto simp: store_def)
    have cell: "cells ?h b = Some (mk t)" by (simp add: store_def)
    show ?thesis
      using Some c al t(1) wf ext new cell mk same
      by (simp add: copyStruct_def readStruct_def addrsStruct_def)
  qed
next
  case (2 h p h')
  show ?case
  proof (cases p)
    case None
    then show ?thesis by (simp add: readStruct_def addrsStruct_def)
  next
    case (Some a)
    with 2 have a: "cells h' a = cells h a" by (simp add: addrsStruct_def)
    show ?thesis
    proof (cases "cells h a \<bind> un")
      case None
      with Some a show ?thesis
        by (auto simp: readStruct_def addrsStruct_def split: bind_splits)
    next
      case s: (Some s)
      with 2 Some have "\<forall>x \<in> ad h s. cells h' x = cells h x"
        by (auto simp: addrsStruct_def split: bind_splits)
      from deep_copy.local_read [OF base this] Some a s show ?thesis
        by (auto simp: readStruct_def addrsStruct_def split: bind_splits)
    qed
  qed
next
  case (3 h p v a)
  show ?case
  proof (cases p)
    case None
    with 3(3) show ?thesis by (simp add: addrsStruct_def)
  next
    case (Some b)
    with 3(2) obtain c s u where c: "cells h b = Some c" "un c = Some s" "r h s = Some u"
      by (auto simp: readStruct_def Option.bind_eq_Some_conv)
    have "b < limit h" using 3(1) c(1) by (auto simp: wfHeap_def)
    then show ?thesis
      using 3(3) Some c deep_copy.bounded [OF base 3(1) c(3)] by (auto simp: addrsStruct_def)
  qed
qed

text \<open>The elements of a slice, one by one.\<close>

fun copyAll :: "('p \<Rightarrow> heap \<Rightarrow> ('p \<times> heap) option) \<Rightarrow> 'p list \<Rightarrow> heap \<Rightarrow> ('p list \<times> heap) option" where
  "copyAll into [] h = Some ([], h)"
| "copyAll into (s # ss) h = do {
     (t, h) \<leftarrow> into s h;
     (ts, h) \<leftarrow> copyAll into ss h;
     Some (t # ts, h)
   }"

fun readAll :: "(heap \<Rightarrow> 'p \<Rightarrow> 'v option) \<Rightarrow> heap \<Rightarrow> 'p list \<Rightarrow> 'v list option" where
  "readAll r h [] = Some []"
| "readAll r h (s # ss) = do { v \<leftarrow> r h s; vs \<leftarrow> readAll r h ss; Some (v # vs) }"

definition addrsAll :: "(heap \<Rightarrow> 'p \<Rightarrow> addr set) \<Rightarrow> heap \<Rightarrow> 'p list \<Rightarrow> addr set" where
  "addrsAll ad h ss = (\<Union>s \<in> set ss. ad h s)"

lemma deep_copy_all:
  assumes base: "deep_copy into r ad"
  shows "deep_copy (copyAll into) (readAll r) (addrsAll ad)"
proof (unfold_locales, goal_cases)
  case (1 h ss v)
  then show ?case
  proof (induction ss arbitrary: h v)
    case Nil
    then show ?case by (simp add: addrsAll_def)
  next
    case (Cons s ss)
    then obtain u us where v: "r h s = Some u" "readAll r h ss = Some us" "v = u # us"
      by (auto split: bind_splits)
    obtain t h1 where t: "into s h = Some (t, h1)" "wfHeap h1" "extends h h1" "r h1 t = Some u"
      "ad h1 t \<subseteq> {limit h..<limit h1}"
      using deep_copy.copies [OF base Cons.prems(1) v(1)] by blast
    have "readAll r h1 ss = Some us"
      using v(2) by (induction ss arbitrary: us)
        (auto split: bind_splits dest: deep_copy.stable(1) [OF base Cons.prems(1) _ t(3)])
    from Cons.IH [OF t(2) this] obtain ts h2 where
      ts: "copyAll into ss h1 = Some (ts, h2)" "wfHeap h2" "extends h1 h2" "readAll r h2 ts = Some
        us"
        "addrsAll ad h2 ts \<subseteq> {limit h1..<limit h2}" by blast
    have "r h2 t = Some u" "ad h2 t = ad h1 t"
      by (rule deep_copy.stable [OF base t(2,4) ts(3)])+
    moreover have "ad h1 t \<union> addrsAll ad h2 ts \<subseteq> {limit h..<limit h2}"
    proof -
      have "limit h \<le> limit h1" "limit h1 \<le> limit h2" using t(3) ts(3) by (auto simp: extends_def)
      with t(5) ts(5) show ?thesis by fastforce
    qed
    ultimately show ?case
      using t ts v(3) extends_trans [OF t(3) ts(3)] by (simp add: addrsAll_def)
  qed
next
  case (2 h ss h')
  then show ?case
  proof (induction ss)
    case (Cons s ss)
    then have "\<forall>a \<in> ad h s. cells h' a = cells h a" by (simp add: addrsAll_def)
    with Cons deep_copy.local_read [OF base this] show ?case by (simp add: addrsAll_def)
  qed (simp add: addrsAll_def)
next
  case (3 h ss v a)
  then show ?case
    by (induction ss arbitrary: v)
      (auto simp: addrsAll_def split: bind_splits dest: deep_copy.bounded [OF base 3(1)])
qed

end
