(* ===== verification/DeepCopy.thy ===== *)
theory DeepCopy
  imports GoHeap
begin

section \<open>Deep copies (api/v1alpha1/zz\_generated.deepcopy.go)\<close>

text \<open>
  \<^verbatim>\<open>DeepCopyInto\<close> and \<^verbatim>\<open>DeepCopy\<close> of every type of the API package, on the
  structs and the heap of \<open>GoHeap\<close>, statement by statement: \<open>out\<close> starts as the shallow copy
  \<^verbatim>\<open>*out = *in\<close>, and each block for a pointer, a slice or a map replaces the shared
  address by that of a copy. Every copier is an interpretation of the contract \<open>deep_copy\<close>: its
  copy reads as the same value of \<open>WordPressTypes\<close>, through new addresses only. This is what the
  other theories use when they take a deep copy to be the value itself.
\<close>

subsection \<open>What a cell holds\<close>

definition asString :: "cell \<Rightarrow> string option" where
  "asString c = (case c of CString x \<Rightarrow> Some x | _ \<Rightarrow> None)"

definition asInt32 :: "cell \<Rightarrow> int32 option" where
  "asInt32 c = (case c of CInt32 x \<Rightarrow> Some x | _ \<Rightarrow> None)"

definition asIntOrString :: "cell \<Rightarrow> IntOrString option" where
  "asIntOrString c = (case c of CIntOrString x \<Rightarrow> Some x | _ \<Rightarrow> None)"

definition asRaw :: "cell \<Rightarrow> raw option" where
  "asRaw c = (case c of CRaw x \<Rightarrow> Some x | _ \<Rightarrow> None)"

definition asStrings :: "cell \<Rightarrow> (string list) option" where
  "asStrings c = (case c of CStrings x \<Rightarrow> Some x | _ \<Rightarrow> None)"

definition asRaws :: "cell \<Rightarrow> (raw list) option" where
  "asRaws c = (case c of CRaws x \<Rightarrow> Some x | _ \<Rightarrow> None)"

definition asEnvs :: "cell \<Rightarrow> (EnvVar list) option" where
  "asEnvs c = (case c of CEnvs x \<Rightarrow> Some x | _ \<Rightarrow> None)"

definition asConditions :: "cell \<Rightarrow> (Condition list) option" where
  "asConditions c = (case c of CConditions x \<Rightarrow> Some x | _ \<Rightarrow> None)"

definition asItems :: "cell \<Rightarrow> (pWordPress list) option" where
  "asItems c = (case c of CItems x \<Rightarrow> Some x | _ \<Rightarrow> None)"

definition asSecretKeyRef :: "cell \<Rightarrow> SecretKeyRef option" where
  "asSecretKeyRef c = (case c of CSecretKeyRef x \<Rightarrow> Some x | _ \<Rightarrow> None)"

definition asInternal :: "cell \<Rightarrow> pInternalDatabaseSpec option" where
  "asInternal c = (case c of CInternal x \<Rightarrow> Some x | _ \<Rightarrow> None)"

definition asExternal :: "cell \<Rightarrow> ExternalDatabaseSpec option" where
  "asExternal c = (case c of CExternal x \<Rightarrow> Some x | _ \<Rightarrow> None)"

definition asDatabase :: "cell \<Rightarrow> pDatabaseSpec option" where
  "asDatabase c = (case c of CDatabase x \<Rightarrow> Some x | _ \<Rightarrow> None)"

definition asIngress :: "cell \<Rightarrow> pIngressSpec option" where
  "asIngress c = (case c of CIngress x \<Rightarrow> Some x | _ \<Rightarrow> None)"

definition asService :: "cell \<Rightarrow> pServiceSpec option" where
  "asService c = (case c of CService x \<Rightarrow> Some x | _ \<Rightarrow> None)"

definition asPersistence :: "cell \<Rightarrow> pPersistenceSpec option" where
  "asPersistence c = (case c of CPersistence x \<Rightarrow> Some x | _ \<Rightarrow> None)"

definition asAutoscaling :: "cell \<Rightarrow> AutoscalingSpec option" where
  "asAutoscaling c = (case c of CAutoscaling x \<Rightarrow> Some x | _ \<Rightarrow> None)"

definition asSpec :: "cell \<Rightarrow> pWordPressSpec option" where
  "asSpec c = (case c of CSpec x \<Rightarrow> Some x | _ \<Rightarrow> None)"

definition asStatus :: "cell \<Rightarrow> pWordPressStatus option" where
  "asStatus c = (case c of CStatus x \<Rightarrow> Some x | _ \<Rightarrow> None)"

definition asWordPress :: "cell \<Rightarrow> pWordPress option" where
  "asWordPress c = (case c of CWordPress x \<Rightarrow> Some x | _ \<Rightarrow> None)"

definition asList :: "cell \<Rightarrow> pWordPressList option" where
  "asList c = (case c of CList x \<Rightarrow> Some x | _ \<Rightarrow> None)"

lemma as_simps [simp]:
  "asString (CString x0) = Some x0"
  "asInt32 (CInt32 x1) = Some x1"
  "asIntOrString (CIntOrString x2) = Some x2"
  "asRaw (CRaw x3) = Some x3"
  "asStrings (CStrings x4) = Some x4"
  "asRaws (CRaws x5) = Some x5"
  "asEnvs (CEnvs x6) = Some x6"
  "asConditions (CConditions x7) = Some x7"
  "asItems (CItems x8) = Some x8"
  "asSecretKeyRef (CSecretKeyRef x9) = Some x9"
  "asInternal (CInternal x10) = Some x10"
  "asExternal (CExternal x11) = Some x11"
  "asDatabase (CDatabase x12) = Some x12"
  "asIngress (CIngress x13) = Some x13"
  "asService (CService x14) = Some x14"
  "asPersistence (CPersistence x15) = Some x15"
  "asAutoscaling (CAutoscaling x16) = Some x16"
  "asSpec (CSpec x17) = Some x17"
  "asStatus (CStatus x18) = Some x18"
  "asWordPress (CWordPress x19) = Some x19"
  "asList (CList x20) = Some x20"
  by (simp_all add: asString_def asInt32_def asIntOrString_def asRaw_def asStrings_def asRaws_def
    asEnvs_def asConditions_def asItems_def asSecretKeyRef_def asInternal_def asExternal_def
    asDatabase_def asIngress_def asService_def asPersistence_def asAutoscaling_def asSpec_def
    asStatus_def asWordPress_def asList_def)

subsection \<open>Structs without pointers\<close>

text \<open>\<^verbatim>\<open>*out = *in\<close> is all there is to copy.\<close>

definition readPlain :: "heap \<Rightarrow> 'p \<Rightarrow> 'p option" where
  "readPlain h p = Some p"

definition addrsPlain :: "heap \<Rightarrow> 'p \<Rightarrow> addr set" where
  "addrsPlain h p = {}"

definition SecretKeyRef_DeepCopyInto :: "SecretKeyRef \<Rightarrow> heap \<Rightarrow> (SecretKeyRef \<times> heap) option" where
  "SecretKeyRef_DeepCopyInto inp h = (let out = inp in Some (out, h))"

definition ExternalDatabaseSpec_DeepCopyInto ::
    "ExternalDatabaseSpec \<Rightarrow> heap \<Rightarrow> (ExternalDatabaseSpec \<times> heap) option" where
  "ExternalDatabaseSpec_DeepCopyInto inp h =
     (let out = inp in Some (out\<lparr>ext_PasswordSecret := ext_PasswordSecret inp\<rparr>, h))"

definition AutoscalingSpec_DeepCopyInto ::
    "AutoscalingSpec \<Rightarrow> heap \<Rightarrow> (AutoscalingSpec \<times> heap) option" where
  "AutoscalingSpec_DeepCopyInto inp h = (let out = inp in Some (out, h))"

interpretation secretKeyRefC: deep_copy SecretKeyRef_DeepCopyInto readPlain addrsPlain
  by unfold_locales (simp_all add: SecretKeyRef_DeepCopyInto_def readPlain_def addrsPlain_def)

interpretation externalC: deep_copy ExternalDatabaseSpec_DeepCopyInto readPlain addrsPlain
  by unfold_locales (simp_all add: ExternalDatabaseSpec_DeepCopyInto_def readPlain_def
    addrsPlain_def)

interpretation autoscalingC: deep_copy AutoscalingSpec_DeepCopyInto readPlain addrsPlain
  by unfold_locales (simp_all add: AutoscalingSpec_DeepCopyInto_def readPlain_def addrsPlain_def)

subsection \<open>Structs with pointers\<close>

lemmas copy_defs = copyPair_def readPair_def addrsPair_def Let_def chain_simps

text \<open>The pointers and slices of plain values that occur.\<close>

lemma ptr_copies:
  "deep_copy (copyPtr CString asString) (readPtr asString) addrsPtr"
  "deep_copy (copyPtr CInt32 asInt32) (readPtr asInt32) addrsPtr"
  "deep_copy (copyPtr CIntOrString asIntOrString) (readPtr asIntOrString) addrsPtr"
  "deep_copy (copyPtr CRaw asRaw) (readPtr asRaw) addrsPtr"
  "deep_copy (copyPtr CStrings asStrings) (readPtr asStrings) addrsPtr"
  "deep_copy (copyPtr CRaws asRaws) (readPtr asRaws) addrsPtr"
  "deep_copy (copyPtr CEnvs asEnvs) (readPtr asEnvs) addrsPtr"
  "deep_copy (copyPtr CConditions asConditions) (readPtr asConditions) addrsPtr"
  "deep_copy (copyPtr CSecretKeyRef asSecretKeyRef) (readPtr asSecretKeyRef) addrsPtr"
  "deep_copy (copyPtr CExternal asExternal) (readPtr asExternal) addrsPtr"
  by (simp_all add: deep_copy_ptr)

definition IngressSpec_DeepCopyInto ::
    "pIngressSpec \<Rightarrow> heap \<Rightarrow> (pIngressSpec \<times> heap) option" where
  "IngressSpec_DeepCopyInto inp h = do {
     let out = inp;
     (p, h) \<leftarrow> copyPtr CString asString (pig_IngressClassName inp) h;
     let out = out\<lparr>pig_IngressClassName := p\<rparr>;
     (p, h) \<leftarrow> copyMap (pig_Annotations inp) h;
     let out = out\<lparr>pig_Annotations := p\<rparr>;
     Some (out, h)
   }"

definition readIngressSpec :: "heap \<Rightarrow> pIngressSpec \<Rightarrow> IngressSpec option" where
  "readIngressSpec h p = do {
     cls \<leftarrow> readPtr asString h (pig_IngressClassName p);
     anns \<leftarrow> readPtr asMap h (pig_Annotations p);
     Some 
       \<lparr>igs_Enabled = pig_Enabled p,
        igs_IngressClassName = cls,
        igs_Host = pig_Host p,
        igs_TLSSecretName = pig_TLSSecretName p,
        igs_Annotations = anns\<rparr>
   }"

definition addrsIngressSpec :: "heap \<Rightarrow> pIngressSpec \<Rightarrow> addr set" where
  "addrsIngressSpec h p =
     addrsPtr h (pig_IngressClassName p)
     \<union> (addrsPtr h (pig_Annotations p))"

interpretation ingressCopy: deep_copy IngressSpec_DeepCopyInto readIngressSpec addrsIngressSpec
  by (rule deep_copy_via [where get = "\<lambda>p. (pig_IngressClassName p, pig_Annotations p)"
      and put = "\<lambda>p (t0, t1). p\<lparr>pig_IngressClassName := t0, pig_Annotations := t1\<rparr>"
      and build = "\<lambda>p (cls, anns). 
       \<lparr>igs_Enabled = pig_Enabled p,
        igs_IngressClassName = cls,
        igs_Host = pig_Host p,
        igs_TLSSecretName = pig_TLSSecretName p,
        igs_Annotations = anns\<rparr>",
      OF deep_copy_pair [OF ptr_copies(1) deep_copy_map]])
    (auto simp: IngressSpec_DeepCopyInto_def readIngressSpec_def addrsIngressSpec_def copy_defs)

definition InternalDatabaseSpec_DeepCopyInto ::
    "pInternalDatabaseSpec \<Rightarrow> heap \<Rightarrow> (pInternalDatabaseSpec \<times> heap) option" where
  "InternalDatabaseSpec_DeepCopyInto inp h = do {
     let out = inp;
     (p, h) \<leftarrow> copyPtr CString asString (pin_StorageClassName inp) h;
     let out = out\<lparr>pin_StorageClassName := p\<rparr>;
     let out = out\<lparr>pin_Resources := pin_Resources inp\<rparr>;
     (p, h) \<leftarrow> copyPtr CSecretKeyRef asSecretKeyRef (pin_RootPasswordSecret inp) h;
     let out = out\<lparr>pin_RootPasswordSecret := p\<rparr>;
     (p, h) \<leftarrow> copyMap (pin_NodeSelector inp) h;
     let out = out\<lparr>pin_NodeSelector := p\<rparr>;
     (p, h) \<leftarrow> copyPtr CRaws asRaws (pin_Tolerations inp) h;
     let out = out\<lparr>pin_Tolerations := p\<rparr>;
     (p, h) \<leftarrow> copyPtr CRaw asRaw (pin_Affinity inp) h;
     let out = out\<lparr>pin_Affinity := p\<rparr>;
     Some (out, h)
   }"

definition readInternalDatabaseSpec :: "heap \<Rightarrow> pInternalDatabaseSpec \<Rightarrow> InternalDatabaseSpec option"
  where
  "readInternalDatabaseSpec h p = do {
     cls \<leftarrow> readPtr asString h (pin_StorageClassName p);
     root \<leftarrow> readPtr asSecretKeyRef h (pin_RootPasswordSecret p);
     nodes \<leftarrow> readPtr asMap h (pin_NodeSelector p);
     tols \<leftarrow> readPtr asRaws h (pin_Tolerations p);
     aff \<leftarrow> readPtr asRaw h (pin_Affinity p);
     Some 
       \<lparr>int_Image = pin_Image p,
        int_ImagePullPolicy = pin_ImagePullPolicy p,
        int_StorageSize = pin_StorageSize p,
        int_StorageClassName = cls,
        int_Resources = pin_Resources p,
        int_RootPasswordSecret = root,
        int_NodeSelector = nodes,
        int_Tolerations = tols,
        int_Affinity = aff\<rparr>
   }"

definition addrsInternalDatabaseSpec :: "heap \<Rightarrow> pInternalDatabaseSpec \<Rightarrow> addr set" where
  "addrsInternalDatabaseSpec h p =
     addrsPtr h (pin_StorageClassName p)
     \<union> (addrsPtr h (pin_RootPasswordSecret p)
     \<union> (addrsPtr h (pin_NodeSelector p)
     \<union> (addrsPtr h (pin_Tolerations p)
     \<union> (addrsPtr h (pin_Affinity p)))))"

interpretation internalCopy: deep_copy InternalDatabaseSpec_DeepCopyInto readInternalDatabaseSpec
  addrsInternalDatabaseSpec
  by (rule deep_copy_via [where get = "\<lambda>p. (pin_StorageClassName p, pin_RootPasswordSecret p,
    pin_NodeSelector p, pin_Tolerations p, pin_Affinity p)"
      and put = "\<lambda>p (t0, t1, t2, t3, t4). p\<lparr>pin_StorageClassName := t0, pin_RootPasswordSecret :=
        t1, pin_NodeSelector := t2, pin_Tolerations := t3, pin_Affinity := t4\<rparr>"
      and build = "\<lambda>p (cls, root, nodes, tols, aff). 
       \<lparr>int_Image = pin_Image p,
        int_ImagePullPolicy = pin_ImagePullPolicy p,
        int_StorageSize = pin_StorageSize p,
        int_StorageClassName = cls,
        int_Resources = pin_Resources p,
        int_RootPasswordSecret = root,
        int_NodeSelector = nodes,
        int_Tolerations = tols,
        int_Affinity = aff\<rparr>",
      OF deep_copy_pair [OF ptr_copies(1) deep_copy_pair [OF ptr_copies(9) deep_copy_pair [OF
        deep_copy_map deep_copy_pair [OF ptr_copies(6) ptr_copies(4)]]]]])
    (auto simp: InternalDatabaseSpec_DeepCopyInto_def readInternalDatabaseSpec_def
      addrsInternalDatabaseSpec_def copy_defs)

definition PersistenceSpec_DeepCopyInto ::
    "pPersistenceSpec \<Rightarrow> heap \<Rightarrow> (pPersistenceSpec \<times> heap) option" where
  "PersistenceSpec_DeepCopyInto inp h = do {
     let out = inp;
     (p, h) \<leftarrow> copyPtr CString asString (ppe_StorageClassName inp) h;
     let out = out\<lparr>ppe_StorageClassName := p\<rparr>;
     (p, h) \<leftarrow> copyPtr CStrings asStrings (ppe_AccessModes inp) h;
     let out = out\<lparr>ppe_AccessModes := p\<rparr>;
     Some (out, h)
   }"

definition readPersistenceSpec :: "heap \<Rightarrow> pPersistenceSpec \<Rightarrow> PersistenceSpec option" where
  "readPersistenceSpec h p = do {
     cls \<leftarrow> readPtr asString h (ppe_StorageClassName p);
     modes \<leftarrow> readPtr asStrings h (ppe_AccessModes p);
     Some 
       \<lparr>per_Enabled = ppe_Enabled p,
        per_Size = ppe_Size p,
        per_StorageClassName = cls,
        per_AccessModes = sliceElems modes\<rparr>
   }"

definition addrsPersistenceSpec :: "heap \<Rightarrow> pPersistenceSpec \<Rightarrow> addr set" where
  "addrsPersistenceSpec h p =
     addrsPtr h (ppe_StorageClassName p)
     \<union> (addrsPtr h (ppe_AccessModes p))"

interpretation persistenceCopy: deep_copy PersistenceSpec_DeepCopyInto readPersistenceSpec
  addrsPersistenceSpec
  by (rule deep_copy_via [where get = "\<lambda>p. (ppe_StorageClassName p, ppe_AccessModes p)"
      and put = "\<lambda>p (t0, t1). p\<lparr>ppe_StorageClassName := t0, ppe_AccessModes := t1\<rparr>"
      and build = "\<lambda>p (cls, modes). 
       \<lparr>per_Enabled = ppe_Enabled p,
        per_Size = ppe_Size p,
        per_StorageClassName = cls,
        per_AccessModes = sliceElems modes\<rparr>",
      OF deep_copy_pair [OF ptr_copies(1) ptr_copies(5)]])
    (auto simp: PersistenceSpec_DeepCopyInto_def readPersistenceSpec_def addrsPersistenceSpec_def
      copy_defs)

definition ServiceSpec_DeepCopyInto ::
    "pServiceSpec \<Rightarrow> heap \<Rightarrow> (pServiceSpec \<times> heap) option" where
  "ServiceSpec_DeepCopyInto inp h = do {
     let out = inp;
     (p, h) \<leftarrow> copyMap (psv_Annotations inp) h;
     let out = out\<lparr>psv_Annotations := p\<rparr>;
     Some (out, h)
   }"

definition readServiceSpec :: "heap \<Rightarrow> pServiceSpec \<Rightarrow> ServiceSpec option" where
  "readServiceSpec h p = do {
     anns \<leftarrow> readPtr asMap h (psv_Annotations p);
     Some 
       \<lparr>svs_Type = psv_Type p,
        svs_Port = psv_Port p,
        svs_NodePort = psv_NodePort p,
        svs_Annotations = anns\<rparr>
   }"

definition addrsServiceSpec :: "heap \<Rightarrow> pServiceSpec \<Rightarrow> addr set" where
  "addrsServiceSpec h p =
     addrsPtr h (psv_Annotations p)"

interpretation serviceCopy: deep_copy ServiceSpec_DeepCopyInto readServiceSpec addrsServiceSpec
  by (rule deep_copy_via [where get = "\<lambda>p. (psv_Annotations p)"
      and put = "\<lambda>p t0. p\<lparr>psv_Annotations := t0\<rparr>"
      and build = "\<lambda>p anns. 
       \<lparr>svs_Type = psv_Type p,
        svs_Port = psv_Port p,
        svs_NodePort = psv_NodePort p,
        svs_Annotations = anns\<rparr>",
      OF deep_copy_map])
    (auto simp: ServiceSpec_DeepCopyInto_def readServiceSpec_def addrsServiceSpec_def copy_defs)

definition DatabaseSpec_DeepCopyInto ::
    "pDatabaseSpec \<Rightarrow> heap \<Rightarrow> (pDatabaseSpec \<times> heap) option" where
  "DatabaseSpec_DeepCopyInto inp h = do {
     let out = inp;
     (p, h) \<leftarrow> copyStruct CInternal asInternal InternalDatabaseSpec_DeepCopyInto (pdb_Internal inp)
       h;
     let out = out\<lparr>pdb_Internal := p\<rparr>;
     (p, h) \<leftarrow> copyPtr CExternal asExternal (pdb_External inp) h;
     let out = out\<lparr>pdb_External := p\<rparr>;
     Some (out, h)
   }"

definition readDatabaseSpec :: "heap \<Rightarrow> pDatabaseSpec \<Rightarrow> DatabaseSpec option" where
  "readDatabaseSpec h p = do {
     internal \<leftarrow> readStruct asInternal readInternalDatabaseSpec h (pdb_Internal p);
     external \<leftarrow> readPtr asExternal h (pdb_External p);
     Some 
       \<lparr>Mode = pdb_Mode p,
        db_Name = pdb_Name p,
        db_User = pdb_User p,
        TablePrefix = pdb_TablePrefix p,
        Internal = internal,
        External = external\<rparr>
   }"

definition addrsDatabaseSpec :: "heap \<Rightarrow> pDatabaseSpec \<Rightarrow> addr set" where
  "addrsDatabaseSpec h p =
     addrsStruct asInternal addrsInternalDatabaseSpec h (pdb_Internal p)
     \<union> (addrsPtr h (pdb_External p))"

interpretation databaseCopy: deep_copy DatabaseSpec_DeepCopyInto readDatabaseSpec addrsDatabaseSpec
  by (rule deep_copy_via [where get = "\<lambda>p. (pdb_Internal p, pdb_External p)"
      and put = "\<lambda>p (t0, t1). p\<lparr>pdb_Internal := t0, pdb_External := t1\<rparr>"
      and build = "\<lambda>p (internal, external). 
       \<lparr>Mode = pdb_Mode p,
        db_Name = pdb_Name p,
        db_User = pdb_User p,
        TablePrefix = pdb_TablePrefix p,
        Internal = internal,
        External = external\<rparr>",
      OF deep_copy_pair [OF deep_copy_struct [OF internalCopy.deep_copy_axioms, of asInternal
        CInternal, OF as_simps(11)] ptr_copies(10)]])
    (auto simp: DatabaseSpec_DeepCopyInto_def readDatabaseSpec_def addrsDatabaseSpec_def copy_defs)

definition WordPressSpec_DeepCopyInto ::
    "pWordPressSpec \<Rightarrow> heap \<Rightarrow> (pWordPressSpec \<times> heap) option" where
  "WordPressSpec_DeepCopyInto inp h = do {
     let out = inp;
     (p, h) \<leftarrow> copyPtr CStrings asStrings (psp_ImagePullSecrets inp) h;
     let out = out\<lparr>psp_ImagePullSecrets := p\<rparr>;
     (p, h) \<leftarrow> copyPtr CInt32 asInt32 (psp_Replicas inp) h;
     let out = out\<lparr>psp_Replicas := p\<rparr>;
     let out = out\<lparr>psp_Resources := psp_Resources inp\<rparr>;
     (p, h) \<leftarrow> copyPtr CEnvs asEnvs (psp_Env inp) h;
     let out = out\<lparr>psp_Env := p\<rparr>;
     (p, h) \<leftarrow> DatabaseSpec_DeepCopyInto (psp_Database inp) h;
     let out = out\<lparr>psp_Database := p\<rparr>;
     (p, h) \<leftarrow> ServiceSpec_DeepCopyInto (psp_Service inp) h;
     let out = out\<lparr>psp_Service := p\<rparr>;
     (p, h) \<leftarrow> IngressSpec_DeepCopyInto (psp_Ingress inp) h;
     let out = out\<lparr>psp_Ingress := p\<rparr>;
     (p, h) \<leftarrow> PersistenceSpec_DeepCopyInto (psp_Persistence inp) h;
     let out = out\<lparr>psp_Persistence := p\<rparr>;
     let out = out\<lparr>psp_Autoscaling := psp_Autoscaling inp\<rparr>;
     (p, h) \<leftarrow> copyMap (psp_PodAnnotations inp) h;
     let out = out\<lparr>psp_PodAnnotations := p\<rparr>;
     (p, h) \<leftarrow> copyMap (psp_PodLabels inp) h;
     let out = out\<lparr>psp_PodLabels := p\<rparr>;
     (p, h) \<leftarrow> copyMap (psp_NodeSelector inp) h;
     let out = out\<lparr>psp_NodeSelector := p\<rparr>;
     (p, h) \<leftarrow> copyPtr CRaws asRaws (psp_Tolerations inp) h;
     let out = out\<lparr>psp_Tolerations := p\<rparr>;
     (p, h) \<leftarrow> copyPtr CRaw asRaw (psp_Affinity inp) h;
     let out = out\<lparr>psp_Affinity := p\<rparr>;
     (p, h) \<leftarrow> copyPtr CIntOrString asIntOrString (psp_MaxUnavailable inp) h;
     let out = out\<lparr>psp_MaxUnavailable := p\<rparr>;
     (p, h) \<leftarrow> copyPtr CIntOrString asIntOrString (psp_MaxSurge inp) h;
     let out = out\<lparr>psp_MaxSurge := p\<rparr>;
     Some (out, h)
   }"

definition readWordPressSpec :: "heap \<Rightarrow> pWordPressSpec \<Rightarrow> WordPressSpec option" where
  "readWordPressSpec h p = do {
     pulls \<leftarrow> readPtr asStrings h (psp_ImagePullSecrets p);
     n \<leftarrow> readPtr asInt32 h (psp_Replicas p);
     env \<leftarrow> readPtr asEnvs h (psp_Env p);
     db \<leftarrow> readDatabaseSpec h (psp_Database p);
     svc \<leftarrow> readServiceSpec h (psp_Service p);
     ing \<leftarrow> readIngressSpec h (psp_Ingress p);
     per \<leftarrow> readPersistenceSpec h (psp_Persistence p);
     anns \<leftarrow> readPtr asMap h (psp_PodAnnotations p);
     labels \<leftarrow> readPtr asMap h (psp_PodLabels p);
     nodes \<leftarrow> readPtr asMap h (psp_NodeSelector p);
     tols \<leftarrow> readPtr asRaws h (psp_Tolerations p);
     aff \<leftarrow> readPtr asRaw h (psp_Affinity p);
     unavail \<leftarrow> readPtr asIntOrString h (psp_MaxUnavailable p);
     surge \<leftarrow> readPtr asIntOrString h (psp_MaxSurge p);
     Some 
       \<lparr>Image = psp_Image p,
        ImagePullPolicy = psp_ImagePullPolicy p,
        ImagePullSecrets = pulls,
        Replicas = n,
        Resources = psp_Resources p,
        SiteURL = psp_SiteURL p,
        Env = sliceElems env,
        Database = db,
        ServiceS = svc,
        IngressS = ing,
        Persistence = per,
        Autoscaling = psp_Autoscaling p,
        PodAnnotations = anns,
        PodLabels = labels,
        NodeSelector = nodes,
        Tolerations = tols,
        Affinity = aff,
        MaxUnavailable = unavail,
        MaxSurge = surge\<rparr>
   }"

definition addrsWordPressSpec :: "heap \<Rightarrow> pWordPressSpec \<Rightarrow> addr set" where
  "addrsWordPressSpec h p =
     addrsPtr h (psp_ImagePullSecrets p)
     \<union> (addrsPtr h (psp_Replicas p)
     \<union> (addrsPtr h (psp_Env p)
     \<union> (addrsDatabaseSpec h (psp_Database p)
     \<union> (addrsServiceSpec h (psp_Service p)
     \<union> (addrsIngressSpec h (psp_Ingress p)
     \<union> (addrsPersistenceSpec h (psp_Persistence p)
     \<union> (addrsPtr h (psp_PodAnnotations p)
     \<union> (addrsPtr h (psp_PodLabels p)
     \<union> (addrsPtr h (psp_NodeSelector p)
     \<union> (addrsPtr h (psp_Tolerations p)
     \<union> (addrsPtr h (psp_Affinity p)
     \<union> (addrsPtr h (psp_MaxUnavailable p)
     \<union> (addrsPtr h (psp_MaxSurge p))))))))))))))"

interpretation specCopy: deep_copy WordPressSpec_DeepCopyInto readWordPressSpec addrsWordPressSpec
  by (rule deep_copy_via [where get = "\<lambda>p. (psp_ImagePullSecrets p, psp_Replicas p, psp_Env p,
    psp_Database p, psp_Service p, psp_Ingress p, psp_Persistence p, psp_PodAnnotations p,
    psp_PodLabels p, psp_NodeSelector p, psp_Tolerations p, psp_Affinity p, psp_MaxUnavailable p,
    psp_MaxSurge p)"
      and put = "\<lambda>p (t0, t1, t2, t3, t4, t5, t6, t7, t8, t9, t10, t11, t12, t13).
        p\<lparr>psp_ImagePullSecrets := t0, psp_Replicas := t1, psp_Env := t2, psp_Database := t3,
        psp_Service := t4, psp_Ingress := t5, psp_Persistence := t6, psp_PodAnnotations := t7,
        psp_PodLabels := t8, psp_NodeSelector := t9, psp_Tolerations := t10, psp_Affinity := t11,
        psp_MaxUnavailable := t12, psp_MaxSurge := t13\<rparr>"
      and build = "\<lambda>p (pulls, n, env, db, svc, ing, per, anns, labels, nodes, tols, aff, unavail,
        surge). 
       \<lparr>Image = psp_Image p,
        ImagePullPolicy = psp_ImagePullPolicy p,
        ImagePullSecrets = pulls,
        Replicas = n,
        Resources = psp_Resources p,
        SiteURL = psp_SiteURL p,
        Env = sliceElems env,
        Database = db,
        ServiceS = svc,
        IngressS = ing,
        Persistence = per,
        Autoscaling = psp_Autoscaling p,
        PodAnnotations = anns,
        PodLabels = labels,
        NodeSelector = nodes,
        Tolerations = tols,
        Affinity = aff,
        MaxUnavailable = unavail,
        MaxSurge = surge\<rparr>",
      OF deep_copy_pair [OF ptr_copies(5) deep_copy_pair [OF ptr_copies(2) deep_copy_pair [OF
        ptr_copies(7) deep_copy_pair [OF databaseCopy.deep_copy_axioms deep_copy_pair [OF
        serviceCopy.deep_copy_axioms deep_copy_pair [OF ingressCopy.deep_copy_axioms deep_copy_pair
        [OF persistenceCopy.deep_copy_axioms deep_copy_pair [OF deep_copy_map deep_copy_pair [OF
        deep_copy_map deep_copy_pair [OF deep_copy_map deep_copy_pair [OF ptr_copies(6)
        deep_copy_pair [OF ptr_copies(4) deep_copy_pair [OF ptr_copies(3)
        ptr_copies(3)]]]]]]]]]]]]]])
    (auto simp: WordPressSpec_DeepCopyInto_def readWordPressSpec_def addrsWordPressSpec_def
      copy_defs)

definition WordPressStatus_DeepCopyInto ::
    "pWordPressStatus \<Rightarrow> heap \<Rightarrow> (pWordPressStatus \<times> heap) option" where
  "WordPressStatus_DeepCopyInto inp h = do {
     let out = inp;
     (p, h) \<leftarrow> copyPtr CConditions asConditions (pst_Conditions inp) h;
     let out = out\<lparr>pst_Conditions := p\<rparr>;
     Some (out, h)
   }"

definition readWordPressStatus :: "heap \<Rightarrow> pWordPressStatus \<Rightarrow> WordPressStatus option" where
  "readWordPressStatus h p = do {
     cs \<leftarrow> readPtr asConditions h (pst_Conditions p);
     Some 
       \<lparr>wst_ObservedGeneration = pst_ObservedGeneration p,
        wst_Phase = pst_Phase p,
        wst_URL = pst_URL p,
        wst_Replicas = pst_Replicas p,
        wst_ReadyReplicas = pst_ReadyReplicas p,
        wst_DatabaseHost = pst_DatabaseHost p,
        wst_Conditions = sliceElems cs\<rparr>
   }"

definition addrsWordPressStatus :: "heap \<Rightarrow> pWordPressStatus \<Rightarrow> addr set" where
  "addrsWordPressStatus h p =
     addrsPtr h (pst_Conditions p)"

interpretation statusCopy: deep_copy WordPressStatus_DeepCopyInto readWordPressStatus
  addrsWordPressStatus
  by (rule deep_copy_via [where get = "\<lambda>p. (pst_Conditions p)"
      and put = "\<lambda>p t0. p\<lparr>pst_Conditions := t0\<rparr>"
      and build = "\<lambda>p cs. 
       \<lparr>wst_ObservedGeneration = pst_ObservedGeneration p,
        wst_Phase = pst_Phase p,
        wst_URL = pst_URL p,
        wst_Replicas = pst_Replicas p,
        wst_ReadyReplicas = pst_ReadyReplicas p,
        wst_DatabaseHost = pst_DatabaseHost p,
        wst_Conditions = sliceElems cs\<rparr>",
      OF ptr_copies(8)])
    (auto simp: WordPressStatus_DeepCopyInto_def readWordPressStatus_def addrsWordPressStatus_def
      copy_defs)

definition WordPress_DeepCopyInto ::
    "pWordPress \<Rightarrow> heap \<Rightarrow> (pWordPress \<times> heap) option" where
  "WordPress_DeepCopyInto inp h = do {
     let out = inp;
     let out = out\<lparr>pwp_Meta := pwp_Meta inp\<rparr>;
     (p, h) \<leftarrow> WordPressSpec_DeepCopyInto (pwp_Spec inp) h;
     let out = out\<lparr>pwp_Spec := p\<rparr>;
     (p, h) \<leftarrow> WordPressStatus_DeepCopyInto (pwp_Status inp) h;
     let out = out\<lparr>pwp_Status := p\<rparr>;
     Some (out, h)
   }"

definition readWordPress :: "heap \<Rightarrow> pWordPress \<Rightarrow> WordPress option" where
  "readWordPress h p = do {
     spec \<leftarrow> readWordPressSpec h (pwp_Spec p);
     status \<leftarrow> readWordPressStatus h (pwp_Status p);
     Some (object.extend (pwp_Meta p) (WordPress.fields spec status))
   }"

definition addrsWordPress :: "heap \<Rightarrow> pWordPress \<Rightarrow> addr set" where
  "addrsWordPress h p =
     addrsWordPressSpec h (pwp_Spec p)
     \<union> (addrsWordPressStatus h (pwp_Status p))"

interpretation wordpressCopy: deep_copy WordPress_DeepCopyInto readWordPress addrsWordPress
  by (rule deep_copy_via [where get = "\<lambda>p. (pwp_Spec p, pwp_Status p)"
      and put = "\<lambda>p (t0, t1). p\<lparr>pwp_Spec := t0, pwp_Status := t1\<rparr>"
      and build = "\<lambda>p (spec, status). (object.extend (pwp_Meta p) (WordPress.fields spec status))",
      OF deep_copy_pair [OF specCopy.deep_copy_axioms statusCopy.deep_copy_axioms]])
    (auto simp: WordPress_DeepCopyInto_def readWordPress_def addrsWordPress_def copy_defs)

text \<open>The list type and its items, each a struct with pointers of its own.\<close>

record WordPressList =
  ListMeta :: raw
  Items :: "WordPress slice"

definition WordPressList_DeepCopyInto ::
    "pWordPressList \<Rightarrow> heap \<Rightarrow> (pWordPressList \<times> heap) option" where
  "WordPressList_DeepCopyInto inp h = do {
     let out = inp;
     let out = out\<lparr>pwl_Meta := pwl_Meta inp\<rparr>;
     (p, h) \<leftarrow> copyStruct CItems asItems (copyAll WordPress_DeepCopyInto) (pwl_Items inp) h;
     let out = out\<lparr>pwl_Items := p\<rparr>;
     Some (out, h)
   }"

definition readWordPressList :: "heap \<Rightarrow> pWordPressList \<Rightarrow> WordPressList option" where
  "readWordPressList h p = do {
     items \<leftarrow> readStruct asItems (readAll readWordPress) h (pwl_Items p);
     Some 
       \<lparr>ListMeta = pwl_Meta p,
        Items = items\<rparr>
   }"

definition addrsWordPressList :: "heap \<Rightarrow> pWordPressList \<Rightarrow> addr set" where
  "addrsWordPressList h p =
     addrsStruct asItems (addrsAll addrsWordPress) h (pwl_Items p)"

interpretation listCopy: deep_copy WordPressList_DeepCopyInto readWordPressList addrsWordPressList
  by (rule deep_copy_via [where get = "\<lambda>p. (pwl_Items p)"
      and put = "\<lambda>p t0. p\<lparr>pwl_Items := t0\<rparr>"
      and build = "\<lambda>p items. 
       \<lparr>ListMeta = pwl_Meta p,
        Items = items\<rparr>",
      OF deep_copy_struct [OF deep_copy_all [OF wordpressCopy.deep_copy_axioms], of asItems CItems,
        OF as_simps(9)]])
    (auto simp: WordPressList_DeepCopyInto_def readWordPressList_def addrsWordPressList_def
      copy_defs)

subsection \<open>DeepCopy and DeepCopyObject\<close>

text \<open>\<^verbatim>\<open>if in == nil { return nil }\<close>, \<^verbatim>\<open>new\<close>, \<^verbatim>\<open>DeepCopyInto\<close>: one
  function per type.\<close>

definition AutoscalingSpec_DeepCopy :: "addr option \<Rightarrow> heap \<Rightarrow> (addr option \<times> heap) option" where
  "AutoscalingSpec_DeepCopy = copyStruct CAutoscaling asAutoscaling AutoscalingSpec_DeepCopyInto"

definition DatabaseSpec_DeepCopy :: "addr option \<Rightarrow> heap \<Rightarrow> (addr option \<times> heap) option" where
  "DatabaseSpec_DeepCopy = copyStruct CDatabase asDatabase DatabaseSpec_DeepCopyInto"

definition ExternalDatabaseSpec_DeepCopy :: "addr option \<Rightarrow> heap \<Rightarrow> (addr option \<times> heap) option" where
  "ExternalDatabaseSpec_DeepCopy = copyStruct CExternal asExternal
    ExternalDatabaseSpec_DeepCopyInto"

definition IngressSpec_DeepCopy :: "addr option \<Rightarrow> heap \<Rightarrow> (addr option \<times> heap) option" where
  "IngressSpec_DeepCopy = copyStruct CIngress asIngress IngressSpec_DeepCopyInto"

definition InternalDatabaseSpec_DeepCopy :: "addr option \<Rightarrow> heap \<Rightarrow> (addr option \<times> heap) option" where
  "InternalDatabaseSpec_DeepCopy = copyStruct CInternal asInternal
    InternalDatabaseSpec_DeepCopyInto"

definition PersistenceSpec_DeepCopy :: "addr option \<Rightarrow> heap \<Rightarrow> (addr option \<times> heap) option" where
  "PersistenceSpec_DeepCopy = copyStruct CPersistence asPersistence PersistenceSpec_DeepCopyInto"

definition SecretKeyRef_DeepCopy :: "addr option \<Rightarrow> heap \<Rightarrow> (addr option \<times> heap) option" where
  "SecretKeyRef_DeepCopy = copyStruct CSecretKeyRef asSecretKeyRef SecretKeyRef_DeepCopyInto"

definition ServiceSpec_DeepCopy :: "addr option \<Rightarrow> heap \<Rightarrow> (addr option \<times> heap) option" where
  "ServiceSpec_DeepCopy = copyStruct CService asService ServiceSpec_DeepCopyInto"

definition WordPress_DeepCopy :: "addr option \<Rightarrow> heap \<Rightarrow> (addr option \<times> heap) option" where
  "WordPress_DeepCopy = copyStruct CWordPress asWordPress WordPress_DeepCopyInto"

definition WordPressList_DeepCopy :: "addr option \<Rightarrow> heap \<Rightarrow> (addr option \<times> heap) option" where
  "WordPressList_DeepCopy = copyStruct CList asList WordPressList_DeepCopyInto"

definition WordPressSpec_DeepCopy :: "addr option \<Rightarrow> heap \<Rightarrow> (addr option \<times> heap) option" where
  "WordPressSpec_DeepCopy = copyStruct CSpec asSpec WordPressSpec_DeepCopyInto"

definition WordPressStatus_DeepCopy :: "addr option \<Rightarrow> heap \<Rightarrow> (addr option \<times> heap) option" where
  "WordPressStatus_DeepCopy = copyStruct CStatus asStatus WordPressStatus_DeepCopyInto"

definition WordPress_DeepCopyObject :: "addr option \<Rightarrow> heap \<Rightarrow> (addr option \<times> heap) option" where
  "WordPress_DeepCopyObject inp h = do {
     (c, h) \<leftarrow> WordPress_DeepCopy inp h;
     Some (case c of Some out \<Rightarrow> (Some out, h) | None \<Rightarrow> (None, h))
   }"

definition WordPressList_DeepCopyObject :: "addr option \<Rightarrow> heap \<Rightarrow> (addr option \<times> heap) option" where
  "WordPressList_DeepCopyObject inp h = do {
     (c, h) \<leftarrow> WordPressList_DeepCopy inp h;
     Some (case c of Some out \<Rightarrow> (Some out, h) | None \<Rightarrow> (None, h))
   }"

interpretation autoscalingSpecP: deep_copy AutoscalingSpec_DeepCopy "readStruct asAutoscaling
  readPlain" "addrsStruct asAutoscaling addrsPlain"
  unfolding AutoscalingSpec_DeepCopy_def by (rule deep_copy_struct [OF
    autoscalingC.deep_copy_axioms]) simp

interpretation databaseSpecP: deep_copy DatabaseSpec_DeepCopy "readStruct asDatabase
  readDatabaseSpec" "addrsStruct asDatabase addrsDatabaseSpec"
  unfolding DatabaseSpec_DeepCopy_def by (rule deep_copy_struct [OF databaseCopy.deep_copy_axioms])
    simp

interpretation externalDatabaseSpecP: deep_copy ExternalDatabaseSpec_DeepCopy "readStruct asExternal
  readPlain" "addrsStruct asExternal addrsPlain"
  unfolding ExternalDatabaseSpec_DeepCopy_def by (rule deep_copy_struct [OF
    externalC.deep_copy_axioms]) simp

interpretation ingressSpecP: deep_copy IngressSpec_DeepCopy "readStruct asIngress readIngressSpec"
  "addrsStruct asIngress addrsIngressSpec"
  unfolding IngressSpec_DeepCopy_def by (rule deep_copy_struct [OF ingressCopy.deep_copy_axioms])
    simp

interpretation internalDatabaseSpecP: deep_copy InternalDatabaseSpec_DeepCopy "readStruct asInternal
  readInternalDatabaseSpec" "addrsStruct asInternal addrsInternalDatabaseSpec"
  unfolding InternalDatabaseSpec_DeepCopy_def by (rule deep_copy_struct [OF
    internalCopy.deep_copy_axioms]) simp

interpretation persistenceSpecP: deep_copy PersistenceSpec_DeepCopy "readStruct asPersistence
  readPersistenceSpec" "addrsStruct asPersistence addrsPersistenceSpec"
  unfolding PersistenceSpec_DeepCopy_def by (rule deep_copy_struct [OF
    persistenceCopy.deep_copy_axioms]) simp

interpretation secretKeyRefP: deep_copy SecretKeyRef_DeepCopy "readStruct asSecretKeyRef readPlain"
  "addrsStruct asSecretKeyRef addrsPlain"
  unfolding SecretKeyRef_DeepCopy_def by (rule deep_copy_struct [OF secretKeyRefC.deep_copy_axioms])
    simp

interpretation serviceSpecP: deep_copy ServiceSpec_DeepCopy "readStruct asService readServiceSpec"
  "addrsStruct asService addrsServiceSpec"
  unfolding ServiceSpec_DeepCopy_def by (rule deep_copy_struct [OF serviceCopy.deep_copy_axioms])
    simp

interpretation wordPressP: deep_copy WordPress_DeepCopy "readStruct asWordPress readWordPress"
  "addrsStruct asWordPress addrsWordPress"
  unfolding WordPress_DeepCopy_def by (rule deep_copy_struct [OF wordpressCopy.deep_copy_axioms])
    simp

interpretation wordPressListP: deep_copy WordPressList_DeepCopy "readStruct asList
  readWordPressList" "addrsStruct asList addrsWordPressList"
  unfolding WordPressList_DeepCopy_def by (rule deep_copy_struct [OF listCopy.deep_copy_axioms])
    simp

interpretation wordPressSpecP: deep_copy WordPressSpec_DeepCopy "readStruct asSpec
  readWordPressSpec" "addrsStruct asSpec addrsWordPressSpec"
  unfolding WordPressSpec_DeepCopy_def by (rule deep_copy_struct [OF specCopy.deep_copy_axioms])
    simp

interpretation wordPressStatusP: deep_copy WordPressStatus_DeepCopy "readStruct asStatus
  readWordPressStatus" "addrsStruct asStatus addrsWordPressStatus"
  unfolding WordPressStatus_DeepCopy_def by (rule deep_copy_struct [OF statusCopy.deep_copy_axioms])
    simp

lemma DeepCopyObject_is_DeepCopy:
  "WordPress_DeepCopyObject = WordPress_DeepCopy" "WordPressList_DeepCopyObject =
    WordPressList_DeepCopy"
proof -
  have same: "(case c of Some out \<Rightarrow> (Some out, h) | None \<Rightarrow> (None, h)) = (c, h)"
    for c :: "addr option" and h :: heap by (cases c) simp_all
  show "WordPress_DeepCopyObject = WordPress_DeepCopy" "WordPressList_DeepCopyObject =
    WordPressList_DeepCopy"
    unfolding WordPress_DeepCopyObject_def WordPressList_DeepCopyObject_def same by auto
qed

text \<open>Reading an object, and a list of objects, through a pointer.\<close>

definition objectAt :: "heap \<Rightarrow> addr option \<Rightarrow> WordPress option option" where
  "objectAt = readStruct asWordPress readWordPress"

definition listAt :: "heap \<Rightarrow> addr option \<Rightarrow> WordPressList option option" where
  "listAt = readStruct asList readWordPressList"

subsection \<open>Properties\<close>


text \<open>The same for a list of objects, whose items are copied one by one: nil stays nil, and
  the copy of a list with any number of items shares no memory with it.\<close>

theorem list_DeepCopy_equal_and_separate:
  assumes "wfHeap h" and "listAt h p = Some v"
  shows "\<exists>q h'. WordPressList_DeepCopyObject p h = Some (q, h') \<and> listAt h' q = Some v
    \<and> (\<forall>g. (\<forall>a \<ge> limit h. cells g a = cells h' a) \<longrightarrow> listAt g q = Some v)
    \<and> (\<forall>g. (\<forall>a < limit h. cells g a = cells h' a) \<longrightarrow> listAt g p = Some v)"
proof -
  note read = assms(2) [unfolded listAt_def]
  obtain q h' where run: "WordPressList_DeepCopy p h = Some (q, h')"
    using wordPressListP.copies [OF assms(1) read] by blast
  from wordPressListP.copy_isolated [OF assms(1) read run] run show ?thesis
    unfolding listAt_def DeepCopyObject_is_DeepCopy by blast
qed

subsection \<open>A concrete heap\<close>

text \<open>An object with a replica count, annotations on its Service and an internal database with a
  node selector, and a list that holds it twice.\<close>

definition samplePtr :: pWordPress where
  "samplePtr =
     \<lparr>pwp_Meta = newMeta ''blog'' ''default'' None None,
      pwp_Spec =
        \<lparr>psp_Image = [], psp_ImagePullPolicy = [], psp_ImagePullSecrets = None, psp_Replicas = Some
          1,
         psp_Resources = [], psp_SiteURL = [], psp_Env = None,
         psp_Database = \<lparr>pdb_Mode = DatabaseModeInternal, pdb_Name = [], pdb_User = [],
           pdb_TablePrefix = [], pdb_Internal = Some 3, pdb_External = None\<rparr>,
         psp_Service = \<lparr>psv_Type = [], psv_Port = 80, psv_NodePort = 0, psv_Annotations = Some 2\<rparr>,
         psp_Ingress = \<lparr>pig_Enabled = False, pig_IngressClassName = None, pig_Host = [],
           pig_TLSSecretName = [], pig_Annotations = None\<rparr>,
         psp_Persistence = \<lparr>ppe_Enabled = False, ppe_Size = [], ppe_StorageClassName = None,
           ppe_AccessModes = None\<rparr>,
         psp_Autoscaling = \<lparr>as_Enabled = False, as_MinReplicas = 0, as_MaxReplicas = 0,
           as_TargetCPUUtilizationPercentage = 0\<rparr>,
         psp_PodAnnotations = None, psp_PodLabels = None, psp_NodeSelector = None,
         psp_Tolerations = None, psp_Affinity = None, psp_MaxUnavailable = None, psp_MaxSurge =
           None\<rparr>,
      pwp_Status =
        \<lparr>pst_ObservedGeneration = 0, pst_Phase = [], pst_URL = [], pst_Replicas = 0,
         pst_ReadyReplicas = 0, pst_DatabaseHost = [], pst_Conditions = None\<rparr>\<rparr>"

definition sampleInternalPtr :: pInternalDatabaseSpec where
  "sampleInternalPtr =
     \<lparr>pin_Image = [], pin_ImagePullPolicy = [], pin_StorageSize = ''1Gi'', pin_StorageClassName =
       None,
      pin_Resources = [], pin_RootPasswordSecret = None, pin_NodeSelector = Some 4,
      pin_Tolerations = None, pin_Affinity = None\<rparr>"

definition sampleHeap :: heap where
  "sampleHeap =
     \<lparr>cells = [0 \<mapsto> CWordPress samplePtr, 1 \<mapsto> CInt32 2, 2 \<mapsto> CMap (fmap_of_list [(''team'',
       ''web'')]),
        3 \<mapsto> CInternal sampleInternalPtr, 4 \<mapsto> CMap (fmap_of_list [(''disk'', ''ssd'')]),
        5 \<mapsto> CItems [samplePtr, samplePtr], 6 \<mapsto> CList \<lparr>pwl_Meta = [], pwl_Items = Some 5\<rparr>],
      limit = 7\<rparr>"

lemma sampleHeap_wf: "wfHeap sampleHeap"
  by (auto simp: wfHeap_def sampleHeap_def split: if_splits)

lemmas read_defs = readWordPress_def readWordPressSpec_def readWordPressStatus_def
  readDatabaseSpec_def readInternalDatabaseSpec_def readIngressSpec_def readServiceSpec_def
  readPersistenceSpec_def readPtr_def readStruct_def

lemma sample_read:
  "\<exists>v. readWordPress sampleHeap samplePtr = Some v \<and> Replicas (Spec v) = Some 2
     \<and> svs_Annotations (ServiceS (Spec v)) = mapLit [(''team'', ''web'')]"
  by (simp add: read_defs samplePtr_def sampleInternalPtr_def sampleHeap_def asMap_def mapLit_def
      object.defs WordPress.defs)


theorem list_DeepCopy_equal_and_separate_witness:
  "\<exists>v q h'. listAt sampleHeap (Some 6) = Some (Some v) \<and> map_option length (Items v) = Some 2
     \<and> WordPressList_DeepCopyObject (Some 6) sampleHeap = Some (q, h')
     \<and> listAt (store 5 (CItems []) h') q = Some (Some v)"
proof -
  obtain v where "readWordPress sampleHeap samplePtr = Some v" using sample_read by blast
  then have read: "listAt sampleHeap (Some 6) = Some (Some \<lparr>ListMeta = [], Items = Some [v, v]\<rparr>)"
    by (simp add: listAt_def readStruct_def readWordPressList_def) (simp add: sampleHeap_def)
  have old: "\<forall>a \<ge> limit sampleHeap. cells (store 5 c g) a = cells g a" for c g
    by (simp add: store_def sampleHeap_def)
  from list_DeepCopy_equal_and_separate [OF sampleHeap_wf read] old read show ?thesis by fastforce
qed

end
