(* ===== verification/Provisioning.thy ===== *)
theory Provisioning
  imports Lifecycle
begin

section \<open>A complete pass provisions everything\<close>

text \<open>
  The abstract contract of a successful pass: every object the spec asks for is there. What is
  there is seen through a predicate \<open>there\<close> per kind, of which the law \<open>presence\<close> asks only
  that a successful creation and a successful lookup show the object, and that nothing but a
  deletion of that kind makes it disappear.
\<close>

definition presence ::
    "('w \<Rightarrow> nsname \<Rightarrow> bool) \<Rightarrow> (call \<Rightarrow> bool) \<Rightarrow> ('o object_scheme, 'w) store \<Rightarrow> 'w env \<Rightarrow> bool" where
  "presence there deletes S E \<longleftrightarrow>
     (\<forall>ob w w'. Create S ob w = (None, w') \<longrightarrow> there w' (ObjectKeyFromObject ob))
     \<and> (\<forall>k w ob w'. Get S k w = (Inr ob, w') \<longrightarrow> there w' k)
     \<and> (\<forall>k. admits (\<lambda>w. there w k) (\<lambda>c. \<not> deletes c) E)"

definition deletesSecret :: "call \<Rightarrow> bool" where
  "deletesSecret c \<longleftrightarrow> (case c of Deleted (KSecret s) \<Rightarrow> True | _ \<Rightarrow> False)"

definition deletesService :: "call \<Rightarrow> bool" where
  "deletesService c \<longleftrightarrow> (case c of Deleted (KService s) \<Rightarrow> True | _ \<Rightarrow> False)"

definition deletesStatefulSet :: "call \<Rightarrow> bool" where
  "deletesStatefulSet c \<longleftrightarrow> (case c of Deleted (KStatefulSet s) \<Rightarrow> True | _ \<Rightarrow> False)"

definition deletesDeployment :: "call \<Rightarrow> bool" where
  "deletesDeployment c \<longleftrightarrow> (case c of Deleted (KDeployment d) \<Rightarrow> True | _ \<Rightarrow> False)"

definition deletesPVC :: "call \<Rightarrow> bool" where
  "deletesPVC c \<longleftrightarrow> (case c of Deleted (KPVC p) \<Rightarrow> True | _ \<Rightarrow> False)"

lemmas deletes_defs = deletesSecret_def deletesService_def deletesStatefulSet_def
  deletesDeployment_def deletesPVC_def

lemma resourceCall_deletes:
  assumes "resourceCall E wp c"
  shows "\<not> deletesSecret c" "\<not> deletesService c" "\<not> deletesStatefulSet c"
    "\<not> deletesDeployment c" "\<not> deletesPVC c"
  using assms by (cases "(E, wp, c)" rule: resourceCall.cases; simp add: deletes_defs)+

lemma presenceD:
  assumes "presence there deletes S E"
  shows "Create S ob w = (None, w') \<Longrightarrow> there w' (ObjectKeyFromObject ob)"
    and "Get S k w = (Inr ob', w') \<Longrightarrow> there w' k"
    and "admits (\<lambda>w. there w k) (\<lambda>c. \<not> deletes c) E"
  using assms unfolding presence_def by blast+

lemma presence_steady:
  assumes "presence there deletes S E" and "key_laws E" "owner_law E" "retry_law E"
    and "\<And>c. resourceCall E wp c \<Longrightarrow> \<not> deletes c"
  shows "steady E (\<lambda>w. there w k) wp"
  by (rule governed_steady)
    (use admits_mono [OF presenceD(3) [OF assms(1)]] assms(2-5) in \<open>simp add: governed_def\<close>)

subsection \<open>Each block shows its object\<close>

lemma ensureSecret_there:
  assumes "presence there del (secrets E) E" and "ensureSecret E d w = (None, w')"
  shows "there w' (ObjectKeyFromObject d)"
  using assms(2)
  by (rule secretC.run_establishes [rotated 2])
    (auto simp: getFor_def dest: presenceD(1,2) [OF assms(1)])

lemma ensurePVC_there:
  assumes "presence there del (pvcs E) E" and "ensurePVC E d w = (None, w')"
  shows "there w' (ObjectKeyFromObject d)"
  using assms(2)
  by (rule pvcC.run_establishes [rotated 2])
    (auto simp: getFor_def dest: presenceD(1,2) [OF assms(1)])

lemma applyService_there:
  assumes law: "presence there deletesService (services E) E"
    and run: "applyService E d w = (None, w')"
  shows "there w' (ObjectKeyFromObject d)"
  using run
  by (rule serviceC.run_establishes [rotated 3])
    (auto simp: getFor_def deletes_defs dest: presenceD(1,2) [OF law]
      keepsD [OF store_admitsD(3) [OF admitsD(3) [OF presenceD(3) [OF law]]], rotated 1])

lemma syncDeployment_there:
  assumes law: "presence there deletesDeployment (deployments E) E"
    and run: "syncDeployment E d w = (None, w')"
  shows "there w' (ObjectKeyFromObject d)"
  using run
  by (rule deploymentC.run_establishes [rotated 3])
    (auto simp: getFor_def deletes_defs dest: presenceD(1,2) [OF law]
      keepsD [OF store_admitsD(3) [OF admitsD(6) [OF presenceD(3) [OF law]]], rotated 1])

lemma syncStatefulSet_there:
  assumes law: "presence there deletesStatefulSet (statefulsets E) E"
    and run: "errOf (syncStatefulSet E d w) = (None, w')"
  shows "there w' (ObjectKeyFromObject d)"
  using run
  by (rule stsC.run_establishes [rotated 3])
    (auto simp: getFor_def deletes_defs dest: presenceD(1,2) [OF law]
      keepsD [OF store_admitsD(3) [OF admitsD(4) [OF presenceD(3) [OF law]]], rotated 1])

subsection \<open>Each reconcile function shows its object\<close>

lemma withController_key:
  "withController E wp d = Inr d' \<Longrightarrow> ObjectKeyFromObject d' = ObjectKeyFromObject d"
  by (metis withController_fields setOwners_fields(7))

lemma reconcilePVC_there:
  assumes law: "presence there del (pvcs E) E" and on: "per_Enabled (Persistence (Spec (cr st)))"
    and run: "reconcilePVC E st = (None, st')"
  shows "there (world st') (Namespace (cr st), wpPVCName (cr st))"
proof -
  obtain d d' where d: "buildWordPressPVC E (cr st) = Inr d" "withController E (cr st) d = Inr d'"
    and put: "api (ensurePVC E d') st = (None, st')"
    using run on by (auto simp: reconcilePVC_def split: sum.splits)
  show ?thesis
    using ensurePVC_there [OF law api_frame(2) [OF put]] withController_key [OF d(2)]
      buildWordPressPVC_Inr [OF d(1)] by simp
qed

lemma reconcileWordPressDeployment_there:
  assumes law: "presence there deletesDeployment (deployments E) E"
    and run: "reconcileWordPressDeployment E st = Some (None, st')"
  shows "there (world st') (Namespace (cr st), wpName (cr st))"
proof -
  obtain host port where hp: "resolvedDBHost (cr st) = Some (host, port)"
    using run by (auto simp: reconcileWordPressDeployment_def split: bind_splits)
  let ?st = "modStatus (\<lambda>s. s\<lparr>wst_DatabaseHost := host\<rparr>) st"
  obtain dbEnv d where d: "withController E (cr ?st) (buildWordPressDeployment (cr ?st) host port dbEnv) = Inr d"
    and put: "api (syncDeployment E d) ?st = (None, st')"
    using run hp by (auto simp: reconcileWordPressDeployment_def Let_def
        split: if_splits bind_splits sum.splits)
  have "Namespace (cr ?st) = Namespace (cr st)" "Name (cr ?st) = Name (cr st)"
    using meta_eqD [OF modStatus_frame(1)] by metis+
  then show ?thesis
    using syncDeployment_there [OF law api_frame(2) [OF put]] withController_key [OF d]
    by (simp add: wpName_def)
qed

lemma reconcileWordPressService_there:
  assumes law: "presence there deletesService (services E) E"
    and run: "reconcileWordPressService E st = (None, st')"
  shows "there (world st') (Namespace (cr st), wpName (cr st))"
proof -
  obtain d where d: "withController E (cr st) (buildWordPressService (cr st)) = Inr d"
    and put: "api (applyService E d) st = (None, st')"
    using run by (auto simp: reconcileWordPressService_def split: sum.splits)
  show ?thesis
    using applyService_there [OF law api_frame(2) [OF put]] withController_key [OF d] by simp
qed

lemma reconcileMySQLSecret_there:
  assumes law: "presence there del (secrets E) E" and run: "reconcileMySQLSecret E st = (None, st')"
  shows "there (world st') (Namespace (cr st), dbSecretName (cr st))"
proof -
  obtain s st1 d where b: "api (buildMySQLSecret E (cr st)) st = (Inr s, st1)"
    and d: "withController E (cr st1) s = Inr d" and put: "api (ensureSecret E d) st1 = (None, st')"
    using run by (auto simp: reconcileMySQLSecret_def split: sum.splits prod.splits)
  have "ObjectKeyFromObject s = (Namespace (cr st), dbSecretName (cr st))"
    using api_frame(2) [OF b] by (rule buildMySQLSecret_Inr)
  then show ?thesis
    using ensureSecret_there [OF law api_frame(2) [OF put]] withController_key [OF d] by simp
qed

lemma reconcileMySQLService_there:
  assumes law: "presence there deletesService (services E) E"
    and run: "reconcileMySQLService E st = (None, st')"
  shows "there (world st') (Namespace (cr st), dbServiceName (cr st))"
proof -
  obtain d where d: "withController E (cr st) (buildMySQLHeadlessService (cr st)) = Inr d"
    and put: "api (applyService E d) st = (None, st')"
    using run by (auto simp: reconcileMySQLService_def split: sum.splits)
  show ?thesis
    using applyService_there [OF law api_frame(2) [OF put]] withController_key [OF d] by simp
qed

lemma reconcileMySQLStatefulSet_there:
  assumes law: "presence there deletesStatefulSet (statefulsets E) E"
    and key: "key_laws E" "owner_law E" "retry_law E"
    and run: "reconcileMySQLStatefulSet E st = Some ((r, None), st')"
  shows "there (world st') (Namespace (cr st), dbStatefulSetName (cr st))"
proof -
  obtain ss d x st1 where b: "buildMySQLStatefulSet E (cr st) = Some (Inr ss)"
    and d: "withController E (cr st) ss = Inr d"
    and put: "api (syncStatefulSet E d) st = (Inr x, st1)" and st': "st' = mysqlReadiness E x st1"
    using run by (auto simp: reconcileMySQLStatefulSet_def split: bind_splits sum.splits prod.splits)
  have "errOf (syncStatefulSet E d (world st)) = (None, world st1)"
    using api_frame(2) [OF put] by (simp add: errOf_def)
  then have "there (world st1) (ObjectKeyFromObject d)" by (rule syncStatefulSet_there [OF law])
  moreover have "ObjectKeyFromObject ss = (Namespace (cr st), dbStatefulSetName (cr st))"
    using b by (rule buildMySQLStatefulSet_Inr)
  ultimately have "there (world st1) (Namespace (cr st), dbStatefulSetName (cr st))"
    using withController_key [OF d] by simp
  then show ?thesis
    using setCond_keeps [OF presenceD(3) [OF law]] by (simp add: st' mysqlReadiness_def Let_def)
qed

text \<open>The database objects, in Internal mode.\<close>

lemma internal_database_there:
  assumes sec: "presence hasSecret deletesSecret (secrets E) E"
    and svc: "presence hasService deletesService (services E) E"
    and sts: "presence hasStatefulSet deletesStatefulSet (statefulsets E) E"
    and laws: "key_laws E" "owner_law E" "retry_law E"
    and mode: "internalMode (cr st)"
    and run: "reconcileDatabase E st = Some ((r, None), st')"
  shows "hasSecret (world st') (Namespace (cr st), dbSecretName (cr st))
    \<and> hasService (world st') (Namespace (cr st), dbServiceName (cr st))
    \<and> hasStatefulSet (world st') (Namespace (cr st), dbStatefulSetName (cr st))"
proof -
  obtain st1 st2 where 1: "reconcileMySQLSecret E st = (None, st1)"
    and 2: "reconcileMySQLService E st1 = (None, st2)"
    and 3: "reconcileMySQLStatefulSet E st2 = Some ((r, None), st')"
    using run mode by (auto simp: reconcileDatabase_def reconcileInternalDatabase_def internalMode_def
        split: option.splits prod.splits)
  have cr: "cr st1 = cr st" "cr st2 = cr st"
    using reconcileMySQLSecret_frame [OF 1] reconcileMySQLService_frame [OF 2] by simp_all
  let ?ks = "(Namespace (cr st), dbSecretName (cr st))"
  let ?kv = "(Namespace (cr st), dbServiceName (cr st))"
  have gs: "steady E (\<lambda>w. hasSecret w ?ks) (cr st)"
    by (rule presence_steady [OF sec laws resourceCall_deletes(1)])
  have gv: "steady E (\<lambda>w. hasService w ?kv) (cr st)"
    by (rule presence_steady [OF svc laws resourceCall_deletes(2)])
  have "tracks (\<lambda>w. hasSecret w ?ks) (cr st) st1"
    using reconcileMySQLSecret_there [OF sec 1] cr by (simp add: tracks_def del: tracks_names)
  then have "tracks (\<lambda>w. hasSecret w ?ks) (cr st) st'"
    by (rule reconcileMySQLStatefulSet_tracks [OF gs reconcileMySQLService_tracks [OF gs _ mode 2] mode 3])
  moreover have "tracks (\<lambda>w. hasService w ?kv) (cr st) st2"
    using reconcileMySQLService_there [OF svc 2] cr by (simp add: tracks_def del: tracks_names)
  then have "tracks (\<lambda>w. hasService w ?kv) (cr st) st'"
    by (rule reconcileMySQLStatefulSet_tracks [OF gv _ mode 3])
  moreover have "hasStatefulSet (world st') (Namespace (cr st), dbStatefulSetName (cr st))"
    using reconcileMySQLStatefulSet_there [OF sts laws 3] cr by simp
  ultimately show ?thesis by (auto dest: tracks_world)
qed

subsection \<open>The whole pass\<close>

lemma workload_tail:
  assumes g: "steady E P wp" and t: "tracks P wp st3"
    and steps: "reconcileIngress E st3 = (None, st4)" "reconcileHPA E st4 = (None, st5)"
      "updateStatus E st5 = (None, st')"
  shows "P (world st')"
proof -
  have t5: "tracks P wp st5"
    by (rule reconcileHPA_tracks [OF g reconcileIngress_tracks [OF g t steps(1)] steps(2)])
  show ?thesis
    by (rule updateStatus_keeps [OF steadyD [OF g] _ steps(3) tracks_world [OF t5]])
      (simp add: tracksD(5) [OF t5])
qed

text \<open>C11. A complete pass (no conflict, no error, no missing external Secret) over an accepted
  resource leaves everything its spec asks for in place: Deployment and Service, the content
  claim when persistence is on, and in Internal mode the credentials Secret, the headless Service
  and the StatefulSet.\<close>

theorem complete_pass_provisions:
  assumes sec: "presence hasSecret deletesSecret (secrets E) E"
    and svc: "presence hasService deletesService (services E) E"
    and sts: "presence hasStatefulSet deletesStatefulSet (statefulsets E) E"
    and dep: "presence hasDeployment deletesDeployment (deployments E) E"
    and pvc: "presence hasPVC deletesPVC (pvcs E) E"
    and laws: "key_laws E" "owner_law E" "retry_law E"
    and quiet: "conflict_law seen E" "\<not> seen w'"
    and get: "Get (wordpresses E) req w = (Inr wp, w1)"
    and live: "timeIsZero (DeletionTimestamp wp)"
      "ContainsFinalizer E (Finalizers wp) WordPressFinalizer"
    and valid: "validateSpec E (applyDefaults wp) = None"
    and run: "Reconcile E req w = Some ((res, None), w')"
    and res: "res \<noteq> requeueAfter (30 * second)"
  shows "hasDeployment w' (Namespace wp, wpName wp) \<and> hasService w' (Namespace wp, wpName wp)
    \<and> (per_Enabled (Persistence (Spec wp)) \<longrightarrow> hasPVC w' (Namespace wp, wpPVCName wp))
    \<and> (internalMode (applyDefaults wp) \<longrightarrow>
         hasSecret w' (Namespace wp, dbSecretName wp) \<and> hasService w' (Namespace wp, dbServiceName wp)
         \<and> hasStatefulSet w' (Namespace wp, dbStatefulSetName wp))"
proof -
  let ?wp = "applyDefaults wp"
  obtain st0 st' where db:
    "reconcileDatabase E \<lparr>cr = ?wp, world = w1\<rparr> = Some ((zeroResult, None), st0)"
    and workload: "reconcileWorkload E st0 = Some ((res, None), st')" and w': "w' = world st'"
    using laws(1,3) quiet get live valid run res by (rule complete_pass_steps)
  obtain st1 st2 st3 st4 st5 where
    1: "reconcilePVC E st0 = (None, st1)" and 2: "reconcileWordPressDeployment E st1 = Some (None, st2)"
    and 3: "reconcileWordPressService E st2 = (None, st3)"
    and tail: "reconcileIngress E st3 = (None, st4)" "reconcileHPA E st4 = (None, st5)"
      "updateStatus E st5 = (None, st')"
    using quiet(1) _ laws(3) workload by (rule reconcileWorkload_chain) (use quiet(2) w' in simp)
  have gov1: "steady E (\<lambda>w. hasSecret w k) ?wp" for k
    by (rule presence_steady [OF sec laws resourceCall_deletes(1)])
  have gov2: "steady E (\<lambda>w. hasService w k) ?wp" for k
    by (rule presence_steady [OF svc laws resourceCall_deletes(2)])
  have gov3: "steady E (\<lambda>w. hasStatefulSet w k) ?wp" for k
    by (rule presence_steady [OF sts laws resourceCall_deletes(3)])
  have gov4: "steady E (\<lambda>w. hasDeployment w k) ?wp" for k
    by (rule presence_steady [OF dep laws resourceCall_deletes(4)])
  have gov5: "steady E (\<lambda>w. hasPVC w k) ?wp" for k
    by (rule presence_steady [OF pvc laws resourceCall_deletes(5)])
  have frame: "tracks (\<lambda>_. True) ?wp st0" "tracks (\<lambda>_. True) ?wp st1" "tracks (\<lambda>_. True) ?wp st2"
    "tracks (\<lambda>_. True) ?wp st3"
  proof -
    note g = always_steady [OF laws(1,3), of ?wp]
    show t0: "tracks (\<lambda>_. True) ?wp st0"
      using reconcileDatabase_frame [OF db] by (simp add: tracks_def)
    show t1: "tracks (\<lambda>_. True) ?wp st1" by (rule reconcilePVC_tracks [OF g t0 1])
    show t2: "tracks (\<lambda>_. True) ?wp st2" by (rule reconcileWordPressDeployment_tracks [OF g t1 2])
    show "tracks (\<lambda>_. True) ?wp st3" by (rule reconcileWordPressService_tracks [OF g t2 3])
  qed
  have tracked: "tracks P ?wp st" if "tracks (\<lambda>_. True) ?wp st" "P (world st)" for P st
    using that by (simp add: tracks_def)
  have ends0: "P w'" if "steady E P ?wp" "P (world st0)" for P
    unfolding w' by (rule workload_tail [OF that(1) reconcileWordPressService_tracks [OF that(1)
      reconcileWordPressDeployment_tracks [OF that(1) reconcilePVC_tracks [OF that(1)
        tracked [of st0 P, OF frame(1) that(2)] 1] 2] 3] tail])
  have ends1: "P w'" if "steady E P ?wp" "P (world st1)" for P
    unfolding w' by (rule workload_tail [OF that(1) reconcileWordPressService_tracks [OF that(1)
      reconcileWordPressDeployment_tracks [OF that(1) tracked [of st1 P, OF frame(2) that(2)] 2] 3] tail])
  have ends2: "P w'" if "steady E P ?wp" "P (world st2)" for P
    unfolding w' by (rule workload_tail [OF that(1) reconcileWordPressService_tracks [OF that(1)
      tracked [of st2 P, OF frame(3) that(2)] 3] tail])
  have ends3: "P w'" if "steady E P ?wp" "P (world st3)" for P
    unfolding w' by (rule workload_tail [OF that(1) tracked [of st3 P, OF frame(4) that(2)] tail])
  have ns: "Namespace ?wp = Namespace wp" "Name ?wp = Name wp" by (simp_all add: frame_simps)
  have names: "Namespace (cr st) = Namespace wp \<and> wpName (cr st) = wpName wp \<and> wpPVCName (cr st) = wpPVCName wp"
    if "tracks (\<lambda>_. True) ?wp st" for st
    using tracksD(2,3) [OF that] ns by (simp add: wpName_def wpPVCName_def)
  have "hasDeployment w' (Namespace wp, wpName wp)"
    using ends2 [OF gov4] reconcileWordPressDeployment_there [OF dep 2] names [OF frame(2)] by simp
  moreover have "hasService w' (Namespace wp, wpName wp)"
    using ends3 [OF gov2] reconcileWordPressService_there [OF svc 3] names [OF frame(3)] by simp
  moreover have "hasPVC w' (Namespace wp, wpPVCName wp)" if "per_Enabled (Persistence (Spec wp))"
  proof -
    have "per_Enabled (Persistence (Spec ?wp))"
      using that by (simp add: applyDefaults_def defaultSpec_def Let_def defaultPersistence_def
          defaultWorkload_def)
    then have "per_Enabled (Persistence (Spec (cr st0)))" using tracksD(4) [OF frame(1)] by simp
    then show ?thesis
      using ends1 [OF gov5] reconcilePVC_there [OF pvc _ 1] names [OF frame(1)] by simp
  qed
  moreover have "hasSecret w' (Namespace wp, dbSecretName wp) \<and> hasService w' (Namespace wp, dbServiceName wp)
      \<and> hasStatefulSet w' (Namespace wp, dbStatefulSetName wp)" if "internalMode ?wp"
    using internal_database_there [OF sec svc sts laws _ db] that ends0 [OF gov1] ends0 [OF gov2]
      ends0 [OF gov3] ns
    by (simp add: dbSecretName_def dbServiceName_def dbStatefulSetName_def)
  ultimately show ?thesis by blast
qed

text \<open>In the empty namespace, an object is there once its creation is in the log.\<close>

definition createdIn :: "(kobj \<Rightarrow> nsname option) \<Rightarrow> call list \<Rightarrow> nsname \<Rightarrow> bool" where
  "createdIn f w k \<longleftrightarrow> list_ex (\<lambda>c. case c of Created ob \<Rightarrow> f ob = Some k | _ \<Rightarrow> False) w"

fun keyOf :: "kobj \<Rightarrow> string \<times> nsname" where
  "keyOf (KWordPress ob) = (''WordPress'', ObjectKeyFromObject ob)"
| "keyOf (KSecret ob) = (''Secret'', ObjectKeyFromObject ob)"
| "keyOf (KService ob) = (''Service'', ObjectKeyFromObject ob)"
| "keyOf (KStatefulSet ob) = (''StatefulSet'', ObjectKeyFromObject ob)"
| "keyOf (KPVC ob) = (''PersistentVolumeClaim'', ObjectKeyFromObject ob)"
| "keyOf (KDeployment ob) = (''Deployment'', ObjectKeyFromObject ob)"
| "keyOf (KIngress ob) = (''Ingress'', ObjectKeyFromObject ob)"
| "keyOf (KHPA ob) = (''HorizontalPodAutoscaler'', ObjectKeyFromObject ob)"

definition created :: "string \<Rightarrow> call list \<Rightarrow> nsname \<Rightarrow> bool" where
  "created kind = createdIn (\<lambda>ob. if fst (keyOf ob) = kind then Some (snd (keyOf ob)) else None)"

lemma created_grows: "created kind w k \<Longrightarrow> created kind (w @ cs) k"
  by (simp add: created_def createdIn_def)

lemma created_new: "keyOf ob = (kind, k) \<Longrightarrow> created kind (w @ [Created ob]) k"
  by (simp add: created_def createdIn_def)

lemma blank_admits: "admits (\<lambda>w. created kind w k) ok (blankEnv wp)"
  by (simp add: admits_def store_admits_def keeps_def blankEnv_def blankStore_def created_grows)

lemma blank_presence:
  "presence (\<lambda>_ _. True) deletesSecret (secrets (blankEnv wp)) (blankEnv wp)"
  "presence (created ''Service'') deletesService (services (blankEnv wp)) (blankEnv wp)"
  "presence (created ''StatefulSet'') deletesStatefulSet (statefulsets (blankEnv wp)) (blankEnv wp)"
  "presence (created ''Deployment'') deletesDeployment (deployments (blankEnv wp)) (blankEnv wp)"
  "presence (created ''PersistentVolumeClaim'') deletesPVC (pvcs (blankEnv wp)) (blankEnv wp)"
  using blank_admits
  by (auto simp: presence_def created_new admits_def store_admits_def keeps_def blankEnv_def blankStore_def)

theorem complete_pass_provisions_witness:
  "\<exists>w'. Reconcile (blankEnv (sampleWP [WordPressFinalizer] externalSpec)) (''default'', ''blog'') []
       = Some ((requeueAfter (15 * second), None), w')
     \<and> created ''Deployment'' w' (''default'', ''blog'') \<and> created ''Service'' w' (''default'', ''blog'')"
proof -
  let ?wp = "sampleWP [WordPressFinalizer] externalSpec"
  obtain w' where run: "Reconcile (blankEnv ?wp) (''default'', ''blog'') [] =
    Some ((requeueAfter (15 * second), None), w')"
    using blank_pass by blast
  have get: "Get (wordpresses (blankEnv ?wp)) (''default'', ''blog'') [] = (Inr ?wp, [])" by simp
  have live: "timeIsZero (DeletionTimestamp ?wp)"
    "ContainsFinalizer (blankEnv ?wp) (Finalizers ?wp) WordPressFinalizer"
    by (simp_all add: timeIsZero_def)
  have delay: "requeueAfter (15 * second) \<noteq> requeueAfter (30 * second)"
    by (simp add: requeueAfter_def second_def)
  have "wpName ?wp = ''blog''" by (simp add: wpName_def)
  then show ?thesis
    using complete_pass_provisions [OF blank_presence blank_key_laws blank_owner_law blank_retry_law
        blank_conflict_law _ get live externalSpec_valid run delay] run by simp
qed

end
