(* ===== verification/Schema.thy ===== *)
theory Schema
  imports Encoding
begin

section \<open>The CRD schema: defaults the server fills in (markers of wordpress\_types.go)\<close>

text \<open>
  The \<^verbatim>\<open>+kubebuilder:default\<close> markers, as structural defaulting on JSON trees: the
  default of a member is added when the object around it is there and the member is not (a null is
  pruned before, so it counts as not there); an object that is missing altogether gets none.
  \<open>storedSpec\<close> is what a later \<^verbatim>\<open>Get\<close> decodes after the operator has sent a spec;
  \<open>schemaSpec\<close> says in terms of the typed spec what that is.
\<close>

subsection \<open>Structural defaulting\<close>

definition onMembers :: "((string \<times> json) list \<Rightarrow> (string \<times> json) list) \<Rightarrow> json \<Rightarrow> json" where
  "onMembers f j = (case j of JObj kvs \<Rightarrow> JObj (f kvs) | _ \<Rightarrow> j)"

definition absent :: "string \<Rightarrow> (string \<times> json) list \<Rightarrow> bool" where
  "absent k kvs = (case map_of kvs k of None \<Rightarrow> True | Some j \<Rightarrow> j = JNull)"

definition addDefault :: "string \<Rightarrow> json \<Rightarrow> (string \<times> json) list \<Rightarrow> (string \<times> json) list" where
  "addDefault k d kvs = (if absent k kvs then (k, d) # kvs else kvs)"

definition inMember ::
    "string \<Rightarrow> (json \<Rightarrow> json) \<Rightarrow> (string \<times> json) list \<Rightarrow> (string \<times> json) list" where
  "inMember k f kvs = map (\<lambda>(k', j). (k', if k' = k then f j else j)) kvs"

definition crdInternal :: "json \<Rightarrow> json" where
  "crdInternal = onMembers (\<lambda>o1.
     addDefault ''image'' (JStr ''mysql:8.0'') (
     addDefault ''imagePullPolicy'' (JStr ''IfNotPresent'') (
     addDefault ''storageSize'' (JStr ''5Gi'') o1)))"

definition crdExternal :: "json \<Rightarrow> json" where
  "crdExternal = onMembers (addDefault ''port'' (JInt 3306))"

definition crdDatabase :: "json \<Rightarrow> json" where
  "crdDatabase = onMembers (\<lambda>o1.
     addDefault ''mode'' (JStr ''Internal'') (
     addDefault ''name'' (JStr ''wordpress'') (
     addDefault ''user'' (JStr ''wordpress'') (
     addDefault ''tablePrefix'' (JStr ''wp_'') (
     inMember ''internal'' crdInternal (
     inMember ''external'' crdExternal o1))))))"

definition crdIngress :: "json \<Rightarrow> json" where
  "crdIngress = onMembers (addDefault ''enabled'' (JBool False))"

definition crdService :: "json \<Rightarrow> json" where
  "crdService = onMembers (\<lambda>o1.
     addDefault ''type'' (JStr ''ClusterIP'') (addDefault ''port'' (JInt 80) o1))"

definition crdPersistence :: "json \<Rightarrow> json" where
  "crdPersistence = onMembers (\<lambda>o1.
     addDefault ''enabled'' (JBool True) (addDefault ''size'' (JStr ''5Gi'') o1))"

definition crdAutoscaling :: "json \<Rightarrow> json" where
  "crdAutoscaling = onMembers (\<lambda>o1.
     addDefault ''enabled'' (JBool False) (
     addDefault ''minReplicas'' (JInt 1) (
     addDefault ''maxReplicas'' (JInt 5) (
     addDefault ''targetCPUUtilizationPercentage'' (JInt 80) o1))))"

definition crdSpec :: "json \<Rightarrow> json" where
  "crdSpec = onMembers (\<lambda>o1.
     addDefault ''image'' (JStr ''wordpress:6.5-apache'') (
     addDefault ''imagePullPolicy'' (JStr ''IfNotPresent'') (
     addDefault ''replicas'' (JInt 1) (
     inMember ''database'' crdDatabase (
     inMember ''service'' crdService (
     inMember ''ingress'' crdIngress (
     inMember ''persistence'' crdPersistence (
     inMember ''autoscaling'' crdAutoscaling o1))))))))"

text \<open>Sent by the operator, defaulted by the server, read back.\<close>

definition storedSpec :: "libCodec \<Rightarrow> WordPressSpec \<Rightarrow> WordPressSpec option" where
  "storedSpec C s = decSpec C (crdSpec (encSpec C s))"

subsection \<open>The defaulting, on typed values\<close>

definition schemaInternal :: "InternalDatabaseSpec \<Rightarrow> InternalDatabaseSpec" where
  "schemaInternal i =
     i\<lparr>int_Image := orElse [] ''mysql:8.0'' (int_Image i),
       int_ImagePullPolicy := orElse [] ''IfNotPresent'' (int_ImagePullPolicy i),
       int_StorageSize := orElse [] ''5Gi'' (int_StorageSize i)\<rparr>"

definition schemaExternal :: "ExternalDatabaseSpec \<Rightarrow> ExternalDatabaseSpec" where
  "schemaExternal x = x\<lparr>ext_Port := orElse 0 3306 (ext_Port x)\<rparr>"

definition schemaDatabase :: "DatabaseSpec \<Rightarrow> DatabaseSpec" where
  "schemaDatabase d =
     d\<lparr>Mode := orElse [] ''Internal'' (Mode d), db_Name := orElse [] ''wordpress'' (db_Name d),
       db_User := orElse [] ''wordpress'' (db_User d), TablePrefix := orElse [] ''wp_'' (TablePrefix
         d),
       Internal := map_option schemaInternal (Internal d),
       External := map_option schemaExternal (External d)\<rparr>"

definition schemaService :: "ServiceSpec \<Rightarrow> ServiceSpec" where
  "schemaService v =
     v\<lparr>svs_Type := orElse [] ''ClusterIP'' (svs_Type v), svs_Port := orElse 0 80 (svs_Port v)\<rparr>"

text \<open>\<open>False\<close> is the zero value of a Boolean, left out by \<^verbatim>\<open>omitempty\<close>, so its default is
  put
  in its place.\<close>

definition schemaPersistence :: "PersistenceSpec \<Rightarrow> PersistenceSpec" where
  "schemaPersistence p = p\<lparr>per_Enabled := True, per_Size := orElse [] ''5Gi'' (per_Size p)\<rparr>"

definition schemaAutoscaling :: "AutoscalingSpec \<Rightarrow> AutoscalingSpec" where
  "schemaAutoscaling a =
     a\<lparr>as_MinReplicas := orElse 0 1 (as_MinReplicas a), as_MaxReplicas := orElse 0 5 (as_MaxReplicas
       a),
       as_TargetCPUUtilizationPercentage := orElse 0 80 (as_TargetCPUUtilizationPercentage a)\<rparr>"

definition schemaSpec :: "WordPressSpec \<Rightarrow> WordPressSpec" where
  "schemaSpec s =
     s\<lparr>Image := orElse [] ''wordpress:6.5-apache'' (Image s),
       ImagePullPolicy := orElse [] ''IfNotPresent'' (ImagePullPolicy s),
       Replicas := orElse None (Some 1) (Replicas s),
       Database := schemaDatabase (Database s), ServiceS := schemaService (ServiceS s),
       Persistence := schemaPersistence (Persistence s),
       Autoscaling := schemaAutoscaling (Autoscaling s)\<rparr>"

subsection \<open>They are the same\<close>

lemma onMembers_JObj [simp]: "onMembers f (JObj kvs) = JObj (f kvs)"
  by (simp add: onMembers_def)

lemma map_of_addDefault [simp]:
  "map_of (addDefault k' d kvs) k = (if k = k' \<and> absent k kvs then Some d else map_of kvs k)"
  by (auto simp: addDefault_def)

lemma map_of_inMember [simp]:
  "map_of (inMember k' f kvs) k = (if k = k' then map_option f (map_of kvs k) else map_of kvs k)"
  by (induction kvs) (auto simp: inMember_def)

lemma absent_schema [simp]:
  "k \<noteq> k' \<Longrightarrow> absent k (addDefault k' d kvs) = absent k kvs"
  "k \<noteq> k' \<Longrightarrow> absent k (inMember k' f kvs) = absent k kvs"
  by (simp_all add: absent_def)

lemma absent_fields [simp]:
  "absent k []"
  "k \<noteq> k' \<Longrightarrow> absent k ((k', j) # kvs) = absent k kvs"
  "k \<noteq> k' \<Longrightarrow> absent k (omit k' isz enc x @ kvs) = absent k kvs"
  "k \<noteq> k' \<Longrightarrow> absent k (omit k' isz enc x)"
  "(\<not> isz x \<Longrightarrow> enc x \<noteq> JNull) \<Longrightarrow> map_of kvs k = None \<Longrightarrow>
     absent k (omit k isz enc x @ kvs) = isz x"
  "(\<not> isz x \<Longrightarrow> enc x \<noteq> JNull) \<Longrightarrow> absent k (omit k isz enc x) = isz x"
  by (simp_all add: absent_def omit_def)

lemma fieldOf_schema [simp]:
  "k \<noteq> k' \<Longrightarrow> fieldOf k dec zero (addDefault k' d kvs) = fieldOf k dec zero kvs"
  "k \<noteq> k' \<Longrightarrow> fieldOf k dec zero (inMember k' f kvs) = fieldOf k dec zero kvs"
  "dec d = Some v \<Longrightarrow> fieldOf k dec zero kvs = Some u \<Longrightarrow> d \<noteq> JNull \<Longrightarrow>
     fieldOf k dec zero (addDefault k d kvs) = Some (if absent k kvs then v else u)"
  by (auto simp: fieldOf_def addDefault_def absent_def split: json.splits)

lemma fieldOf_default_False [simp]:
  "fieldOf k decBool False (addDefault k (JBool False) kvs) = fieldOf k decBool False kvs"
  by (simp add: fieldOf_def addDefault_def absent_def decBool_def split: json.splits option.splits)

lemma structOf_schema [simp]:
  "k \<noteq> k' \<Longrightarrow> structOf k dec (addDefault k' d kvs) = structOf k dec kvs"
  "k \<noteq> k' \<Longrightarrow> structOf k dec (inMember k' f kvs) = structOf k dec kvs"
  "f j \<noteq> JNull \<Longrightarrow> map_of kvs k = Some j \<Longrightarrow> structOf k dec (inMember k f kvs) = dec (f j)"
  by (simp_all add: structOf_def split: json.splits option.splits)

lemma encInt32P_value [simp]: "p \<noteq> None \<Longrightarrow> encPtr encInt32 p \<noteq> JNull"
  by (auto simp: encPtr_def encInt_value)

lemma decBool_JBool [simp]: "decBool (JBool b) = Some b"
  by (simp add: decBool_def)

lemma if_bool [simp]:
  "(if \<not> b then True else b) = True"
  "(if \<not> b then False else b) = b"
  by simp_all

lemma decInt32_JInt [simp]:
  "- (2 ^ 31) \<le> i \<Longrightarrow> i < 2 ^ 31 \<Longrightarrow> decInt32 (JInt i) = Some (word_of_int i)"
  by (simp add: decInt32_def)

lemma decPtr_value [simp]: "j \<noteq> JNull \<Longrightarrow> decPtr dec j = map_option Some (dec j)"
  by (simp add: decPtr_def)

lemma Service_schema:
  "decService (crdService (encService v)) = Some (schemaService (normService v))"
  by (simp add: encInt_value crdService_def encService_def decService_def schemaService_def
    normService_def
      orElse_def split del: if_split)

lemma Persistence_schema:
  "decPersistence (crdPersistence (encPersistence p)) = Some (schemaPersistence p)"
  by (simp add: encInt_value crdPersistence_def encPersistence_def decPersistence_def
    schemaPersistence_def
      orElse_def split del: if_split)

lemma Ingress_schema: "decIngress (crdIngress (encIngress g)) = Some (normIngress g)"
  by (simp add: encInt_value crdIngress_def encIngress_def decIngress_def normIngress_def split del:
    if_split)

lemma Autoscaling_schema:
  "decAutoscaling (crdAutoscaling (encAutoscaling a)) = Some (schemaAutoscaling a)"
  by (simp add: encInt_value crdAutoscaling_def encAutoscaling_def decAutoscaling_def
    schemaAutoscaling_def
      orElse_def split del: if_split)

lemma External_schema: "decExternal (crdExternal (encExternal x)) = Some (schemaExternal x)"
  by (simp add: encInt_value crdExternal_def encExternal_def decExternal_def schemaExternal_def
    orElse_def split del: if_split)

lemma Internal_schema:
  assumes "libCodec_law C"
  shows "decInternal C (crdInternal (encInternal C i)) = Some (schemaInternal (normInternal i))"
  by (simp add: encInt_value crdInternal_def encInternal_def decInternal_def schemaInternal_def
    normInternal_def
      lib_values [OF assms] lib_first [OF assms] lib_only [OF assms] orElse_def split del: if_split)

text \<open>A pointer member: defaulted when it is there.\<close>

lemma crd_object [simp]: "crdInternal (encInternal C i) \<noteq> JNull" "crdExternal (encExternal x) \<noteq>
  JNull"
  "crdDatabase (encDatabase C d) \<noteq> JNull" "crdService (encService v) \<noteq> JNull"
  "crdIngress (encIngress g) \<noteq> JNull" "crdPersistence (encPersistence p) \<noteq> JNull"
  "crdAutoscaling (encAutoscaling a) \<noteq> JNull"
  by (simp_all add: crdInternal_def encInternal_def crdExternal_def encExternal_def crdDatabase_def
      encDatabase_def crdService_def encService_def crdIngress_def encIngress_def crdPersistence_def
      encPersistence_def crdAutoscaling_def encAutoscaling_def)

lemma fieldOf_pointer:
  assumes "\<And>x. f (enc x) \<noteq> JNull" and "\<And>x. dec (f (enc x)) = Some (g x)"
  shows "map_of rest k = None \<Longrightarrow>
      fieldOf k (decPtr dec) None (inMember k f (omit k (\<lambda>p. p = None) (encPtr enc) p @ rest))
      = Some (map_option g p)"
    and "fieldOf k (decPtr dec) None (inMember k f (omit k (\<lambda>p. p = None) (encPtr enc) p))
      = Some (map_option g p)"
proof -
  have there: "fieldOf k (decPtr dec) None ((k, f (enc x)) # kvs) = Some (Some (g x))" for x kvs
    using assms(1,2) by simp
  show "fieldOf k (decPtr dec) None (inMember k f (omit k (\<lambda>p. p = None) (encPtr enc) p @ rest))
      = Some (map_option g p)" if "map_of rest k = None"
  proof (cases p)
    case None
    with that show ?thesis by (simp add: omit_def fieldOf_def)
  qed (use there in \<open>simp add: omit_def encPtr_def inMember_def\<close>)
  show "fieldOf k (decPtr dec) None (inMember k f (omit k (\<lambda>p. p = None) (encPtr enc) p))
      = Some (map_option g p)"
    using there by (cases p) (simp_all add: omit_def encPtr_def inMember_def)
qed

lemma inMember_omit [simp]:
  "k \<noteq> k' \<Longrightarrow> inMember k f (omit k' isz enc x @ kvs) = omit k' isz enc x @ inMember k f kvs"
  "k \<noteq> k' \<Longrightarrow> inMember k f (omit k' isz enc x) = omit k' isz enc x"
  "inMember k f ((k', j) # kvs) = (k', if k' = k then f j else j) # inMember k f kvs"
  "inMember k f [] = []"
  by (simp_all add: inMember_def omit_def)

lemma Database_schema:
  assumes "libCodec_law C"
  shows "decDatabase C (crdDatabase (encDatabase C d)) = Some (schemaDatabase (normDatabase d))"
  by (simp add: encInt_value crdDatabase_def encDatabase_def decDatabase_def schemaDatabase_def
    normDatabase_def
      fieldOf_pointer Internal_schema [OF assms] External_schema orElse_def option.map_comp o_def
        split del: if_split)

lemma storedSpec_schemaSpec:
  assumes "libCodec_law C"
  shows "storedSpec C s = Some (schemaSpec (normSpec s))"
  by (simp add: encInt_value storedSpec_def crdSpec_def encSpec_def decSpec_def schemaSpec_def
    normSpec_def
      lib_values [OF assms] lib_first [OF assms] lib_only [OF assms] Database_schema [OF assms]
      Service_schema Ingress_schema Persistence_schema Autoscaling_schema orElse_def split del:
        if_split)

end
