(* ===== verification/Admission.thy ===== *)
theory Admission
  imports Schema Passes
begin

section \<open>What the stored resource guarantees (validation markers of wordpress\_types.go)\<close>

text \<open>
  The \<^verbatim>\<open>+kubebuilder:validation\<close> markers as predicates on JSON trees, and how the
  schema, the defaults of the operator and its own validation fit together: the objects built for
  an admitted resource stay in the ranges of the API, defaulting on the server changes nothing the
  operator builds, and what the operator's own update of a resource makes of it.
\<close>

subsection \<open>Validation on JSON trees\<close>

text \<open>An optional member is checked when it is there; a required one must be.\<close>

definition optional :: "string \<Rightarrow> (json \<Rightarrow> bool) \<Rightarrow> (string \<times> json) list \<Rightarrow> bool" where
  "optional k P kvs = (case map_of kvs k of None \<Rightarrow> True | Some j \<Rightarrow> j = JNull \<or> P j)"

definition required :: "string \<Rightarrow> (json \<Rightarrow> bool) \<Rightarrow> (string \<times> json) list \<Rightarrow> bool" where
  "required k P kvs = (case map_of kvs k of None \<Rightarrow> False | Some j \<Rightarrow> P j)"

definition withMembers :: "((string \<times> json) list \<Rightarrow> bool) \<Rightarrow> json \<Rightarrow> bool" where
  "withMembers P j = (case j of JObj kvs \<Rightarrow> P kvs | _ \<Rightarrow> False)"

definition enumOf :: "string list \<Rightarrow> json \<Rightarrow> bool" where
  "enumOf vs j = (case j of JStr s \<Rightarrow> s \<in> set vs | _ \<Rightarrow> False)"

definition nonempty :: "json \<Rightarrow> bool" where
  "nonempty j = (case j of JStr s \<Rightarrow> s \<noteq> [] | _ \<Rightarrow> False)"

definition atLeast :: "int \<Rightarrow> json \<Rightarrow> bool" where
  "atLeast lo j = (case j of JInt i \<Rightarrow> lo \<le> i | _ \<Rightarrow> False)"

definition between :: "int \<Rightarrow> int \<Rightarrow> json \<Rightarrow> bool" where
  "between lo hi j = (case j of JInt i \<Rightarrow> lo \<le> i \<and> i \<le> hi | _ \<Rightarrow> False)"

definition admitsSecretKeyRef :: "json \<Rightarrow> bool" where
  "admitsSecretKeyRef = withMembers (\<lambda>o1. required ''name'' nonempty o1 \<and> required ''key'' nonempty
    o1)"

definition admitsInternal :: "json \<Rightarrow> bool" where
  "admitsInternal = withMembers (optional ''rootPasswordSecret'' admitsSecretKeyRef)"

definition admitsExternal :: "json \<Rightarrow> bool" where
  "admitsExternal = withMembers (\<lambda>o1.
     required ''host'' nonempty o1 \<and> optional ''port'' (between 1 65535) o1
     \<and> required ''passwordSecret'' admitsSecretKeyRef o1)"

definition admitsDatabase :: "json \<Rightarrow> bool" where
  "admitsDatabase = withMembers (\<lambda>o1.
     optional ''mode'' (enumOf [''Internal'', ''External'']) o1
     \<and> optional ''name'' nonempty o1 \<and> optional ''user'' nonempty o1
     \<and> optional ''internal'' admitsInternal o1 \<and> optional ''external'' admitsExternal o1)"

definition admitsService :: "json \<Rightarrow> bool" where
  "admitsService = withMembers (\<lambda>o1.
     optional ''type'' (enumOf [''ClusterIP'', ''NodePort'', ''LoadBalancer'']) o1
     \<and> optional ''port'' (between 1 65535) o1)"

definition admitsAutoscaling :: "json \<Rightarrow> bool" where
  "admitsAutoscaling = withMembers (\<lambda>o1.
     optional ''minReplicas'' (atLeast 1) o1 \<and> optional ''maxReplicas'' (atLeast 1) o1
     \<and> optional ''targetCPUUtilizationPercentage'' (between 1 100) o1)"

definition admitsSpec :: "json \<Rightarrow> bool" where
  "admitsSpec = withMembers (\<lambda>o1.
     optional ''replicas'' (atLeast 0) o1 \<and> optional ''database'' admitsDatabase o1
     \<and> optional ''service'' admitsService o1 \<and> optional ''autoscaling'' admitsAutoscaling o1)"

subsection \<open>What the decoded values satisfy\<close>

lemma sint_decoded:
  assumes "decInt32 j = Some w"
  obtains "j = JInt (sint w)"
  using assms
  by (auto simp: decInt32_def sint_sbintrunc' signed_take_bit_int_eq_self split: json.splits
    if_splits)

lemma member_enum:
  "fieldOf k decString [] kvs = Some v \<Longrightarrow> optional k (enumOf vs) kvs \<Longrightarrow> v \<noteq> [] \<Longrightarrow> v \<in> set vs"
  by (auto simp: fieldOf_def optional_def enumOf_def decString_def split: option.splits json.splits)

lemma member_int:
  assumes "fieldOf k decInt32 0 kvs = Some v" and "v \<noteq> 0"
  shows "optional k (between lo hi) kvs \<Longrightarrow> lo \<le> sint v \<and> sint v \<le> hi"
    and "optional k (atLeast lo) kvs \<Longrightarrow> lo \<le> sint v"
  using assms
  by (auto simp: fieldOf_def optional_def between_def atLeast_def elim: sint_decoded
      split: option.splits json.splits)

lemma member_nonempty:
  "fieldOf k decString [] kvs = Some v \<Longrightarrow> required k nonempty kvs \<Longrightarrow> v \<noteq> []"
  by (auto simp: fieldOf_def required_def nonempty_def decString_def split: option.splits
    json.splits)

lemma member_struct:
  assumes "structOf k dec kvs = Some v" and "optional k P kvs" and "P (JObj [])"
  obtains j where "dec j = Some v" and "P j"
  using assms by (auto simp: structOf_def optional_def split: option.splits json.splits)

lemma member_pointer:
  assumes "fieldOf k (decPtr dec) None kvs = Some (Some x)" and "optional k P kvs"
  obtains j where "dec j = Some x" and "P j"
  using assms
  by (auto simp: fieldOf_def optional_def decPtr_def split: option.splits json.splits)

lemmas decode_elims = Option.bind_eq_Some_conv members_def

lemma membersE:
  assumes "members j = Some kvs"
  obtains "j = JObj kvs"
  using assms by (auto simp: members_def split: json.splits)

lemma withMembers_JObj [simp]: "withMembers P (JObj kvs) = P kvs"
  by (simp add: withMembers_def)

lemma optional_Nil [simp]: "optional k P []"
  by (simp add: optional_def)

lemma admits_empty [simp]:
  "admitsDatabase (JObj [])" "admitsService (JObj [])" "admitsAutoscaling (JObj [])"
  by (simp_all add: admitsDatabase_def admitsService_def admitsAutoscaling_def)

lemma Service_admitted:
  assumes "decService j = Some v" and "admitsService j"
  shows "svs_Type v = [] \<or> svs_Type v \<in> {''ClusterIP'', ''NodePort'', ''LoadBalancer''}"
    and "svs_Port v = 0 \<or> 1 \<le> sint (svs_Port v) \<and> sint (svs_Port v) \<le> 65535"
  using assms
  by (auto simp: decService_def admitsService_def Option.bind_eq_Some_conv elim!: membersE
      dest: member_enum member_int(1))

lemma Autoscaling_admitted:
  assumes "decAutoscaling j = Some a" and "admitsAutoscaling j"
  shows "as_MinReplicas a = 0 \<or> 1 \<le> sint (as_MinReplicas a)"
    and "as_MaxReplicas a = 0 \<or> 1 \<le> sint (as_MaxReplicas a)"
    and "as_TargetCPUUtilizationPercentage a = 0
      \<or> 1 \<le> sint (as_TargetCPUUtilizationPercentage a)
        \<and> sint (as_TargetCPUUtilizationPercentage a) \<le> 100"
  using assms
  by (auto simp: decAutoscaling_def admitsAutoscaling_def Option.bind_eq_Some_conv elim!: membersE
      dest: member_int)

lemma External_admitted:
  assumes "decExternal j = Some x" and "admitsExternal j"
  shows "ext_Host x \<noteq> []"
    and "ext_Port x = 0 \<or> 1 \<le> sint (ext_Port x) \<and> sint (ext_Port x) \<le> 65535"
  using assms
  by (auto simp: decExternal_def admitsExternal_def Option.bind_eq_Some_conv elim!: membersE
      dest: member_nonempty member_int(1))

lemma Database_admitted:
  assumes "decDatabase C j = Some d" and "admitsDatabase j"
  shows "Mode d = [] \<or> Mode d \<in> {''Internal'', ''External''}"
    and "External d = Some x \<Longrightarrow>
      ext_Host x \<noteq> [] \<and> (ext_Port x = 0 \<or> 1 \<le> sint (ext_Port x) \<and> sint (ext_Port x) \<le> 65535)"
proof -
  from assms show "Mode d = [] \<or> Mode d \<in> {''Internal'', ''External''}"
    by (auto simp: decDatabase_def admitsDatabase_def Option.bind_eq_Some_conv elim!: membersE
        dest: member_enum)
  assume "External d = Some x"
  with assms obtain kvs where "fieldOf ''external'' (decPtr decExternal) None kvs = Some (Some x)"
    "optional ''external'' admitsExternal kvs"
    by (auto simp: decDatabase_def admitsDatabase_def Option.bind_eq_Some_conv elim!: membersE)
  then obtain jx where "decExternal jx = Some x" "admitsExternal jx"
    by (rule member_pointer)
  then show "ext_Host x \<noteq> []
      \<and> (ext_Port x = 0 \<or> 1 \<le> sint (ext_Port x) \<and> sint (ext_Port x) \<le> 65535)"
    using External_admitted by blast
qed

lemma Spec_admitted:
  assumes "decSpec C j = Some s" and "admitsSpec j"
  obtains jd jv ja where
    "decDatabase C jd = Some (Database s)" "admitsDatabase jd"
    "decService jv = Some (ServiceS s)" "admitsService jv"
    "decAutoscaling ja = Some (Autoscaling s)" "admitsAutoscaling ja"
    "\<And>n. Replicas s = Some n \<Longrightarrow> 0 \<le> sint n"
proof -
  obtain kvs where kvs: "j = JObj kvs" "structOf ''database'' (decDatabase C) kvs = Some (Database
    s)"
    "structOf ''service'' decService kvs = Some (ServiceS s)"
    "structOf ''autoscaling'' decAutoscaling kvs = Some (Autoscaling s)"
    "fieldOf ''replicas'' (decPtr decInt32) None kvs = Some (Replicas s)"
    using assms(1) by (auto simp: decSpec_def Option.bind_eq_Some_conv elim!: membersE)
  have ok: "optional ''replicas'' (atLeast 0) kvs" "optional ''database'' admitsDatabase kvs"
    "optional ''service'' admitsService kvs" "optional ''autoscaling'' admitsAutoscaling kvs"
    using assms(2) kvs(1) by (simp_all add: admitsSpec_def)
  have nonneg: "0 \<le> sint n" if "Replicas s = Some n" for n
  proof -
    from kvs(5) that have "fieldOf ''replicas'' (decPtr decInt32) None kvs = Some (Some n)" by simp
    then obtain jn where "decInt32 jn = Some n" "atLeast 0 jn"
      using ok(1) by (rule member_pointer)
    then show ?thesis by (auto simp: atLeast_def elim: sint_decoded)
  qed
  obtain jd where jd: "decDatabase C jd = Some (Database s)" "admitsDatabase jd"
    by (rule member_struct [OF kvs(2) ok(2)]) simp_all
  obtain jv where jv: "decService jv = Some (ServiceS s)" "admitsService jv"
    by (rule member_struct [OF kvs(3) ok(3)]) simp_all
  obtain ja where ja: "decAutoscaling ja = Some (Autoscaling s)" "admitsAutoscaling ja"
    by (rule member_struct [OF kvs(4) ok(4)]) simp_all
  from jd jv ja nonneg show ?thesis by (rule that)
qed

subsection \<open>The objects built for an admitted resource\<close>

definition portInRange :: "int32 \<Rightarrow> bool" where
  "portInRange p \<longleftrightarrow> 1 \<le> sint p \<and> sint p \<le> 65535"

definition serviceInRange :: "Service \<Rightarrow> bool" where
  "serviceInRange svc \<longleftrightarrow>
     ss_Type (svc_Spec svc) \<in> {''ClusterIP'', ''NodePort'', ''LoadBalancer''}
     \<and> list_all (\<lambda>p. portInRange (sp_Port p) \<and> 0 \<le> sint (sp_NodePort p))
         (sliceElems (ss_Ports (svc_Spec svc)))"

definition hpaInRange :: "HorizontalPodAutoscaler \<Rightarrow> bool" where
  "hpaInRange h \<longleftrightarrow>
     (case hs_MinReplicas (hpa_Spec h) of
        None \<Rightarrow> False
      | Some lo \<Rightarrow> 1 \<le> sint lo \<and> sint lo \<le> sint (hs_MaxReplicas (hpa_Spec h)))
     \<and> list_all (\<lambda>m. case map_option rms_AverageUtilization (ms_Resource m) of
           Some (Some u) \<Rightarrow> 1 \<le> sint u \<and> sint u \<le> 100 | _ \<Rightarrow> False)
         (sliceElems (hs_Metrics (hpa_Spec h)))"

lemma defaultSpec_parts [simp]:
  "ServiceS (defaultSpec s) = defaultService (ServiceS s)"
  "Persistence (defaultSpec s) = defaultPersistence (Persistence s)"
  "Database (defaultSpec s) = defaultDatabase (Database s)"
  "Autoscaling (defaultSpec s) = defaultAutoscaling (Autoscaling s)"
  "IngressS (defaultSpec s) = IngressS s"
  "Replicas (defaultSpec s) = Some (case Replicas s of None \<Rightarrow> 1 | Some n \<Rightarrow> n)"
  by (simp_all add: defaultSpec_def Let_def defaultWorkload_def split: option.splits)

lemma defaultDatabase_parts [simp]:
  "Mode (defaultDatabase d) = orElse [] DatabaseModeInternal (Mode d)"
  "db_Name (defaultDatabase d) = orElse [] ''wordpress'' (db_Name d)"
  "db_User (defaultDatabase d) = orElse [] ''wordpress'' (db_User d)"
  "TablePrefix (defaultDatabase d) = orElse [] ''wp_'' (TablePrefix d)"
  "Internal (defaultDatabase d) =
     (if orElse [] DatabaseModeInternal (Mode d) = DatabaseModeInternal
      then Some (defaultInternal (Internal d)) else Internal d)"
  "External (defaultDatabase d) =
     (if orElse [] DatabaseModeInternal (Mode d) = DatabaseModeExternal
      then map_option defaultExternal (External d) else External d)"
  by (simp_all add: defaultDatabase_def Let_def)

lemma admitted_service:
  assumes "decService j = Some (ServiceS s)" and "admitsService j" and "Spec wp = s"
  shows "serviceInRange (buildWordPressService (applyDefaults wp))"
  using Service_admitted [OF assms(1,2)] assms(3)
  by (auto simp: serviceInRange_def buildWordPressService_def Let_def Service.defs object.defs
      newMeta_def Spec_applyDefaults defaultService_def orElse_def portInRange_def go_consts)

lemma admitted_autoscaler:
  assumes "decAutoscaling j = Some (Autoscaling s)" and "admitsAutoscaling j" and "Spec wp = s"
    and "validateSpec E (applyDefaults wp) = None" and "as_Enabled (Autoscaling s)"
  shows "hpaInRange (buildWordPressHPA (applyDefaults wp))"
proof -
  have "sint (as_MinReplicas (defaultAutoscaling (Autoscaling s)))
      \<le> sint (as_MaxReplicas (defaultAutoscaling (Autoscaling s)))"
    using assms(3-5) by (simp add: validateSpec_None_iff validSpec_def Spec_applyDefaults
        defaultAutoscaling_def)
  with Autoscaling_admitted [OF assms(1,2)] assms(3,5) show ?thesis
    by (auto simp: hpaInRange_def buildWordPressHPA_def Let_def HorizontalPodAutoscaler.defs
        object.defs newMeta_def Spec_applyDefaults defaultAutoscaling_def orElse_def)
qed

lemma admitted_database_address:
  assumes "decDatabase C j = Some (Database s)" and "admitsDatabase j" and "Spec wp = s"
    and "validateSpec E (applyDefaults wp) = None"
  obtains h p where "resolvedDBHost (applyDefaults wp) = Some (h, p)" "h \<noteq> []" "portInRange p"
proof (cases "Mode (Database (Spec (applyDefaults wp))) = DatabaseModeExternal")
  case True
  then obtain x where x: "External (Database s) = Some x"
    and res: "resolvedDBHost (applyDefaults wp) = Some (ext_Host x, ext_Port (defaultExternal x))"
    using assms(3,4)
    by (cases "External (Database s)")
      (auto simp: validateSpec_None_iff validSpec_def validDatabase_def Spec_applyDefaults
        resolvedDBHost_def defaultExternal_def)
  from Database_admitted(2) [OF assms(1,2) x]
  have "ext_Host x \<noteq> []" "portInRange (ext_Port (defaultExternal x))"
    by (auto simp: defaultExternal_def orElse_def portInRange_def)
  with res show ?thesis by (rule that)
next
  case False
  then have "resolvedDBHost (applyDefaults wp)
      = Some (dbServiceName wp @ ''.'' @ Namespace wp @ ''.svc'', 3306)"
    by (simp add: resolvedDBHost_def dbServiceName_def frame_simps)
  then show ?thesis by (rule that) (simp_all add: portInRange_def)
qed


text \<open>A manifest as a user may write it.\<close>

definition sampleManifest :: json where
  "sampleManifest = JObj
     [(''replicas'', JInt 2),
      (''service'', JObj [(''type'', JStr ''NodePort''), (''port'', JInt 8080),
         (''nodePort'', JInt 30080)]),
      (''database'', JObj [(''mode'', JStr ''Internal'')]),
      (''autoscaling'', JObj [(''enabled'', JBool True), (''minReplicas'', JInt 2),
         (''maxReplicas'', JInt 6)])]"

lemma sampleManifest_ok:
  "admitsSpec sampleManifest"
  "\<exists>s. decSpec plainCodec sampleManifest = Some s \<and> as_Enabled (Autoscaling s)
     \<and> validateSpec E (applyDefaults (sampleWP fs s)) = None"
proof -
  show "admitsSpec sampleManifest" by code_simp
  let ?s = "zeroSpec\<lparr>Replicas := Some 2,
     ServiceS := (ServiceS zeroSpec)\<lparr>svs_Type := ''NodePort'', svs_Port := 8080, svs_NodePort :=
       30080\<rparr>,
     Database := (Database zeroSpec)\<lparr>Mode := ''Internal''\<rparr>,
     Autoscaling := (Autoscaling zeroSpec)\<lparr>as_Enabled := True, as_MinReplicas := 2, as_MaxReplicas
       := 6\<rparr>\<rparr>"
  have "decSpec plainCodec sampleManifest = Some ?s" by code_simp
  moreover have "validateSpec E (applyDefaults (sampleWP fs ?s)) = None"
    by (simp add: validateSpec_None_iff validSpec_def validDatabase_def Spec_applyDefaults
        defaultAutoscaling_def orElse_def zeroSpec_def go_consts)
  ultimately show "\<exists>s. decSpec plainCodec sampleManifest = Some s \<and> as_Enabled (Autoscaling s)
     \<and> validateSpec E (applyDefaults (sampleWP fs s)) = None"
    by (intro exI [of _ ?s]) simp
qed


subsection \<open>Defaulting on the server changes nothing the operator builds\<close>

lemma orElse_twice [simp]: "orElse zero d (orElse zero d x) = orElse zero d x"
  by (simp add: orElse_def)

lemma schemaSpec_parts [simp]:
  "ServiceS (schemaSpec s) = schemaService (ServiceS s)"
  "Persistence (schemaSpec s) = schemaPersistence (Persistence s)"
  "Database (schemaSpec s) = schemaDatabase (Database s)"
  "Autoscaling (schemaSpec s) = schemaAutoscaling (Autoscaling s)"
  "IngressS (schemaSpec s) = IngressS s"
  "as_Enabled (schemaAutoscaling a) = as_Enabled a"
  by (simp_all add: schemaSpec_def schemaAutoscaling_def)

lemma service_twice: "defaultService (schemaService v) = defaultService v"
  by (simp add: defaultService_def schemaService_def go_consts)

lemma autoscaling_twice:
  "as_Enabled a \<Longrightarrow> defaultAutoscaling (schemaAutoscaling a) = defaultAutoscaling a"
  by (simp add: defaultAutoscaling_def schemaAutoscaling_def)

lemma persistence_twice:
  "per_Enabled p \<Longrightarrow> defaultPersistence (schemaPersistence p) = defaultPersistence p"
  by (cases p) (simp add: defaultPersistence_def schemaPersistence_def)

lemma internal_twice: "defaultInternal (map_option schemaInternal i) = defaultInternal i"
  by (cases i) (simp_all add: defaultInternal_def schemaInternal_def Let_def go_consts)

lemma external_twice: "defaultExternal (schemaExternal x) = defaultExternal x"
  by (simp add: defaultExternal_def schemaExternal_def)

lemma schemaDatabase_parts [simp]:
  "Mode (schemaDatabase d) = orElse [] DatabaseModeInternal (Mode d)"
  "db_Name (schemaDatabase d) = orElse [] ''wordpress'' (db_Name d)"
  "db_User (schemaDatabase d) = orElse [] ''wordpress'' (db_User d)"
  "TablePrefix (schemaDatabase d) = orElse [] ''wp_'' (TablePrefix d)"
  "Internal (schemaDatabase d) = map_option schemaInternal (Internal d)"
  "External (schemaDatabase d) = map_option schemaExternal (External d)"
  by (simp_all add: schemaDatabase_def go_consts)

text \<open>What a pass reads of a defaulted spec: of the database the section of its mode, of the
  autoscaling nothing unless it is on.\<close>

definition inUseDatabase :: "DatabaseSpec \<Rightarrow> DatabaseSpec" where
  "inUseDatabase d =
     d\<lparr>Internal := (if Mode d = DatabaseModeInternal then Internal d else None),
       External := (if Mode d = DatabaseModeExternal then External d else None)\<rparr>"

definition inUseAutoscaling :: "AutoscalingSpec \<Rightarrow> AutoscalingSpec" where
  "inUseAutoscaling a =
     (if as_Enabled a then a
      else a\<lparr>as_MinReplicas := 0, as_MaxReplicas := 0, as_TargetCPUUtilizationPercentage := 0\<rparr>)"

definition inUse :: "WordPressSpec \<Rightarrow> WordPressSpec" where
  "inUse s =
     s\<lparr>Database := inUseDatabase (Database s), Autoscaling := inUseAutoscaling (Autoscaling s)\<rparr>"

lemma inUse_parts [simp]:
  "Mode (inUseDatabase d) = Mode d" "db_Name (inUseDatabase d) = db_Name d"
  "db_User (inUseDatabase d) = db_User d" "TablePrefix (inUseDatabase d) = TablePrefix d"
  "Internal (inUseDatabase d) = (if Mode d = DatabaseModeInternal then Internal d else None)"
  "External (inUseDatabase d) = (if Mode d = DatabaseModeExternal then External d else None)"
  "as_Enabled (inUseAutoscaling a) = as_Enabled a"
  "as_Enabled a \<Longrightarrow> inUseAutoscaling a = a"
  "Database (inUse s) = inUseDatabase (Database s)"
  "Autoscaling (inUse s) = inUseAutoscaling (Autoscaling s)"
  "Image (inUse s) = Image s" "ImagePullPolicy (inUse s) = ImagePullPolicy s"
  "ImagePullSecrets (inUse s) = ImagePullSecrets s" "Replicas (inUse s) = Replicas s"
  "Resources (inUse s) = Resources s" "SiteURL (inUse s) = SiteURL s" "Env (inUse s) = Env s"
  "ServiceS (inUse s) = ServiceS s" "IngressS (inUse s) = IngressS s"
  "Persistence (inUse s) = Persistence s" "PodAnnotations (inUse s) = PodAnnotations s"
  "PodLabels (inUse s) = PodLabels s" "NodeSelector (inUse s) = NodeSelector s"
  "Tolerations (inUse s) = Tolerations s" "Affinity (inUse s) = Affinity s"
  "MaxUnavailable (inUse s) = MaxUnavailable s" "MaxSurge (inUse s) = MaxSurge s"
  by (simp_all add: inUse_def inUseDatabase_def inUseAutoscaling_def)

lemma database_twice:
  "inUseDatabase (defaultDatabase (schemaDatabase d)) = inUseDatabase (defaultDatabase d)"
  by (rule DatabaseSpec.equality)
    (simp_all add: internal_twice option.map_comp o_def external_twice)

lemma autoscaling_in_use:
  "inUseAutoscaling (defaultAutoscaling (schemaAutoscaling a)) = inUseAutoscaling
    (defaultAutoscaling a)"
  by (cases "as_Enabled a")
    (simp_all add: autoscaling_twice defaultAutoscaling_def schemaAutoscaling_def
      inUseAutoscaling_def)

lemma workload_twice [simp]:
  "Image (defaultSpec (schemaSpec s)) = Image (defaultSpec s)"
  "ImagePullPolicy (defaultSpec (schemaSpec s)) = ImagePullPolicy (defaultSpec s)"
  "Replicas (schemaSpec s) = Replicas (defaultSpec s)"
  by (simp_all add: defaultSpec_def schemaSpec_def Let_def defaultWorkload_def go_consts orElse_def
      split: option.splits)

lemma schema_kept:
  "ImagePullSecrets (schemaSpec s) = ImagePullSecrets s" "Resources (schemaSpec s) = Resources s"
  "SiteURL (schemaSpec s) = SiteURL s" "Env (schemaSpec s) = Env s"
  "PodAnnotations (schemaSpec s) = PodAnnotations s" "PodLabels (schemaSpec s) = PodLabels s"
  "NodeSelector (schemaSpec s) = NodeSelector s" "Tolerations (schemaSpec s) = Tolerations s"
  "Affinity (schemaSpec s) = Affinity s" "MaxUnavailable (schemaSpec s) = MaxUnavailable s"
  "MaxSurge (schemaSpec s) = MaxSurge s"
  by (simp_all add: schemaSpec_def)

lemma default_kept:
  "ImagePullSecrets (defaultSpec s) = ImagePullSecrets s" "Resources (defaultSpec s) = Resources s"
  "SiteURL (defaultSpec s) = SiteURL s" "Env (defaultSpec s) = Env s"
  "PodAnnotations (defaultSpec s) = PodAnnotations s" "PodLabels (defaultSpec s) = PodLabels s"
  "NodeSelector (defaultSpec s) = NodeSelector s" "Tolerations (defaultSpec s) = Tolerations s"
  "Affinity (defaultSpec s) = Affinity s" "MaxUnavailable (defaultSpec s) = MaxUnavailable s"
  "MaxSurge (defaultSpec s) = MaxSurge s"
  by (simp_all add: defaultSpec_def Let_def defaultWorkload_def split: option.splits)

lemma defaults_agree:
  assumes "per_Enabled (Persistence s)"
  shows "inUse (defaultSpec (schemaSpec s)) = inUse (defaultSpec s)"
  using assms
  by (intro WordPressSpec.equality)
    (simp_all add: schema_kept default_kept service_twice persistence_twice database_twice
      autoscaling_in_use split: option.splits)

text \<open>What is built depends on \<open>inUse\<close> only.\<close>

lemma same_in_use:
  assumes "inUse s = inUse t"
  shows "Image s = Image t" "ImagePullPolicy s = ImagePullPolicy t"
    "ImagePullSecrets s = ImagePullSecrets t" "Replicas s = Replicas t" "Resources s = Resources t"
    "SiteURL s = SiteURL t" "Env s = Env t" "ServiceS s = ServiceS t" "IngressS s = IngressS t"
    "Persistence s = Persistence t" "PodAnnotations s = PodAnnotations t" "PodLabels s = PodLabels
      t"
    "NodeSelector s = NodeSelector t" "Tolerations s = Tolerations t" "Affinity s = Affinity t"
    "MaxUnavailable s = MaxUnavailable t" "MaxSurge s = MaxSurge t"
    "Mode (Database s) = Mode (Database t)" "db_Name (Database s) = db_Name (Database t)"
    "db_User (Database s) = db_User (Database t)"
    "TablePrefix (Database s) = TablePrefix (Database t)"
    "as_Enabled (Autoscaling s) = as_Enabled (Autoscaling t)"
    "Mode (Database t) = DatabaseModeInternal \<Longrightarrow> Internal (Database s) = Internal (Database t)"
    "Mode (Database t) = DatabaseModeExternal \<Longrightarrow> External (Database s) = External (Database t)"
    "as_Enabled (Autoscaling t) \<Longrightarrow> Autoscaling s = Autoscaling t"
proof -
  have db: "inUseDatabase (Database s) = inUseDatabase (Database t)"
    using arg_cong [OF assms, of Database] by simp
  have as: "inUseAutoscaling (Autoscaling s) = inUseAutoscaling (Autoscaling t)"
    using arg_cong [OF assms, of Autoscaling] by simp
  show "Image s = Image t" using arg_cong [OF assms, of Image] by simp
  show "ImagePullPolicy s = ImagePullPolicy t" using arg_cong [OF assms, of ImagePullPolicy] by simp
  show "ImagePullSecrets s = ImagePullSecrets t"
    using arg_cong [OF assms, of ImagePullSecrets] by simp
  show "Replicas s = Replicas t" using arg_cong [OF assms, of Replicas] by simp
  show "Resources s = Resources t" using arg_cong [OF assms, of Resources] by simp
  show "SiteURL s = SiteURL t" using arg_cong [OF assms, of SiteURL] by simp
  show "Env s = Env t" using arg_cong [OF assms, of Env] by simp
  show "ServiceS s = ServiceS t" using arg_cong [OF assms, of ServiceS] by simp
  show "IngressS s = IngressS t" using arg_cong [OF assms, of IngressS] by simp
  show "Persistence s = Persistence t" using arg_cong [OF assms, of Persistence] by simp
  show "PodAnnotations s = PodAnnotations t" using arg_cong [OF assms, of PodAnnotations] by simp
  show "PodLabels s = PodLabels t" using arg_cong [OF assms, of PodLabels] by simp
  show "NodeSelector s = NodeSelector t" using arg_cong [OF assms, of NodeSelector] by simp
  show "Tolerations s = Tolerations t" using arg_cong [OF assms, of Tolerations] by simp
  show "Affinity s = Affinity t" using arg_cong [OF assms, of Affinity] by simp
  show "MaxUnavailable s = MaxUnavailable t" using arg_cong [OF assms, of MaxUnavailable] by simp
  show "MaxSurge s = MaxSurge t" using arg_cong [OF assms, of MaxSurge] by simp
  show mode: "Mode (Database s) = Mode (Database t)" using arg_cong [OF db, of Mode] by simp
  show "db_Name (Database s) = db_Name (Database t)" using arg_cong [OF db, of db_Name] by simp
  show "db_User (Database s) = db_User (Database t)" using arg_cong [OF db, of db_User] by simp
  show "TablePrefix (Database s) = TablePrefix (Database t)"
    using arg_cong [OF db, of TablePrefix] by simp
  show on: "as_Enabled (Autoscaling s) = as_Enabled (Autoscaling t)"
    using arg_cong [OF as, of as_Enabled] by simp
  show "Internal (Database s) = Internal (Database t)" if "Mode (Database t) = DatabaseModeInternal"
    using arg_cong [OF db, of Internal] mode that by simp
  show "External (Database s) = External (Database t)" if "Mode (Database t) = DatabaseModeExternal"
    using arg_cong [OF db, of External] mode that by simp
  show "Autoscaling s = Autoscaling t" if "as_Enabled (Autoscaling t)"
    using as on that by simp
qed

lemma builds_in_use:
  assumes "inUse (Spec a) = inUse (Spec b)" and "Name a = Name b" and "Namespace a = Namespace b"
  shows "validateSpec E a = validateSpec E b"
    and "buildWordPressDeployment a h p e = buildWordPressDeployment b h p e"
    and "buildWordPressService a = buildWordPressService b"
    and "buildWordPressPVC E a = buildWordPressPVC E b"
    and "buildWordPressIngress a = buildWordPressIngress b"
    and "as_Enabled (Autoscaling (Spec b)) \<Longrightarrow> buildWordPressHPA a = buildWordPressHPA b"
    and "buildMySQLHeadlessService a = buildMySQLHeadlessService b"
    and "buildMySQLSecret E a w = buildMySQLSecret E b w"
    and "Mode (Database (Spec b)) = DatabaseModeInternal \<Longrightarrow>
      buildMySQLStatefulSet E a = buildMySQLStatefulSet E b"
    and "resolvedDBHost a = resolvedDBHost b"
proof -
  note use = same_in_use [OF assms(1)]
  have names: "commonLabels a c = commonLabels b c" "selectorLabels a c = selectorLabels b c"
    "wpName a = wpName b" "dbServiceName a = dbServiceName b" "dbSecretName a = dbSecretName b"
    "dbStatefulSetName a = dbStatefulSetName b" "wpPVCName a = wpPVCName b" "hpaName a = hpaName b"
    for c
    using assms(2) by (simp_all add: commonLabels_def selectorLabels_def name_defs)
  note same = use(1-22) names assms(2,3)
  have auto: "as_Enabled (Autoscaling (Spec b)) \<Longrightarrow> Autoscaling (Spec a) = Autoscaling (Spec b)"
    by (rule use(25))
  have database: "validateDatabase E (Database (Spec a)) = validateDatabase E (Database (Spec b))"
  proof (cases "Mode (Database (Spec b)) = DatabaseModeExternal")
    case True
    then show ?thesis using use(24) by (simp add: validateDatabase_def same)
  qed (simp add: validateDatabase_def same)
  show "validateSpec E a = validateSpec E b"
    using auto by (cases "as_Enabled (Autoscaling (Spec b))")
      (simp_all add: validateSpec_def Let_def database same split: option.splits)
  have pod: "wordpressEnvs a h p e = wordpressEnvs b h p e"
    "wordpressVolumes a = wordpressVolumes b"
    "wordpressInitContainers a = wordpressInitContainers b"
    "wordpressContainer a envs = wordpressContainer b envs" for envs
    by (simp_all add: wordpressEnvs_def wordpressVolumes_def wordpressInitContainers_def
        wordpressContainer_def Let_def same)
  show "buildWordPressDeployment a h p e = buildWordPressDeployment b h p e"
    unfolding buildWordPressDeployment_def pod names use(3,4,11-17,22) assms(2,3) ..
  show "buildWordPressService a = buildWordPressService b"
    by (simp add: buildWordPressService_def Let_def same)
  show "buildWordPressPVC E a = buildWordPressPVC E b"
    by (simp add: buildWordPressPVC_def Let_def same split: sum.splits)
  show "buildWordPressIngress a = buildWordPressIngress b"
    by (simp add: buildWordPressIngress_def Let_def same)
  show "buildWordPressHPA a = buildWordPressHPA b" if "as_Enabled (Autoscaling (Spec b))"
    using auto [OF that] by (simp add: buildWordPressHPA_def Let_def same)
  show "buildMySQLHeadlessService a = buildMySQLHeadlessService b"
    by (simp add: buildMySQLHeadlessService_def same)
  show "buildMySQLSecret E a w = buildMySQLSecret E b w"
    by (simp add: buildMySQLSecret_def same split: sum.splits prod.splits)
  have container: "mysqlContainer a i = mysqlContainer b i" for i
    by (simp add: mysqlContainer_def mysqlEnvs_def mysqlRootPwdEnv_def same split: option.split)
  show "buildMySQLStatefulSet E a = buildMySQLStatefulSet E b"
    if "Mode (Database (Spec b)) = DatabaseModeInternal"
    using use(23) [OF that] unfolding buildMySQLStatefulSet_def container names assms(2,3) by simp
  show "resolvedDBHost a = resolvedDBHost b"
  proof (cases "Mode (Database (Spec b)) = DatabaseModeExternal")
    case True
    then show ?thesis using use(24) by (simp add: resolvedDBHost_def same)
  qed (simp add: resolvedDBHost_def same)
qed


definition chosenSpec :: WordPressSpec where
  "chosenSpec = zeroSpec\<lparr>SiteURL := ''https://blog.example.org'',
     Persistence := (Persistence zeroSpec)\<lparr>per_Enabled := True\<rparr>\<rparr>"


subsection \<open>What the registration of the finalizer makes of a resource\<close>

text \<open>C34. The operator's own update of a resource, the registration of the finalizer, goes through
  the JSON form and the schema: a resource that switched persistence off comes back with it
  switched on, so that the next pass mounts and creates a volume claim nobody asked for. The same
  round trip sets a database mode that was missing.\<close>

theorem finalizer_update_enables_persistence:
  assumes "libCodec_law C" and "logs tr E" and "finalizer_laws E"
    and "Get (wordpresses E) req w = (Inr wp, w1)"
    and "timeIsZero (DeletionTimestamp wp)" and "WordPressFinalizer \<notin> set (Finalizers wp)"
    and "\<not> per_Enabled (Persistence (Spec wp))"
  shows "\<exists>w' err ob t. Reconcile E req w = Some ((zeroResult, err), w')
    \<and> tr w' = tr w1 @ [Updated (KWordPress ob)] \<and> Spec ob = Spec wp
    \<and> storedSpec C (Spec ob) = Some t
    \<and> per_Enabled (Persistence t) \<and> Mode (Database t) \<noteq> []
    \<and> map vol_Source (sliceElems (wordpressVolumes (applyDefaults wp))) = [EmptyDirVolume []]
    \<and> map vol_Source (sliceElems (wordpressVolumes (applyDefaults (ob\<lparr>Spec := t\<rparr>))))
      = [PVCVolume (wpPVCName wp) []]"
proof -
  obtain w' err fs where run: "Reconcile E req w = Some ((zeroResult, err), w')"
    and sent: "tr w' = tr w1 @ [Updated (KWordPress (wp\<lparr>Finalizers := fs\<rparr>))]"
    using finalizer_pass [OF assms(2-6)] by blast
  let ?ob = "wp\<lparr>Finalizers := fs\<rparr>" and ?t = "schemaSpec (normSpec (Spec wp))"
  have stored: "storedSpec C (Spec ?ob) = Some ?t"
    by (simp add: storedSpec_schemaSpec [OF assms(1)])
  have on: "per_Enabled (Persistence ?t)" "Mode (Database ?t) \<noteq> []"
    by (simp_all add: schemaPersistence_def)
  have "sliceElems (wordpressVolumes (applyDefaults wp)) = [\<lparr>vol_Name = ''wp-content'',
      vol_Source = EmptyDirVolume []\<rparr>]"
    using assms(7) by (simp add: wordpressVolumes_def Spec_applyDefaults defaultPersistence_def
        goAppend_def)
  moreover have "sliceElems (wordpressVolumes (applyDefaults (?ob\<lparr>Spec := ?t\<rparr>)))
      = [\<lparr>vol_Name = ''wp-content'', vol_Source = PVCVolume (wpPVCName wp) []\<rparr>]"
    by (simp add: wordpressVolumes_def Spec_applyDefaults defaultPersistence_def goAppend_def
        schemaPersistence_def wpPVCName_def frame_simps)
  ultimately show ?thesis
    using run sent stored on
    by (intro exI [of _ w'] exI [of _ err] exI [of _ ?ob] exI [of _ ?t]) simp
qed

theorem finalizer_update_enables_persistence_witness:
  "\<exists>w' err ob t. Reconcile demoEnv (''default'', ''blog'') (clusterOf (sampleWP [] zeroSpec))
       = Some ((zeroResult, err), w')
     \<and> writes w' = [Updated (KWordPress ob)] \<and> \<not> per_Enabled (Persistence (Spec ob))
     \<and> storedSpec plainCodec (Spec ob) = Some t \<and> per_Enabled (Persistence t)"
proof -
  let ?wp = "sampleWP [] zeroSpec"
  have get: "Get (wordpresses demoEnv) (''default'', ''blog'') (clusterOf ?wp) = (Inr ?wp, clusterOf
    ?wp)"
    using Get_clusterOf [of ?wp] by simp
  have live: "timeIsZero (DeletionTimestamp ?wp)" by (simp add: timeIsZero_def)
  have fin: "WordPressFinalizer \<notin> set (Finalizers ?wp)" by simp
  have off: "\<not> per_Enabled (Persistence (Spec ?wp))" by (simp add: zeroSpec_def)
  from finalizer_update_enables_persistence
    [OF plainCodec_law demo_logs demo_finalizer_laws get live fin off] off
  show ?thesis by auto
qed

end
