(* ===== verification/QuietServer.thy ===== *)
theory QuietServer
  imports Provisioning Admission
begin

section \<open>Quiet servers and settled sites\<close>

text \<open>
  A server that accepts what it is sent, keeps it, and on which nobody else acts
  (\<open>quietServer\<close>), seen through one map per kind of object (\<open>views\<close>), and the desired state
  of a site on it (\<open>settledFor\<close>). The lemmas take the three block contracts to such a server:
  a block succeeds, settles its object, only reads when it was settled, and leaves the other
  objects alone; so each part of the desired state is \<open>steady\<close>, a pass does not undo it.
\<close>

subsection \<open>Quiet servers\<close>

text \<open>A store seen as a map: it answers from the map, and a write that fits the map succeeds.\<close>

definition obliging ::
    "(gerror \<Rightarrow> bool) \<Rightarrow> ('w \<Rightarrow> nsname \<Rightarrow> 'o object_scheme option) \<Rightarrow> ('o object_scheme, 'w) store \<Rightarrow>
      bool" where
  "obliging nf v S \<longleftrightarrow>
     (\<forall>k w. v (snd (Get S k w)) = v w
        \<and> (case v w k of
             None \<Rightarrow> (\<exists>e. fst (Get S k w) = Inl e \<and> nf e)
           | Some ob \<Rightarrow> fst (Get S k w) = Inr ob))
     \<and> (\<forall>ob w. v w (ObjectKeyFromObject ob) = None \<longrightarrow>
          (\<exists>w'. Create S ob w = (None, w') \<and> v w' = (v w)(ObjectKeyFromObject ob \<mapsto> ob)))
     \<and> (\<forall>ob w. v w (ObjectKeyFromObject ob) \<noteq> None \<longrightarrow>
          (\<exists>w'. Update S ob w = (None, w') \<and> v w' = (v w)(ObjectKeyFromObject ob \<mapsto> ob)))
     \<and> (\<forall>ob w. v w (ObjectKeyFromObject ob) \<noteq> None \<longrightarrow>
          (\<exists>w'. Delete S ob w = (None, w') \<and> v w' = (v w)(ObjectKeyFromObject ob := None)))"

record 'w views =
  vWordPress :: "'w \<Rightarrow> nsname \<Rightarrow> bool"  \<comment> \<open>the resource is there\<close>
  vSecret :: "'w \<Rightarrow> nsname \<Rightarrow> Secret option"
  vService :: "'w \<Rightarrow> nsname \<Rightarrow> Service option"
  vStatefulSet :: "'w \<Rightarrow> nsname \<Rightarrow> StatefulSet option"
  vPVC :: "'w \<Rightarrow> nsname \<Rightarrow> PersistentVolumeClaim option"
  vDeployment :: "'w \<Rightarrow> nsname \<Rightarrow> Deployment option"
  vIngress :: "'w \<Rightarrow> nsname \<Rightarrow> Ingress option"
  vHPA :: "'w \<Rightarrow> nsname \<Rightarrow> HorizontalPodAutoscaler option"

datatype kind = WordPressKind | SecretKind | ServiceKind | StatefulSetKind | PVCKind
  | DeploymentKind | IngressKind | HPAKind

fun kindOf :: "kobj \<Rightarrow> kind" where
  "kindOf (KWordPress ob) = WordPressKind"
| "kindOf (KSecret ob) = SecretKind"
| "kindOf (KService ob) = ServiceKind"
| "kindOf (KStatefulSet ob) = StatefulSetKind"
| "kindOf (KPVC ob) = PVCKind"
| "kindOf (KDeployment ob) = DeploymentKind"
| "kindOf (KIngress ob) = IngressKind"
| "kindOf (KHPA ob) = HPAKind"

text \<open>A call that is not about the objects of a kind.\<close>

fun foreign :: "kind \<Rightarrow> call \<Rightarrow> bool" where
  "foreign k (Created ob) \<longleftrightarrow> kindOf ob \<noteq> k"
| "foreign k (Updated ob) \<longleftrightarrow> kindOf ob \<noteq> k"
| "foreign k (Deleted ob) \<longleftrightarrow> kindOf ob \<noteq> k"
| "foreign k (StatusUpdated ob) \<longleftrightarrow> True"

definition unshared :: "('w \<Rightarrow> 'm) \<Rightarrow> kind \<Rightarrow> 'w env \<Rightarrow> bool" where
  "unshared v k E \<longleftrightarrow> (\<forall>m. admits (\<lambda>w. v w = m) (foreign k) E)"

definition quietServer :: "'w views \<Rightarrow> 'w env \<Rightarrow> bool" where
  "quietServer V E \<longleftrightarrow>
     obliging (IsNotFound E) (vSecret V) (secrets E) \<and> unshared (vSecret V) SecretKind E
     \<and> obliging (IsNotFound E) (vService V) (services E) \<and> unshared (vService V) ServiceKind E
     \<and> obliging (IsNotFound E) (vStatefulSet V) (statefulsets E)
     \<and> unshared (vStatefulSet V) StatefulSetKind E
     \<and> obliging (IsNotFound E) (vPVC V) (pvcs E) \<and> unshared (vPVC V) PVCKind E
     \<and> obliging (IsNotFound E) (vDeployment V) (deployments E)
     \<and> unshared (vDeployment V) DeploymentKind E
     \<and> obliging (IsNotFound E) (vIngress V) (ingresses E) \<and> unshared (vIngress V) IngressKind E
     \<and> obliging (IsNotFound E) (vHPA V) (hpas E) \<and> unshared (vHPA V) HPAKind E
     \<and> unshared (vWordPress V) WordPressKind E
     \<and> (\<forall>k w. vWordPress V w k \<longrightarrow> (\<exists>ob. fst (Get (wordpresses E) k w) = Inr ob))
     \<and> (\<forall>ob w. vWordPress V w (ObjectKeyFromObject ob) \<longrightarrow> fst (StatusUpdate E ob w) = None)"

lemma quietServerD:
  assumes "quietServer V E"
  shows "obliging (IsNotFound E) (vSecret V) (secrets E)" "unshared (vSecret V) SecretKind E"
    "obliging (IsNotFound E) (vService V) (services E)" "unshared (vService V) ServiceKind E"
    "obliging (IsNotFound E) (vStatefulSet V) (statefulsets E)"
    "unshared (vStatefulSet V) StatefulSetKind E"
    "obliging (IsNotFound E) (vPVC V) (pvcs E)" "unshared (vPVC V) PVCKind E"
    "obliging (IsNotFound E) (vDeployment V) (deployments E)"
    "unshared (vDeployment V) DeploymentKind E"
    "obliging (IsNotFound E) (vIngress V) (ingresses E)" "unshared (vIngress V) IngressKind E"
    "obliging (IsNotFound E) (vHPA V) (hpas E)" "unshared (vHPA V) HPAKind E"
    "unshared (vWordPress V) WordPressKind E"
    "vWordPress V w k \<Longrightarrow> \<exists>ob. fst (Get (wordpresses E) k w) = Inr ob"
    "vWordPress V w (ObjectKeyFromObject ob') \<Longrightarrow> fst (StatusUpdate E ob' w) = None"
  using assms unfolding quietServer_def by blast+

lemma obligingD:
  assumes "obliging nf v S"
  shows "v w k = None \<Longrightarrow> \<exists>e w'. Get S k w = (Inl e, w') \<and> nf e \<and> v w' = v w"
    and "v w k = Some ob \<Longrightarrow> \<exists>w'. Get S k w = (Inr ob, w') \<and> v w' = v w"
    and "v w (ObjectKeyFromObject ob') = None \<Longrightarrow>
      \<exists>w'. Create S ob' w = (None, w') \<and> v w' = (v w)(ObjectKeyFromObject ob' \<mapsto> ob')"
    and "v w (ObjectKeyFromObject ob') \<noteq> None \<Longrightarrow>
      \<exists>w'. Update S ob' w = (None, w') \<and> v w' = (v w)(ObjectKeyFromObject ob' \<mapsto> ob')"
    and "v w (ObjectKeyFromObject ob') \<noteq> None \<Longrightarrow>
      \<exists>w'. Delete S ob' w = (None, w') \<and> v w' = (v w)(ObjectKeyFromObject ob' := None)"
proof -
  have get: "v (snd (Get S k w)) = v w"
    "case v w k of None \<Rightarrow> (\<exists>e. fst (Get S k w) = Inl e \<and> nf e) | Some ob \<Rightarrow> fst (Get S k w) = Inr ob"
    using assms unfolding obliging_def by blast+
  show "\<exists>e w'. Get S k w = (Inl e, w') \<and> nf e \<and> v w' = v w" if "v w k = None"
    using get that by (cases "Get S k w") auto
  show "\<exists>w'. Get S k w = (Inr ob, w') \<and> v w' = v w" if "v w k = Some ob"
    using get that by (cases "Get S k w") auto
qed (use assms in \<open>unfold obliging_def, blast+\<close>)

subsection \<open>Objects up to date\<close>

definition upToDate ::
    "('o object_scheme \<Rightarrow> 'o object_scheme \<Rightarrow> 'o object_scheme) \<Rightarrow> ('o object_scheme \<Rightarrow> 'o object_scheme
      \<Rightarrow> bool)
     \<Rightarrow> 'o object_scheme \<Rightarrow> (nsname \<Rightarrow> 'o object_scheme option) \<Rightarrow> bool" where
  "upToDate patch same d m \<longleftrightarrow>
     (case m (ObjectKeyFromObject d) of None \<Rightarrow> False | Some ex \<Rightarrow> same ex (patch ex d))"

definition notOurs ::
    "'w env \<Rightarrow> WordPress \<Rightarrow> nsname \<Rightarrow> (nsname \<Rightarrow> 'o object_scheme option) \<Rightarrow> bool" where
  "notOurs E wp k m \<longleftrightarrow>
     (case m k of None \<Rightarrow> True | Some ex \<Rightarrow> \<not> IsControlledBy E (metaOf ex) (metaOf wp))"

text \<open>A create-or-patch block on an obliging store: it succeeds, leaves its object up to date, only
  reads when it was, and leaves other objects alone.\<close>

lemma patch_block:
  assumes blk: "create_or_patch (getFor S) nf (Create S) run (Update S) patch same"
    and S: "obliging nf v S" and key: "key_law S"
    and patched: "\<And>ex. ObjectKeyFromObject (patch ex d) = ObjectKeyFromObject ex"
  shows "\<exists>w'. run d w = (None, w') \<and> upToDate patch same d (v w')
      \<and> (\<forall>k. k \<noteq> ObjectKeyFromObject d \<longrightarrow> v w' k = v w k)"
    and "upToDate patch same d (v w) \<Longrightarrow> run d w = (None, snd (Get S (ObjectKeyFromObject d) w))"
proof -
  have seen: "v w (ObjectKeyFromObject d) = Some ex \<and> v w1 = v w"
    if "getFor S d w = (Inr ex, w1)" for ex w1
    using that obligingD(1,2) [OF S, where w = w and k = "ObjectKeyFromObject d"]
    by (cases "v w (ObjectKeyFromObject d)") (auto simp: getFor_def)
  have unseen: "v w (ObjectKeyFromObject d) = None \<and> v w1 = v w \<and> nf e"
    if "getFor S d w = (Inl e, w1)" for e w1
    using that obligingD(1,2) [OF S, where w = w and k = "ObjectKeyFromObject d"]
    by (cases "v w (ObjectKeyFromObject d)") (auto simp: getFor_def)
  show "\<exists>w'. run d w = (None, w') \<and> upToDate patch same d (v w')
      \<and> (\<forall>k. k \<noteq> ObjectKeyFromObject d \<longrightarrow> v w' k = v w k)"
  proof (rule create_or_patch.run_cases [OF blk, of d w])
    fix ex w1
    assume "getFor S d w = (Inr ex, w1)" "same ex (patch ex d)" "run d w = (None, w1)"
    then show ?thesis using seen by (auto simp: upToDate_def)
  next
    fix ex w1
    assume get: "getFor S d w = (Inr ex, w1)" and run: "run d w = Update S (patch ex d) w1"
    have k: "ObjectKeyFromObject (patch ex d) = ObjectKeyFromObject d"
      using get key_lawD [OF key] by (auto simp: patched getFor_def)
    have "v w1 (ObjectKeyFromObject (patch ex d)) \<noteq> None"
      using seen [OF get] k by simp
    from obligingD(4) [OF S this] obtain w2 where "Update S (patch ex d) w1 = (None, w2)"
      "v w2 = (v w1)(ObjectKeyFromObject d \<mapsto> patch ex d)" unfolding k by blast
    then show ?thesis
      using run seen [OF get] create_or_patch.patch_settled [OF blk] by (auto simp: upToDate_def)
  next
    fix e w1
    assume get: "getFor S d w = (Inl e, w1)" and run: "run d w = Create S d w1"
    have "v w1 (ObjectKeyFromObject d) = None" using unseen [OF get] by simp
    from obligingD(3) [OF S this] obtain w2 where "Create S d w1 = (None, w2)"
      "v w2 = (v w1)(ObjectKeyFromObject d \<mapsto> d)" by blast
    then show ?thesis
      using run unseen [OF get] create_or_patch.desired_settled [OF blk] by (auto simp:
        upToDate_def)
  next
    fix e w1 assume "getFor S d w = (Inl e, w1)" "\<not> nf e"
    then show ?thesis using unseen by blast
  qed
  show "run d w = (None, snd (Get S (ObjectKeyFromObject d) w))" if current: "upToDate patch same d
    (v w)"
  proof -
    obtain ex where ex: "v w (ObjectKeyFromObject d) = Some ex" "same ex (patch ex d)"
      using current by (auto simp: upToDate_def split: option.splits)
    obtain w1 where get: "Get S (ObjectKeyFromObject d) w = (Inr ex, w1)"
      using obligingD(2) [OF S ex(1)] by blast
    then have "getFor S d w = (Inr ex, w1)" by (simp add: getFor_def)
    from create_or_patch.run_current [OF blk this ex(2)] get show ?thesis by simp
  qed
qed

text \<open>The same for a block that creates once, and for one that removes what is controlled.\<close>

lemma once_block:
  assumes blk: "create_once (getFor S) nf (Create S) run" and S: "obliging nf v S"
  shows "\<exists>w'. run d w = (None, w') \<and> v w' (ObjectKeyFromObject d) \<noteq> None
      \<and> (\<forall>k. v w k \<noteq> None \<longrightarrow> v w' k \<noteq> None)"
    and "v w (ObjectKeyFromObject d) \<noteq> None \<Longrightarrow>
      run d w = (None, snd (Get S (ObjectKeyFromObject d) w))"
proof -
  have get: "(\<exists>e w1. getFor S d w = (Inl e, w1) \<and> nf e \<and> v w1 = v w)"
    if "v w (ObjectKeyFromObject d) = None"
    using obligingD(1) [OF S that] by (auto simp: getFor_def)
  have got: "(\<exists>ex w1. getFor S d w = (Inr ex, w1) \<and> v w1 = v w)"
    if "v w (ObjectKeyFromObject d) \<noteq> None"
    using obligingD(2) [OF S, of w "ObjectKeyFromObject d"] that by (auto simp: getFor_def)
  show "\<exists>w'. run d w = (None, w') \<and> v w' (ObjectKeyFromObject d) \<noteq> None
      \<and> (\<forall>k. v w k \<noteq> None \<longrightarrow> v w' k \<noteq> None)"
  proof (rule create_once.run_cases [OF blk, of d w])
    fix ex w1 assume "getFor S d w = (Inr ex, w1)" "run d w = (None, w1)"
    then show ?thesis using get got by (cases "v w (ObjectKeyFromObject d)") fastforce+
  next
    fix e w1 assume g: "getFor S d w = (Inl e, w1)" and run: "run d w = Create S d w1"
    have none: "v w (ObjectKeyFromObject d) = None" using got g by (auto intro: ccontr)
    with get g have "v w1 = v w" by auto
    with none obligingD(3) [OF S, of w1 d] obtain w2 where "Create S d w1 = (None, w2)"
      "v w2 = (v w)(ObjectKeyFromObject d \<mapsto> d)" by auto
    with run show ?thesis by auto
  next
    fix e w1 assume "getFor S d w = (Inl e, w1)" "\<not> nf e"
    then show ?thesis using get got by (cases "v w (ObjectKeyFromObject d)") fastforce+
  qed
  show "run d w = (None, snd (Get S (ObjectKeyFromObject d) w))"
    if there: "v w (ObjectKeyFromObject d) \<noteq> None"
  proof -
    obtain ex w1 where g: "getFor S d w = (Inr ex, w1)" using got [OF there] by blast
    from create_once.run_present [OF blk this] g show ?thesis by (simp add: getFor_def)
  qed
qed

lemma remove_block:
  assumes blk: "remove_owned (\<lambda>wp. Get S (k wp)) nf run (Delete S)
      (\<lambda>wp ex. IsControlledBy E (metaOf ex) (metaOf wp))"
    and S: "obliging nf v S" and key: "key_law S"
  shows "\<exists>w'. run wp w = (None, w') \<and> notOurs E wp (k wp) (v w')"
    and "notOurs E wp (k wp) (v w) \<Longrightarrow> run wp w = (None, snd (Get S (k wp) w))"
proof -
  note first = remove_owned.axioms(1) [OF blk]
  have "(\<exists>w'. run wp w = (None, w') \<and> notOurs E wp (k wp) (v w'))
    \<and> (notOurs E wp (k wp) (v w) \<longrightarrow> run wp w = (None, snd (Get S (k wp) w)))"
  proof (cases "v w (k wp)")
    case None
    then obtain e w1 where g: "Get S (k wp) w = (Inl e, w1)" "nf e" "v w1 = v w"
      using obligingD(1) [OF S] by blast
    with get_first.run_absent [OF first g(1,2)] None show ?thesis by (simp add: notOurs_def)
  next
    case (Some ex)
    then obtain w1 where g: "Get S (k wp) w = (Inr ex, w1)" "v w1 = v w"
      using obligingD(2) [OF S] by blast
    have ex: "ObjectKeyFromObject ex = k wp" using key_lawD [OF key g(1)] .
    show ?thesis
    proof (cases "IsControlledBy E (metaOf ex) (metaOf wp)")
      case True
      have "v w1 (ObjectKeyFromObject ex) \<noteq> None" using g(2) Some ex by simp
      from obligingD(5) [OF S this] obtain w2 where "Delete S ex w1 = (None, w2)"
        "v w2 = (v w1)(k wp := None)" unfolding ex by blast
      with remove_owned.run_owned [OF blk g(1) True] Some True show ?thesis
        by (simp add: notOurs_def)
    next
      case False
      with remove_owned.run_foreign [OF blk g(1) False] g Some show ?thesis
        by (simp add: notOurs_def)
    qed
  qed
  then show "\<exists>w'. run wp w = (None, w') \<and> notOurs E wp (k wp) (v w')"
    and "notOurs E wp (k wp) (v w) \<Longrightarrow> run wp w = (None, snd (Get S (k wp) w))" by blast+
qed

subsection \<open>The desired state of a site\<close>

text \<open>An object as the operator wants it: the fields it manages are those of the object it builds.\<close>

definition serviceAs :: "Service \<Rightarrow> Service \<Rightarrow> bool" where
  "serviceAs ex d \<longleftrightarrow>
     Labels ex = Labels d \<and> Annotations ex = Annotations d
     \<and> ss_Type (svc_Spec ex) = ss_Type (svc_Spec d)
     \<and> ss_Selector (svc_Spec ex) = ss_Selector (svc_Spec d)
     \<and> ss_SessionAffinity (svc_Spec ex) = ss_SessionAffinity (svc_Spec d)
     \<and> ss_Ports (svc_Spec ex) = ss_Ports (svc_Spec d)"

definition statefulSetAs :: "StatefulSet \<Rightarrow> StatefulSet \<Rightarrow> bool" where
  "statefulSetAs ex d \<longleftrightarrow> sts_Replicas ex = sts_Replicas d \<and> sts_Template ex = sts_Template d"

definition deploymentAs :: "Deployment \<Rightarrow> Deployment \<Rightarrow> bool" where
  "deploymentAs ex d \<longleftrightarrow>
     Labels ex = Labels d \<and> dep_Replicas ex = dep_Replicas d \<and> dep_Strategy ex = dep_Strategy d
     \<and> dep_Template ex = dep_Template d"

definition ingressAs :: "Ingress \<Rightarrow> Ingress \<Rightarrow> bool" where
  "ingressAs ex d \<longleftrightarrow>
     Labels ex = Labels d \<and> Annotations ex = Annotations d \<and> ing_Spec ex = ing_Spec d"

definition hpaAs :: "HorizontalPodAutoscaler \<Rightarrow> HorizontalPodAutoscaler \<Rightarrow> bool" where
  "hpaAs ex d \<longleftrightarrow> Labels ex = Labels d \<and> hpa_Spec ex = hpa_Spec d"

definition stored ::
    "('o object_scheme \<Rightarrow> 'o object_scheme \<Rightarrow> bool) \<Rightarrow> 'o object_scheme
     \<Rightarrow> (nsname \<Rightarrow> 'o object_scheme option) \<Rightarrow> bool" where
  "stored wanted d m \<longleftrightarrow>
     (case m (ObjectKeyFromObject d) of None \<Rightarrow> False | Some ex \<Rightarrow> wanted ex d)"

text \<open>What the pass wants of each kind of object, on the contents \<open>m\<close> of its store.\<close>

definition secretHere :: "WordPress \<Rightarrow> (nsname \<Rightarrow> Secret option) \<Rightarrow> bool" where
  "secretHere wp m \<longleftrightarrow> (internalMode wp \<longrightarrow> m (Namespace wp, dbSecretName wp) \<noteq> None)"

definition mysqlServiceCurrent :: "'w env \<Rightarrow> WordPress \<Rightarrow> (nsname \<Rightarrow> Service option) \<Rightarrow> bool" where
  "mysqlServiceCurrent E wp m \<longleftrightarrow> (internalMode wp \<longrightarrow>
     (\<forall>d. withController E wp (buildMySQLHeadlessService wp) = Inr d \<longrightarrow>
        stored serviceAs d m))"

definition mysqlCurrent :: "'w env \<Rightarrow> WordPress \<Rightarrow> (nsname \<Rightarrow> StatefulSet option) \<Rightarrow> bool" where
  "mysqlCurrent E wp m \<longleftrightarrow> (internalMode wp \<longrightarrow>
     (\<forall>s d. buildMySQLStatefulSet E wp = Some (Inr s) \<longrightarrow> withController E wp s = Inr d \<longrightarrow>
        stored statefulSetAs d m))"

definition claimHere :: "WordPress \<Rightarrow> (nsname \<Rightarrow> PersistentVolumeClaim option) \<Rightarrow> bool" where
  "claimHere wp m \<longleftrightarrow>
     (per_Enabled (Persistence (Spec wp)) \<longrightarrow> m (Namespace wp, wpPVCName wp) \<noteq> None)"

definition deploymentCurrent :: "'w env \<Rightarrow> WordPress \<Rightarrow> (nsname \<Rightarrow> Deployment option) \<Rightarrow> bool" where
  "deploymentCurrent E wp m \<longleftrightarrow>
     (\<forall>host port env d. resolvedDBHost wp = Some (host, port) \<longrightarrow> passwordEnv wp = Some env \<longrightarrow>
        withController E wp (buildWordPressDeployment wp host port env) = Inr d \<longrightarrow>
        stored deploymentAs d m)"

definition serviceCurrent :: "'w env \<Rightarrow> WordPress \<Rightarrow> (nsname \<Rightarrow> Service option) \<Rightarrow> bool" where
  "serviceCurrent E wp m \<longleftrightarrow>
     (\<forall>d. withController E wp (buildWordPressService wp) = Inr d \<longrightarrow>
        stored serviceAs d m)"

definition ingressSettled :: "'w env \<Rightarrow> WordPress \<Rightarrow> (nsname \<Rightarrow> Ingress option) \<Rightarrow> bool" where
  "ingressSettled E wp m \<longleftrightarrow>
     (if igs_Enabled (IngressS (Spec wp))
      then \<forall>d. withController E wp (buildWordPressIngress wp) = Inr d \<longrightarrow>
        stored ingressAs d m
      else notOurs E wp (Namespace wp, wpName wp) m)"

definition hpaSettled ::
    "'w env \<Rightarrow> WordPress \<Rightarrow> (nsname \<Rightarrow> HorizontalPodAutoscaler option) \<Rightarrow> bool" where
  "hpaSettled E wp m \<longleftrightarrow>
     (if as_Enabled (Autoscaling (Spec wp))
      then \<forall>d. withController E wp (buildWordPressHPA wp) = Inr d \<longrightarrow> stored hpaAs d m
      else notOurs E wp (Namespace wp, hpaName wp) m)"

definition settledFor :: "'w views \<Rightarrow> 'w env \<Rightarrow> WordPress \<Rightarrow> 'w \<Rightarrow> bool" where
  "settledFor V E wp w \<longleftrightarrow>
     secretHere wp (vSecret V w) \<and> mysqlServiceCurrent E wp (vService V w)
     \<and> mysqlCurrent E wp (vStatefulSet V w) \<and> claimHere wp (vPVC V w)
     \<and> deploymentCurrent E wp (vDeployment V w) \<and> serviceCurrent E wp (vService V w)
     \<and> ingressSettled E wp (vIngress V w) \<and> hpaSettled E wp (vHPA V w)"

text \<open>The code's own comparison decides these: nothing is patched when they hold.\<close>

lemma serviceEqual_patched: "serviceEqual ex (patchService ex d) = serviceAs ex d"
  by (cases "svc_Spec ex") (auto simp: serviceEqual_def patchService_def serviceAs_def Let_def)

lemma upToDate_as:
  "upToDate patchService serviceEqual svc m1 = stored serviceAs svc m1"
  "upToDate patchStatefulSet statefulSetEqual sts m2 = stored statefulSetAs sts m2"
  "upToDate patchDeployment deploymentEqual dep m3 = stored deploymentAs dep m3"
  "upToDate patchIngress ingressEqual ing m4 = stored ingressAs ing m4"
  "upToDate patchHPA hpaEqual hpa m5 = stored hpaAs hpa m5"
  by (auto simp: upToDate_def stored_def serviceEqual_patched statefulSetAs_def deploymentAs_def
      ingressAs_def hpaAs_def patchStatefulSet_def
      statefulSetEqual_def patchDeployment_def deploymentEqual_iff patchIngress_def ingressEqual_def
      patchHPA_def hpaEqual_def Let_def split: option.splits)

lemma mysqlServiceCurrent_upToDate:
  "mysqlServiceCurrent E wp m \<longleftrightarrow> (internalMode wp \<longrightarrow>
     (\<forall>d. withController E wp (buildMySQLHeadlessService wp) = Inr d \<longrightarrow>
        upToDate patchService serviceEqual d m))"
  unfolding upToDate_as by (rule mysqlServiceCurrent_def)

lemma mysqlCurrent_upToDate:
  "mysqlCurrent E wp m \<longleftrightarrow> (internalMode wp \<longrightarrow>
     (\<forall>s d. buildMySQLStatefulSet E wp = Some (Inr s) \<longrightarrow> withController E wp s = Inr d \<longrightarrow>
        upToDate patchStatefulSet statefulSetEqual d m))"
  unfolding upToDate_as by (rule mysqlCurrent_def)

lemma deploymentCurrent_upToDate:
  "deploymentCurrent E wp m \<longleftrightarrow>
     (\<forall>host port env d. resolvedDBHost wp = Some (host, port) \<longrightarrow> passwordEnv wp = Some env \<longrightarrow>
        withController E wp (buildWordPressDeployment wp host port env) = Inr d \<longrightarrow>
        upToDate patchDeployment deploymentEqual d m)"
  unfolding upToDate_as by (rule deploymentCurrent_def)

lemma serviceCurrent_upToDate:
  "serviceCurrent E wp m \<longleftrightarrow>
     (\<forall>d. withController E wp (buildWordPressService wp) = Inr d \<longrightarrow>
        upToDate patchService serviceEqual d m)"
  unfolding upToDate_as by (rule serviceCurrent_def)

lemma ingressSettled_upToDate:
  "ingressSettled E wp m \<longleftrightarrow>
     (if igs_Enabled (IngressS (Spec wp))
      then \<forall>d. withController E wp (buildWordPressIngress wp) = Inr d \<longrightarrow>
        upToDate patchIngress ingressEqual d m
      else notOurs E wp (Namespace wp, wpName wp) m)"
  unfolding upToDate_as by (rule ingressSettled_def)

lemma hpaSettled_upToDate:
  "hpaSettled E wp m \<longleftrightarrow>
     (if as_Enabled (Autoscaling (Spec wp))
      then \<forall>d. withController E wp (buildWordPressHPA wp) = Inr d \<longrightarrow> upToDate patchHPA hpaEqual d m
      else notOurs E wp (Namespace wp, hpaName wp) m)"
  unfolding upToDate_as by (rule hpaSettled_def)

text \<open>The objects of a state that tracks \<open>wp\<close> are those of \<open>wp\<close>.\<close>

lemma same_objects:
  assumes "metaOf ob = metaOf wp" and "Spec ob = Spec wp"
  shows "withController E ob d = withController E wp d"
    and "internalMode ob = internalMode wp" and "passwordEnv ob = passwordEnv wp"
    and "Namespace ob = Namespace wp" and "wpName ob = wpName wp" and "hpaName ob = hpaName wp"
    and "dbSecretName ob = dbSecretName wp" and "wpPVCName ob = wpPVCName wp"
    and "dbServiceName ob = dbServiceName wp"
    and "buildWordPressDeployment ob h p e = buildWordPressDeployment wp h p e"
    and "buildWordPressService ob = buildWordPressService wp"
    and "buildWordPressPVC E ob = buildWordPressPVC E wp"
    and "buildWordPressIngress ob = buildWordPressIngress wp"
    and "buildWordPressHPA ob = buildWordPressHPA wp"
    and "buildMySQLHeadlessService ob = buildMySQLHeadlessService wp"
    and "buildMySQLStatefulSet E ob = buildMySQLStatefulSet E wp"
    and "resolvedDBHost ob = resolvedDBHost wp"
proof -
  have n: "Name ob = Name wp" "Namespace ob = Namespace wp" using meta_eqD [OF assms(1)] by auto
  have "inUse (Spec ob) = inUse (Spec wp)" by (simp add: assms(2))
  note b = builds_in_use [OF this n]
  show "buildWordPressDeployment ob h p e = buildWordPressDeployment wp h p e"
    "buildWordPressService ob = buildWordPressService wp"
    "buildWordPressPVC E ob = buildWordPressPVC E wp"
    "buildWordPressIngress ob = buildWordPressIngress wp"
    "buildMySQLHeadlessService ob = buildMySQLHeadlessService wp"
    "resolvedDBHost ob = resolvedDBHost wp"
    by (rule b)+
  have labels: "commonLabels ob c = commonLabels wp c" "selectorLabels ob c = selectorLabels wp c"
    for c
    using n by (simp_all add: commonLabels_def selectorLabels_def)
  show "wpName ob = wpName wp" "hpaName ob = hpaName wp" "dbSecretName ob = dbSecretName wp"
    "wpPVCName ob = wpPVCName wp" "dbServiceName ob = dbServiceName wp"
    using n by (simp_all add: name_defs)
  show "buildWordPressHPA ob = buildWordPressHPA wp"
    using n by (simp add: buildWordPressHPA_def assms(2) labels name_defs)
  have container: "mysqlContainer ob i = mysqlContainer wp i" for i
    by (simp add: mysqlContainer_def mysqlEnvs_def mysqlRootPwdEnv_def assms(2) n name_defs
        split: option.split)
  show "buildMySQLStatefulSet E ob = buildMySQLStatefulSet E wp"
    unfolding buildMySQLStatefulSet_def container labels name_defs n assms(2) ..
  show "withController E ob d = withController E wp d" by (simp add: withController_def assms(1))
  show "internalMode ob = internalMode wp" "passwordEnv ob = passwordEnv wp"
    using n by (simp_all add: internalMode_def passwordEnv_def assms(2) name_defs)
  show "Namespace ob = Namespace wp" by (rule n)
qed

subsection \<open>What a pass leaves in place\<close>

text \<open>The blocks of the pass that are about one kind; the others leave its store alone.\<close>

fun ownBlocks :: "kind \<Rightarrow> 'w env \<Rightarrow> ('w \<Rightarrow> bool) \<Rightarrow> WordPress \<Rightarrow> bool" where
  "ownBlocks WordPressKind E P ob \<longleftrightarrow> True"
| "ownBlocks SecretKind E P ob \<longleftrightarrow> (\<forall>d. keeps P (ensureSecret E d))"
| "ownBlocks ServiceKind E P ob \<longleftrightarrow>
     (internalMode ob \<longrightarrow> (\<forall>d. withController E ob (buildMySQLHeadlessService ob) = Inr d \<longrightarrow>
        keeps P (applyService E d)))
     \<and> (\<forall>d. withController E ob (buildWordPressService ob) = Inr d \<longrightarrow> keeps P (applyService E d))"
| "ownBlocks StatefulSetKind E P ob \<longleftrightarrow>
     (internalMode ob \<longrightarrow> (\<forall>s d. buildMySQLStatefulSet E ob = Some (Inr s) \<longrightarrow>
        withController E ob s = Inr d \<longrightarrow> keeps P (syncStatefulSet E d)))"
| "ownBlocks PVCKind E P ob \<longleftrightarrow> (\<forall>d. keeps P (ensurePVC E d))"
| "ownBlocks DeploymentKind E P ob \<longleftrightarrow>
     (\<forall>host port env d. resolvedDBHost ob = Some (host, port) \<longrightarrow> passwordEnv ob = Some env \<longrightarrow>
        withController E ob (buildWordPressDeployment ob host port env) = Inr d \<longrightarrow>
        keeps P (syncDeployment E d))"
| "ownBlocks IngressKind E P ob \<longleftrightarrow>
     (if igs_Enabled (IngressS (Spec ob))
      then \<forall>d. withController E ob (buildWordPressIngress ob) = Inr d \<longrightarrow> keeps P (syncIngress E d)
      else keeps P (dropIngress E ob))"
| "ownBlocks HPAKind E P ob \<longleftrightarrow>
     (if as_Enabled (Autoscaling (Spec ob))
      then \<forall>d. withController E ob (buildWordPressHPA ob) = Inr d \<longrightarrow> keeps P (syncHPA E d)
      else keeps P (dropHPA E ob))"

lemma keeps_view: "(\<And>m. keeps (\<lambda>w. v w = m) f) \<Longrightarrow> keeps (\<lambda>w. Q (v w)) f"
  unfolding keeps_def by metis

lemma store_admits_view:
  assumes "\<And>m. store_admits (\<lambda>w. v w = m) ok wrap S"
  shows "store_admits (\<lambda>w. Q (v w)) ok wrap S"
  unfolding store_admits_def
  by (intro conjI allI impI)
    (rule keeps_view, rule store_admitsD [OF assms], assumption?)+

lemma admits_view:
  assumes "unshared v k E"
  shows "admits (\<lambda>w. Q (v w)) (foreign k) E"
proof -
  have a: "admits (\<lambda>w. v w = m) (foreign k) E" for m using assms by (simp add: unshared_def)
  note s = admitsD(1-8) [OF a, THEN store_admits_view]
  have sink: "v (sink ob t r m w) = v w" if "Recorder E = Some sink" for sink ob t r m w
    using admitsD(13) [OF a that] by blast
  have wait: "v (Backoff E w) = v w" for w using admitsD(12) [OF a] by blast
  show ?thesis
    unfolding admits_def
    using s sink wait keeps_view [OF admitsD(9) [OF a]] keeps_view [OF admitsD(10) [OF a]]
      keeps_view [OF admitsD(11) [OF a]]
    by simp
qed

lemma foreign_blocks:
  assumes A: "admits P (foreign k) E" and key: "key_laws E"
  shows "k \<noteq> SecretKind \<Longrightarrow> keeps P (ensureSecret E sec)"
    and "k \<noteq> ServiceKind \<Longrightarrow> keeps P (applyService E svc)"
    and "k \<noteq> StatefulSetKind \<Longrightarrow> keeps P (syncStatefulSet E sts)"
    and "k \<noteq> PVCKind \<Longrightarrow> keeps P (ensurePVC E pvc)"
    and "k \<noteq> DeploymentKind \<Longrightarrow> keeps P (syncDeployment E dep)"
    and "k \<noteq> IngressKind \<Longrightarrow> keeps P (syncIngress E ing)"
    and "k \<noteq> IngressKind \<Longrightarrow> keeps P (dropIngress E ob)"
    and "k \<noteq> HPAKind \<Longrightarrow> keeps P (syncHPA E hpa)"
    and "k \<noteq> HPAKind \<Longrightarrow> keeps P (dropHPA E ob)"
  by (rule ensureSecret_keeps [OF A] applyService_keeps [OF A key] syncStatefulSet_keeps [OF A key]
      ensurePVC_keeps [OF A] syncDeployment_keeps [OF A key] syncIngress_keeps [OF A key]
      dropIngress_keeps [OF A key] syncHPA_keeps [OF A key] dropHPA_keeps [OF A key]; simp)+

lemma steady_view:
  assumes v: "unshared v k E" and laws: "key_laws E" "retry_law E"
    and own: "\<And>ob. metaOf ob = metaOf wp \<Longrightarrow> Spec ob = Spec wp \<Longrightarrow> ownBlocks k E (\<lambda>w. Q (v w)) ob"
  shows "steady E (\<lambda>w. Q (v w)) wp"
proof -
  have A: "admits (\<lambda>w. Q (v w)) (foreign k) E" by (rule admits_view [OF v])
  have "admits (\<lambda>w. Q (v w)) (statusOf wp) E"
    by (rule admits_mono [OF A]) (simp add: statusOf_def split: call.splits)
  moreover have "blocksKeep E (\<lambda>w. Q (v w)) ob" if "metaOf ob = metaOf wp" "Spec ob = Spec wp" for
    ob
    using own [OF that] foreign_blocks [OF A laws(1)] unfolding blocksKeep_def by (cases k) auto
  ultimately show ?thesis using laws by (simp add: steadyFor_def)
qed

lemma steady_conj:
  assumes "steady E P wp" and "steady E Q wp"
  shows "steady E (\<lambda>w. P w \<and> Q w) wp"
  using assms unfolding steadyFor_def admits_def store_admits_def blocksKeep_def keeps_def by auto

text \<open>A block leaves the objects it does not name alone, and its own up to date.\<close>

lemma patch_block_keeps:
  assumes "create_or_patch (getFor S) nf (Create S) run (Update S) patch same"
    and "obliging nf v S" and "key_law S"
    and "\<And>ex. ObjectKeyFromObject (patch ex d) = ObjectKeyFromObject ex"
    and "ObjectKeyFromObject d = ObjectKeyFromObject d0 \<Longrightarrow> d = d0"
    and "upToDate patch same d0 (v w)"
  shows "upToDate patch same d0 (v (snd (run d w)))"
proof -
  obtain w' where run: "run d w = (None, w')" "upToDate patch same d (v w')"
    "\<And>k. k \<noteq> ObjectKeyFromObject d \<Longrightarrow> v w' k = v w k"
    using patch_block(1) [OF assms(1-4), of w] by blast
  show ?thesis
  proof (cases "ObjectKeyFromObject d = ObjectKeyFromObject d0")
    case True
    with assms(5) run(1,2) show ?thesis by simp
  next
    case False
    with run(3) have "v w' (ObjectKeyFromObject d0) = v w (ObjectKeyFromObject d0)" by metis
    with run(1) assms(6) show ?thesis by (simp add: upToDate_def)
  qed
qed

lemmas blocks = secretC.create_once_axioms pvcC.create_once_axioms
  serviceC.create_or_patch_axioms stsC.create_or_patch_axioms deploymentC.create_or_patch_axioms
  ingressC.create_or_patch_axioms hpaC.create_or_patch_axioms
  ingressOffC.remove_owned_axioms hpaOffC.remove_owned_axioms

lemma keepsI': "(\<And>w. P w \<Longrightarrow> P (snd (f w))) \<Longrightarrow> keeps P f"
  by (simp add: keeps_def)

lemma service_names_differ:
  "ObjectKeyFromObject (buildWordPressService wp) \<noteq> ObjectKeyFromObject (buildMySQLHeadlessService
    wp)"
  by (simp add: name_defs)

lemma withController_key':
  "withController E wp d = Inr d' \<Longrightarrow> ObjectKeyFromObject d' = ObjectKeyFromObject d"
  by (auto simp: withController_def split: sum.splits)

lemma steady_secretThere:
  assumes V: "quietServer V E" and laws: "key_laws E" "retry_law E"
  shows "steady E (\<lambda>w. c \<longrightarrow> vSecret V w k \<noteq> None) wp"
proof (rule steady_view [where v = "vSecret V" and Q = "\<lambda>m. c \<longrightarrow> m k \<noteq> None",
      OF quietServerD(2) [OF V] laws])
  show "ownBlocks SecretKind E (\<lambda>w. c \<longrightarrow> vSecret V w k \<noteq> None) ob" for ob
  proof (simp only: ownBlocks.simps, intro allI keepsI' impI)
    fix d w assume w: "c \<longrightarrow> vSecret V w k \<noteq> None" and c
    obtain w' where "ensureSecret E d w = (None, w')"
      "\<And>k. vSecret V w k \<noteq> None \<Longrightarrow> vSecret V w' k \<noteq> None"
      using once_block(1) [OF blocks(1) quietServerD(1) [OF V], of d w] by blast
    with w \<open>c\<close> show "vSecret V (snd (ensureSecret E d w)) k \<noteq> None" by simp
  qed
qed

lemma steady_claim:
  assumes V: "quietServer V E" and laws: "key_laws E" "retry_law E"
  shows "steady E (\<lambda>w. claimHere wp (vPVC V w)) wp"
proof (rule steady_view [OF quietServerD(8) [OF V] laws])
  show "ownBlocks PVCKind E (\<lambda>w. claimHere wp (vPVC V w)) ob" for ob
  proof (simp only: ownBlocks.simps, intro allI keepsI')
    fix d w assume w: "claimHere wp (vPVC V w)"
    obtain w' where "ensurePVC E d w = (None, w')"
      "\<And>k. vPVC V w k \<noteq> None \<Longrightarrow> vPVC V w' k \<noteq> None"
      using once_block(1) [OF blocks(2) quietServerD(7) [OF V], of d w] by blast
    with w show "claimHere wp (vPVC V (snd (ensurePVC E d w)))" by (simp add: claimHere_def)
  qed
qed

lemma service_kept:
  assumes V: "quietServer V E" and laws: "key_laws E"
    and "ObjectKeyFromObject d = ObjectKeyFromObject d0 \<Longrightarrow> d = d0"
    and "upToDate patchService serviceEqual d0 (vService V w)"
  shows "upToDate patchService serviceEqual d0 (vService V (snd (applyService E d w)))"
  by (rule patch_block_keeps [OF blocks(3) quietServerD(3) [OF V] key_lawsD(2) [OF laws]])
    (use assms in simp_all)

lemma steady_service:
  assumes V: "quietServer V E" and laws: "key_laws E" "retry_law E"
  shows "steady E (\<lambda>w. serviceCurrent E wp (vService V w)) wp"
proof (rule steady_view [OF quietServerD(4) [OF V] laws])
  fix ob :: WordPress assume ob: "metaOf ob = metaOf wp" "Spec ob = Spec wp"
  note same = same_objects [OF ob]
  have kept: "keeps (\<lambda>w. serviceCurrent E wp (vService V w)) (applyService E d)"
    if "d0 = buildWordPressService wp \<or> d0 = buildMySQLHeadlessService wp"
      "withController E wp d0 = Inr d" for d d0
  proof (intro keepsI')
    fix w assume "serviceCurrent E wp (vService V w)"
    then show "serviceCurrent E wp (vService V (snd (applyService E d w)))"
      using that service_names_differ [of wp]
      by (auto simp: serviceCurrent_upToDate withController_key' intro!: service_kept [OF V
        laws(1)])
  qed
  show "ownBlocks ServiceKind E (\<lambda>w. serviceCurrent E wp (vService V w)) ob"
    unfolding ownBlocks.simps same using kept by blast
qed

lemma steady_mysqlService:
  assumes V: "quietServer V E" and laws: "key_laws E" "retry_law E"
  shows "steady E (\<lambda>w. mysqlServiceCurrent E wp (vService V w)) wp"
proof (rule steady_view [OF quietServerD(4) [OF V] laws])
  fix ob :: WordPress assume ob: "metaOf ob = metaOf wp" "Spec ob = Spec wp"
  note same = same_objects [OF ob]
  have kept: "keeps (\<lambda>w. mysqlServiceCurrent E wp (vService V w)) (applyService E d)"
    if "d0 = buildWordPressService wp \<or> d0 = buildMySQLHeadlessService wp"
      "withController E wp d0 = Inr d" for d d0
  proof (intro keepsI')
    fix w assume "mysqlServiceCurrent E wp (vService V w)"
    then show "mysqlServiceCurrent E wp (vService V (snd (applyService E d w)))"
      using that service_names_differ [of wp]
      by (auto simp: mysqlServiceCurrent_upToDate withController_key' intro!: service_kept [OF V
        laws(1)])
  qed
  show "ownBlocks ServiceKind E (\<lambda>w. mysqlServiceCurrent E wp (vService V w)) ob"
    unfolding ownBlocks.simps same using kept by blast
qed

lemma steady_mysql:
  assumes V: "quietServer V E" and laws: "key_laws E" "retry_law E"
  shows "steady E (\<lambda>w. mysqlCurrent E wp (vStatefulSet V w)) wp"
proof (rule steady_view [OF quietServerD(6) [OF V] laws])
  fix ob :: WordPress assume ob: "metaOf ob = metaOf wp" "Spec ob = Spec wp"
  note same = same_objects [OF ob]
  have "upToDate patchStatefulSet statefulSetEqual d (vStatefulSet V (snd (errOf (syncStatefulSet E
    d w))))"
    if "upToDate patchStatefulSet statefulSetEqual d (vStatefulSet V w)" for d w
    by (rule patch_block_keeps [OF blocks(4) quietServerD(5) [OF V] key_lawsD(3) [OF laws(1)]])
      (use that in simp_all)
  then show "ownBlocks StatefulSetKind E (\<lambda>w. mysqlCurrent E wp (vStatefulSet V w)) ob"
    by (auto simp: same mysqlCurrent_upToDate intro!: keepsI')
qed

lemma steady_deployment:
  assumes V: "quietServer V E" and laws: "key_laws E" "retry_law E"
  shows "steady E (\<lambda>w. deploymentCurrent E wp (vDeployment V w)) wp"
proof (rule steady_view [OF quietServerD(10) [OF V] laws])
  fix ob :: WordPress assume ob: "metaOf ob = metaOf wp" "Spec ob = Spec wp"
  note same = same_objects [OF ob]
  have "upToDate patchDeployment deploymentEqual d (vDeployment V (snd (syncDeployment E d w)))"
    if "upToDate patchDeployment deploymentEqual d (vDeployment V w)" for d w
    by (rule patch_block_keeps [OF blocks(5) quietServerD(9) [OF V] key_lawsD(5) [OF laws(1)]])
      (use that in simp_all)
  then show "ownBlocks DeploymentKind E (\<lambda>w. deploymentCurrent E wp (vDeployment V w)) ob"
    by (auto simp: same deploymentCurrent_upToDate intro!: keepsI')
qed

lemma steady_ingress:
  assumes V: "quietServer V E" and laws: "key_laws E" "retry_law E"
  shows "steady E (\<lambda>w. ingressSettled E wp (vIngress V w)) wp"
proof (rule steady_view [OF quietServerD(12) [OF V] laws])
  fix ob :: WordPress assume ob: "metaOf ob = metaOf wp" "Spec ob = Spec wp"
  note same = same_objects [OF ob]
  have on: "upToDate patchIngress ingressEqual d (vIngress V (snd (errOf (syncIngress E d w))))"
    if "upToDate patchIngress ingressEqual d (vIngress V w)" for d w
    by (rule patch_block_keeps [OF blocks(6) quietServerD(11) [OF V] key_lawsD(6) [OF laws(1)]])
      (use that in simp_all)
  have off: "notOurs E wp (Namespace wp, wpName wp) (vIngress V (snd (dropIngress E ob w)))" for w
    using remove_block(1) [OF blocks(8) quietServerD(11) [OF V] key_lawsD(6) [OF laws(1)], of ob w]
    unfolding notOurs_def ob(1) same by (auto simp: errOf_def)
  show "ownBlocks IngressKind E (\<lambda>w. ingressSettled E wp (vIngress V w)) ob"
    using on off by (auto simp: same ob(2) ingressSettled_upToDate intro!: keepsI')
qed

lemma steady_hpa:
  assumes V: "quietServer V E" and laws: "key_laws E" "retry_law E"
  shows "steady E (\<lambda>w. hpaSettled E wp (vHPA V w)) wp"
proof (rule steady_view [OF quietServerD(14) [OF V] laws])
  fix ob :: WordPress assume ob: "metaOf ob = metaOf wp" "Spec ob = Spec wp"
  note same = same_objects [OF ob]
  have on: "upToDate patchHPA hpaEqual d (vHPA V (snd (syncHPA E d w)))"
    if "upToDate patchHPA hpaEqual d (vHPA V w)" for d w
    by (rule patch_block_keeps [OF blocks(7) quietServerD(13) [OF V] key_lawsD(7) [OF laws(1)]])
      (use that in simp_all)
  have off: "notOurs E wp (Namespace wp, hpaName wp) (vHPA V (snd (dropHPA E ob w)))" for w
    using remove_block(1) [OF blocks(9) quietServerD(13) [OF V] key_lawsD(7) [OF laws(1)], of ob w]
    unfolding notOurs_def ob(1) same by auto
  show "ownBlocks HPAKind E (\<lambda>w. hpaSettled E wp (vHPA V w)) ob"
    using on off by (auto simp: same ob(2) hpaSettled_upToDate intro!: keepsI')
qed

subsection \<open>Acceptable resources\<close>

text \<open>What the pass asks of the library for this resource: that its objects can be owned, that
  random bytes come, and that the sizes it names are quantities.\<close>

definition acceptable :: "'w env \<Rightarrow> WordPress \<Rightarrow> bool" where
  "acceptable E wp \<longleftrightarrow>
     (\<forall>d. OwnerReferences d = [] \<longrightarrow> (\<exists>rs. SetControllerReference E (metaOf wp) d = Inr rs))
     \<and> (\<forall>n w. \<exists>bs w'. RandRead E n w = (Inr bs, w'))
     \<and> (internalMode wp \<longrightarrow> (\<forall>i. Internal (Database (Spec wp)) = Some i \<longrightarrow>
          (\<exists>q. ParseQuantity E (int_StorageSize i) = Inr q)))
     \<and> (per_Enabled (Persistence (Spec wp)) \<longrightarrow>
          (\<exists>q. ParseQuantity E (per_Size (Persistence (Spec wp))) = Inr q))"

text \<open>What must be there before: the resource itself, and in External mode its password Secret.\<close>

definition passwordSecret :: "WordPress \<Rightarrow> nsname" where
  "passwordSecret wp =
     (Namespace wp,
      case External (Database (Spec wp)) of None \<Rightarrow> [] | Some x \<Rightarrow> skr_Name (ext_PasswordSecret x))"

definition standing :: "'w views \<Rightarrow> WordPress \<Rightarrow> 'w \<Rightarrow> bool" where
  "standing V wp w \<longleftrightarrow>
     vWordPress V w (ObjectKeyFromObject wp)
     \<and> (Mode (Database (Spec wp)) = DatabaseModeExternal \<longrightarrow> vSecret V w (passwordSecret wp) \<noteq> None)"

end
