(* ===== verification/DemoQuiet.thy ===== *)
theory DemoQuiet
  imports QuietServer
begin

section \<open>The concrete cluster is a quiet server\<close>

text \<open>
  The in-memory API server of \<open>DemoCluster\<close> satisfies \<open>quietServer\<close>, and a resource whose
  sizes are not empty is acceptable to it. Not part of the model.
\<close>

subsection \<open>One store\<close>

definition found :: "('w \<Rightarrow> 'o object_scheme list) \<Rightarrow> 'w \<Rightarrow> nsname \<Rightarrow> 'o object_scheme option" where
  "found sel w k = find (hasKey k) (sel w)"

lemma find_append:
  "find p (xs @ ys) = (case find p xs of None \<Rightarrow> find p ys | Some x \<Rightarrow> Some x)"
  by (induction xs) auto

lemma find_replaced:
  "find (hasKey k) (map (\<lambda>x. if hasKey (ObjectKeyFromObject ob) x then ob else x) xs)
     = (if k = ObjectKeyFromObject ob \<and> find (hasKey k) xs \<noteq> None then Some ob else find (hasKey k)
       xs)"
  by (induction xs) (auto simp: hasKey_def)

lemma find_removed:
  "find (hasKey k) (filter (\<lambda>x. \<not> hasKey k' x) xs) = (if k = k' then None else find (hasKey k) xs)"
  by (induction xs) (auto simp: hasKey_def)

lemma hasKey_own:
  "hasKey (ObjectKeyFromObject ob) ob" "k \<noteq> ObjectKeyFromObject ob \<Longrightarrow> \<not> hasKey k ob"
  by (simp_all add: hasKey_def)

lemma memStore_obliging:
  assumes "\<And>f w. sel (upd f w) = f (sel w)" and "\<And>c w. sel (logCall c w) = sel w"
  shows "obliging (\<lambda>e. reasonOf e = ''NotFound'') (found sel) (memStore sel upd wrap)"
  unfolding obliging_def
  by (intro conjI allI impI)
    (simp_all add: memStore_def found_def fun_eq_iff Let_def assms find_append find_replaced
      find_removed notFoundErr_def hasKey_own split: option.split)

text \<open>A view that a store's updates and the log leave alone, and one only its writes change.\<close>

lemma memStore_apart:
  assumes "\<And>f w. v (upd f w) = v w" and "\<And>c w. v (logCall c w) = v w"
  shows "store_admits (\<lambda>w. v w = m) ok wrap (memStore sel upd wrap)"
  using assms by (simp add: store_admits_def keeps_def memStore_def Let_def)

lemma memStore_unwritten:
  assumes "\<And>ob. \<not> ok (Created (wrap ob)) \<and> \<not> ok (Updated (wrap ob)) \<and> \<not> ok (Deleted (wrap ob))"
  shows "store_admits (\<lambda>w. v w = m) ok wrap (memStore sel upd wrap)"
  using assms by (simp add: store_admits_def keeps_def memStore_def)

subsection \<open>The cluster\<close>

definition storedWP :: "cluster \<Rightarrow> nsname \<Rightarrow> (object \<times> WordPressSpec) option" where
  "storedWP w k = map_option (\<lambda>ob. (metaOf ob, Spec ob)) (found c_wordpresses w k)"

definition demoViews :: "cluster views" where
  "demoViews =
     \<lparr>vWordPress = (\<lambda>w k. storedWP w k \<noteq> None), vSecret = found c_secrets,
      vService = found c_services, vStatefulSet = found c_statefulsets, vPVC = found c_pvcs,
      vDeployment = found c_deployments, vIngress = found c_ingresses, vHPA = found c_hpas\<rparr>"

lemma demoViews_simps [simp]:
  "vSecret demoViews = found c_secrets" "vService demoViews = found c_services"
  "vStatefulSet demoViews = found c_statefulsets" "vPVC demoViews = found c_pvcs"
  "vDeployment demoViews = found c_deployments" "vIngress demoViews = found c_ingresses"
  "vHPA demoViews = found c_hpas" "vWordPress demoViews = (\<lambda>w k. storedWP w k \<noteq> None)"
  by (simp_all add: demoViews_def)

lemma demoEnv_fields:
  "wordpresses demoEnv = memStore c_wordpresses c_wordpresses_update KWordPress"
  "secrets demoEnv = memStore c_secrets c_secrets_update KSecret"
  "services demoEnv = memStore c_services c_services_update KService"
  "statefulsets demoEnv = memStore c_statefulsets c_statefulsets_update KStatefulSet"
  "pvcs demoEnv = memStore c_pvcs c_pvcs_update KPVC"
  "deployments demoEnv = memStore c_deployments c_deployments_update KDeployment"
  "ingresses demoEnv = memStore c_ingresses c_ingresses_update KIngress"
  "hpas demoEnv = memStore c_hpas c_hpas_update KHPA"
  "StatusUpdate demoEnv = demoStatusUpdate" "RandRead demoEnv = demoRand" "Backoff demoEnv = tick"
  "SetStatusCondition demoEnv = (\<lambda>cs c w. (upsertCondition cs c (int (clock w)), tick w))"
  "Recorder demoEnv = Some (\<lambda>wp t r m w. w\<lparr>events := events w @ [r]\<rparr>)"
  "IsNotFound demoEnv = (\<lambda>e. reasonOf e = ''NotFound'')"
  "SetControllerReference demoEnv = demoSetController" "ParseQuantity demoEnv = demoQuantity"
  by (simp_all add: demoEnv_def demoBase_def)

lemma storedWP_status:
  "map_option (\<lambda>ob. (metaOf ob, Spec ob))
     (find (hasKey k) (map (\<lambda>x. if hasKey (ObjectKeyFromObject ob) x then x\<lparr>Status := s\<rparr> else x)
       xs))
   = map_option (\<lambda>ob. (metaOf ob, Spec ob)) (find (hasKey k) xs)"
  by (induction xs) (auto simp: hasKey_def ObjectKeyFromObject_def metaOf_def object.defs)

lemmas demo_apart = found_def fun_eq_iff logCall_def keeps_def demoStatusUpdate_def demoRand_def
  tick_def Let_def

lemma demo_unshared:
  "unshared (found c_secrets) SecretKind demoEnv"
  "unshared (found c_services) ServiceKind demoEnv"
  "unshared (found c_statefulsets) StatefulSetKind demoEnv"
  "unshared (found c_pvcs) PVCKind demoEnv"
  "unshared (found c_deployments) DeploymentKind demoEnv"
  "unshared (found c_ingresses) IngressKind demoEnv"
  "unshared (found c_hpas) HPAKind demoEnv"
  unfolding unshared_def admits_def demoEnv_fields
  by (intro allI conjI impI;
      ((rule memStore_apart; (simp add: demo_apart; fail))
       | (rule memStore_unwritten; (simp; fail)) | (auto simp: demo_apart)))+

lemma storedWP_unshared: "unshared storedWP WordPressKind demoEnv"
  unfolding unshared_def admits_def demoEnv_fields
  by (intro allI conjI impI;
      ((rule memStore_apart; (simp add: demo_apart storedWP_def; fail))
       | (rule memStore_unwritten; (simp; fail))
       | (auto simp: demo_apart storedWP_def storedWP_status)))

lemma vWordPress_unshared: "unshared (vWordPress demoViews) WordPressKind demoEnv"
  using admits_view [where Q = "\<lambda>m. (\<lambda>k. m k \<noteq> None) = m'" for m', OF storedWP_unshared]
  by (simp add: unshared_def)

lemma demo_obliging:
  "obliging (IsNotFound demoEnv) (found c_secrets) (secrets demoEnv)"
  "obliging (IsNotFound demoEnv) (found c_services) (services demoEnv)"
  "obliging (IsNotFound demoEnv) (found c_statefulsets) (statefulsets demoEnv)"
  "obliging (IsNotFound demoEnv) (found c_pvcs) (pvcs demoEnv)"
  "obliging (IsNotFound demoEnv) (found c_deployments) (deployments demoEnv)"
  "obliging (IsNotFound demoEnv) (found c_ingresses) (ingresses demoEnv)"
  "obliging (IsNotFound demoEnv) (found c_hpas) (hpas demoEnv)"
  unfolding demoEnv_fields by (rule memStore_obliging; simp add: logCall_def)+

lemma stored_Get:
  assumes "storedWP w k = Some (m, s)"
  shows "\<exists>ob. Get (wordpresses demoEnv) k w = (Inr ob, w) \<and> metaOf ob = m \<and> Spec ob = s"
  using assms by (auto simp: demoEnv_fields memStore_def storedWP_def found_def)

lemma demo_quiet: "quietServer demoViews demoEnv"
proof -
  have "\<exists>ob. fst (Get (wordpresses demoEnv) k w) = Inr ob" if there: "storedWP w k \<noteq> None" for w k
  proof -
    obtain m s where "storedWP w k = Some (m, s)" using there by auto
    from stored_Get [OF this] show ?thesis by auto
  qed
  moreover have "fst (StatusUpdate demoEnv ob w) = None"
    if "storedWP w (ObjectKeyFromObject ob) \<noteq> None" for ob w
    using that by (simp add: demoEnv_fields demoStatusUpdate_def storedWP_def found_def Let_def
      logCall_def)
  ultimately show ?thesis
    unfolding quietServer_def using demo_obliging demo_unshared vWordPress_unshared by simp
qed

subsection \<open>Acceptable resources\<close>

lemma demo_acceptable: "acceptable demoEnv (applyDefaults wp)"
proof -
  have d: "defaulted (Spec (applyDefaults wp))"
    by (simp add: Spec_applyDefaults defaultSpec_defaulted)
  then have "int_StorageSize i \<noteq> []"
    if "internalMode (applyDefaults wp)" "Internal (Database (Spec (applyDefaults wp))) = Some i"
      for i
    using that by (auto simp: defaulted_def defaultedDatabase_def internalMode_def)
  with d show ?thesis
    by (auto simp: acceptable_def demoEnv_fields demoSetController_def demoRand_def demoQuantity_def
        defaulted_def)
qed

text \<open>The sample resource stands in its cluster.\<close>

lemma storedWP_clusterOf:
  "storedWP (clusterOf wp) (ObjectKeyFromObject wp) = Some (metaOf wp, Spec wp)"
  by (simp add: storedWP_def found_def clusterOf_def hasKey_def)

lemma internalSpec_internal:
  "Mode (Database (Spec (applyDefaults (sampleWP fs internalSpec)))) = DatabaseModeInternal"
  by (simp add: Spec_applyDefaults internalSpec_def defaultSpec_fix [OF defaultSpec_defaulted])
    (simp add: zeroSpec_def defaultSpec_def Let_def defaultDatabase_def defaultWorkload_def
      orElse_def)

lemma sample_standing:
  "standing demoViews (applyDefaults (sampleWP fs internalSpec)) (clusterOf (sampleWP fs
    internalSpec))"
proof -
  have "ObjectKeyFromObject (applyDefaults (sampleWP fs internalSpec)) = (''default'', ''blog'')"
    by (simp add: ObjectKeyFromObject_def frame_simps)
  then show ?thesis
    using storedWP_clusterOf [of "sampleWP fs internalSpec"]
    by (simp add: standing_def internalSpec_internal go_consts)
qed

end
