(* ===== verification/Settled.thy ===== *)
theory Settled
  imports DemoQuiet
begin

section \<open>One pass settles a quiet site, the next ones only report\<close>

text \<open>
  The level-triggered promise of the operator as a whole. On a quiet server one pass over an
  accepted resource completes without an error and brings every owned object to its desired
  state; from such a state a pass completes, writes nothing but the status, and stays in it.
  \<open>Convergence\<close> has the same for the blocks one by one, and the cases in which a real server
  is not quiet enough.
\<close>

subsection \<open>Every step of the pass succeeds\<close>

lemma steady_standing:
  assumes V: "quietServer V E" and laws: "key_laws E" "retry_law E"
  shows "steady E (standing V wp) wp"
proof -
  have "steady E (\<lambda>w. vWordPress V w (ObjectKeyFromObject wp)) wp"
    by (rule steady_view [where Q = "\<lambda>m. m (ObjectKeyFromObject wp)", OF quietServerD(15) [OF V]
      laws])
      simp
  from steady_conj [OF this steady_secretThere [OF V laws]]
  show ?thesis unfolding standing_def by blast
qed

lemma built_unowned [simp]:
  "OwnerReferences (buildWordPressDeployment wp h p e) = []"
  "OwnerReferences (buildWordPressService wp) = []"
  "OwnerReferences (buildWordPressIngress wp) = []"
  "OwnerReferences (buildWordPressHPA wp) = []"
  "OwnerReferences (buildMySQLHeadlessService wp) = []"
  by (simp_all add: buildWordPressDeployment_def buildWordPressService_def buildWordPressIngress_def
      buildWordPressHPA_def buildMySQLHeadlessService_def newMeta_def object.defs Let_def
      Deployment.defs Service.defs Ingress.defs HorizontalPodAutoscaler.defs)

lemma built_unowned':
  "buildMySQLSecret E wp w = (Inr s, w') \<Longrightarrow> OwnerReferences s = []"
  "buildWordPressPVC E wp = Inr c \<Longrightarrow> OwnerReferences c = []"
  by (auto simp: buildMySQLSecret_def buildWordPressPVC_def newMeta_def object.defs Let_def
      Secret.defs PersistentVolumeClaim.defs split: sum.splits prod.splits)

lemma buildMySQLStatefulSet_unowned:
  assumes "buildMySQLStatefulSet E wp = Some (Inr ss)"
  shows "OwnerReferences ss = []"
proof -
  obtain i where i: "Internal (Database (Spec wp)) = Some i"
    using assms by (auto simp: buildMySQLStatefulSet_def Option.bind_eq_Some_conv)
  with assms show ?thesis
    by (cases "ParseQuantity E (int_StorageSize i)")
      (auto simp: buildMySQLStatefulSet_def Let_def newMeta_def object.defs StatefulSet.defs)
qed

lemma owned_ok:
  assumes "acceptable E wp" and "OwnerReferences d = []"
  obtains d' where "withController E wp d = Inr d'"
proof -
  have "OwnerReferences (metaOf d) = []"
    using assms(2) by (simp add: metaOf_def object.defs)
  then obtain rs where "SetControllerReference E (metaOf wp) (metaOf d) = Inr rs"
    using assms(1) unfolding acceptable_def by blast
  then show ?thesis by (intro that) (simp add: withController_def)
qed

lemma persistStatus_ok:
  assumes V: "quietServer V E" and laws: "key_laws E" "retry_law E"
    and "vWordPress V (world st) (ObjectKeyFromObject (cr st))"
  shows "\<exists>st'. persistStatus E st = (None, st')"
proof -
  let ?k = "ObjectKeyFromObject (cr st)" and ?fn = "writeStatus E (ObjectKeyFromObject (cr st))
    (Status (cr st))"
  obtain ob w1 where get: "Get (wordpresses E) ?k (world st) = (Inr ob, w1)"
    using quietServerD(16) [OF V assms(4)] by (metis prod.collapse)
  let ?ob = "ob\<lparr>Status := Status (cr st)\<rparr>"
  have "ObjectKeyFromObject ?ob = ?k"
    using key_lawD [OF key_lawsD(1) [OF laws(1)] get] by (simp add: ObjectKeyFromObject_def)
  moreover have "vWordPress V w1 ?k"
  proof -
    have "admits (\<lambda>w. vWordPress V w ?k) (foreign WordPressKind) E"
      using admits_view [where Q = "\<lambda>m. m ?k", OF quietServerD(15) [OF V]] .
    from keepsD [OF read_keeps(1) [OF this] get assms(4)] show ?thesis .
  qed
  ultimately have "fst (StatusUpdate E ?ob w1) = None"
    using quietServerD(17) [OF V, of w1 ?ob] by simp
  with get have fn: "fst (?fn (world st)) = None" by (simp add: writeStatus_def)
  obtain n where "RetryOnConflict E ?fn (world st) = retryN E n ?fn (world st)"
    using laws(2) by (auto simp: retry_law_def)
  moreover have "fst (retryN E n ?fn (world st)) = None"
    using fn by (cases n) (auto split: prod.splits option.splits)
  ultimately show ?thesis by (auto simp: persistStatus_def api_def split: prod.splits)
qed

text \<open>Each step below succeeds, brings its object to its desired state and keeps what is steady.\<close>

lemma tracks_conj: "tracks P wp st \<Longrightarrow> Q (world st) \<Longrightarrow> tracks (\<lambda>w. P w \<and> Q w) wp st"
  by (simp add: tracks_def)

lemma tracks_reached:
  assumes "\<exists>st'. f = (r, st') \<and> Q (world st')" and "\<And>r st'. f = (r, st') \<Longrightarrow> tracks P wp st'"
  shows "\<exists>st'. f = (r, st') \<and> tracks (\<lambda>w. P w \<and> Q w) wp st'"
  using assms by (auto simp: tracks_def)

lemma tracks_same:
  assumes "tracks P wp st"
  shows "metaOf (cr st) = metaOf wp" "Spec (cr st) = Spec wp"
  using assms by (simp_all add: tracks_def)

lemma api_ok: "f (world st) = (r, w') \<Longrightarrow> api f st = (r, st\<lparr>world := w'\<rparr>)"
  by (simp add: api_def)

lemma reconcileMySQLSecret_ok:
  assumes V: "quietServer V E" and ok: "acceptable E wp" and mode: "internalMode wp"
    and g: "steady E P wp" and t: "tracks P wp st"
  shows "\<exists>st'. reconcileMySQLSecret E st = (None, st')
    \<and> tracks (\<lambda>w. P w \<and> secretHere wp (vSecret V w)) wp st'"
proof -
  note same = same_objects [OF tracks_same [OF t]]
  have rand: "\<exists>bs w'. RandRead E n w = (Inr bs, w')" for n w
    using ok unfolding acceptable_def by blast
  have pw: "\<exists>s w'. generatePassword E w = (Inr s, w')" for w
    using rand [of 24 w] by (auto simp: generatePassword_def)
  obtain s w1 where b: "buildMySQLSecret E (cr st) (world st) = (Inr s, w1)"
  proof -
    obtain a w1 where a: "generatePassword E (world st) = (Inr a, w1)" using pw by blast
    obtain b w2 where "generatePassword E w1 = (Inr b, w2)" using pw by blast
    with a show ?thesis by (intro that) (simp add: buildMySQLSecret_def)
  qed
  obtain d where d: "withController E wp s = Inr d"
    using owned_ok [OF ok built_unowned'(1) [OF b]] .
  have k: "ObjectKeyFromObject d = (Namespace wp, dbSecretName wp)"
    using buildMySQLSecret_Inr [OF b] withController_key' [OF d] same(4,7) by simp
  obtain w2 where "ensureSecret E d w1 = (None, w2)" "vSecret V w2 (ObjectKeyFromObject d) \<noteq> None"
    using once_block(1) [OF blocks(1) quietServerD(1) [OF V], of d w1] by blast
  then have run: "reconcileMySQLSecret E st = (None, st\<lparr>world := w1, world := w2\<rparr>)"
    and here: "secretHere wp (vSecret V w2)"
    using b d k by (simp_all add: reconcileMySQLSecret_def api_def same(1) secretHere_def)
  with tracks_conj [OF reconcileMySQLSecret_tracks [OF g t mode run]] show ?thesis by simp
qed

lemma reconcileMySQLService_ok:
  assumes V: "quietServer V E" and ok: "acceptable E wp" and mode: "internalMode wp"
    and g: "steady E P wp" and t: "tracks P wp st"
  shows "\<exists>st'. reconcileMySQLService E st = (None, st')
    \<and> tracks (\<lambda>w. P w \<and> mysqlServiceCurrent E wp (vService V w)) wp st'"
proof -
  note same = same_objects [OF tracks_same [OF t]]
  obtain d where d: "withController E wp (buildMySQLHeadlessService wp) = Inr d"
    using owned_ok [OF ok built_unowned(5)] .
  obtain w' where "applyService E d (world st) = (None, w')"
    "upToDate patchService serviceEqual d (vService V w')"
    using patch_block(1) [OF blocks(3) quietServerD(3) [OF V] key_lawsD(2) [OF steadyD(2) [OF g]]]
    by (metis patch_keys(1))
  then have run: "reconcileMySQLService E st = (None, st\<lparr>world := w'\<rparr>)"
    and here: "mysqlServiceCurrent E wp (vService V w')"
    using d by (simp_all add: reconcileMySQLService_def api_def same(1,15)
      mysqlServiceCurrent_upToDate)
  with tracks_conj [OF reconcileMySQLService_tracks [OF g t mode run]] show ?thesis by simp
qed

lemma reconcilePVC_ok:
  assumes V: "quietServer V E" and ok: "acceptable E wp" and g: "steady E P wp" and t: "tracks P wp
    st"
  shows "\<exists>st'. reconcilePVC E st = (None, st')
    \<and> tracks (\<lambda>w. P w \<and> claimHere wp (vPVC V w)) wp st'"
proof -
  note same = same_objects [OF tracks_same [OF t]] and spec = tracks_same(2) [OF t]
  have "\<exists>st'. reconcilePVC E st = (None, st') \<and> claimHere wp (vPVC V (world st'))"
  proof (cases "per_Enabled (Persistence (Spec wp))")
    case True
    with ok obtain q where "ParseQuantity E (per_Size (Persistence (Spec wp))) = Inr q"
      unfolding acceptable_def by blast
    then have "\<exists>p. buildWordPressPVC E wp = Inr p" by (simp add: buildWordPressPVC_def Let_def)
    then obtain p where p: "buildWordPressPVC E wp = Inr p" by blast
    obtain d where d: "withController E wp p = Inr d" using owned_ok [OF ok built_unowned'(2) [OF
      p]] .
    have k: "ObjectKeyFromObject d = (Namespace wp, wpPVCName wp)"
      using buildWordPressPVC_Inr [OF p] withController_key' [OF d] by simp
    obtain w' where "ensurePVC E d (world st) = (None, w')" "vPVC V w' (ObjectKeyFromObject d) \<noteq>
      None"
      using once_block(1) [OF blocks(2) quietServerD(7) [OF V], of d "world st"] by blast
    with True p d k show ?thesis
      by (simp add: reconcilePVC_def api_def same(1,12) spec claimHere_def)
  next
    case False
    then show ?thesis by (simp add: reconcilePVC_def spec claimHere_def)
  qed
  then show ?thesis by (rule tracks_reached) (rule reconcilePVC_tracks [OF g t])
qed

lemma reconcileWordPressService_ok:
  assumes V: "quietServer V E" and ok: "acceptable E wp" and g: "steady E P wp" and t: "tracks P wp
    st"
  shows "\<exists>st'. reconcileWordPressService E st = (None, st')
    \<and> tracks (\<lambda>w. P w \<and> serviceCurrent E wp (vService V w)) wp st'"
proof -
  note same = same_objects [OF tracks_same [OF t]]
  obtain d where d: "withController E wp (buildWordPressService wp) = Inr d"
    using owned_ok [OF ok built_unowned(2)] .
  obtain w' where "applyService E d (world st) = (None, w')"
    "upToDate patchService serviceEqual d (vService V w')"
    using patch_block(1) [OF blocks(3) quietServerD(3) [OF V] key_lawsD(2) [OF steadyD(2) [OF g]]]
    by (metis patch_keys(1))
  then have run: "reconcileWordPressService E st = (None, st\<lparr>world := w'\<rparr>)"
    and here: "serviceCurrent E wp (vService V w')"
    using d by (simp_all add: reconcileWordPressService_def api_def same(1,11)
      serviceCurrent_upToDate)
  with tracks_conj [OF reconcileWordPressService_tracks [OF g t run]] show ?thesis by simp
qed

lemma reconcileHPA_ok:
  assumes V: "quietServer V E" and ok: "acceptable E wp" and g: "steady E P wp" and t: "tracks P wp
    st"
  shows "\<exists>st'. reconcileHPA E st = (None, st')
    \<and> tracks (\<lambda>w. P w \<and> hpaSettled E wp (vHPA V w)) wp st'"
proof -
  note same = same_objects [OF tracks_same [OF t]] and spec = tracks_same(2) [OF t]
  note S = quietServerD(13) [OF V] key_lawsD(7) [OF steadyD(2) [OF g]]
  obtain d where d: "withController E wp (buildWordPressHPA wp) = Inr d"
    using owned_ok [OF ok built_unowned(4)] .
  obtain w1 where on: "syncHPA E d (world st) = (None, w1)" "upToDate patchHPA hpaEqual d (vHPA V
    w1)"
    using patch_block(1) [OF blocks(7) S] by (metis patch_keys(5))
  obtain w2 where off: "dropHPA E (cr st) (world st) = (None, w2)"
    "notOurs E (cr st) (Namespace (cr st), hpaName (cr st)) (vHPA V w2)"
    using remove_block(1) [OF blocks(9) S] by blast
  have "notOurs E wp (Namespace wp, hpaName wp) (vHPA V w2)"
    using off(2) unfolding notOurs_def same(4,6) tracks_same(1) [OF t] .
  then have "\<exists>st'. reconcileHPA E st = (None, st') \<and> hpaSettled E wp (vHPA V (world st'))"
    using d on off(1) by (auto simp: reconcileHPA_def api_def same(1,14) spec hpaSettled_upToDate)
  then show ?thesis by (rule tracks_reached) (rule reconcileHPA_tracks [OF g t])
qed

lemma reconcileWordPressDeployment_ok:
  assumes V: "quietServer V E" and ok: "acceptable E wp" and g: "steady E P wp" and t: "tracks P wp
    st"
    and valid: "readyToRun st"
  shows "\<exists>st'. reconcileWordPressDeployment E st = Some (None, st')
    \<and> tracks (\<lambda>w. P w \<and> deploymentCurrent E wp (vDeployment V w)) wp st'"
proof -
  note same = same_objects [OF tracks_same [OF t]]
  obtain r st' where run: "reconcileWordPressDeployment E st = Some (r, st')"
    using reconcileWordPressDeployment_total [of st E] valid by (auto simp: readyToRun_def)
  obtain host port env st1 where hp: "resolvedDBHost wp = Some (host, port)" "passwordEnv wp = Some
    env"
    and st1: "st1 = modStatus (\<lambda>s. s\<lparr>wst_DatabaseHost := host\<rparr>) st"
    and put: "(case withController E (cr st1) (buildWordPressDeployment (cr st1) host port env) of
       Inl err \<Rightarrow> (Some err, st1) | Inr d \<Rightarrow> api (syncDeployment E d) st1) = (r, st')"
    using reconcileWordPressDeployment_cases [OF run] unfolding same by blast
  have t1: "tracks P wp st1" using t by (simp add: st1 keeps_intros)
  note same1 = same_objects [OF tracks_same [OF t1]]
  obtain d where d: "withController E wp (buildWordPressDeployment wp host port env) = Inr d"
    using owned_ok [OF ok built_unowned(1)] .
  obtain w' where "syncDeployment E d (world st1) = (None, w')"
    "upToDate patchDeployment deploymentEqual d (vDeployment V w')"
    using patch_block(1) [OF blocks(5) quietServerD(9) [OF V] key_lawsD(5) [OF steadyD(2) [OF g]]]
    by (metis patch_keys(3))
  then have "r = None" "deploymentCurrent E wp (vDeployment V (world st'))"
    using put d hp by (auto simp: api_def same1(1,10) deploymentCurrent_upToDate)
  with run tracks_conj [OF reconcileWordPressDeployment_tracks [OF g t run]] show ?thesis by simp
qed

lemma reconcileIngress_ok:
  assumes V: "quietServer V E" and ok: "acceptable E wp" and g: "steady E P wp" and t: "tracks P wp
    st"
  shows "\<exists>st'. reconcileIngress E st = (None, st')
    \<and> tracks (\<lambda>w. P w \<and> ingressSettled E wp (vIngress V w)) wp st'"
proof -
  note same = same_objects [OF tracks_same [OF t]] and spec = tracks_same(2) [OF t]
  note S = quietServerD(11) [OF V] key_lawsD(6) [OF steadyD(2) [OF g]]
  have kept: "ingressSettled E wp (vIngress V (world (setCond E c s)))"
    if "ingressSettled E wp (vIngress V (world s))" for c s
    using setCond_keeps [OF steadyD(1) [OF steady_ingress [OF V steadyD(2,3) [OF g]]]] that .
  have "\<exists>st'. reconcileIngress E st = (None, st') \<and> ingressSettled E wp (vIngress V (world st'))"
  proof (cases "igs_Enabled (IngressS (Spec wp))")
    case True
    obtain d where d: "withController E wp (buildWordPressIngress wp) = Inr d"
      using owned_ok [OF ok built_unowned(3)] .
    obtain w1 where "errOf (syncIngress E d (world st)) = (None, w1)"
      "upToDate patchIngress ingressEqual d (vIngress V w1)"
      using patch_block(1) [OF blocks(6) S] by (metis patch_keys(4))
    moreover from this(1) obtain c where "syncIngress E d (world st) = (Inr c, w1)"
      by (cases "syncIngress E d (world st)") (auto simp: errOf_def split: sum.splits)
    moreover have "ingressSettled E wp (vIngress V w1)"
      using True d calculation(2) by (simp add: ingressSettled_upToDate)
    ultimately show ?thesis
      using True d kept [of "st\<lparr>world := w1\<rparr>"]
      by (simp add: reconcileIngress_def api_def same(1,13) spec)
  next
    case False
    obtain w2 where off: "errOf (dropIngress E (cr st) (world st)) = (None, w2)"
      "notOurs E (cr st) (Namespace (cr st), wpName (cr st)) (vIngress V w2)"
      using remove_block(1) [OF blocks(8) S] by blast
    from off(1) obtain m where "dropIngress E (cr st) (world st) = (Inr m, w2)"
      by (cases "dropIngress E (cr st) (world st)") (auto simp: errOf_def split: sum.splits)
    moreover have "notOurs E wp (Namespace wp, wpName wp) (vIngress V w2)"
      using off(2) unfolding notOurs_def same(4,5) tracks_same(1) [OF t] .
    ultimately show ?thesis
      using False by (simp add: reconcileIngress_def api_def spec ingressSettled_upToDate
        frame_simps)
  qed
  then show ?thesis by (rule tracks_reached) (rule reconcileIngress_tracks [OF g t])
qed

lemma reconcileMySQLStatefulSet_ok:
  assumes V: "quietServer V E" and ok: "acceptable E wp" and mode: "internalMode wp"
    and sec: "Internal (Database (Spec wp)) = Some i" and g: "steady E P wp" and t: "tracks P wp st"
  shows "\<exists>st'. reconcileMySQLStatefulSet E st = Some ((zeroResult, None), st')
    \<and> tracks (\<lambda>w. P w \<and> mysqlCurrent E wp (vStatefulSet V w)) wp st'"
proof -
  note same = same_objects [OF tracks_same [OF t]]
  obtain q where "ParseQuantity E (int_StorageSize i) = Inr q"
    using ok mode sec unfolding acceptable_def by blast
  with sec obtain s where s: "buildMySQLStatefulSet E wp = Some (Inr s)"
    by (auto simp: buildMySQLStatefulSet_def Let_def)
  obtain d where d: "withController E wp s = Inr d"
    using owned_ok [OF ok buildMySQLStatefulSet_unowned [OF s]] .
  obtain w1 where "errOf (syncStatefulSet E d (world st)) = (None, w1)"
    "upToDate patchStatefulSet statefulSetEqual d (vStatefulSet V w1)"
    using patch_block(1) [OF blocks(4) quietServerD(5) [OF V] key_lawsD(3) [OF steadyD(2) [OF g]]]
    by (metis patch_keys(2))
  moreover from this(1) obtain x where "syncStatefulSet E d (world st) = (Inr x, w1)"
    by (cases "syncStatefulSet E d (world st)") (auto simp: errOf_def split: sum.splits)
  ultimately have run: "reconcileMySQLStatefulSet E st
      = Some ((zeroResult, None), mysqlReadiness E x (st\<lparr>world := w1\<rparr>))"
    and "tracks (\<lambda>w. mysqlCurrent E wp (vStatefulSet V w)) wp (st\<lparr>world := w1\<rparr>)"
    using s d t by (simp_all add: reconcileMySQLStatefulSet_def api_def same(1,16)
      mysqlCurrent_upToDate
        tracks_def)
  from tracks_world [OF tracks_mysqlReadiness
      [OF steadyD(1) [OF steady_mysql [OF V steadyD(2,3) [OF g]]] this(2)]]
    run tracks_conj [OF reconcileMySQLStatefulSet_tracks [OF g t mode run]]
  show ?thesis by simp
qed

definition databaseSettled :: "'w views \<Rightarrow> 'w env \<Rightarrow> WordPress \<Rightarrow> 'w \<Rightarrow> bool" where
  "databaseSettled V E wp w \<longleftrightarrow>
     secretHere wp (vSecret V w) \<and> mysqlServiceCurrent E wp (vService V w)
     \<and> mysqlCurrent E wp (vStatefulSet V w)"

definition workloadSettled :: "'w views \<Rightarrow> 'w env \<Rightarrow> WordPress \<Rightarrow> 'w \<Rightarrow> bool" where
  "workloadSettled V E wp w \<longleftrightarrow>
     claimHere wp (vPVC V w) \<and> deploymentCurrent E wp (vDeployment V w)
     \<and> serviceCurrent E wp (vService V w) \<and> ingressSettled E wp (vIngress V w)
     \<and> hpaSettled E wp (vHPA V w)"

lemma settledFor_parts:
  "settledFor V E wp w \<longleftrightarrow> databaseSettled V E wp w \<and> workloadSettled V E wp w"
  by (auto simp: settledFor_def databaseSettled_def workloadSettled_def)

lemma steady_secret:
  assumes "quietServer V E" and "key_laws E" "retry_law E"
  shows "steady E (\<lambda>w. secretHere wp (vSecret V w)) wp"
  unfolding secretHere_def by (rule steady_secretThere [OF assms])

lemma steady_databaseSettled:
  assumes "quietServer V E" and "key_laws E" "retry_law E"
  shows "steady E (databaseSettled V E wp) wp"
  unfolding databaseSettled_def
  by (intro steady_conj steady_secret steady_mysqlService steady_mysql assms)

lemma reconcileExternalDatabase_ok:
  assumes V: "quietServer V E" and g: "steady E P wp" and t: "tracks P wp st"
    and x: "External (Database (Spec wp)) = Some x"
    and there: "vSecret V (world st) (passwordSecret wp) \<noteq> None"
  shows "\<exists>st'. reconcileExternalDatabase E st = Some ((zeroResult, None), st') \<and> tracks P wp st'"
proof -
  note same = tracksD [OF t]
  obtain s where "vSecret V (world st) (passwordSecret wp) = Some s" using there by blast
  then obtain w1 where "Get (secrets E) (passwordSecret wp) (world st) = (Inr s, w1)"
    using obligingD(2) [OF quietServerD(1) [OF V]] by blast
  then have "\<exists>st'. reconcileExternalDatabase E st = Some ((zeroResult, None), st')"
    using x by (simp add: reconcileExternalDatabase_def same api_def passwordSecret_def)
  then show ?thesis using reconcileExternalDatabase_tracks [OF g t] by blast
qed

lemma reconcileInternalDatabase_ok:
  assumes V: "quietServer V E" and ok: "acceptable E wp" and mode: "internalMode wp"
    and sec: "Internal (Database (Spec wp)) = Some i" and g: "steady E P wp" and t: "tracks P wp st"
  shows "\<exists>st'. reconcileInternalDatabase E st = Some ((zeroResult, None), st')
    \<and> tracks (\<lambda>w. P w \<and> databaseSettled V E wp w) wp st'"
proof -
  note laws = steadyD(2,3) [OF g]
  obtain st1 where 1: "reconcileMySQLSecret E st = (None, st1)"
    and t1: "tracks (\<lambda>w. P w \<and> secretHere wp (vSecret V w)) wp st1"
    using reconcileMySQLSecret_ok [OF V ok mode g t] by blast
  note g1 = steady_conj [OF g steady_secret [OF V laws]]
  obtain st2 where 2: "reconcileMySQLService E st1 = (None, st2)"
    and t2: "tracks (\<lambda>w. (P w \<and> secretHere wp (vSecret V w))
      \<and> mysqlServiceCurrent E wp (vService V w)) wp st2"
    using reconcileMySQLService_ok [OF V ok mode g1 t1] by blast
  note g2 = steady_conj [OF g1 steady_mysqlService [OF V laws]]
  obtain st3 where 3: "reconcileMySQLStatefulSet E st2 = Some ((zeroResult, None), st3)"
    and t3: "tracks (\<lambda>w. ((P w \<and> secretHere wp (vSecret V w))
      \<and> mysqlServiceCurrent E wp (vService V w)) \<and> mysqlCurrent E wp (vStatefulSet V w)) wp st3"
    using reconcileMySQLStatefulSet_ok [OF V ok mode sec g2 t2] by blast
  have "reconcileInternalDatabase E st = Some ((zeroResult, None), st3)"
    using 1 2 3 by (simp add: reconcileInternalDatabase_def)
  with t3 show ?thesis by (auto simp: tracks_def databaseSettled_def)
qed

lemma reconcileDatabase_ok:
  assumes V: "quietServer V E" and ok: "acceptable E wp"
    and valid: "noNilDeref (Database (Spec wp))"
      "internalMode wp \<or> Mode (Database (Spec wp)) = DatabaseModeExternal"
    and g: "steady E P wp" and t: "tracks P wp st" and standing: "standing V wp (world st)"
  shows "\<exists>st'. reconcileDatabase E st = Some ((zeroResult, None), st')
    \<and> tracks (\<lambda>w. P w \<and> databaseSettled V E wp w) wp st'"
proof (cases "Mode (Database (Spec wp)) = DatabaseModeExternal")
  case True
  then have "\<not> internalMode wp" by (simp add: internalMode_def go_consts)
  then have "databaseSettled V E wp w" for w
    by (simp add: databaseSettled_def secretHere_def mysqlServiceCurrent_upToDate
      mysqlCurrent_upToDate)
  moreover obtain x where "External (Database (Spec wp)) = Some x"
    using True valid(1) by (auto simp: noNilDeref_def)
  ultimately show ?thesis
    using True standing reconcileExternalDatabase_ok [OF V g t]
    by (simp add: reconcileDatabase_def standing_def tracksD(4) [OF t])
next
  case False
  with valid obtain i where "Internal (Database (Spec wp)) = Some i" by (auto simp: noNilDeref_def)
  with False valid(2) show ?thesis
    using reconcileInternalDatabase_ok [OF V ok _ _ g t]
    by (simp add: reconcileDatabase_def tracksD(4) [OF t])
qed

lemma updateStatus_ok:
  assumes V: "quietServer V E" and g: "steady E P wp" and t: "tracks P wp st"
    and there: "vWordPress V (world st) (ObjectKeyFromObject wp)"
  shows "\<exists>st'. updateStatus E st = (None, st') \<and> P (world st')"
proof -
  note laws = steadyD(2,3) [OF g]
  let ?Q = "\<lambda>w. vWordPress V w (ObjectKeyFromObject wp)"
  have there': "steady E ?Q wp"
    by (rule steady_view [where Q = "\<lambda>m. m (ObjectKeyFromObject wp)", OF quietServerD(15) [OF V]
      laws])
      simp
  note A = steadyD(1) [OF there']
  obtain r st1 where get: "api (Get (deployments E) (Namespace (cr st), wpName (cr st))) st = (r,
    st1)"
    by fastforce
  have ok: "\<And>e. r = Inl e \<Longrightarrow> IsNotFound E e"
    using obligingD(1,2) [OF quietServerD(9) [OF V], of "world st" "(Namespace (cr st), wpName (cr
      st))"]
      api_frame(2) [OF get]
    by (cases "vDeployment V (world st) (Namespace (cr st), wpName (cr st))") fastforce+
  have "?Q (world st1)" using api_keeps [OF read_keeps(6) [OF A] get there] .
  moreover have key: "ObjectKeyFromObject (cr (computeStatus E dep st1)) = ObjectKeyFromObject wp"
    for dep
    using meta_key [OF computeStatus_frame(1), of E dep st1] api_frame(1) [OF get] tracksD(5) [OF t]
    by simp
  ultimately have "\<exists>st'. persistStatus E (computeStatus E dep st1) = (None, st')" for dep
    using computeStatus_keeps [OF A, of st1 dep] by (intro persistStatus_ok [OF V laws]) simp
  with get ok have "\<exists>st'. updateStatus E st = (None, st')"
    by (cases r) (auto simp: updateStatus_def)
  moreover have "P (world st')" if "updateStatus E st = (r', st')" for r' st'
    by (rule updateStatus_keeps [OF steadyD [OF g] _ that tracks_world [OF t]])
      (simp add: tracksD(5) [OF t])
  ultimately show ?thesis by blast
qed

subsection \<open>The pass as a whole\<close>

lemma orReturn_ok: "orReturn E (None, st) rest = rest st"
  by (simp add: orReturn_def)

lemma reconcileWorkload_steps_ok:
  assumes V: "quietServer V E" and ok: "acceptable E wp"
    and valid: "noNilDeref (Database (Spec wp))"
      "internalMode wp \<or> Mode (Database (Spec wp)) = DatabaseModeExternal"
    and g: "steady E P wp" and t: "tracks P wp st"
    and P: "\<And>w. P w \<Longrightarrow> standing V wp w"
  obtains st1 st2 st3 st4 st5 st6 where
    "reconcilePVC E st = (None, st1)" "reconcileWordPressDeployment E st1 = Some (None, st2)"
    "reconcileWordPressService E st2 = (None, st3)" "reconcileIngress E st3 = (None, st4)"
    "reconcileHPA E st4 = (None, st5)" "updateStatus E st5 = (None, st6)"
    "reconcileWorkload E st = Some (finishPass st6)"
    "tracks P wp st5" "P (world st6)" "workloadSettled V E wp (world st6)"
proof -
  note laws = steadyD(2,3) [OF g]
  obtain st1 where 1: "reconcilePVC E st = (None, st1)"
    and t1: "tracks (\<lambda>w. P w \<and> claimHere wp (vPVC V w)) wp st1"
    using reconcilePVC_ok [OF V ok g t] by blast
  note g1 = steady_conj [OF g steady_claim [OF V laws]]
  have "readyToRun st1" using valid by (auto simp: readyToRun_def tracksD(4) [OF t1]
    internalMode_def)
  then obtain st2 where 2: "reconcileWordPressDeployment E st1 = Some (None, st2)"
    and t2: "tracks (\<lambda>w. (P w \<and> claimHere wp (vPVC V w)) \<and> deploymentCurrent E wp (vDeployment V w))
      wp st2"
    using reconcileWordPressDeployment_ok [OF V ok g1 t1] by blast
  note g2 = steady_conj [OF g1 steady_deployment [OF V laws]]
  obtain st3 where 3: "reconcileWordPressService E st2 = (None, st3)"
    and t3: "tracks (\<lambda>w. ((P w \<and> claimHere wp (vPVC V w)) \<and> deploymentCurrent E wp (vDeployment V
      w))
      \<and> serviceCurrent E wp (vService V w)) wp st3"
    using reconcileWordPressService_ok [OF V ok g2 t2] by blast
  note g3 = steady_conj [OF g2 steady_service [OF V laws]]
  obtain st4 where 4: "reconcileIngress E st3 = (None, st4)"
    and t4: "tracks (\<lambda>w. (((P w \<and> claimHere wp (vPVC V w)) \<and> deploymentCurrent E wp (vDeployment V
      w))
      \<and> serviceCurrent E wp (vService V w)) \<and> ingressSettled E wp (vIngress V w)) wp st4"
    using reconcileIngress_ok [OF V ok g3 t3] by blast
  note g4 = steady_conj [OF g3 steady_ingress [OF V laws]]
  let ?all = "\<lambda>w. ((((P w \<and> claimHere wp (vPVC V w)) \<and> deploymentCurrent E wp (vDeployment V w))
      \<and> serviceCurrent E wp (vService V w)) \<and> ingressSettled E wp (vIngress V w))
      \<and> hpaSettled E wp (vHPA V w)"
  obtain st5 where 5: "reconcileHPA E st4 = (None, st5)" and t5: "tracks ?all wp st5"
    using reconcileHPA_ok [OF V ok g4 t4] by blast
  note g5 = steady_conj [OF g4 steady_hpa [OF V laws]]
  have "standing V wp (world st5)" using P tracks_world [OF t5] by blast
  then have "vWordPress V (world st5) (ObjectKeyFromObject wp)" by (simp add: standing_def)
  then obtain st6 where 6: "updateStatus E st5 = (None, st6)" and w6: "?all (world st6)"
    using updateStatus_ok [OF V g5 t5] by blast
  have "reconcileWorkload E st = Some (finishPass st6)"
    by (simp add: reconcileWorkload_def orReturn_ok 1 2 3 4 5 6)
  moreover have "tracks P wp st5" using t5 by (simp add: tracks_def)
  ultimately show thesis using that 1 2 3 4 5 6 w6 by (simp add: workloadSettled_def)
qed

lemma reconcileWorkload_ok:
  assumes "quietServer V E" and "acceptable E wp"
    and "noNilDeref (Database (Spec wp))"
      "internalMode wp \<or> Mode (Database (Spec wp)) = DatabaseModeExternal"
    and "steady E P wp" and "tracks P wp st"
    and "\<And>w. P w \<Longrightarrow> standing V wp w"
  shows "\<exists>res st'. reconcileWorkload E st = Some ((res, None), st')
    \<and> P (world st') \<and> workloadSettled V E wp (world st')"
proof -
  obtain st6 where "reconcileWorkload E st = Some (finishPass st6)" "P (world st6)"
    "workloadSettled V E wp (world st6)"
    using assms by (rule reconcileWorkload_steps_ok)
  moreover have "\<exists>res. finishPass st6 = ((res, None), st6)" by (simp add: finishPass_def)
  ultimately show ?thesis by auto
qed

lemma reconcileResources_ok:
  assumes V: "quietServer V E" and ok: "acceptable E wp"
    and valid: "noNilDeref (Database (Spec wp))"
      "internalMode wp \<or> Mode (Database (Spec wp)) = DatabaseModeExternal"
    and g: "steady E P wp" and t: "tracks P wp st" and P: "\<And>w. P w \<Longrightarrow> standing V wp w"
  shows "\<exists>res st'. reconcileResources E st = Some ((res, None), st')
    \<and> P (world st') \<and> settledFor V E wp (world st')"
proof -
  have "standing V wp (world st)" using P tracks_world [OF t] by blast
  then obtain st1 where db: "reconcileDatabase E st = Some ((zeroResult, None), st1)"
    and t1: "tracks (\<lambda>w. P w \<and> databaseSettled V E wp w) wp st1"
    using reconcileDatabase_ok [OF V ok valid g t] by blast
  note g1 = steady_conj [OF g steady_databaseSettled [OF V steadyD(2,3) [OF g]]]
  have P1: "standing V wp w" if "P w \<and> databaseSettled V E wp w" for w using P that by blast
  obtain res st' where "reconcileWorkload E st1 = Some ((res, None), st')"
    "P (world st')" "databaseSettled V E wp (world st')" "workloadSettled V E wp (world st')"
    using reconcileWorkload_ok [OF V ok valid g1 t1 P1] by blast
  with db show ?thesis by (simp add: reconcileResources_def settledFor_parts)
qed

text \<open>Any steady property that keeps the resource standing can be carried along.\<close>

lemma quiet_pass:
  assumes V: "quietServer V E" and ok: "acceptable E (applyDefaults wp)"
    and get: "Get (wordpresses E) req w = (Inr wp, w1)"
    and live: "timeIsZero (DeletionTimestamp wp)"
      "ContainsFinalizer E (Finalizers wp) WordPressFinalizer"
    and valid: "validateSpec E (applyDefaults wp) = None"
    and g: "steady E P (applyDefaults wp)" and w1: "P w1"
    and P: "\<And>w. P w \<Longrightarrow> standing V (applyDefaults wp) w"
  shows "\<exists>res w'. Reconcile E req w = Some ((res, None), w')
    \<and> P w' \<and> settledFor V E (applyDefaults wp) w'"
proof -
  let ?wp = "applyDefaults wp" and ?st = "\<lparr>cr = applyDefaults wp, world = w1\<rparr>"
  have "readyToRun ?st" using valid by (rule validated_readyToRun)
  then have nd: "noNilDeref (Database (Spec ?wp))"
    "internalMode ?wp \<or> Mode (Database (Spec ?wp)) = DatabaseModeExternal"
    by (auto simp: readyToRun_def internalMode_def)
  have "tracks P ?wp ?st" using w1 by (simp add: tracks_def)
  from reconcileResources_ok [OF V ok nd g this P]
  obtain res st' where "reconcileResources E ?st = Some ((res, None), st')"
    "P (world st')" "settledFor V E ?wp (world st')"
    by blast
  with live valid show ?thesis
    unfolding Reconcile_found [OF get] by (auto simp: reconcileObject_def Let_def)
qed

subsection \<open>Nothing left to write\<close>

text \<open>A block whose object is as it wants it only reads.\<close>

lemma patch_idle:
  assumes "create_or_patch (getFor S) nf (Create S) run (Update S) patch same"
    and "obliging nf v S" and "key_law S"
    and "\<And>ex. ObjectKeyFromObject (patch ex d) = ObjectKeyFromObject ex"
    and "keeps P (Get S (ObjectKeyFromObject d))"
    and "\<And>w. P w \<Longrightarrow> upToDate patch same d (v w)"
  shows "keeps P (run d)"
  using patch_block(2) [OF assms(1-4)] assms(5,6) by (simp add: keeps_def)

lemma once_idle:
  assumes "create_once (getFor S) nf (Create S) run" and "obliging nf v S"
    and "keeps P (Get S (ObjectKeyFromObject d))"
    and "\<And>w. P w \<Longrightarrow> v w (ObjectKeyFromObject d) \<noteq> None"
  shows "keeps P (run d)"
  using once_block(2) [OF assms(1,2)] assms(3,4) by (simp add: keeps_def)

lemma remove_idle:
  assumes "remove_owned (\<lambda>wp. Get S (k wp)) nf run (Delete S)
      (\<lambda>wp ex. IsControlledBy E (metaOf ex) (metaOf wp))"
    and "obliging nf v S" and "key_law S" and "keeps P (Get S (k wp))"
    and "\<And>w. P w \<Longrightarrow> notOurs E wp (k wp) (v w)"
  shows "keeps P (run wp)"
  using remove_block(2) [OF assms(1-3)] assms(4,5) by (simp add: keeps_def)

lemma notOurs_same: "metaOf ob = metaOf wp \<Longrightarrow> notOurs E ob k m = notOurs E wp k m"
  by (simp add: notOurs_def split: option.split)

lemma settled_blocks:
  assumes V: "quietServer V E" and key: "key_laws E" and E: "admits P ok E"
    and ob: "metaOf ob = metaOf wp" "Spec ob = Spec wp"
    and P: "\<And>w. P w \<Longrightarrow> settledFor V E wp w"
  shows "blocksKeep E P ob"
proof -
  note same = same_objects [OF ob] and read = read_keeps [OF E]
  note part = P [unfolded settledFor_def, THEN conjunct1]
    P [unfolded settledFor_def, THEN conjunct2, THEN conjunct1]
    P [unfolded settledFor_def, THEN conjunct2, THEN conjunct2]
  note part' = part(3) [THEN conjunct2]
  have secret: "keeps P (ensureSecret E d)"
    if "internalMode wp" "buildMySQLSecret E ob w = (Inr s, w')" "withController E wp s = Inr d"
    for w s w' d
  proof (rule once_idle [OF blocks(1) quietServerD(1) [OF V] read(2)])
    have "ObjectKeyFromObject d = (Namespace wp, dbSecretName wp)"
      using buildMySQLSecret_Inr [OF that(2)] withController_key' [OF that(3)] same(4,7) by simp
    then show "vSecret V w (ObjectKeyFromObject d) \<noteq> None" if "P w" for w
      using part(1) [OF that] \<open>internalMode wp\<close> by (simp add: secretHere_def)
  qed
  have svc: "keeps P (applyService E d)"
    if "\<And>w. P w \<Longrightarrow> upToDate patchService serviceEqual d (vService V w)" for d
    by (rule patch_idle [OF blocks(3) quietServerD(3) [OF V] key_lawsD(2) [OF key] _ read(3) that])
      simp_all
  have sts: "keeps P (syncStatefulSet E d)"
    if "internalMode wp" "buildMySQLStatefulSet E wp = Some (Inr s)" "withController E wp s = Inr d"
    for s d
  proof -
    have "keeps P (\<lambda>w. errOf (syncStatefulSet E d w))"
      by (rule patch_idle [OF blocks(4) quietServerD(5) [OF V] key_lawsD(3) [OF key] _ read(4)])
        (use that part(3) in \<open>auto simp: mysqlCurrent_upToDate\<close>)
    then show ?thesis by (simp add: keeps_def errOf_def)
  qed
  have pvc: "keeps P (ensurePVC E d)"
    if "per_Enabled (Persistence (Spec wp))" "buildWordPressPVC E wp = Inr p"
      "withController E wp p = Inr d" for p d
  proof (rule once_idle [OF blocks(2) quietServerD(7) [OF V] read(5)])
    have "ObjectKeyFromObject d = (Namespace wp, wpPVCName wp)"
      using buildWordPressPVC_Inr [OF that(2)] withController_key' [OF that(3)] by simp
    then show "vPVC V w (ObjectKeyFromObject d) \<noteq> None" if "P w" for w
      using part' [OF that] \<open>per_Enabled (Persistence (Spec wp))\<close> by (simp add: claimHere_def)
  qed
  have dep: "keeps P (syncDeployment E d)"
    if "resolvedDBHost wp = Some (h, p)" "passwordEnv wp = Some e"
      "withController E wp (buildWordPressDeployment wp h p e) = Inr d" for h p e d
    by (rule patch_idle [OF blocks(5) quietServerD(9) [OF V] key_lawsD(5) [OF key] _ read(6)])
      (use that part' in \<open>auto simp: deploymentCurrent_upToDate\<close>)
  have ing: "keeps P (syncIngress E d)"
    if "igs_Enabled (IngressS (Spec wp))" "withController E wp (buildWordPressIngress wp) = Inr d"
      for d
  proof -
    have "keeps P (\<lambda>w. errOf (syncIngress E d w))"
      by (rule patch_idle [OF blocks(6) quietServerD(11) [OF V] key_lawsD(6) [OF key] _ read(7)])
        (use that part' in \<open>auto simp: ingressSettled_upToDate\<close>)
    then show ?thesis by (simp add: keeps_def errOf_def)
  qed
  have hpa: "keeps P (syncHPA E d)"
    if "as_Enabled (Autoscaling (Spec wp))" "withController E wp (buildWordPressHPA wp) = Inr d" for
      d
    by (rule patch_idle [OF blocks(7) quietServerD(13) [OF V] key_lawsD(7) [OF key] _ read(8)])
      (use that part' in \<open>auto simp: hpaSettled_upToDate\<close>)
  have noIng: "keeps P (dropIngress E ob)" if "\<not> igs_Enabled (IngressS (Spec wp))"
  proof -
    have "keeps P (\<lambda>w. errOf (dropIngress E ob w))"
      by (rule remove_idle [OF blocks(8) quietServerD(11) [OF V] key_lawsD(6) [OF key] read(7)])
        (use that part' in \<open>simp add: ingressSettled_upToDate same(4,5) notOurs_same [OF ob(1)]\<close>)
    then show ?thesis by (simp add: keeps_def errOf_def)
  qed
  have noHPA: "keeps P (dropHPA E ob)" if "\<not> as_Enabled (Autoscaling (Spec wp))"
    by (rule remove_idle [OF blocks(9) quietServerD(13) [OF V] key_lawsD(7) [OF key] read(8)])
      (use that part' in \<open>simp add: hpaSettled_upToDate same(4,6) notOurs_same [OF ob(1)]\<close>)
  have "keeps P (applyService E d)" if "withController E wp (buildWordPressService wp) = Inr d" for
    d
    using that part' by (intro svc) (auto simp: serviceCurrent_upToDate)
  moreover have "keeps P (applyService E d)"
    if "internalMode wp" "withController E wp (buildMySQLHeadlessService wp) = Inr d" for d
    using that part(2) by (intro svc) (auto simp: mysqlServiceCurrent_upToDate)
  ultimately show ?thesis
    unfolding blocksKeep_def same ob(2)
    using secret sts pvc dep ing hpa noIng noHPA by auto
qed

subsection \<open>Properties\<close>

text \<open>C8. Liveness of the operator: on a quiet server, one pass over an accepted live resource that
  is there (with its password Secret, in External mode) completes without an error, whatever
  state its objects were in, and leaves all of them as the spec asks: the objects that may only
  be created are there, the managed fields of the others are the desired ones, and what is
  disabled is gone unless somebody else controls it.\<close>

theorem quiet_pass_settles:
  assumes V: "quietServer V E" and laws: "key_laws E" "retry_law E"
    and ok: "acceptable E (applyDefaults wp)"
    and get: "Get (wordpresses E) req w = (Inr wp, w1)"
    and live: "timeIsZero (DeletionTimestamp wp)"
      "ContainsFinalizer E (Finalizers wp) WordPressFinalizer"
    and valid: "validateSpec E (applyDefaults wp) = None"
    and standing: "standing V (applyDefaults wp) w1"
  shows "\<exists>res w'. Reconcile E req w = Some ((res, None), w')
    \<and> settledFor V E (applyDefaults wp) w' \<and> standing V (applyDefaults wp) w'"
  using quiet_pass [OF V ok get live valid steady_standing [OF V laws] standing] by blast

theorem quiet_pass_settles_witness:
  "\<exists>res w'. Reconcile demoEnv (''default'', ''blog'')
       (clusterOf (sampleWP [WordPressFinalizer] internalSpec)) = Some ((res, None), w')
     \<and> settledFor demoViews demoEnv (applyDefaults (sampleWP [WordPressFinalizer] internalSpec)) w'"
proof -
  let ?wp = "sampleWP [WordPressFinalizer] internalSpec"
  have get: "Get (wordpresses demoEnv) (''default'', ''blog'') (clusterOf ?wp) = (Inr ?wp, clusterOf
    ?wp)"
    using Get_clusterOf [of ?wp] by simp
  have live: "timeIsZero (DeletionTimestamp ?wp)"
    "ContainsFinalizer demoEnv (Finalizers ?wp) WordPressFinalizer"
    by (simp_all add: timeIsZero_def demoEnv_def demoBase_def)
  from quiet_pass_settles [OF demo_quiet demo_key_laws demo_retry_law demo_acceptable get live
      internalSpec_valid sample_standing]
  show ?thesis by blast
qed

lemma steady_settled_with:
  assumes V: "quietServer V E" and laws: "key_laws E" "retry_law E"
    and Q: "admits Q (statusOf wp) E"
  shows "steady E (\<lambda>w. Q w \<and> settledFor V E wp w \<and> standing V wp w) wp" (is "steady E ?P wp")
proof -
  have "steady E (\<lambda>w. settledFor V E wp w \<and> standing V wp w) wp"
    unfolding settledFor_def
    by (intro steady_conj steady_secret steady_mysqlService steady_mysql steady_claim
        steady_deployment steady_service steady_ingress steady_hpa steady_standing V laws)
  note kept = steadyD(1) [OF this]
  have A: "admits ?P (statusOf wp) E"
    using Q kept unfolding admits_def store_admits_def keeps_def by auto
  have "blocksKeep E ?P ob" if "metaOf ob = metaOf wp" "Spec ob = Spec wp" for ob
    by (rule settled_blocks [OF V laws(1) A that]) simp
  with A laws show ?thesis by (simp add: steadyFor_def)
qed

lemma sent_status_admits:
  assumes "logs tr E"
  shows "admits (sent tr l onlyStatus) (statusOf wp) E"
  by (rule admits_mono [OF logs_admits [OF assms]])
    (simp add: statusOf_def onlyStatus_def split: call.splits)

lemma steady_settled:
  assumes "quietServer V E" and "key_laws E" "retry_law E" and "logs tr E"
  shows "steady E (\<lambda>w. sent tr l onlyStatus w \<and> settledFor V E wp w \<and> standing V wp w) wp"
  by (rule steady_settled_with [OF assms(1-3) sent_status_admits [OF assms(4)]])

text \<open>C9. Idempotence of the operator: on a quiet server, a pass over an accepted resource whose
  objects are settled completes without an error, sends nothing but status updates, and leaves
  them settled. No Secret, Service, claim, workload, Ingress or autoscaler is written again.\<close>

theorem settled_pass_only_reports:
  assumes V: "quietServer V E" and laws: "key_laws E" "retry_law E" and tr: "logs tr E"
    and ok: "acceptable E (applyDefaults wp)"
    and get: "Get (wordpresses E) req w = (Inr wp, w1)"
    and live: "timeIsZero (DeletionTimestamp wp)"
      "ContainsFinalizer E (Finalizers wp) WordPressFinalizer"
    and valid: "validateSpec E (applyDefaults wp) = None"
    and standing: "standing V (applyDefaults wp) w1"
    and settled: "settledFor V E (applyDefaults wp) w1"
  shows "\<exists>res w' cs. Reconcile E req w = Some ((res, None), w')
    \<and> tr w' = tr w1 @ cs \<and> list_all onlyStatus cs
    \<and> settledFor V E (applyDefaults wp) w' \<and> standing V (applyDefaults wp) w'"
proof -
  let ?P = "\<lambda>w. sent tr (tr w1) onlyStatus w \<and> settledFor V E (applyDefaults wp) w
    \<and> standing V (applyDefaults wp) w"
  have w1: "?P w1" using settled standing by (simp add: sentI)
  from quiet_pass [OF V ok get live valid steady_settled [OF V laws tr] w1]
  obtain res w' where "Reconcile E req w = Some ((res, None), w')" "?P w'" by blast
  then show ?thesis by (auto simp: sent_def)
qed

text \<open>The second of two passes over the sample resource.\<close>

lemma settledFor_same:
  assumes "metaOf a = metaOf b" and "Spec a = Spec b"
  shows "settledFor V E a w = settledFor V E b w"
  unfolding settledFor_def secretHere_def mysqlServiceCurrent_def mysqlCurrent_def claimHere_def
    deploymentCurrent_def serviceCurrent_def ingressSettled_def hpaSettled_def
    same_objects [OF assms] notOurs_same [OF assms(1)] assms(2) ..

lemma standing_same:
  assumes "metaOf a = metaOf b" and "Spec a = Spec b"
  shows "standing V a w = standing V b w"
  using meta_key [OF assms(1)] same_objects(4) [OF assms]
  by (simp add: standing_def passwordSecret_def assms(2))

lemma meta_eq_live:
  assumes "metaOf a = metaOf b"
  shows "DeletionTimestamp a = DeletionTimestamp b" and "Finalizers a = Finalizers b"
  using arg_cong [OF assms, of DeletionTimestamp] arg_cong [OF assms, of Finalizers]
  by (simp_all add: metaOf_def object.defs)

text \<open>The sample resource after its first pass, and later: its objects are settled.\<close>

definition sampleSettled :: "cluster \<Rightarrow> bool" where
  "sampleSettled w \<longleftrightarrow>
     storedWP w (''default'', ''blog'')
       = Some (metaOf (sampleWP [WordPressFinalizer] internalSpec), internalSpec)
     \<and> standing demoViews (applyDefaults (sampleWP [WordPressFinalizer] internalSpec)) w
     \<and> settledFor demoViews demoEnv (applyDefaults (sampleWP [WordPressFinalizer] internalSpec)) w"

lemma sample_first_pass:
  "\<exists>res w1. Reconcile demoEnv (''default'', ''blog'')
       (clusterOf (sampleWP [WordPressFinalizer] internalSpec)) = Some ((res, None), w1)
     \<and> sampleSettled w1"
proof -
  let ?wp = "sampleWP [WordPressFinalizer] internalSpec" and ?k = "(''default'', ''blog'')"
  let ?P = "\<lambda>w. standing demoViews (applyDefaults ?wp) w \<and> storedWP w ?k = Some (metaOf ?wp, Spec
    ?wp)"
  have get: "Get (wordpresses demoEnv) ?k (clusterOf ?wp) = (Inr ?wp, clusterOf ?wp)"
    using Get_clusterOf [of ?wp] by simp
  have live: "timeIsZero (DeletionTimestamp ?wp)"
    "ContainsFinalizer demoEnv (Finalizers ?wp) WordPressFinalizer"
    by (simp_all add: timeIsZero_def demoEnv_def demoBase_def)
  have "steady demoEnv (\<lambda>w. storedWP w ?k = Some (metaOf ?wp, Spec ?wp)) (applyDefaults ?wp)"
    by (rule steady_view [where Q = "\<lambda>m. m ?k = Some (metaOf ?wp, Spec ?wp)",
        OF storedWP_unshared demo_key_laws demo_retry_law]) simp
  note g = steady_conj [OF steady_standing [OF demo_quiet demo_key_laws demo_retry_law] this]
  have start: "?P (clusterOf ?wp)" using sample_standing storedWP_clusterOf [of ?wp] by simp
  have "\<exists>res w'. Reconcile demoEnv ?k (clusterOf ?wp) = Some ((res, None), w')
      \<and> ?P w' \<and> settledFor demoViews demoEnv (applyDefaults ?wp) w'"
    by (rule quiet_pass [where P = ?P, OF demo_quiet demo_acceptable get live internalSpec_valid g
        start]) (erule conjunct1)
  then show ?thesis unfolding sampleSettled_def by (elim exE conjE) (intro exI conjI; simp)
qed

lemma sample_next_pass:
  assumes "sampleSettled w"
  obtains ob where "Get (wordpresses demoEnv) (''default'', ''blog'') w = (Inr ob, w)"
    "timeIsZero (DeletionTimestamp ob)"
    "ContainsFinalizer demoEnv (Finalizers ob) WordPressFinalizer"
    "validateSpec demoEnv (applyDefaults ob) = None"
    "standing demoViews (applyDefaults ob) w" "settledFor demoViews demoEnv (applyDefaults ob) w"
proof -
  let ?wp = "sampleWP [WordPressFinalizer] internalSpec"
  have w: "storedWP w (''default'', ''blog'') = Some (metaOf ?wp, Spec ?wp)"
    "standing demoViews (applyDefaults ?wp) w" "settledFor demoViews demoEnv (applyDefaults ?wp) w"
    using assms unfolding sampleSettled_def by simp_all
  obtain ob where get: "Get (wordpresses demoEnv) (''default'', ''blog'') w = (Inr ob, w)"
    and ob: "metaOf ob = metaOf ?wp" "Spec ob = Spec ?wp"
    using stored_Get [OF w(1)] by blast
  have ob': "metaOf (applyDefaults ob) = metaOf (applyDefaults ?wp)"
    "Spec (applyDefaults ob) = Spec (applyDefaults ?wp)"
    using ob by (simp_all add: frame_simps Spec_applyDefaults)
  have "validateSpec demoEnv (applyDefaults ob) = None"
    using internalSpec_valid ob'(2) by (simp add: validateSpec_None_iff)
  moreover have "timeIsZero (DeletionTimestamp ob)"
    "ContainsFinalizer demoEnv (Finalizers ob) WordPressFinalizer"
    using meta_eq_live [OF ob(1)] by (simp_all add: timeIsZero_def demoEnv_def demoBase_def)
  moreover have "standing demoViews (applyDefaults ob) w"
    "settledFor demoViews demoEnv (applyDefaults ob) w"
    using w(2,3) unfolding standing_same [OF ob'] settledFor_same [OF ob'] by - assumption+
  ultimately show thesis using that get ob by simp
qed

theorem settled_pass_only_reports_witness:
  "\<exists>res1 w1 res2 w2 cs. Reconcile demoEnv (''default'', ''blog'')
       (clusterOf (sampleWP [WordPressFinalizer] internalSpec)) = Some ((res1, None), w1)
     \<and> Reconcile demoEnv (''default'', ''blog'') w1 = Some ((res2, None), w2)
     \<and> writes w2 = writes w1 @ cs \<and> list_all onlyStatus cs"
proof -
  obtain res1 w1 where first: "Reconcile demoEnv (''default'', ''blog'')
       (clusterOf (sampleWP [WordPressFinalizer] internalSpec)) = Some ((res1, None), w1)"
    and settled: "sampleSettled w1"
    using sample_first_pass by blast
  obtain ob where "Get (wordpresses demoEnv) (''default'', ''blog'') w1 = (Inr ob, w1)"
    "timeIsZero (DeletionTimestamp ob)"
    "ContainsFinalizer demoEnv (Finalizers ob) WordPressFinalizer"
    "validateSpec demoEnv (applyDefaults ob) = None"
    "standing demoViews (applyDefaults ob) w1" "settledFor demoViews demoEnv (applyDefaults ob) w1"
    using settled by (rule sample_next_pass)
  from settled_pass_only_reports [OF demo_quiet demo_key_laws demo_retry_law demo_logs
      demo_acceptable this] first
  show ?thesis by blast
qed

end
