(* ===== verification/Readiness.thy ===== *)
theory Readiness
  imports Settled
begin

section \<open>A settled site is reported as it is\<close>

text \<open>
  The end of the way to a running site. Once the objects of a resource are settled, a pass on a
  quiet server reports exactly whether the site runs: the phase it writes is Ready, and the pass
  asks for no further one, when the Deployment has all of at least one replica ready and, in
  Internal mode, MySQL has a ready replica; otherwise the phase is Provisioning and the pass is
  repeated after 15 seconds, so a site that comes up later is noticed.
\<close>

subsection \<open>A running site\<close>

definition mysqlUp :: "StatefulSet option \<Rightarrow> bool" where
  "mysqlUp existing \<longleftrightarrow>
     (case existing of None \<Rightarrow> False | Some ss \<Rightarrow> 1 \<le> sint (ws_ReadyReplicas (sts_Status ss)))"

definition workloadUp :: "Deployment option \<Rightarrow> bool" where
  "workloadUp existing \<longleftrightarrow>
     (case existing of None \<Rightarrow> False | Some dep \<Rightarrow> deploymentReady (dep_Status dep))"

definition siteUp :: "'w views \<Rightarrow> WordPress \<Rightarrow> 'w \<Rightarrow> bool" where
  "siteUp V wp w \<longleftrightarrow>
     (internalMode wp \<longrightarrow> mysqlUp (vStatefulSet V w (Namespace wp, dbStatefulSetName wp)))
     \<and> workloadUp (vDeployment V w (Namespace wp, wpName wp))"

subsection \<open>The database condition through a pass\<close>

definition databaseCond :: "'w rs \<Rightarrow> (string \<times> string \<times> string) option" where
  "databaseCond st = condView (wst_Conditions (Status (cr st))) ConditionTypeDatabaseReady"

definition databaseTrue :: "'w rs \<Rightarrow> bool" where
  "databaseTrue st \<longleftrightarrow> (\<exists>r m. databaseCond st = Some (ConditionTrue, r, m))"

lemma databaseTrue_setCond:
  assumes "condition_laws E"
  shows "databaseTrue (setCond E (newCondition ConditionTypeDatabaseReady s r m) st)
    \<longleftrightarrow> s = ConditionTrue"
  by (simp add: databaseTrue_def databaseCond_def condView_setCond [OF assms])

lemma databaseCond_cr: "cr st' = cr st \<Longrightarrow> databaseCond st' = databaseCond st"
  by (simp add: databaseCond_def)

lemma reconcileWordPressDeployment_cond:
  assumes "reconcileWordPressDeployment E st = Some (r, st')"
  shows "databaseCond st' = databaseCond st"
  using assms
  by (auto simp: reconcileWordPressDeployment_def Let_def databaseCond_def frame_simps
      split: bind_splits prod.splits sum.splits if_splits dest!: api_frame(1))

lemma reconcileIngress_cond:
  assumes "condition_laws E" and "reconcileIngress E st = (r, st')"
  shows "databaseCond st' = databaseCond st"
  using assms(2)
  by (auto simp: reconcileIngress_def databaseCond_def condView_setCond [OF assms(1)]
      condView_removeCond [OF assms(1)] split: prod.splits sum.splits if_splits
      dest!: api_frame(1))

lemma reconcilePVC_cond:
  assumes "reconcilePVC E st = (r, st')"
  shows "databaseCond st' = databaseCond st"
  using assms by (intro databaseCond_cr) (rule reconcilePVC_frame)

lemma steps_cond:
  assumes E: "condition_laws E"
    and steps: "reconcilePVC E st = (None, st1)"
      "reconcileWordPressDeployment E st1 = Some (None, st2)"
      "reconcileWordPressService E st2 = (None, st3)" "reconcileIngress E st3 = (None, st4)"
      "reconcileHPA E st4 = (None, st5)"
  shows "databaseCond st5 = databaseCond st"
  using reconcilePVC_cond [OF steps(1)] reconcileWordPressDeployment_cond [OF steps(2)]
    databaseCond_cr [OF reconcileWordPressService_frame [OF steps(3)]]
    reconcileIngress_cond [OF E steps(4)] databaseCond_cr [OF reconcileHPA_frame [OF steps(5)]]
  by simp

subsection \<open>What a pass sees of MySQL\<close>

lemma syncStatefulSet_sees:
  assumes "obliging (IsNotFound E) v (statefulsets E)" and "syncStatefulSet E d w = (Inr x, w')"
  shows "x = v w (ObjectKeyFromObject d)"
  using assms(2) obligingD(1,2) [OF assms(1), of w "ObjectKeyFromObject d"]
  by (cases "v w (ObjectKeyFromObject d)")
    (auto simp: syncStatefulSet_def Let_def split: prod.splits option.splits if_splits)

lemma conditionFalse_differs [simp]: "ConditionFalse \<noteq> ConditionTrue"
  by (simp add: go_consts)

lemma mysqlReadiness_cond:
  "condition_laws E \<Longrightarrow> databaseTrue (mysqlReadiness E existing st) \<longleftrightarrow> mysqlUp existing"
  by (simp add: mysqlReadiness_def Let_def databaseTrue_setCond mysqlUp_def split: option.split)

lemma reconcileMySQLStatefulSet_sees:
  assumes V: "quietServer V E" and E: "condition_laws E"
    and run: "reconcileMySQLStatefulSet E st = Some ((res, None), st')"
  shows "databaseTrue st' \<longleftrightarrow>
    mysqlUp (vStatefulSet V (world st) (Namespace (cr st), dbStatefulSetName (cr st)))"
proof -
  obtain s d x st1 where s: "buildMySQLStatefulSet E (cr st) = Some (Inr s)"
    and d: "withController E (cr st) s = Inr d"
    and sync: "api (syncStatefulSet E d) st = (Inr x, st1)"
    and st': "st' = mysqlReadiness E x st1"
    using run by (auto simp: reconcileMySQLStatefulSet_def split: bind_splits sum.splits prod.splits)
  have "ObjectKeyFromObject d = (Namespace (cr st), dbStatefulSetName (cr st))"
    using buildMySQLStatefulSet_Inr [OF s] withController_key' [OF d] by simp
  then have "x = vStatefulSet V (world st) (Namespace (cr st), dbStatefulSetName (cr st))"
    using syncStatefulSet_sees [OF quietServerD(5) [OF V] api_frame(2) [OF sync]] by simp
  then show ?thesis by (simp add: st' mysqlReadiness_cond [OF E])
qed

text \<open>The database step leaves the condition as MySQL is in Internal mode, and true in External
  mode. \<open>P\<close> fixes what the server has of MySQL while the pass runs.\<close>

lemma reconcileDatabase_sees:
  assumes V: "quietServer V E" and E: "condition_laws E"
    and g: "steady E P wp" and t: "tracks P wp st"
    and P: "\<And>w. P w \<Longrightarrow> vStatefulSet V w (Namespace wp, dbStatefulSetName wp) = ms"
    and mode: "internalMode wp \<or> Mode (Database (Spec wp)) = DatabaseModeExternal"
    and run: "reconcileDatabase E st = Some ((zeroResult, None), st')"
  shows "databaseTrue st' \<longleftrightarrow> (internalMode wp \<longrightarrow> mysqlUp ms)"
proof (cases "Mode (Database (Spec wp)) = DatabaseModeExternal")
  case True
  then have "\<not> internalMode wp" by (simp add: internalMode_def)
  moreover have "zeroResult \<noteq> requeueAfter (30 * second)"
    by (simp add: zeroResult_def requeueAfter_def second_def)
  then have "databaseTrue st'"
    using run True
    by (auto simp: reconcileDatabase_def reconcileExternalDatabase_def Let_def tracksD(4) [OF t]
        databaseTrue_setCond [OF E] split: bind_splits prod.splits sum.splits if_splits)
  ultimately show ?thesis by simp
next
  case False
  with mode have int: "internalMode wp" by simp
  from run False obtain st1 st2 where 1: "reconcileMySQLSecret E st = (None, st1)"
    and 2: "reconcileMySQLService E st1 = (None, st2)"
    and 3: "reconcileMySQLStatefulSet E st2 = Some ((zeroResult, None), st')"
    by (auto simp: reconcileDatabase_def reconcileInternalDatabase_def tracksD(4) [OF t]
        split: prod.splits option.splits)
  have t2: "tracks P wp st2"
    by (rule reconcileMySQLService_tracks [OF g reconcileMySQLSecret_tracks [OF g t int 1] int 2])
  have "vStatefulSet V (world st2) (Namespace (cr st2), dbStatefulSetName (cr st2)) = ms"
    using P [OF tracks_world [OF t2]] tracksD(3) [OF t2] t2 by simp
  with reconcileMySQLStatefulSet_sees [OF V E 3] int show ?thesis by simp
qed

subsection \<open>The report\<close>

lemma updateStatus_sees:
  assumes V: "quietServer V E" and E: "condition_laws E" "logs tr E" "key_laws E" "retry_law E"
    and run: "updateStatus E st = (None, st')"
  shows "\<exists>l ob. tr (world st') = tr (world st) @ l @ [StatusUpdated ob]
    \<and> ObjectKeyFromObject ob = ObjectKeyFromObject (cr st) \<and> Status ob = Status (cr st')
    \<and> wst_Phase (Status (cr st')) =
        (if databaseTrue st \<and> workloadUp (vDeployment V (world st) (Namespace (cr st), wpName (cr st)))
         then PhaseReady else PhaseProvisioning)"
proof -
  let ?k = "(Namespace (cr st), wpName (cr st))"
  obtain r st1 where get: "api (Get (deployments E) ?k) st = (r, st1)" by fastforce
  let ?dep = "case r of Inl e \<Rightarrow> zeroWorkloadStatus | Inr d \<Rightarrow> dep_Status d"
  have seen: "workloadUp (vDeployment V (world st) ?k) \<longleftrightarrow> deploymentReady ?dep"
    using api_frame(2) [OF get] obligingD(1,2) [OF quietServerD(9) [OF V], of "world st" ?k]
    by (cases "vDeployment V (world st) ?k")
      (auto simp: workloadUp_def deploymentReady_def zeroWorkloadStatus_def)
  have ps: "persistStatus E (computeStatus E ?dep st1) = (None, st')"
    using run get by (auto simp: updateStatus_def split: sum.splits if_splits)
  then have "cr st' = cr (computeStatus E ?dep st1)" by (rule persistStatus_frame)
  moreover have "databaseTrue st1 = databaseTrue st"
    using api_frame(1) [OF get] by (simp add: databaseTrue_def databaseCond_def)
  ultimately have "wst_Phase (Status (cr st')) =
      (if databaseTrue st \<and> workloadUp (vDeployment V (world st) ?k)
       then PhaseReady else PhaseProvisioning)"
    using computeStatus_phase [OF E(1), of ?dep st1] seen
    by (simp add: IsStatusConditionTrue_view [OF E(1)] databaseTrue_def databaseCond_def)
  then show ?thesis using updateStatus_logged [OF E(2-4,1) run] by blast
qed

text \<open>While a pass over a settled site runs, what it reads stays the same.\<close>

lemma view_admits:
  assumes "unshared v k E"
  shows "admits (\<lambda>w. v w = m) (statusOf wp) E"
proof -
  have "admits (\<lambda>w. v w = m) (foreign k) E" using assms by (simp add: unshared_def)
  then show ?thesis
    by (rule admits_mono) (simp add: statusOf_def split: call.splits)
qed

lemma admits_conj:
  assumes "admits P ok E" and "admits Q ok E"
  shows "admits (\<lambda>w. P w \<and> Q w) ok E"
  using assms unfolding admits_def store_admits_def keeps_def by auto

lemma frozen_admits:
  assumes V: "quietServer V E" and tr: "logs tr E"
  shows "admits (\<lambda>w. sent tr l onlyStatus w \<and> vDeployment V w = md \<and> vStatefulSet V w = ms)
    (statusOf wp) E"
  by (intro admits_conj sent_status_admits [OF tr] view_admits [OF quietServerD(10) [OF V]]
      view_admits [OF quietServerD(6) [OF V]])

lemma sent_last:
  assumes "sent tr l0 ok w" and "sent tr l0 ok w'" and "tr w' = tr w @ l @ [c]"
  obtains cs where "tr w' = l0 @ cs @ [c]" "list_all ok cs"
proof -
  obtain cs where cs: "tr w = l0 @ cs" using assms(1) by (auto simp: sent_def)
  with assms(2,3) have "list_all ok (cs @ l)" by (auto simp: sent_def)
  with cs assms(3) show thesis by (intro that [of "cs @ l"]) simp_all
qed

text \<open>C10. The end-to-end report: on a quiet server, a pass over an accepted resource whose objects
  are settled sends nothing but statuses, the last of which has phase Ready exactly when the site
  runs (the Deployment has all of at least one replica ready and, in Internal mode, MySQL has a
  ready replica) and Provisioning otherwise; a site that does not run yet is looked at again in
  15 seconds, one that runs is left alone; and whether it runs is not changed by the pass.\<close>

theorem settled_pass_reports_readiness:
  assumes V: "quietServer V E" and laws: "key_laws E" "retry_law E" "condition_laws E"
    and tr: "logs tr E" and ok: "acceptable E (applyDefaults wp)"
    and get: "Get (wordpresses E) req w = (Inr wp, w1)"
    and live: "timeIsZero (DeletionTimestamp wp)"
      "ContainsFinalizer E (Finalizers wp) WordPressFinalizer"
    and valid: "validateSpec E (applyDefaults wp) = None"
    and standing: "standing V (applyDefaults wp) w1"
    and settled: "settledFor V E (applyDefaults wp) w1"
  shows "\<exists>w' cs ob. Reconcile E req w =
        Some ((if siteUp V (applyDefaults wp) w1 then zeroResult else requeueAfter (15 * second), None), w')
    \<and> tr w' = tr w1 @ cs @ [StatusUpdated ob] \<and> list_all onlyStatus cs
    \<and> ObjectKeyFromObject ob = ObjectKeyFromObject wp
    \<and> wst_Phase (Status ob) =
        (if siteUp V (applyDefaults wp) w1 then PhaseReady else PhaseProvisioning)
    \<and> siteUp V (applyDefaults wp) w' = siteUp V (applyDefaults wp) w1"
proof -
  let ?wp = "applyDefaults wp" and ?st = "\<lparr>cr = applyDefaults wp, world = w1\<rparr>"
  let ?d = "(Namespace ?wp, wpName ?wp)" and ?m = "(Namespace ?wp, dbStatefulSetName ?wp)"
  let ?Q = "\<lambda>w. sent tr (tr w1) onlyStatus w \<and> vDeployment V w = vDeployment V w1
    \<and> vStatefulSet V w = vStatefulSet V w1"
  let ?P = "\<lambda>w. ?Q w \<and> settledFor V E ?wp w \<and> standing V ?wp w"
  have g: "steady E ?P ?wp"
    by (rule steady_settled_with [OF V laws(1,2) frozen_admits [OF V tr]])
  have t: "tracks ?P ?wp ?st" using settled standing by (simp add: tracks_def sentI)
  have "readyToRun ?st" using valid by (rule validated_readyToRun)
  then have nd: "noNilDeref (Database (Spec ?wp))"
    "internalMode ?wp \<or> Mode (Database (Spec ?wp)) = DatabaseModeExternal"
    by (auto simp: readyToRun_def internalMode_def)
  obtain st1 where db: "reconcileDatabase E ?st = Some ((zeroResult, None), st1)"
    and "tracks (\<lambda>w. ?P w \<and> databaseSettled V E ?wp w) ?wp st1"
    using reconcileDatabase_ok [OF V ok nd g t] standing by auto
  then have t1: "tracks ?P ?wp st1" by (simp add: tracks_def)
  have up1: "databaseTrue st1 \<longleftrightarrow> (internalMode ?wp \<longrightarrow> mysqlUp (vStatefulSet V w1 ?m))"
    by (rule reconcileDatabase_sees [OF V laws(3) g t _ nd(2) db]) simp
  obtain st2 st3 st4 st5 st6 st7 where steps:
    "reconcilePVC E st1 = (None, st2)" "reconcileWordPressDeployment E st2 = Some (None, st3)"
    "reconcileWordPressService E st3 = (None, st4)" "reconcileIngress E st4 = (None, st5)"
    "reconcileHPA E st5 = (None, st6)" "updateStatus E st6 = (None, st7)"
    and run: "reconcileWorkload E st1 = Some (finishPass st7)"
    and t6: "tracks ?P ?wp st6" and w7: "?P (world st7)"
    by (rule reconcileWorkload_steps_ok [OF V ok nd g t1]) blast+
  have "databaseTrue st6 = databaseTrue st1"
    using steps_cond [OF laws(3) steps(1-5)] by (simp add: databaseTrue_def)
  moreover have "vDeployment V (world st6) (Namespace (cr st6), wpName (cr st6)) = vDeployment V w1 ?d"
    using tracks_world [OF t6] tracksD(3) [OF t6] t6 by simp
  ultimately have phase: "wst_Phase (Status (cr st7)) =
      (if siteUp V ?wp w1 then PhaseReady else PhaseProvisioning)"
    and "\<exists>l ob. tr (world st7) = tr (world st6) @ l @ [StatusUpdated ob] \<and> Status ob = Status (cr st7)
      \<and> ObjectKeyFromObject ob = ObjectKeyFromObject (cr st6)"
    using updateStatus_sees [OF V laws(3) tr laws(1,2) steps(6)] up1
    by (auto simp: siteUp_def)
  then obtain l ob where last: "tr (world st7) = tr (world st6) @ l @ [StatusUpdated ob]" "Status ob = Status (cr st7)"
    "ObjectKeyFromObject ob = ObjectKeyFromObject wp"
    using tracksD(5) [OF t6] by (auto simp: ObjectKeyFromObject_def frame_simps)
  have "sent tr (tr w1) onlyStatus (world st6)" "sent tr (tr w1) onlyStatus (world st7)"
    using tracks_world [OF t6] w7 by simp_all
  then obtain cs where cs: "tr (world st7) = tr w1 @ cs @ [StatusUpdated ob]" "list_all onlyStatus cs"
    using last(1) by (rule sent_last)
  have "Reconcile E req w = Some ((if siteUp V ?wp w1 then zeroResult
      else requeueAfter (15 * second), None), world st7)"
    unfolding Reconcile_found [OF get] using live valid db run phase
    by (simp add: reconcileObject_def reconcileResources_def Let_def finishPass_def)
  with cs last phase w7 show ?thesis by (auto simp: siteUp_def)
qed

subsection \<open>A site that comes up\<close>

text \<open>What the controllers of the cluster do in the end: every replica is there and ready.\<close>

definition allReady :: "cluster \<Rightarrow> cluster" where
  "allReady w = w
     \<lparr>c_deployments := map (\<lambda>d. d\<lparr>dep_Status := \<lparr>ws_Replicas = 1, ws_ReadyReplicas = 1, ws_rest = []\<rparr>\<rparr>)
        (c_deployments w),
      c_statefulsets := map (\<lambda>s. s\<lparr>sts_Status := \<lparr>ws_Replicas = 1, ws_ReadyReplicas = 1, ws_rest = []\<rparr>\<rparr>)
        (c_statefulsets w)\<rparr>"

lemma find_map_key:
  assumes "\<And>x. ObjectKeyFromObject (f x) = ObjectKeyFromObject x"
  shows "find (hasKey k) (map f xs) = map_option f (find (hasKey k) xs)"
  by (induction xs) (simp_all add: hasKey_def assms)

lemma allReady_views:
  "found c_deployments (allReady w) k =
     map_option (\<lambda>d. d\<lparr>dep_Status := \<lparr>ws_Replicas = 1, ws_ReadyReplicas = 1, ws_rest = []\<rparr>\<rparr>)
       (found c_deployments w k)"
  "found c_statefulsets (allReady w) k =
     map_option (\<lambda>s. s\<lparr>sts_Status := \<lparr>ws_Replicas = 1, ws_ReadyReplicas = 1, ws_rest = []\<rparr>\<rparr>)
       (found c_statefulsets w k)"
  by (simp_all add: found_def allReady_def find_map_key ObjectKeyFromObject_def)

lemma allReady_same:
  "c_wordpresses (allReady w) = c_wordpresses w" "c_secrets (allReady w) = c_secrets w"
  "c_services (allReady w) = c_services w" "c_pvcs (allReady w) = c_pvcs w"
  "c_ingresses (allReady w) = c_ingresses w" "c_hpas (allReady w) = c_hpas w"
  by (simp_all add: allReady_def)

lemma allReady_settled:
  assumes "sampleSettled w"
  shows "sampleSettled (allReady w)"
proof -
  have "stored deploymentAs d (found c_deployments (allReady w)) = stored deploymentAs d (found c_deployments w)"
    "stored statefulSetAs s (found c_statefulsets (allReady w)) = stored statefulSetAs s (found c_statefulsets w)"
    for d s
    by (auto simp: stored_def allReady_views deploymentAs_def statefulSetAs_def split: option.splits)
  then have "deploymentCurrent demoEnv wp (found c_deployments (allReady w))
      = deploymentCurrent demoEnv wp (found c_deployments w)"
    "mysqlCurrent demoEnv wp (found c_statefulsets (allReady w))
      = mysqlCurrent demoEnv wp (found c_statefulsets w)" for wp
    by (simp_all add: deploymentCurrent_def mysqlCurrent_def)
  moreover have "found c_secrets (allReady w) = found c_secrets w"
    "found c_services (allReady w) = found c_services w" "found c_pvcs (allReady w) = found c_pvcs w"
    "found c_ingresses (allReady w) = found c_ingresses w" "found c_hpas (allReady w) = found c_hpas w"
    "storedWP (allReady w) = storedWP w"
    by (simp_all add: found_def storedWP_def fun_eq_iff allReady_same)
  ultimately show ?thesis
    using assms by (simp add: sampleSettled_def settledFor_def standing_def)
qed

text \<open>A settled site has its workloads.\<close>

lemma settled_workloads:
  assumes ok: "acceptable E wp" and settled: "settledFor V E wp w"
    and nd: "noNilDeref (Database (Spec wp))"
      "internalMode wp \<or> Mode (Database (Spec wp)) = DatabaseModeExternal"
  shows "vDeployment V w (Namespace wp, wpName wp) \<noteq> None"
    and "internalMode wp \<Longrightarrow> vStatefulSet V w (Namespace wp, dbStatefulSetName wp) \<noteq> None"
proof -
  have "resolvedDBHost wp \<noteq> None"
    using nd(1) by (intro resolvedDBHost_total) (auto simp: noNilDeref_def)
  then obtain host port where hp: "resolvedDBHost wp = Some (host, port)" by auto
  obtain env where env: "passwordEnv wp = Some env"
    using nd by (auto simp: passwordEnv_def noNilDeref_def internalMode_def)
  obtain d where d: "withController E wp (buildWordPressDeployment wp host port env) = Inr d"
    using owned_ok [OF ok built_unowned(1)] .
  have "stored deploymentAs d (vDeployment V w)"
    using settled hp env d unfolding settledFor_def deploymentCurrent_def by blast
  then show "vDeployment V w (Namespace wp, wpName wp) \<noteq> None"
    using withController_key' [OF d] by (auto simp: stored_def split: option.splits)
  show "vStatefulSet V w (Namespace wp, dbStatefulSetName wp) \<noteq> None" if int: "internalMode wp"
  proof -
    obtain i where i: "Internal (Database (Spec wp)) = Some i"
      using nd(1) int by (auto simp: noNilDeref_def internalMode_def)
    obtain q where "ParseQuantity E (int_StorageSize i) = Inr q"
      using ok int i unfolding acceptable_def by blast
    with i obtain s where s: "buildMySQLStatefulSet E wp = Some (Inr s)"
      by (auto simp: buildMySQLStatefulSet_def Let_def)
    obtain e where e: "withController E wp s = Inr e"
      using owned_ok [OF ok buildMySQLStatefulSet_unowned [OF s]] .
    have "stored statefulSetAs e (vStatefulSet V w)"
      using settled int s e unfolding settledFor_def mysqlCurrent_def by blast
    moreover have "ObjectKeyFromObject e = (Namespace wp, dbStatefulSetName wp)"
      using buildMySQLStatefulSet_Inr [OF s] withController_key' [OF e] by simp
    ultimately show ?thesis by (auto simp: stored_def split: option.splits)
  qed
qed

theorem settled_pass_reports_readiness_witness:
  "\<exists>res1 w1 w2 ob. Reconcile demoEnv (''default'', ''blog'')
       (clusterOf (sampleWP [WordPressFinalizer] internalSpec)) = Some ((res1, None), w1)
     \<and> Reconcile demoEnv (''default'', ''blog'') (allReady w1) = Some ((zeroResult, None), w2)
     \<and> last (writes w2) = StatusUpdated ob \<and> wst_Phase (Status ob) = PhaseReady"
proof -
  obtain res1 w1 where first: "Reconcile demoEnv (''default'', ''blog'')
       (clusterOf (sampleWP [WordPressFinalizer] internalSpec)) = Some ((res1, None), w1)"
    and settled: "sampleSettled w1"
    using sample_first_pass by blast
  let ?w = "allReady w1"
  obtain ob where get: "Get (wordpresses demoEnv) (''default'', ''blog'') ?w = (Inr ob, ?w)"
    and live: "timeIsZero (DeletionTimestamp ob)"
      "ContainsFinalizer demoEnv (Finalizers ob) WordPressFinalizer"
    and valid: "validateSpec demoEnv (applyDefaults ob) = None"
    and here: "standing demoViews (applyDefaults ob) ?w"
      "settledFor demoViews demoEnv (applyDefaults ob) ?w"
    using allReady_settled [OF settled] by (rule sample_next_pass)
  let ?wp = "applyDefaults ob"
  have "readyToRun \<lparr>cr = ?wp, world = ?w\<rparr>" using valid by (rule validated_readyToRun)
  then have nd: "noNilDeref (Database (Spec ?wp))"
    "internalMode ?wp \<or> Mode (Database (Spec ?wp)) = DatabaseModeExternal"
    by (auto simp: readyToRun_def internalMode_def)
  have "siteUp demoViews ?wp ?w"
    using settled_workloads [OF demo_acceptable here(2) nd]
    by (auto simp: siteUp_def mysqlUp_def workloadUp_def deploymentReady_def allReady_views)
  with settled_pass_reports_readiness [OF demo_quiet demo_key_laws demo_retry_law demo_condition_laws
      demo_logs demo_acceptable get live valid here]
  obtain w2 cs st where "Reconcile demoEnv (''default'', ''blog'') ?w = Some ((zeroResult, None), w2)"
    "writes w2 = writes ?w @ cs @ [StatusUpdated st]" "wst_Phase (Status st) = PhaseReady"
    by auto
  with first show ?thesis by (metis last_appendR last_snoc snoc_eq_iff_butlast)
qed

end
