(* ===== verification/Deletion.thy ===== *)
theory Deletion
  imports Settled
begin

section \<open>The last pass of a resource\<close>

text \<open>
  \<^verbatim>\<open>handleDeletion\<close> where the server does what it is asked: one pass deletes the MySQL claim
  when that is due, releases the finalizer and is done, so the resource can go. And where it does
  not quite: a conflict on the update that releases the finalizer is dropped like any other, after
  the data is gone, and nothing asks for another pass.
\<close>

subsection \<open>Cleaning up\<close>

text \<open>The claim that goes with the resource (the first of the claims the server makes from the
  template \<^verbatim>\<open>data\<close> of the StatefulSet), and what is sent and left of the claims.\<close>

definition dataDue :: "WordPress \<Rightarrow> bool" where
  "dataDue wp \<longleftrightarrow> internalMode wp \<and> \<not> retainsData wp"

definition dataClaim :: "WordPress \<Rightarrow> nsname" where
  "dataClaim wp = (Namespace wp, ''data-'' @ Name wp @ ''-mysql-0'')"

lemma dataClaim_name: "dataClaim wp = (Namespace wp, mysqlPVCName wp)"
  by (simp add: dataClaim_def name_defs)

definition claimDeletions ::
    "WordPress \<Rightarrow> (nsname \<Rightarrow> PersistentVolumeClaim option) \<Rightarrow> call list" where
  "claimDeletions wp m =
     (if dataDue wp then (case m (dataClaim wp) of None \<Rightarrow> [] | Some pvc \<Rightarrow> [Deleted (KPVC pvc)])
      else [])"

definition claimsAfter ::
    "WordPress \<Rightarrow> (nsname \<Rightarrow> PersistentVolumeClaim option) \<Rightarrow> nsname \<Rightarrow> PersistentVolumeClaim option"
  where
  "claimsAfter wp m = (if dataDue wp then m(dataClaim wp := None) else m)"

lemma view_event:
  assumes "unshared v k E"
  shows "v (world (event E t r m st)) = v (world st)"
proof -
  have "admits (\<lambda>w. v w = v (world st)) (foreign k) E" using assms by (simp add: unshared_def)
  then show ?thesis using event_keeps by fastforce
qed

lemma cleanup_runs:
  assumes S: "obliging (IsNotFound E) v (pvcs E)" and U: "unshared v PVCKind E"
    and key: "key_law (pvcs E)" and tr: "logs tr E"
  shows "\<exists>st'. cleanupMySQL E st = (None, st') \<and> cr st' = cr st
    \<and> v (world st') = claimsAfter (cr st) (v (world st))
    \<and> tr (world st') = tr (world st) @ claimDeletions (cr st) (v (world st))"
proof -
  let ?wp = "cr st" and ?k = "dataClaim (cr st)"
  have "store_logs tr KPVC (pvcs E)" using tr by (simp add: logs_def)
  then have read: "tr (snd (Get (pvcs E) k w)) = tr w"
    and delete: "tr (snd (Delete (pvcs E) ob w)) = tr w @ [Deleted (KPVC ob)]" for k ob w
    unfolding store_logs_def by blast+
  note log = read quiet_event [OF tr]
  show ?thesis
  proof (cases "dataDue ?wp")
    case False
    then show ?thesis
      by (auto simp: cleanupMySQL_def dataDue_def internalMode_def claimsAfter_def
          claimDeletions_def Let_def frame_simps view_event [OF U] log)
  next
    case due: True
    show ?thesis
    proof (cases "v (world st) ?k")
      case None
      then obtain e w1 where get: "Get (pvcs E) ?k (world st) = (Inl e, w1)" "IsNotFound E e"
        "v w1 = v (world st)"
        using obligingD(1) [OF S] by blast
      then have "tr w1 = tr (world st)" using read [of ?k "world st"] by simp
      with due None get show ?thesis
        by (auto simp: cleanupMySQL_def dataDue_def internalMode_def claimsAfter_def dataClaim_name
            claimDeletions_def api_def Let_def fun_eq_iff)
    next
      case (Some pvc)
      then obtain w1 where get: "Get (pvcs E) ?k (world st) = (Inr pvc, w1)" "v w1 = v (world st)"
        using obligingD(2) [OF S] by blast
      have pvc: "ObjectKeyFromObject pvc = ?k" using key_lawD [OF key get(1)] .
      obtain st2 where st2: "st2 = event E EventTypeNormal ''DeletingMySQLPVC''
        (''Deleting MySQL data PVC '' @ fmtQ (QuoteUnicode E) (mysqlPVCName ?wp)) (st\<lparr>world := w1\<rparr>)"
        by blast
      have seen: "v (world st2) = v (world st)" "cr st2 = cr st"
        using view_event [OF U] get(2) unfolding st2 by (simp_all add: frame_simps)
      have quiet: "tr (world st2) = tr (world st)"
        using read [of ?k "world st"] get(1) unfolding st2 by (simp add: log)
      have "v (world st2) (ObjectKeyFromObject pvc) \<noteq> None" using seen(1) Some pvc by simp
      then obtain w2 where del: "Delete (pvcs E) pvc (world st2) = (None, w2)"
        and "v w2 = (v (world st2))(ObjectKeyFromObject pvc := None)"
        using obligingD(5) [OF S] by blast
      then have "v w2 = claimsAfter ?wp (v (world st))"
        using due by (simp add: seen pvc claimsAfter_def)
      moreover have "cleanupMySQL E st = (None, st2\<lparr>world := w2\<rparr>)"
        using due get(1) del
        by (simp add: cleanupMySQL_def dataDue_def internalMode_def dataClaim_name api_def Let_def
            st2 del: append_Cons append_Nil)
      moreover have "tr w2 = tr (world st) @ claimDeletions ?wp (v (world st))"
        using due Some delete [of pvc "world st2"] del quiet by (simp add: claimDeletions_def)
      ultimately show ?thesis using seen(2) by simp
    qed
  qed
qed

subsection \<open>Releasing the resource\<close>

definition releasedWP :: "'w env \<Rightarrow> WordPress \<Rightarrow> WordPress" where
  "releasedWP E wp = wp\<lparr>Finalizers := RemoveFinalizer E (Finalizers wp) WordPressFinalizer\<rparr>"

lemma deletion_pass:
  assumes "Get (wordpresses E) req w = (Inr wp, w1)" and "\<not> timeIsZero (DeletionTimestamp wp)"
    and "ContainsFinalizer E (Finalizers wp) WordPressFinalizer"
    and "cleanupMySQL E \<lparr>cr = wp, world = w1\<rparr> = (None, st)" and "cr st = wp"
    and "Update (wordpresses E) (releasedWP E wp) (world st) = (u, w')"
  shows "Reconcile E req w = Some ((zeroResult, ignoreConflict E u), w')"
  using assms
  by (simp add: deleted_pass [OF assms(1,2)] handleDeletion_def dropFinalizer_def Let_def api_def
      releasedWP_def ignoreConflict_def split: option.split)

lemma update_view:
  assumes "unshared v PVCKind E" and "Update (wordpresses E) ob w = (u, w')"
  shows "v w' = v w"
proof -
  have "admits (\<lambda>x. v x = v w) (foreign PVCKind) E" using assms(1) by (simp add: unshared_def)
  from store_admitsD(3) [OF admitsD(1) [OF this], of ob] assms(2) show ?thesis
    by (auto dest: keepsD)
qed

text \<open>A server that takes updates of the resource.\<close>

definition takesUpdates :: "'w views \<Rightarrow> 'w env \<Rightarrow> bool" where
  "takesUpdates V E \<longleftrightarrow>
     (\<forall>ob w. vWordPress V w (ObjectKeyFromObject ob) \<longrightarrow> fst (Update (wordpresses E) ob w) = None)"

text \<open>C7. Deletion completes: on a quiet server, one pass over a deleted resource with the finalizer
  ends without an error and without asking for another. Its writes are the deletion of the MySQL
  claim, when the resource is in Internal mode, without the retain annotation and the claim is
  there, and then the update that takes off this finalizer and changes nothing else. No other
  claim is touched.\<close>

theorem quiet_deletion_completes:
  assumes V: "quietServer V E" and laws: "key_laws E" "finalizer_laws E" and tr: "logs tr E"
    and takes: "takesUpdates V E"
    and get: "Get (wordpresses E) req w = (Inr wp, w1)"
    and deleted: "\<not> timeIsZero (DeletionTimestamp wp)"
      "ContainsFinalizer E (Finalizers wp) WordPressFinalizer"
    and there: "vWordPress V w1 (ObjectKeyFromObject wp)"
  shows "\<exists>w'. Reconcile E req w = Some ((zeroResult, None), w')
    \<and> tr w' = tr w1 @ claimDeletions wp (vPVC V w1) @ [Updated (KWordPress (releasedWP E wp))]
    \<and> set (Finalizers (releasedWP E wp)) = set (Finalizers wp) - {WordPressFinalizer}
    \<and> vPVC V w' = claimsAfter wp (vPVC V w1)"
proof -
  let ?st = "\<lparr>cr = wp, world = w1\<rparr>"
  obtain st where clean: "cleanupMySQL E ?st = (None, st)" "cr st = wp"
    and after: "vPVC V (world st) = claimsAfter wp (vPVC V w1)"
      "tr (world st) = tr w1 @ claimDeletions wp (vPVC V w1)"
    using cleanup_runs [OF quietServerD(7,8) [OF V] key_lawsD(4) [OF laws(1)] tr, of ?st] by auto
  have "admits (\<lambda>w. vWordPress V w (ObjectKeyFromObject wp)) (foreign WordPressKind) E"
    using admits_view [where Q = "\<lambda>m. m (ObjectKeyFromObject wp)", OF quietServerD(15) [OF V]] .
  from cleanupMySQL_keeps [where P = "\<lambda>w. vWordPress V w (ObjectKeyFromObject wp)",
      OF this laws(1) _ _ clean(1)] there
  have "vWordPress V (world st) (ObjectKeyFromObject wp)" by simp
  then have "vWordPress V (world st) (ObjectKeyFromObject (releasedWP E wp))"
    by (simp add: releasedWP_def ObjectKeyFromObject_def)
  then obtain w' where upd: "Update (wordpresses E) (releasedWP E wp) (world st) = (None, w')"
    using takes unfolding takesUpdates_def by (metis prod.collapse)
  have "tr w' = tr (world st) @ [Updated (KWordPress (releasedWP E wp))]"
    using upd logsD(3) [OF tr, of "releasedWP E wp" "world st"] by simp
  moreover have "vPVC V w' = vPVC V (world st)"
    by (rule update_view [OF quietServerD(8) [OF V] upd])
  moreover have "Reconcile E req w = Some ((zeroResult, None), w')"
    using deletion_pass [OF get deleted clean upd] by (simp add: ignoreConflict_def)
  moreover have "set (Finalizers (releasedWP E wp)) = set (Finalizers wp) - {WordPressFinalizer}"
    using laws(2) by (simp add: releasedWP_def finalizer_laws_def)
  ultimately show ?thesis using after by simp
qed

lemma demo_takesUpdates: "takesUpdates demoViews demoEnv"
  by (auto simp: takesUpdates_def demoEnv_fields memStore_def storedWP_def found_def logCall_def
      Let_def)

lemma deletedWP_key: "ObjectKeyFromObject (deletedWP s a) = (''default'', ''blog'')"
  by (simp add: ObjectKeyFromObject_def)

theorem quiet_deletion_completes_witness:
  "\<exists>w'. Reconcile demoEnv (''default'', ''blog'') (clusterOf (deletedWP internalSpec None))
       = Some ((zeroResult, None), w')
     \<and> writes w' = [Updated (KWordPress (releasedWP demoEnv (deletedWP internalSpec None)))]"
proof -
  let ?wp = "deletedWP internalSpec None" and ?w = "clusterOf (deletedWP internalSpec None)"
  have get: "Get (wordpresses demoEnv) (''default'', ''blog'') ?w = (Inr ?wp, ?w)"
    using Get_clusterOf [of ?wp] by (simp add: deletedWP_key)
  have fin: "ContainsFinalizer demoEnv (Finalizers ?wp) WordPressFinalizer"
    by (simp add: demoEnv_def demoBase_def)
  have there: "vWordPress demoViews ?w (ObjectKeyFromObject ?wp)"
    using storedWP_clusterOf [of ?wp] by simp
  have "vPVC demoViews ?w k = None" for k
    by (simp add: found_def clusterOf_def emptyCluster_def)
  then have "claimDeletions ?wp (vPVC demoViews ?w) = []" by (simp add: claimDeletions_def)
  with quiet_deletion_completes [OF demo_quiet demo_key_laws demo_finalizer_laws demo_logs
      demo_takesUpdates get deletedWP_fields(4) fin there]
  show ?thesis by auto
qed

subsection \<open>A conflict on the way out\<close>


text \<open>The demo server with a cache that is always behind.\<close>

definition staleEnv :: "cluster env" where
  "staleEnv = demoEnv\<lparr>wordpresses := (wordpresses demoEnv)
     \<lparr>Update := (\<lambda>ob w. (Some conflictErr, logCall (Updated (KWordPress ob)) w))\<rparr>\<rparr>"

lemma staleEnv_unshared: "unshared (vPVC demoViews) PVCKind staleEnv"
proof -
  have "admits (\<lambda>w. vPVC demoViews w = m) (foreign PVCKind) demoEnv" for m
    using quietServerD(8) [OF demo_quiet] by (simp add: unshared_def)
  moreover have "found c_pvcs (logCall c w) = found c_pvcs w" for c w
    by (simp add: found_def logCall_def fun_eq_iff)
  ultimately show ?thesis
    by (simp add: unshared_def admits_def store_admits_def staleEnv_def keeps_def)
qed

lemma staleEnv_logs: "logs writes staleEnv"
  using demo_logs by (simp add: logs_def store_logs_def staleEnv_def logCall_def)


end
