(* ===== verification/Spec2Isabelle.thy ===== *)
theory Spec2Isabelle
  imports Scheme CommandLine Isolation ObjectForm StatusHistory DeepCopy Readiness Deletion
begin

text \<open>
  \<^bold>\<open>A WordPress operator for Kubernetes, modelled and verified.\<close>

  \<^bold>\<open>The program.\<close> The operator watches \<^verbatim>\<open>WordPress\<close> resources. For each it creates and keeps
  a Deployment, a Service, a volume claim, and as asked an Ingress and a HorizontalPodAutoscaler;
  in Internal database mode also a credentials Secret, a headless Service and a MySQL
  StatefulSet. One call of \<^verbatim>\<open>Reconcile\<close> (a pass) reads the resource, registers a finalizer,
  fills in defaults in memory, validates the spec, brings every owned object to its desired state
  and writes the status. A pass keeps no state of its own: everything it remembers is in the API
  server, which other actors change at any time.

  \<^bold>\<open>The state.\<close> A pass works on \<open>'w rs\<close>: the in-memory resource (\<open>cr\<close>) and the world
  (\<open>world\<close>, of an arbitrary type). Everything outside the repository, the API client, the
  event recorder, \<^verbatim>\<open>crypto/rand\<close> and the helpers of apimachinery and controller-runtime, is a
  field of the record \<open>'w env\<close> (theory \<open>Environment\<close>); a call may fail in any way and may
  move the world, so other actors act between any two calls. What a theorem needs of these
  functions is a named law (\<open>key_laws\<close>, \<open>owner_law\<close>, \<open>finalizer_laws\<close>, \<open>error_laws\<close>,
  \<open>condition_laws\<close>, \<open>retry_law\<close>, \<open>rand_law\<close>, \<open>conflict_law\<close>, \<open>logs\<close>, \<open>libCodec_law\<close>, and local
  ones where they are used);
  theory \<open>DemoCluster\<close> has two concrete environments that satisfy them, an in-memory API server
  and an empty namespace, on which the witnesses run.

  \<^bold>\<open>Theories and the code they model.\<close>
  \<^item> \<open>Prelude\<close>, \<open>GoFmt\<close>: Go maps, slices, integers, \<^verbatim>\<open>fmt\<close> verbs, error values.
  \<^item> \<open>KubeTypes\<close>: the Kubernetes structs the code builds, reads or patches. Fields it never
    mentions are kept serialised in a \<open>rest\<close> field, so a patch preserves and
    \<^verbatim>\<open>reflect.DeepEqual\<close> compares them.
  \<^item> \<open>WordPressTypes\<close>: \<^verbatim>\<open>api/v1alpha1/wordpress_types.go\<close>.
  \<^item> \<open>Names\<close>: \<^verbatim>\<open>internal/controller/names.go\<close>. \<open>Defaults\<close>: \<^verbatim>\<open>defaults.go\<close>.
    \<open>Validation\<close>: \<^verbatim>\<open>validateSpec\<close>.
  \<^item> \<open>Credentials\<close>, \<open>MySQL\<close>: \<^verbatim>\<open>database.go\<close>. \<open>Resources\<close>: \<^verbatim>\<open>resources.go\<close>.
    \<open>Wiring\<close>: how the built objects refer to each other.
  \<^item> \<open>Contracts\<close>: the three patterns of the reconciler (create once, create or patch, remove
    when owned) as locales; \<open>Apply\<close>: the get/create/patch blocks of
    \<^verbatim>\<open>wordpress_controller.go\<close>, each an interpretation of its pattern.
  \<^item> \<open>StatusReport\<close>: \<^verbatim>\<open>updateStatus\<close>, \<^verbatim>\<open>persistStatus\<close>, \<^verbatim>\<open>markFailed\<close>,
    \<^verbatim>\<open>computeURL\<close>, \<^verbatim>\<open>ignoreConflict\<close>; \<open>StatusContract\<close>: what the status says.
  \<^item> \<open>OwnedObjects\<close>: the \<^verbatim>\<open>reconcile...\<close> functions; \<open>Reconciler\<close>: \<^verbatim>\<open>Reconcile\<close> and
    \<^verbatim>\<open>handleDeletion\<close>.
  \<^item> \<open>Frames\<close>, \<open>StatusFlow\<close>, \<open>Permissions\<close>: which writes a pass may send, and that a
    property of the status kept by every step holds of every status it sends. \<open>StatusHistory\<close>:
    over runs of passes a stored status never contradicts itself. \<open>Isolation\<close>: the passes of
    different resources write different objects. \<open>Convergence\<close>: when repeating a
    pass changes nothing, and when it never settles. \<open>Passes\<close>: the outcome of a pass for each
    state of the resource. \<open>Lifecycle\<close>: deletion, and invariants of runs of many passes.
    \<open>Conflicts\<close>: a pass that hides a conflict is told apart from one that met none.
    \<open>Provisioning\<close>: a complete pass leaves everything in place.
  \<^item> \<open>QuietServer\<close>, \<open>DemoQuiet\<close>, \<open>Settled\<close>: on a server that accepts and keeps what it is
    sent and that nobody else writes to, the first pass succeeds and brings every object to its
    desired state (\<open>settledFor\<close>, stated on the fields of the objects), and every later pass only
    writes the status. A server that completes what it stores is not quiet in this sense:
    \<open>Convergence\<close> has the case of a field the operator then overwrites in every pass.
    \<open>Readiness\<close>: on such a server the status of a settled site says exactly whether it runs.
    \<open>Deletion\<close>: the last pass of a resource completes there, and what is lost when its last
    update meets a conflict.
  \<^item> \<open>GoHeap\<close>, \<open>DeepCopy\<close>: \<^verbatim>\<open>zz_generated.deepcopy.go\<close> on an explicit heap, with pointers,
    slices and maps as addresses.
  \<^item> \<open>GoJson\<close>, \<open>Encoding\<close>, \<open>ObjectForm\<close>: the rules of \<^verbatim>\<open>encoding/json\<close> and the struct tags of
    the API types.
    \<open>Schema\<close>, \<open>Admission\<close>: the default and validation markers of \<^verbatim>\<open>wordpress_types.go\<close>, from
    which the CRD schema is generated, and how they fit the operator's own defaults and checks.
  \<^item> \<open>Manager\<close>: \<^verbatim>\<open>cmd/main.go\<close> after the flags, and \<^verbatim>\<open>SetupWithManager\<close>. \<open>GoFlag\<close>,
    \<open>CommandLine\<close>: the \<^verbatim>\<open>flag\<close> package, the flags of \<^verbatim>\<open>main\<close> and the exit code of the
    whole process. \<open>Scheme\<close>: \<^verbatim>\<open>groupversion_info.go\<close> and the \<^verbatim>\<open>init\<close> functions.
    \<open>Rbac\<close>: the access rules of the markers in \<^verbatim>\<open>wordpress_controller.go\<close>, against the
    calls of a pass.

  \<^bold>\<open>How Go is represented.\<close> A pointer is an option. Dereferencing nil panics: functions that
  may do so return an option, \<open>None\<close> is the panic, and \<open>Reconcile_never_panics\<close> shows it is
  never reached. An error is \<open>Some\<close> of an error value; a pair of a value and an error is a sum.
  \<^verbatim>\<open>int32\<close> is a 32-bit word compared as signed, a string is a list of bytes, a map is a finite
  map or nil, a range over a map is order-free insertion. In the reconciler a \<^verbatim>\<open>DeepCopy\<close> is
  the value itself, which \<open>DeepCopy_equal_and_separate\<close> justifies: the copy reads as the same
  value and shares no address with the original.
  The reconcile functions are composed in the code's order, every early return is a branch. There
  is no fuel: the only loop, \<^verbatim>\<open>RetryOnConflict\<close>, is the library's, and its law bounds the
  number of attempts (\<open>retryN\<close>).

  \<^bold>\<open>What is not modelled.\<close> Log lines; the contexts; the deployment manifests under
  \<^verbatim>\<open>config/\<close> but for the arguments of the manager; the tests and \<^verbatim>\<open>test/utils\<close>, which only
  run commands. The flags of zap and of the client configuration are a parameter of the command
  line, the scheme of the library one of its registration. Resource requirements, affinities and tolerations are opaque
  serialised values, as the code only passes them through; their JSON codecs, \<^verbatim>\<open>ParseQuantity\<close> and
  the quoting of non-ASCII strings are parameters. Of JSON the trees of a resource are modelled, not the text nor lists; of
  the schema the markers of the repository's own structs, not the defaults the generated CRD has
  inside library structs (an empty secret name, an optional flag of an environment source).
\<close>

section \<open>Properties across components\<close>

lemma permitted_created:
  assumes "permitted E wp (Created ob)"
  shows "timeIsZero (DeletionTimestamp wp) \<and> ContainsFinalizer E (Finalizers wp) WordPressFinalizer
    \<and> validSpec (Spec (applyDefaults wp))"
  using assms by (auto simp: permitted_def split: if_splits)

text \<open>C14. Nothing is created without a way to clean it up: a pass creates an object only for a
  resource that is not being deleted, already carries the finalizer in the API server, and whose
  defaulted spec is valid.\<close>

theorem created_only_under_finalizer:
  assumes "logs tr E" and "key_laws E" and "owner_law E" and "retry_law E" and "finalizer_laws E"
    and "Get (wordpresses E) req w = (Inr wp, w1)"
    and "Reconcile E req w = Some (res, w')"
  shows "\<exists>cs. tr w' = tr w1 @ cs
    \<and> list_all (\<lambda>c. case c of
        Created ob \<Rightarrow> timeIsZero (DeletionTimestamp wp) \<and> WordPressFinalizer \<in> set (Finalizers wp)
          \<and> validSpec (Spec (applyDefaults wp))
      | _ \<Rightarrow> True) cs"
proof -
  have "sent tr (tr w1) (permitted E wp) w'"
    by (rule Reconcile_keeps [OF assms(2-4,6) logs_admits [OF assms(1)] sentI assms(7)])
  then obtain cs where "tr w' = tr w1 @ cs" "list_all (permitted E wp) cs"
    by (auto simp: sent_def)
  moreover have "case c of
        Created ob \<Rightarrow> timeIsZero (DeletionTimestamp wp) \<and> WordPressFinalizer \<in> set (Finalizers wp)
          \<and> validSpec (Spec (applyDefaults wp))
      | _ \<Rightarrow> True" if "permitted E wp c" for c
    using that permitted_created [of E wp] assms(5) by (cases c) (auto simp: finalizer_laws_def)
  ultimately show ?thesis by (auto simp: list_all_iff)
qed

theorem created_only_under_finalizer_witness:
  "\<exists>w'. Reconcile (blankEnv (sampleWP [WordPressFinalizer] externalSpec)) (''default'', ''blog'') []
       = Some ((requeueAfter (15 * second), None), w')
     \<and> list_all (\<lambda>c. case c of
         Created ob \<Rightarrow> WordPressFinalizer
             \<in> set (Finalizers (sampleWP [WordPressFinalizer] externalSpec))
           \<and> validSpec (Spec (applyDefaults (sampleWP [WordPressFinalizer] externalSpec)))
       | _ \<Rightarrow> True) w'"
proof -
  let ?wp = "sampleWP [WordPressFinalizer] externalSpec"
  obtain w' where run: "Reconcile (blankEnv ?wp) (''default'', ''blog'') [] =
    Some ((requeueAfter (15 * second), None), w')"
    using blank_pass by blast
  have get: "Get (wordpresses (blankEnv ?wp)) (''default'', ''blog'') [] = (Inr ?wp, [])" by simp
  from created_only_under_finalizer [OF blank_logs blank_key_laws blank_owner_law
      blank_retry_law blank_finalizer_laws get run]
  have "list_all (\<lambda>c. case c of
         Created ob \<Rightarrow> WordPressFinalizer \<in> set (Finalizers ?wp)
           \<and> validSpec (Spec (applyDefaults ?wp))
       | _ \<Rightarrow> True) w'"
    by (auto elim!: list.pred_mono_strong split: call.splits)
  with run show ?thesis by blast
qed

definition databaseObject :: "WordPress \<Rightarrow> kobj \<Rightarrow> bool" where
  "databaseObject wp ob \<longleftrightarrow>
     (case ob of
        KSecret s \<Rightarrow> True
      | KStatefulSet s \<Rightarrow> True
      | KService s \<Rightarrow> Name s = dbServiceName wp
      | _ \<Rightarrow> False)"

lemma resourceCall_no_database:
  assumes "resourceCall E wp c" and "\<not> internalMode wp" and "c = Created ob \<or> c = Updated ob"
  shows "\<not> databaseObject wp ob"
  using assms
  by (cases ob) (auto simp: databaseObject_def at_def ObjectKeyFromObject_def name_defs)

text \<open>C15. In External mode the operator makes no database: a pass over a resource in External
  mode neither creates nor updates a Secret, a StatefulSet or the MySQL Service.\<close>

theorem external_mode_makes_no_database:
  assumes "logs tr E" and "key_laws E" and "owner_law E" and "retry_law E"
    and "Get (wordpresses E) req w = (Inr wp, w1)"
    and "Mode (Database (Spec wp)) = DatabaseModeExternal"
    and "Reconcile E req w = Some (res, w')"
  shows "\<exists>cs. tr w' = tr w1 @ cs
    \<and> list_all (\<lambda>c. case c of Created ob \<Rightarrow> \<not> databaseObject wp ob
        | Updated ob \<Rightarrow> \<not> databaseObject wp ob | _ \<Rightarrow> True) cs"
proof -
  let ?wp = "applyDefaults wp"
  have "Mode (Database (Spec ?wp)) = DatabaseModeExternal"
    using assms(6) by (simp add: Spec_applyDefaults defaultSpec_def defaultDatabase_def Let_def
        defaultWorkload_def orElse_def)
  then have "\<not> internalMode ?wp" by (simp add: internalMode_def)
  note no_db = resourceCall_no_database [OF _ this]
  have "dbServiceName ?wp = dbServiceName wp" by (simp add: dbServiceName_def frame_simps)
  then have same: "databaseObject ?wp ob = databaseObject wp ob" for ob
    by (cases ob) (simp_all add: databaseObject_def)
  have ok: "case c of Created ob \<Rightarrow> \<not> databaseObject wp ob
      | Updated ob \<Rightarrow> \<not> databaseObject wp ob | _ \<Rightarrow> True" if "permitted E wp c" for c
  proof (cases "resourceCall E ?wp c")
    case True
    then show ?thesis using no_db [OF True] same by (auto split: call.splits)
  next
    case False
    with that show ?thesis
      by (auto simp: permitted_def databaseObject_def split: if_splits call.splits kobj.splits)
  qed
  have "sent tr (tr w1) (permitted E wp) w'"
    by (rule Reconcile_keeps [OF assms(2-5) logs_admits [OF assms(1)] sentI assms(7)])
  then obtain cs where "tr w' = tr w1 @ cs" "list_all (permitted E wp) cs"
    by (auto simp: sent_def)
  with ok show ?thesis by (auto simp: list_all_iff)
qed

theorem external_mode_makes_no_database_witness:
  "\<exists>w'. Reconcile (blankEnv (sampleWP [WordPressFinalizer] externalSpec)) (''default'', ''blog'') []
       = Some ((requeueAfter (15 * second), None), w')
     \<and> list_all (\<lambda>c. case c of Created ob \<Rightarrow>
           \<not> databaseObject (sampleWP [WordPressFinalizer] externalSpec) ob | _ \<Rightarrow> True) w'"
proof -
  let ?wp = "sampleWP [WordPressFinalizer] externalSpec"
  obtain w' where run: "Reconcile (blankEnv ?wp) (''default'', ''blog'') [] =
    Some ((requeueAfter (15 * second), None), w')"
    using blank_pass by blast
  have get: "Get (wordpresses (blankEnv ?wp)) (''default'', ''blog'') [] = (Inr ?wp, [])" by simp
  have mode: "Mode (Database (Spec ?wp)) = DatabaseModeExternal" by (simp add: externalSpec_def)
  have "list_all (\<lambda>c. case c of Created ob \<Rightarrow> \<not> databaseObject ?wp ob
      | Updated ob \<Rightarrow> \<not> databaseObject ?wp ob | _ \<Rightarrow> True) w'"
    using external_mode_makes_no_database [OF blank_logs blank_key_laws blank_owner_law
        blank_retry_law get mode run] by simp
  then have "list_all (\<lambda>c. case c of Created ob \<Rightarrow> \<not> databaseObject ?wp ob | _ \<Rightarrow> True) w'"
    by (rule list.pred_mono_strong) (auto split: call.splits)
  with run show ?thesis by blast
qed

end
